(* ===== verification/Prelude.thy ===== *)
theory Prelude
  imports Main
begin

text \<open>
  Shared vocabulary of the development.

  A Go function of the repository reads and writes shared state (a database, a queue, a
  connection pool), may return early with a response, and may panic.  Such a function is a
  \<^emph>\<open>program\<close>: a function from the state to a result and a new state, where \<open>Inl\<close> is an
  early exit and \<open>Inr\<close> is the value of a call that ran to its end.  This theory has the
  combinators the component theories compose programs with, a small calculus of
  pre- and postconditions for them (collection \<open>prog_rules\<close>) and the generic lemmas on
  lists and maps the components share.
\<close>

section \<open>Collections\<close>

named_theorems prog_rules \<open>rules that decompose a triple along the structure of a program\<close>
named_theorems prog_run \<open>equations that run one step of a program\<close>

section \<open>Programs with early exit\<close>

text \<open>How a Go function leaves: it returns the value \<open>Raise e\<close> before its last line, or it
  panics (a method call through a nil pointer).\<close>

datatype 'e exit = Raise 'e | GoPanic

type_synonym ('s, 'e, 'a) prog = "'s \<Rightarrow> ('e exit + 'a) \<times> 's"

definition ret :: "'a \<Rightarrow> ('s, 'e, 'a) prog" where
  "ret a s = (Inr a, s)"

definition raise :: "'e \<Rightarrow> ('s, 'e, 'a) prog" where
  "raise e s = (Inl (Raise e), s)"

definition go_panic :: "('s, 'e, 'a) prog" where
  "go_panic s = (Inl GoPanic, s)"

definition get_st :: "('s, 'e, 's) prog" where
  "get_st s = (Inr s, s)"

definition upd_st :: "('s \<Rightarrow> 's) \<Rightarrow> ('s, 'e, unit) prog" where
  "upd_st f s = (Inr (), f s)"

definition andThen :: "('s, 'e, 'a) prog \<Rightarrow> ('a \<Rightarrow> ('s, 'e, 'b) prog) \<Rightarrow> ('s, 'e, 'b) prog" where
  "andThen m f s = (case m s of (Inl x, s') \<Rightarrow> (Inl x, s') | (Inr a, s') \<Rightarrow> f a s')"

text \<open>\<open>onErr m h\<close> is \<^verbatim>\<open>x, err := m(); if err != nil { h(err) }\<close>: an error goes to the
  handler, a panic goes through.\<close>

definition onErr :: "('s, 'e, 'a) prog \<Rightarrow> ('e \<Rightarrow> ('s, 'f, 'a) prog) \<Rightarrow> ('s, 'f, 'a) prog" where
  "onErr m h s =
     (case m s of
        (Inl (Raise e), s') \<Rightarrow> h e s'
      | (Inl GoPanic, s') \<Rightarrow> (Inl GoPanic, s')
      | (Inr a, s') \<Rightarrow> (Inr a, s'))"

text \<open>\<open>attempt m\<close> is \<^verbatim>\<open>x, err := m()\<close> with the error kept as a value.\<close>

definition attempt :: "('s, 'e, 'a) prog \<Rightarrow> ('s, 'f, 'e + 'a) prog" where
  "attempt m s =
     (case m s of
        (Inl (Raise e), s') \<Rightarrow> (Inr (Inl e), s')
      | (Inl GoPanic, s') \<Rightarrow> (Inl GoPanic, s')
      | (Inr a, s') \<Rightarrow> (Inr (Inr a), s'))"

primrec forEach :: "('x \<Rightarrow> ('s, 'e, unit) prog) \<Rightarrow> 'x list \<Rightarrow> ('s, 'e, unit) prog" where
  "forEach f [] = ret ()"
| "forEach f (x # xs) = andThen (f x) (\<lambda>_. forEach f xs)"

definition unless :: "bool \<Rightarrow> ('s, 'e, unit) prog \<Rightarrow> ('s, 'e, unit) prog" where
  "unless b m = (if b then ret () else m)"

text \<open>The value a Go function returns, whichever \<^verbatim>\<open>return\<close> it left by.\<close>

datatype 'r outcome = Returns 'r | Panics

definition finish :: "('s, 'r, 'r) prog \<Rightarrow> 's \<Rightarrow> 'r outcome \<times> 's" where
  "finish m s =
     (case m s of
        (Inl (Raise r), s') \<Rightarrow> (Returns r, s')
      | (Inl GoPanic, s') \<Rightarrow> (Panics, s')
      | (Inr r, s') \<Rightarrow> (Returns r, s'))"

text \<open>A call of another handler: its outcome is a value, its panic goes through.\<close>

definition callee :: "('s \<Rightarrow> 'r outcome \<times> 's) \<Rightarrow> ('s, 'e, 'r) prog" where
  "callee h s = (case h s of (Returns r, s') \<Rightarrow> (Inr r, s') | (Panics, s') \<Rightarrow> (Inl GoPanic, s'))"

text \<open>A program on one component of a larger state.\<close>

definition zoom ::
  "('s \<Rightarrow> 't) \<Rightarrow> (('t \<Rightarrow> 't) \<Rightarrow> 's \<Rightarrow> 's) \<Rightarrow> ('t, 'e, 'a) prog \<Rightarrow> ('s, 'e, 'a) prog" where
  "zoom get upd m s = (case m (get s) of (r, t) \<Rightarrow> (r, upd (\<lambda>_. t) s))"

subsection \<open>Running programs\<close>

lemma ret_run [prog_run]: "ret a s = (Inr a, s)" by (simp add: ret_def)
lemma raise_run [prog_run]: "raise e s = (Inl (Raise e), s)" by (simp add: raise_def)
lemma go_panic_run [prog_run]: "go_panic s = (Inl GoPanic, s)" by (simp add: go_panic_def)
lemma get_st_run [prog_run]: "get_st s = (Inr s, s)" by (simp add: get_st_def)
lemma upd_st_run [prog_run]: "upd_st f s = (Inr (), f s)" by (simp add: upd_st_def)

lemma andThen_Inr: "m s = (Inr a, s') \<Longrightarrow> andThen m f s = f a s'"
  by (simp add: andThen_def)

lemma run_step: "m s = (Inr a, s') \<Longrightarrow> f a s' = r \<Longrightarrow> andThen m f s = r"
  by (simp add: andThen_def)

lemma andThen_Inl: "m s = (Inl x, s') \<Longrightarrow> andThen m f s = (Inl x, s')"
  by (simp add: andThen_def)

lemma onErr_Inr: "m s = (Inr a, s') \<Longrightarrow> onErr m h s = (Inr a, s')"
  by (simp add: onErr_def)

lemma onErr_Raise: "m s = (Inl (Raise e), s') \<Longrightarrow> onErr m h s = h e s'"
  by (simp add: onErr_def)

lemma andThen_ret [simp]: "andThen (ret a) f = f a"
  by (rule ext) (simp add: andThen_def ret_def)

lemma andThen_raise [simp]: "andThen (raise e) f = raise e"
  by (rule ext) (simp add: andThen_def raise_def)

lemma andThen_assoc: "andThen (andThen m f) g = andThen m (\<lambda>a. andThen (f a) g)"
  by (rule ext) (auto simp: andThen_def split: prod.splits sum.splits)

lemma forEach_append: "forEach f (xs @ ys) = andThen (forEach f xs) (\<lambda>_. forEach f ys)"
  by (induction xs) (simp_all add: andThen_assoc)

lemma finish_Inr: "m s = (Inr r, s') \<Longrightarrow> finish m s = (Returns r, s')"
  by (simp add: finish_def)

lemma finish_Raise: "m s = (Inl (Raise r), s') \<Longrightarrow> finish m s = (Returns r, s')"
  by (simp add: finish_def)

lemma forEach_run:
  assumes "\<And>x s. x \<in> set xs \<Longrightarrow> I s \<Longrightarrow> f x s = (Inr (), g x s) \<and> I (g x s)" and "I s"
  shows "forEach f xs s = (Inr (), fold g xs s) \<and> I (fold g xs s)"
  using assms
proof (induction xs arbitrary: s)
  case Nil
  then show ?case by (simp add: ret_def)
next
  case (Cons x xs)
  then have "f x s = (Inr (), g x s)" and "I (g x s)" by auto
  with Cons show ?case by (simp add: andThen_def)
qed

section \<open>Triples\<close>

text \<open>\<open>triple P m Q E\<close>: from a state with \<open>P\<close>, program \<open>m\<close> either runs to its end with
  \<open>Q\<close> of the value and the state, or exits early with \<open>E\<close> of the exit and the state.
  Programs are total functions, so this is total correctness.\<close>

definition triple ::
  "('s \<Rightarrow> bool) \<Rightarrow> ('s, 'e, 'a) prog \<Rightarrow> ('a \<Rightarrow> 's \<Rightarrow> bool) \<Rightarrow> ('e exit \<Rightarrow> 's \<Rightarrow> bool) \<Rightarrow> bool" where
  "triple P m Q E \<longleftrightarrow>
     (\<forall>s. P s \<longrightarrow> (case m s of (Inl x, s') \<Rightarrow> E x s' | (Inr a, s') \<Rightarrow> Q a s'))"

lemma tripleD:
  "triple P m Q E \<Longrightarrow> P s \<Longrightarrow> m s = (Inr a, s') \<Longrightarrow> Q a s'"
  "triple P m Q E \<Longrightarrow> P s \<Longrightarrow> m s = (Inl x, s') \<Longrightarrow> E x s'"
  unfolding triple_def by fastforce+

lemma tripleI:
  "(\<And>s. P s \<Longrightarrow> case m s of (Inl x, s') \<Rightarrow> E x s' | (Inr a, s') \<Rightarrow> Q a s') \<Longrightarrow> triple P m Q E"
  by (simp add: triple_def)

lemma triple_weaken:
  assumes "triple P m Q E" and "\<And>s. P' s \<Longrightarrow> P s" and "\<And>a s. Q a s \<Longrightarrow> Q' a s"
    and "\<And>x s. E x s \<Longrightarrow> E' x s"
  shows "triple P' m Q' E'"
  using assms unfolding triple_def by (fastforce split: prod.splits sum.splits)

lemma triple_pre: "triple P m Q E \<Longrightarrow> (\<And>s. P' s \<Longrightarrow> P s) \<Longrightarrow> triple P' m Q E"
  by (erule triple_weaken)

lemma triple_ret [prog_rules]: "(\<And>s. P s \<Longrightarrow> Q a s) \<Longrightarrow> triple P (ret a) Q E"
  by (simp add: triple_def ret_def)

lemma triple_raise [prog_rules]: "(\<And>s. P s \<Longrightarrow> E (Raise e) s) \<Longrightarrow> triple P (raise e) Q E"
  by (simp add: triple_def raise_def)

lemma triple_go_panic [prog_rules]: "(\<And>s. P s \<Longrightarrow> E GoPanic s) \<Longrightarrow> triple P go_panic Q E"
  by (simp add: triple_def go_panic_def)

lemma triple_andThen:
  assumes "triple P m R E" and "\<And>a. triple (R a) (f a) Q E"
  shows "triple P (andThen m f) Q E"
  using assms unfolding triple_def andThen_def by (fastforce split: prod.splits sum.splits)

lemma triple_onErr:
  assumes "triple P m Q (\<lambda>x s. case x of Raise e \<Rightarrow> R e s | GoPanic \<Rightarrow> E GoPanic s)"
    and "\<And>e. triple (R e) (h e) Q E"
  shows "triple P (onErr m h) Q E"
  unfolding triple_def
proof (intro allI impI)
  fix s assume P: "P s"
  show "case onErr m h s of (Inl x, s') \<Rightarrow> E x s' | (Inr a, s') \<Rightarrow> Q a s'"
  proof (cases "m s")
    case (Pair r s')
    show ?thesis
    proof (cases r)
      case (Inl x)
      with Pair P assms(1) have *: "case x of Raise e \<Rightarrow> R e s' | GoPanic \<Rightarrow> E GoPanic s'"
        by (auto dest: tripleD)
      show ?thesis
      proof (cases x)
        case (Raise e)
        with * assms(2) [of e] Pair Inl show ?thesis by (simp add: onErr_def triple_def)
      next
        case GoPanic
        with * Pair Inl show ?thesis by (simp add: onErr_def)
      qed
    next
      case (Inr a)
      with Pair P assms(1) show ?thesis by (auto simp: onErr_def dest: tripleD)
    qed
  qed
qed

lemma triple_forEach:
  assumes "\<And>x. x \<in> set xs \<Longrightarrow> triple I (f x) (\<lambda>_. I) E"
  shows "triple I (forEach f xs) (\<lambda>_. I) E"
  using assms
proof (induction xs)
  case Nil
  then show ?case by (simp add: triple_ret)
next
  case (Cons x xs)
  then show ?case by (auto intro!: triple_andThen)
qed

lemma triple_if [prog_rules]:
  assumes "b \<Longrightarrow> triple P m Q E" and "\<not> b \<Longrightarrow> triple P m' Q E"
  shows "triple P (if b then m else m') Q E"
  using assms by simp

lemma triple_cases:
  "triple P m Q E \<Longrightarrow> (\<And>e. triple (P' e) m Q E) \<Longrightarrow> triple (\<lambda>s. P s \<or> (\<exists>e. P' e s)) m Q E"
  unfolding triple_def by metis

text \<open>Programs that keep an assertion, whether they run to their end or exit.\<close>

lemma triple_any_andThen:
  "triple P m (\<lambda>_. P) (\<lambda>_. P) \<Longrightarrow> (\<And>a. triple P (f a) (\<lambda>_. P) (\<lambda>_. P)) \<Longrightarrow> triple P (andThen m f) (\<lambda>_. P) (\<lambda>_. P)"
  by (rule triple_andThen)

lemma triple_any_onErr:
  "triple P m (\<lambda>_. P) (\<lambda>_. P) \<Longrightarrow> (\<And>e. triple P (h e) (\<lambda>_. P) (\<lambda>_. P)) \<Longrightarrow> triple P (onErr m h) (\<lambda>_. P) (\<lambda>_. P)"
  by (rule triple_onErr [where R = "\<lambda>_. P"], erule triple_weaken) (auto split: exit.splits)

lemma triple_any_attempt: "triple P m (\<lambda>_. P) (\<lambda>_. P) \<Longrightarrow> triple P (attempt m) (\<lambda>_. P) (\<lambda>_. P)"
  by (auto simp: triple_def attempt_def split: prod.splits sum.splits exit.splits)

lemma triple_any:
  "triple P (ret x) (\<lambda>_. P) (\<lambda>_. P)" "triple P (raise e) (\<lambda>_. P) (\<lambda>_. P)" "triple P go_panic (\<lambda>_. P) (\<lambda>_. P)"
  "triple P get_st (\<lambda>_. P) (\<lambda>_. P)"
  by (simp_all add: triple_def ret_def raise_def go_panic_def get_st_def)

lemma triple_state: "(\<And>s. P s \<Longrightarrow> triple (\<lambda>v. v = s) m Q E) \<Longrightarrow> triple P m Q E"
  by (auto simp: triple_def)

lemma triple_both:
  "triple P m Q E \<Longrightarrow> triple P m Q' E' \<Longrightarrow> triple P m (\<lambda>a s. Q a s \<and> Q' a s) (\<lambda>x s. E x s \<and> E' x s)"
  by (auto simp: triple_def split: prod.splits sum.splits)

lemma triple_True: "triple P m (\<lambda>_ _. True) (\<lambda>_ _. True)"
  by (auto simp: triple_def split: prod.splits sum.splits)

lemma triple_finish:
  assumes "triple P m (\<lambda>r s. T (Returns r) s)
             (\<lambda>x s. case x of Raise r \<Rightarrow> T (Returns r) s | GoPanic \<Rightarrow> T Panics s)"
    and "P s"
  shows "T (fst (finish m s)) (snd (finish m s))"
proof (cases "m s")
  case (Pair r s')
  with assms show ?thesis
    by (cases r) (auto simp: finish_def dest: tripleD split: exit.splits)
qed

section \<open>Lists and maps\<close>

lemma filter_map_cong:
  "(\<And>x. x \<in> set xs \<Longrightarrow> P (f x) = P x) \<Longrightarrow> (\<And>x. x \<in> set xs \<Longrightarrow> P x \<Longrightarrow> f x = x) \<Longrightarrow>
   filter P (map f xs) = filter P xs"
  by (induction xs) auto

lemma map_of_append_None: "map_of xs k = None \<Longrightarrow> map_of (xs @ ys) k = map_of ys k"
  by (simp add: map_add_def)

lemma find_append: "find P (xs @ ys) = (case find P xs of None \<Rightarrow> find P ys | Some x \<Rightarrow> Some x)"
  by (induction xs) auto

lemma fold_invariant:
  "(\<And>x s. x \<in> set xs \<Longrightarrow> I s \<Longrightarrow> I (f x s)) \<Longrightarrow> I s \<Longrightarrow> I (fold f xs s)"
  by (induction xs arbitrary: s) auto

end
