(* ===== verification/WebSocket_Hub.thy ===== *)
theory WebSocket_Hub
  imports Prelude "HOL-Library.AList"
begin

text \<open>
  The notification hub, websocket/hub.go.  Connections are numbered in the order the server
  accepts them.  The state holds the hub's map from client address to connection and, around
  it, what the goroutines do: the registrations and unregistrations waiting to be received
  from the two unbuffered channels, the goroutines that read from a connection until it
  fails, which connections the hub has closed, and what was written to each connection.  The
  goroutines interleave freely: a step relation picks one of the enabled steps.  Messages are
  of any type \<open>'m\<close>.
\<close>

section \<open>The hub\<close>

record 'm hub =
  clients :: "(string \<times> nat) list"
  register_ch :: "(nat \<times> string) list"
  unregister_ch :: "string list"
  readers :: "(nat \<times> string) list"
  next_conn :: nat
  closed_conns :: "nat list"
  outbox :: "nat \<Rightarrow> 'm list"

definition NewHub :: "'m hub" where
  "NewHub = \<lparr>clients = [], register_ch = [], unregister_ch = [], readers = [], next_conn = 0,
     closed_conns = [], outbox = \<lambda>_. []\<rparr>"

definition write_message :: "nat \<Rightarrow> 'm \<Rightarrow> 'm hub \<Rightarrow> 'm hub" where
  "write_message c m h = h\<lparr>outbox := (outbox h)(c := outbox h c @ [m])\<rparr>"

text \<open>The three branches of the loop of \<^verbatim>\<open>Run\<close>.\<close>

definition on_register :: "nat \<Rightarrow> string \<Rightarrow> 'm hub \<Rightarrow> 'm hub" where
  "on_register c ip h = h\<lparr>clients := AList.update ip c (clients h)\<rparr>"

definition on_unregister :: "string \<Rightarrow> 'm hub \<Rightarrow> 'm hub" where
  "on_unregister ip h =
     (case map_of (clients h) ip of
        Some c \<Rightarrow> h\<lparr>closed_conns := c # closed_conns h, clients := AList.delete ip (clients h)\<rparr>
      | None \<Rightarrow> h)"

definition on_broadcast :: "'m \<Rightarrow> 'm hub \<Rightarrow> 'm hub" where
  "on_broadcast m h = fold (\<lambda>(ip, c). write_message c m) (clients h) h"

definition SendToIP :: "string \<Rightarrow> 'm \<Rightarrow> 'm hub \<Rightarrow> 'm hub" where
  "SendToIP ip m h =
     (case map_of (clients h) ip of Some c \<Rightarrow> write_message c m h | None \<Rightarrow> h)"

text \<open>\<^verbatim>\<open>HandleWebSocket\<close> up to its send on the register channel: a new connection, under the
  address of the query parameter \<^verbatim>\<open>ip\<close>, or the remote address without one.\<close>

definition client_ip :: "string \<Rightarrow> string \<Rightarrow> string" where
  "client_ip query remote = (if query = [] then remote else query)"

definition HandleWebSocket :: "string \<Rightarrow> string \<Rightarrow> 'm hub \<Rightarrow> 'm hub" where
  "HandleWebSocket query remote h =
     h\<lparr>register_ch := register_ch h @ [(next_conn h, client_ip query remote)], next_conn := next_conn h + 1\<rparr>"

section \<open>Interleavings\<close>

text \<open>A pending registration is received (its handler then starts the goroutine that reads); a
  read fails and its goroutine asks to unregister the address; a pending unregistration is
  received; a message goes to all or to one address.\<close>

inductive hub_step :: "'m hub \<Rightarrow> 'm hub \<Rightarrow> bool" where
  connect: "hub_step h (HandleWebSocket query remote h)"
| registered: "(c, ip) \<in> set (register_ch h) \<Longrightarrow>
    hub_step h (on_register c ip h\<lparr>register_ch := remove1 (c, ip) (register_ch h), readers := (c, ip) # readers h\<rparr>)"
| read_fails: "(c, ip) \<in> set (readers h) \<Longrightarrow>
    hub_step h (h\<lparr>readers := remove1 (c, ip) (readers h), unregister_ch := unregister_ch h @ [ip]\<rparr>)"
| unregistered: "ip \<in> set (unregister_ch h) \<Longrightarrow>
    hub_step h (on_unregister ip h\<lparr>unregister_ch := remove1 ip (unregister_ch h)\<rparr>)"
| broadcast: "hub_step h (on_broadcast m h)"
| send: "hub_step h (SendToIP ip m h)"

inductive hub_reachable :: "'m hub \<Rightarrow> bool" where
  start: "hub_reachable NewHub"
| step: "hub_reachable h \<Longrightarrow> hub_step h h' \<Longrightarrow> hub_reachable h'"

inductive_cases hub_stepE: "hub_step h h'"

section \<open>Invariant\<close>

text \<open>Addresses are registered once; a connection is waiting to be registered, registered, or
  closed, never two of these, and was accepted; it is registered under the address its
  handler gave.\<close>

definition live :: "'m hub \<Rightarrow> nat set" where
  "live h = snd ` set (clients h)"

definition waiting :: "'m hub \<Rightarrow> nat set" where
  "waiting h = fst ` set (register_ch h)"

definition hub_ok :: "'m hub \<Rightarrow> bool" where
  "hub_ok h \<longleftrightarrow>
     distinct (map fst (clients h)) \<and> distinct (map snd (clients h)) \<and> distinct (map fst (register_ch h)) \<and>
     live h \<inter> waiting h = {} \<and> live h \<inter> set (closed_conns h) = {} \<and> waiting h \<inter> set (closed_conns h) = {} \<and>
     live h \<union> waiting h \<union> set (closed_conns h) \<subseteq> {..<next_conn h} \<and>
     (\<forall>c. next_conn h \<le> c \<or> c \<in> waiting h \<longrightarrow> outbox h c = [])"

lemma write_message_fields [simp]:
  "clients (write_message c m h) = clients h" "register_ch (write_message c m h) = register_ch h"
  "unregister_ch (write_message c m h) = unregister_ch h" "readers (write_message c m h) = readers h"
  "next_conn (write_message c m h) = next_conn h" "closed_conns (write_message c m h) = closed_conns h"
  by (simp_all add: write_message_def)

lemma broadcast_fold:
  "outbox (fold (\<lambda>(ip, c). write_message c m) cs h) c' = outbox h c' @ replicate (count_list (map snd cs) c') m"
proof (induction cs arbitrary: h)
  case (Cons x cs)
  then show ?case by (cases x) (simp add: write_message_def replicate_app_Cons_same)
qed simp

lemma broadcast_fields [simp]:
  "clients (on_broadcast m h) = clients h" "register_ch (on_broadcast m h) = register_ch h"
  "next_conn (on_broadcast m h) = next_conn h" "closed_conns (on_broadcast m h) = closed_conns h"
proof -
  have "clients (fold (\<lambda>(ip, c). write_message c m) cs h) = clients h \<and>
      register_ch (fold (\<lambda>(ip, c). write_message c m) cs h) = register_ch h \<and>
      next_conn (fold (\<lambda>(ip, c). write_message c m) cs h) = next_conn h \<and>
      closed_conns (fold (\<lambda>(ip, c). write_message c m) cs h) = closed_conns h" for cs
    by (induction cs arbitrary: h) auto
  from this [of "clients h"]
  show "clients (on_broadcast m h) = clients h" "register_ch (on_broadcast m h) = register_ch h"
    "next_conn (on_broadcast m h) = next_conn h" "closed_conns (on_broadcast m h) = closed_conns h"
    by (simp_all add: on_broadcast_def)
qed

lemma count_list_distinct: "distinct xs \<Longrightarrow> count_list xs x = (if x \<in> set xs then 1 else 0)"
  by (induction xs) auto

lemma broadcast_outbox:
  "distinct (map snd (clients h)) \<Longrightarrow>
   outbox (on_broadcast m h) c = outbox h c @ (if c \<in> snd ` set (clients h) then [m] else [])"
  by (simp add: on_broadcast_def broadcast_fold count_list_distinct)

lemma update_snd_subset: "snd ` set (AList.update k v xs) \<subseteq> insert v (snd ` set xs)"
  by (induction xs) auto

lemma update_snd_distinct:
  "distinct (map snd xs) \<Longrightarrow> v \<notin> snd ` set xs \<Longrightarrow> distinct (map snd (AList.update k v xs))"
proof (induction xs)
  case (Cons x xs)
  from update_snd_subset [of k v xs] Cons show ?case by (cases x) auto
qed simp

lemma delete_snd: "snd ` set (AList.delete k xs) \<subseteq> snd ` set xs"
  by (auto simp: AList.delete_eq)

lemma delete_gone:
  assumes "distinct (map snd xs)" and "map_of xs k = Some v"
  shows "v \<notin> snd ` set (AList.delete k xs)"
proof
  assume "v \<in> snd ` set (AList.delete k xs)"
  then obtain k' where "(k', v) \<in> set xs" "k' \<noteq> k" by (auto simp: AList.delete_eq)
  moreover have "(k, v) \<in> set xs" using assms(2) by (rule map_of_SomeD)
  ultimately show False using assms(1) by (fastforce simp: distinct_map inj_on_def)
qed

lemma distinct_snd_delete: "distinct (map snd xs) \<Longrightarrow> distinct (map snd (AList.delete k xs))"
  by (simp add: AList.delete_eq distinct_map_filter)

lemma remove1_fst:
  assumes "distinct (map fst xs)" and "(c, ip) \<in> set xs"
  shows "fst ` set (remove1 (c, ip) xs) = fst ` set xs - {c}" and "distinct (map fst (remove1 (c, ip) xs))"
proof -
  have "remove1 (c, ip) xs = filter (\<lambda>x. fst x \<noteq> c) xs"
    using assms
  proof (induction xs)
    case (Cons x xs)
    show ?case
    proof (cases "x = (c, ip)")
      case True
      with Cons.prems have "\<forall>y \<in> set xs. fst y \<noteq> c" by force
      with True show ?thesis by simp
    next
      case False
      with Cons show ?thesis by (cases x) (force simp: image_iff)
    qed
  qed simp
  with assms(1) show "fst ` set (remove1 (c, ip) xs) = fst ` set xs - {c}" "distinct (map fst (remove1 (c, ip) xs))"
    by (auto simp: distinct_map_filter)
qed

lemma hub_ok_connect: "hub_ok h \<Longrightarrow> hub_ok (HandleWebSocket q r h)"
  by (auto simp: hub_ok_def HandleWebSocket_def lessThan_Suc live_def waiting_def)

lemma hub_ok_register:
  assumes ok: "hub_ok h" and c: "(c, ip) \<in> set (register_ch h)"
    and h': "h' = on_register c ip h\<lparr>register_ch := remove1 (c, ip) (register_ch h), readers := rs\<rparr>"
  shows "hub_ok h'"
proof -
  have "c \<in> waiting h" using c by (force simp: waiting_def)
  with ok have fresh: "c \<notin> live h" "c \<notin> set (closed_conns h)" "c < next_conn h"
    unfolding hub_ok_def by auto
  have "live h' \<subseteq> insert c (live h)"
    using update_snd_subset [of ip c "clients h"] by (simp add: h' live_def on_register_def)
  moreover have "waiting h' = waiting h - {c}"
    using remove1_fst(1) [OF _ c] ok by (simp add: h' waiting_def hub_ok_def on_register_def)
  moreover have "distinct (map snd (clients h'))" "distinct (map fst (clients h'))" "distinct (map fst (register_ch h'))"
    using ok fresh(1) remove1_fst(2) [OF _ c]
    by (simp_all add: h' hub_ok_def on_register_def update_snd_distinct live_def distinct_update)
  moreover have "closed_conns h' = closed_conns h" "next_conn h' = next_conn h" "outbox h' = outbox h"
    by (simp_all add: h' on_register_def)
  ultimately show ?thesis using ok fresh unfolding hub_ok_def by auto
qed

lemma hub_ok_unregister:
  assumes ok: "hub_ok h" and h': "h' = on_unregister ip h\<lparr>unregister_ch := us\<rparr>"
  shows "hub_ok h'"
proof (cases "map_of (clients h) ip")
  case None
  with ok show ?thesis by (simp add: h' on_unregister_def hub_ok_def live_def waiting_def)
next
  case (Some c)
  have c: "c \<in> live h" using map_of_SomeD [OF Some] by (force simp: live_def)
  have "live h' \<subseteq> live h" "c \<notin> live h'"
    using delete_snd [of ip "clients h"] delete_gone [OF _ Some] ok Some
    by (simp_all add: h' live_def on_unregister_def hub_ok_def)
  moreover have "distinct (map snd (clients h'))" "distinct (map fst (clients h'))"
    using ok Some by (simp_all add: h' hub_ok_def on_unregister_def distinct_snd_delete distinct_delete)
  moreover have "closed_conns h' = c # closed_conns h" "next_conn h' = next_conn h" "outbox h' = outbox h"
    "register_ch h' = register_ch h" "waiting h' = waiting h"
    using Some by (simp_all add: h' on_unregister_def waiting_def)
  ultimately show ?thesis using ok c unfolding hub_ok_def by auto
qed

lemma hub_ok_send:
  assumes "hub_ok h"
  shows "hub_ok (SendToIP ip m h)"
proof (cases "map_of (clients h) ip")
  case None
  with assms show ?thesis by (simp add: SendToIP_def)
next
  case (Some c)
  then have "c \<in> live h" using map_of_SomeD [OF Some] by (force simp: live_def)
  with assms have "c \<notin> waiting h" "c < next_conn h" unfolding hub_ok_def by auto
  with assms Some show ?thesis
    by (auto simp: SendToIP_def hub_ok_def live_def waiting_def write_message_def)
qed

lemma hub_ok_broadcast:
  assumes "hub_ok h"
  shows "hub_ok (on_broadcast m h)"
proof -
  have same: "live (on_broadcast m h) = live h" "waiting (on_broadcast m h) = waiting h"
    by (simp_all add: live_def waiting_def)
  have "outbox (on_broadcast m h) c = []" if "next_conn h \<le> c \<or> c \<in> waiting h" for c
  proof -
    have "c \<notin> live h" "outbox h c = []" using that assms unfolding hub_ok_def by auto
    then show ?thesis using assms by (simp add: broadcast_outbox hub_ok_def live_def)
  qed
  with assms same show ?thesis unfolding hub_ok_def by simp
qed

lemma hub_ok_reachable: "hub_reachable h \<Longrightarrow> hub_ok h"
proof (induction rule: hub_reachable.induct)
  case start
  show ?case by (simp add: hub_ok_def NewHub_def live_def waiting_def)
next
  case (step h h')
  from step(2,3) show ?case
  proof (cases rule: hub_step.cases)
    case (read_fails c ip)
    with step(3) show ?thesis by (simp add: hub_ok_def live_def waiting_def)
  qed (auto intro: hub_ok_connect hub_ok_register hub_ok_unregister hub_ok_send hub_ok_broadcast)
qed

section \<open>Properties\<close>


text \<open>A message for an address reaches the connection registered under it, once, and no
  other connection; without one it is dropped.  A broadcast reaches every registered
  connection once and no other.\<close>

theorem messages_reach_their_client:
  assumes "hub_reachable h"
  shows "outbox (SendToIP ip m h) c = outbox h c @ (if map_of (clients h) ip = Some c then [m] else []) \<and>
    outbox (on_broadcast m h) c = outbox h c @ (if \<exists>ip. map_of (clients h) ip = Some c then [m] else [])"
proof -
  have ok: "hub_ok h" by (rule hub_ok_reachable) (rule assms)
  then have "(\<exists>ip. map_of (clients h) ip = Some c) \<longleftrightarrow> c \<in> snd ` set (clients h)"
    by (simp add: hub_ok_def map_of_eq_Some_iff image_iff Bex_def)
  moreover have "distinct (map snd (clients h))" using ok by (simp add: hub_ok_def)
  moreover have "outbox (SendToIP ip m h) c = outbox h c @ (if map_of (clients h) ip = Some c then [m] else [])"
    by (simp add: SendToIP_def write_message_def split: option.split)
  ultimately show ?thesis by (simp add: broadcast_outbox)
qed

text \<open>Two connections of the client at 10.0.0.5, as the hub sees them: the second replaces the
  first; then the first connection breaks.\<close>

definition demo_hub :: "string hub" where
  "demo_hub =
     (let h1 = HandleWebSocket ''10.0.0.5'' ''r1'' NewHub;
          h2 = on_register 0 ''10.0.0.5'' h1\<lparr>register_ch := [], readers := [(0, ''10.0.0.5'')]\<rparr>;
          h3 = HandleWebSocket ''10.0.0.5'' ''r2'' h2
      in on_register 1 ''10.0.0.5'' h3\<lparr>register_ch := [], readers := [(1, ''10.0.0.5''), (0, ''10.0.0.5'')]\<rparr>)"

lemma demo_hub_fields:
  "clients demo_hub = [(''10.0.0.5'', 1)]" "register_ch demo_hub = []" "closed_conns demo_hub = []"
  "readers demo_hub = [(1, ''10.0.0.5''), (0, ''10.0.0.5'')]" "unregister_ch demo_hub = []"
  by (simp_all add: demo_hub_def NewHub_def HandleWebSocket_def on_register_def client_ip_def)

lemma demo_hub_reachable: "hub_reachable demo_hub"
proof -
  define h1 where "h1 = (HandleWebSocket ''10.0.0.5'' ''r1'' NewHub :: string hub)"
  define h2 where "h2 = on_register 0 ''10.0.0.5'' h1\<lparr>register_ch := [], readers := [(0, ''10.0.0.5'')]\<rparr>"
  define h3 where "h3 = HandleWebSocket ''10.0.0.5'' ''r2'' h2"
  have 1: "hub_reachable h1" unfolding h1_def by (rule hub_reachable.step [OF hub_reachable.start hub_step.connect])
  have "hub_step h1 h2"
    using hub_step.registered [of 0 "''10.0.0.5''" h1]
    by (simp add: h1_def h2_def HandleWebSocket_def NewHub_def client_ip_def)
  from hub_reachable.step [OF 1 this] have 2: "hub_reachable h2" .
  have 3: "hub_reachable h3" unfolding h3_def by (rule hub_reachable.step [OF 2 hub_step.connect])
  have "hub_step h3 demo_hub"
    using hub_step.registered [of 1 "''10.0.0.5''" h3]
    by (simp add: h1_def h2_def h3_def demo_hub_def HandleWebSocket_def NewHub_def client_ip_def on_register_def)
  from hub_reachable.step [OF 3 this] show ?thesis .
qed


theorem messages_reach_their_client_witness:
  "outbox (SendToIP ''10.0.0.5'' ''hello'' demo_hub) 1 = outbox demo_hub 1 @ [''hello''] \<and>
   outbox (SendToIP ''10.0.0.5'' ''hello'' demo_hub) 0 = outbox demo_hub 0"
  using messages_reach_their_client [OF demo_hub_reachable, of "''10.0.0.5''" "''hello''"]
  by (simp add: demo_hub_fields)

text \<open>A connection that was replaced takes its successor down: when the old connection of
  an address fails, whatever the number of newer registrations in between, receiving its
  unregistration closes the connection registered now and removes the address.\<close>

theorem stale_disconnect_closes_current:
  assumes "(old, ip) \<in> set (readers h)" and "map_of (clients h) ip = Some current"
  shows "\<exists>h' h''. hub_step h h' \<and> hub_step h' h'' \<and> current \<in> set (closed_conns h'') \<and>
    map_of (clients h'') ip = None"
proof -
  let ?h = "h\<lparr>readers := remove1 (old, ip) (readers h), unregister_ch := unregister_ch h @ [ip]\<rparr>"
  let ?h' = "on_unregister ip ?h\<lparr>unregister_ch := remove1 ip (unregister_ch ?h)\<rparr>"
  have "hub_step h ?h" by (rule hub_step.read_fails) (rule assms)
  moreover have "hub_step ?h ?h'" by (rule hub_step.unregistered) simp
  moreover have "current \<in> set (closed_conns ?h') \<and> map_of (clients ?h') ip = None"
    using assms(2) by (simp add: on_unregister_def AList.delete_conv')
  ultimately show ?thesis by blast
qed

theorem stale_disconnect_closes_current_witness:
  "\<exists>h' h''. hub_step demo_hub h' \<and> hub_step h' h'' \<and> 1 \<in> set (closed_conns h'') \<and>
    map_of (clients h'') ''10.0.0.5'' = None"
  using stale_disconnect_closes_current [of 0 "''10.0.0.5''" demo_hub 1] by (simp add: demo_hub_fields)

end
