(* ===== verification/Go_Strings.thy ===== *)
theory Go_Strings
  imports Prelude "HOL-Library.Sublist"
begin

text \<open>
  The part of Go's packages \<^verbatim>\<open>strings\<close>, \<^verbatim>\<open>strconv\<close> and \<^verbatim>\<open>fmt\<close> that the repository uses.
  A Go string is a sequence of bytes, so \<^typ>\<open>string\<close> (a list of 8-bit characters) is its
  exact counterpart and \<^const>\<open>length\<close> is Go's \<^verbatim>\<open>len\<close>.
\<close>

section \<open>Decimal numbers\<close>

definition digit_char :: "nat \<Rightarrow> char" where
  "digit_char n = char_of (48 + n)"

definition is_digit :: "char \<Rightarrow> bool" where
  "is_digit c \<longleftrightarrow> 48 \<le> (of_char c :: nat) \<and> (of_char c :: nat) \<le> 57"

definition digit_val :: "char \<Rightarrow> nat" where
  "digit_val c = of_char c - 48"

fun show_nat :: "nat \<Rightarrow> string" where
  "show_nat n = (if n < 10 then [digit_char n] else show_nat (n div 10) @ [digit_char (n mod 10)])"

declare show_nat.simps [simp del]

text \<open>\<^verbatim>\<open>strconv.Itoa\<close>, \<^verbatim>\<open>fmt.Sprintf("%d")\<close> and \<^verbatim>\<open>fmt.Sprint\<close> of an integer.\<close>

definition show_int :: "int \<Rightarrow> string" where
  "show_int i = (if i < 0 then CHR ''-'' # show_nat (nat (- i)) else show_nat (nat i))"

definition read_nat :: "string \<Rightarrow> nat" where
  "read_nat s = foldl (\<lambda>n c. 10 * n + digit_val c) 0 s"

lemma digit_char_props [simp]:
  assumes "n < 10"
  shows "is_digit (digit_char n)" "digit_val (digit_char n) = n"
  using assms by (simp_all add: digit_char_def is_digit_def digit_val_def)

lemma digits_show_nat: "\<forall>c \<in> set (show_nat n). is_digit c"
proof (induction n rule: show_nat.induct)
  case (1 n)
  then show ?case by (subst show_nat.simps) auto
qed

lemma show_nat_nonempty [simp]: "show_nat n \<noteq> []"
  by (subst show_nat.simps) simp

lemma read_show_nat: "read_nat (show_nat n) = n"
proof (induction n rule: show_nat.induct)
  case (1 n)
  show ?case
  proof (cases "n < 10")
    case True
    then show ?thesis by (subst show_nat.simps) (simp add: read_nat_def)
  next
    case False
    with 1 have "read_nat (show_nat (n div 10)) = n div 10" by simp
    with False show ?thesis
      by (subst show_nat.simps) (simp add: read_nat_def)
  qed
qed

lemma show_nat_inject [simp]: "show_nat m = show_nat n \<longleftrightarrow> m = n"
  by (metis read_show_nat)

lemma non_digits [simp]: "\<not> is_digit CHR '' ''" "\<not> is_digit CHR '':''" "\<not> is_digit CHR ''-''"
  by (simp_all add: is_digit_def)

lemma digit_char_neq [simp]:
  "n < 10 \<Longrightarrow> digit_char n \<noteq> CHR '' ''" "n < 10 \<Longrightarrow> digit_char n \<noteq> CHR '':''"
  "n < 10 \<Longrightarrow> digit_char n \<noteq> CHR ''-''"
  by (metis digit_char_props(1) non_digits)+

lemma show_nat_1: "n < 10 \<Longrightarrow> show_nat n = [digit_char n]"
  by (subst show_nat.simps) simp

lemma show_nat_2: "10 \<le> n \<Longrightarrow> n < 100 \<Longrightarrow> show_nat n = [digit_char (n div 10), digit_char (n mod 10)]"
  by (subst show_nat.simps) (simp add: show_nat_1)

text \<open>Numbers zero-padded to two and to four digits, as \<^verbatim>\<open>time.Format\<close> writes them.\<close>

definition pad2 :: "nat \<Rightarrow> string" where
  "pad2 n = (if n < 10 then CHR ''0'' # show_nat n else show_nat n)"

definition pad4 :: "nat \<Rightarrow> string" where
  "pad4 n = (let s = show_nat n in replicate (4 - length s) CHR ''0'' @ s)"

lemma zero_char: "CHR ''0'' = digit_char 0"
proof -
  have "char_of (of_char CHR ''0'' :: nat) = CHR ''0''" by (rule char_of_char)
  then show ?thesis by (simp add: digit_char_def)
qed

lemma pad2_digits: "n < 100 \<Longrightarrow> pad2 n = [digit_char (n div 10), digit_char (n mod 10)]"
  by (simp add: pad2_def zero_char show_nat_1 show_nat_2)

lemma show_nat_step: "10 \<le> n \<Longrightarrow> show_nat n = show_nat (n div 10) @ [digit_char (n mod 10)]"
  by (subst show_nat.simps) simp

lemma show_nat_3:
  "100 \<le> n \<Longrightarrow> n < 1000 \<Longrightarrow>
   show_nat n = [digit_char (n div 100), digit_char (n div 10 mod 10), digit_char (n mod 10)]"
  by (simp add: show_nat_step [of n] show_nat_2 div_mult2_eq [symmetric])

lemma show_nat_4:
  "1000 \<le> n \<Longrightarrow> n < 10000 \<Longrightarrow>
   show_nat n = [digit_char (n div 1000), digit_char (n div 100 mod 10),
                 digit_char (n div 10 mod 10), digit_char (n mod 10)]"
  by (simp add: show_nat_step [of n] show_nat_3 div_mult2_eq [symmetric])

lemma pad4_digits:
  assumes "n < 10000"
  shows "pad4 n = [digit_char (n div 1000), digit_char (n div 100 mod 10),
                   digit_char (n div 10 mod 10), digit_char (n mod 10)]"
proof -
  consider "n < 10" | "10 \<le> n" "n < 100" | "100 \<le> n" "n < 1000" | "1000 \<le> n"
    by linarith
  then show ?thesis
  proof cases
    case 1
    then show ?thesis
      by (simp add: pad4_def zero_char show_nat_1 Let_def numeral_3_eq_3)
  next
    case 2
    then show ?thesis by (simp add: pad4_def zero_char show_nat_2 Let_def numeral_2_eq_2)
  next
    case 3
    then show ?thesis by (simp add: pad4_def zero_char show_nat_3 Let_def)
  next
    case 4
    with assms show ?thesis by (simp add: pad4_def show_nat_4 Let_def)
  qed
qed

section \<open>Searching and splitting\<close>

text \<open>\<^verbatim>\<open>strings.Contains(s, sub)\<close> and \<^verbatim>\<open>strings.HasPrefix(s, p)\<close>.\<close>

definition contains :: "string \<Rightarrow> string \<Rightarrow> bool" where
  "contains s sub = sublist sub s"

definition has_prefix :: "string \<Rightarrow> string \<Rightarrow> bool" where
  "has_prefix s p = prefix p s"

lemma contains_append [simp]: "contains (xs @ sub @ ys) sub"
  by (simp add: contains_def)

lemma contains_mono: "contains s sub \<Longrightarrow> contains (xs @ s @ ys) sub"
  unfolding contains_def by (rule sublist_order.order.trans) auto

text \<open>\<^verbatim>\<open>strings.Split(s, sep)\<close> for a one-byte separator: never empty, and joining the parts
  with the separator gives the string back.\<close>

fun split_on :: "char \<Rightarrow> string \<Rightarrow> string list" where
  "split_on c [] = [[]]"
| "split_on c (x # xs) =
     (if x = c then [] # split_on c xs
      else (case split_on c xs of [] \<Rightarrow> [[x]] | p # ps \<Rightarrow> (x # p) # ps))"

fun join_with :: "char \<Rightarrow> string list \<Rightarrow> string" where
  "join_with c [] = []"
| "join_with c [p] = p"
| "join_with c (p # q # ps) = p @ c # join_with c (q # ps)"

lemma split_on_nonempty [simp]: "split_on c s \<noteq> []"
  by (induction s) (auto split: list.splits)

lemma join_split: "join_with c (split_on c s) = s"
proof (induction s)
  case (Cons x xs)
  obtain p ps where sp: "split_on c xs = p # ps" by (cases "split_on c xs") auto
  with Cons show ?case by (cases ps) auto
qed simp

lemma split_on_no_sep: "c \<notin> set s \<Longrightarrow> split_on c s = [s]"
  by (induction s) auto

lemma split_on_append: "c \<notin> set p \<Longrightarrow> split_on c (p @ c # s) = p # split_on c s"
  by (induction p) auto

lemma set_split_on: "p \<in> set (split_on c s) \<Longrightarrow> c \<notin> set p"
  by (induction s arbitrary: p) (auto split: list.splits if_splits)

text \<open>\<^verbatim>\<open>strings.ReplaceAll(s, " ", "")\<close> and the like: delete every occurrence of a byte.\<close>

definition delete_all :: "char \<Rightarrow> string \<Rightarrow> string" where
  "delete_all c s = filter (\<lambda>x. x \<noteq> c) s"

section \<open>White space and case\<close>

text \<open>\<^verbatim>\<open>unicode.IsSpace\<close>: the UTF-8 encodings of the white-space code points.\<close>

definition space_encodings :: "string list" where
  "space_encodings =
     [[CHR 0x09], [CHR 0x0A], [CHR 0x0B], [CHR 0x0C], [CHR 0x0D], [CHR 0x20],
      [CHR 0xC2, CHR 0x85], [CHR 0xC2, CHR 0xA0], [CHR 0xE1, CHR 0x9A, CHR 0x80]] @
     map (\<lambda>b. [CHR 0xE2, CHR 0x80, b])
       [CHR 0x80, CHR 0x81, CHR 0x82, CHR 0x83, CHR 0x84, CHR 0x85, CHR 0x86, CHR 0x87,
        CHR 0x88, CHR 0x89, CHR 0x8A, CHR 0xA8, CHR 0xA9, CHR 0xAF] @
     [[CHR 0xE2, CHR 0x81, CHR 0x9F], [CHR 0xE3, CHR 0x80, CHR 0x80]]"

fun trim_left :: "string list \<Rightarrow> nat \<Rightarrow> string \<Rightarrow> string" where
  "trim_left enc 0 s = s"
| "trim_left enc (Suc n) s =
     (case find (\<lambda>e. prefix e s) enc of
        None \<Rightarrow> s
      | Some e \<Rightarrow> trim_left enc n (drop (length e) s))"

text \<open>\<^verbatim>\<open>strings.TrimSpace\<close>.  Every encoding has at least one byte, so \<^term>\<open>length s\<close> rounds
  remove all of them (\<open>trim_left_none\<close> below).\<close>

definition trim_space :: "string \<Rightarrow> string" where
  "trim_space s =
     (let l = trim_left space_encodings (length s) s
      in rev (trim_left (map rev space_encodings) (length l) (rev l)))"

lemma find_prefix_props:
  "find (\<lambda>e. prefix e s) enc = Some e \<Longrightarrow> e \<in> set enc \<and> prefix e s"
  by (auto simp: find_Some_iff)

lemma trim_left_none:
  assumes "[] \<notin> set enc" and "length s \<le> n"
  shows "find (\<lambda>e. prefix e (trim_left enc n s)) enc = None"
  using assms(2)
proof (induction n arbitrary: s)
  case 0
  with assms(1) show ?case by (auto simp: find_None_iff)
next
  case (Suc n)
  show ?case
  proof (cases "find (\<lambda>e. prefix e s) enc")
    case None
    then show ?thesis by simp
  next
    case (Some e)
    then have "e \<in> set enc" "prefix e s" by (auto dest: find_prefix_props)
    with assms(1) have "0 < length e" by auto
    with Suc.prems have "length (drop (length e) s) \<le> n" unfolding length_drop by linarith
    with Suc.IH Some show ?thesis by simp
  qed
qed

lemma trim_left_suffix: "suffix (trim_left enc n s) s"
proof (induction n arbitrary: s)
  case (Suc n)
  have "suffix (drop k s) s" for k by (simp add: suffix_drop)
  with Suc show ?case
    by (auto split: option.splits intro: suffix_order.trans)
qed simp

lemma trim_left_id: "find (\<lambda>e. prefix e s) enc = None \<Longrightarrow> trim_left enc n s = s"
  by (cases n) auto

text \<open>\<^verbatim>\<open>strings.ToLower\<close> on ASCII text.\<close>

definition lower_char :: "char \<Rightarrow> char" where
  "lower_char c =
     (if 65 \<le> (of_char c :: nat) \<and> (of_char c :: nat) \<le> 90 then char_of (of_char c + 32 :: nat) else c)"

definition to_lower :: "string \<Rightarrow> string" where
  "to_lower = map lower_char"

lemma lower_char_idem [simp]: "lower_char (lower_char c) = lower_char c"
  by (simp add: lower_char_def)

lemma to_lower_idem [simp]: "to_lower (to_lower s) = to_lower s"
  by (simp add: to_lower_def comp_def)

text \<open>Trimming twice is trimming once.\<close>

lemma trim_space_idem [simp]: "trim_space (trim_space s) = trim_space s"
proof -
  have ne: "[] \<notin> set space_encodings" "[] \<notin> set (map rev space_encodings)" by (auto simp: space_encodings_def)
  define l where "l = trim_left space_encodings (length s) s"
  define t where "t = trim_left (map rev space_encodings) (length l) (rev l)"
  have s: "trim_space s = rev t" by (simp add: trim_space_def l_def t_def Let_def)
  have l0: "find (\<lambda>e. prefix e l) space_encodings = None" unfolding l_def by (rule trim_left_none) (use ne in auto)
  have t0: "find (\<lambda>e. prefix e t) (map rev space_encodings) = None" unfolding t_def by (rule trim_left_none) (use ne in auto)
  have "suffix t (rev l)" unfolding t_def by (rule trim_left_suffix)
  then have "prefix (rev t) l" by (simp add: suffix_to_prefix)
  then have "find (\<lambda>e. prefix e (rev t)) space_encodings = None"
    using l0 by (auto simp: find_None_iff intro: prefix_order.trans)
  then have "trim_left space_encodings n (rev t) = rev t" for n by (rule trim_left_id)
  moreover have "trim_left (map rev space_encodings) n t = t" for n using t0 by (rule trim_left_id)
  ultimately show ?thesis unfolding s by (simp add: trim_space_def)
qed

section \<open>Strings without spaces\<close>

lemma trim_left_no: "(\<And>e. e \<in> set enc \<Longrightarrow> \<not> prefix e s) \<Longrightarrow> trim_left enc n s = s"
  by (rule trim_left_id) (auto simp: find_None_iff)

lemma trim_space_id:
  assumes "s \<noteq> []" and "hd s \<notin> hd ` set space_encodings" and "last s \<notin> last ` set space_encodings"
  shows "trim_space s = s"
proof -
  have ne: "[] \<notin> set space_encodings" by (auto simp: space_encodings_def)
  have "\<not> prefix e s" if "e \<in> set space_encodings" for e
  proof -
    have "e \<noteq> []" "hd e \<noteq> hd s" using that assms(2) ne by (auto, metis imageI)
    then show ?thesis using assms(1) by (cases e; cases s) auto
  qed
  then have l: "trim_left space_encodings n s = s" for n by (rule trim_left_no)
  have "\<not> prefix e (rev s)" if e: "e \<in> set (map rev space_encodings)" for e
  proof -
    obtain e' where e': "e = rev e'" "e' \<in> set space_encodings" using e by auto
    then have "last e' \<noteq> last s" "e' \<noteq> []" using assms(3) ne by (auto, metis imageI)
    then show ?thesis using assms(1) by (cases e' rule: rev_cases; cases s rule: rev_cases) (auto simp: e'(1))
  qed
  then have "trim_left (map rev space_encodings) n (rev s) = rev s" for n by (rule trim_left_no)
  with l show ?thesis by (simp add: trim_space_def)
qed

lemma digit_no_space: "is_digit c \<Longrightarrow> c \<notin> hd ` set space_encodings \<and> c \<notin> last ` set space_encodings"
proof -
  assume "is_digit c"
  then have "of_char c \<in> {48..<58 :: nat}" by (simp add: is_digit_def)
  moreover have "\<forall>b \<in> hd ` set space_encodings \<union> last ` set space_encodings. of_char b \<notin> {48..<58 :: nat}"
    by code_simp
  ultimately show ?thesis by blast
qed

section \<open>Evaluation\<close>

text \<open>Equations that print a numeral.\<close>

lemma digit_chars:
  "digit_char 0 = CHR ''0''" "digit_char 1 = CHR ''1''" "digit_char (Suc 0) = CHR ''1''" "digit_char 2 = CHR ''2''"
  "digit_char 3 = CHR ''3''" "digit_char 4 = CHR ''4''" "digit_char 5 = CHR ''5''" "digit_char 6 = CHR ''6''"
  "digit_char 7 = CHR ''7''" "digit_char 8 = CHR ''8''" "digit_char 9 = CHR ''9''"
  by code_simp+

lemmas show_eval = show_nat.simps show_int_def digit_chars

end
