(* ===== verification/Device_Pool.thy ===== *)
theory Device_Pool
  imports Go_Strings "HOL-Library.AList" "HOL-Library.Multiset"
begin

text \<open>
  Connections to the MikroTik routers: mikrotik/manager.go.  A manager maps device ids to
  pools; a pool keeps idle connections in a buffered channel.  Pools are shared by pointer, so
  they live in a heap (a list) and the manager's map holds their positions.

  The routeros package is outside the repository.  Whether a dial succeeds is a script in the
  state (\<open>[]\<close>: every dial succeeds), connections are numbered in the order they are opened,
  and what a router answers to a command is the parameter \<open>run\<close>, a function of the router's
  state.  Sizes and counts are the sizes of real slices, far below the limits of an int.
\<close>

section \<open>State\<close>

record DeviceConfig =
  dc_id :: string
  dc_name :: string
  dc_address :: string
  dc_port :: string
  dc_username :: string
  dc_password :: string
  dc_pool_size :: int
  dc_ispid :: string
  dc_description :: string

record DevicePool =
  dp_config :: DeviceConfig
  dp_clients :: "nat list"
  dp_cap :: nat

record 'r net =
  pools :: "DevicePool list"
  devices :: "(string \<times> nat) list"
  dials :: "string option list"
  dialed :: "string list"
  next_client :: nat
  open_clients :: "nat list"
  router :: 'r

type_synonym reply_row = "(string \<times> string) list"
type_synonym 'r router_run = "'r \<Rightarrow> string list \<Rightarrow> (string + reply_row list) \<times> 'r"
type_synonym ('r, 'a) netprog = "('r net, string, 'a) prog"

definition NewManager :: "'r \<Rightarrow> string option list \<Rightarrow> 'r net" where
  "NewManager r ds = \<lparr>pools = [], devices = [], dials = ds, dialed = [], next_client = 0, open_clients = [], router = r\<rparr>"

section \<open>Connections\<close>

definition dial :: "string \<Rightarrow> ('r, nat) netprog" where
  "dial address s =
     (let s' = s\<lparr>dialed := dialed s @ [address]\<rparr> in
      case dials s of
        Some e # ds \<Rightarrow> (Inl (Raise e), s'\<lparr>dials := ds\<rparr>)
      | None # ds \<Rightarrow> (Inr (next_client s),
          s'\<lparr>dials := ds, next_client := next_client s + 1, open_clients := next_client s # open_clients s\<rparr>)
      | [] \<Rightarrow> (Inr (next_client s), s'\<lparr>next_client := next_client s + 1, open_clients := next_client s # open_clients s\<rparr>))"

definition close_client :: "nat \<Rightarrow> 'r net \<Rightarrow> 'r net" where
  "close_client c s = s\<lparr>open_clients := remove1 c (open_clients s)\<rparr>"

definition upd_pool :: "nat \<Rightarrow> (DevicePool \<Rightarrow> DevicePool) \<Rightarrow> 'r net \<Rightarrow> 'r net" where
  "upd_pool p f s = s\<lparr>pools := (pools s)[p := f (pools s ! p)]\<rparr>"

section \<open>Pools\<close>

text \<open>The loop of \<^verbatim>\<open>newDevicePool\<close>: \<open>n\<close> connections to go, \<open>cs\<close> those opened.  When a dial fails
  the opened ones are closed.\<close>

primrec fill_pool :: "nat \<Rightarrow> DeviceConfig \<Rightarrow> nat list \<Rightarrow> ('r, nat list) netprog" where
  "fill_pool 0 cfg cs = ret cs"
| "fill_pool (Suc n) cfg cs =
     andThen (onErr (dial (dc_address cfg @ '':'' @ dc_port cfg)) (\<lambda>e.
        andThen (upd_st (fold close_client cs)) (\<lambda>_. raise (''failed to create client '' @ show_nat (length cs) @ '': '' @ e)))) (\<lambda>c.
     fill_pool n cfg (cs @ [c]))"

definition newDevicePool :: "DeviceConfig \<Rightarrow> ('r, nat) netprog" where
  "newDevicePool cfg =
     andThen (fill_pool (nat (dc_pool_size cfg)) cfg []) (\<lambda>cs.
     andThen get_st (\<lambda>s.
     andThen (upd_st (\<lambda>s. s\<lparr>pools := pools s @
        [\<lparr>dp_config = cfg, dp_clients = cs, dp_cap = nat (dc_pool_size cfg)\<rparr>]\<rparr>)) (\<lambda>_.
     ret (length (pools s)))))"

text \<open>\<^verbatim>\<open>GetClient\<close>: an idle connection, or, when none comes back within five seconds, a new one
  (dialled at the address alone); nil when that fails.\<close>

definition GetClient :: "nat \<Rightarrow> 'r net \<Rightarrow> nat option \<times> 'r net" where
  "GetClient p s =
     (case dp_clients (pools s ! p) of
        c # cs \<Rightarrow> (Some c, upd_pool p (\<lambda>q. q\<lparr>dp_clients := cs\<rparr>) s)
      | [] \<Rightarrow>
          (case dial (dc_address (dp_config (pools s ! p))) s of
             (Inr c, s') \<Rightarrow> (Some c, s')
           | (Inl _, s') \<Rightarrow> (None, s')))"

definition ReturnClient :: "nat \<Rightarrow> nat option \<Rightarrow> 'r net \<Rightarrow> 'r net" where
  "ReturnClient p client s =
     (case client of
        None \<Rightarrow> s
      | Some c \<Rightarrow>
          if length (dp_clients (pools s ! p)) < dp_cap (pools s ! p)
          then upd_pool p (\<lambda>q. q\<lparr>dp_clients := dp_clients q @ [c]\<rparr>) s
          else close_client c s)"

definition Execute :: "'r router_run \<Rightarrow> nat \<Rightarrow> string \<Rightarrow> string list \<Rightarrow> ('r, reply_row list) netprog" where
  "Execute run p command args s =
     (case GetClient p s of
        (None, s1) \<Rightarrow> (Inl (Raise ''failed to get client from pool''), s1)
      | (Some c, s1) \<Rightarrow>
          (case run (router s1) (command # args) of
             (Inl e, r) \<Rightarrow> (Inl (Raise e), ReturnClient p (Some c) (s1\<lparr>router := r\<rparr>))
           | (Inr rows, r) \<Rightarrow> (Inr rows, ReturnClient p (Some c) (s1\<lparr>router := r\<rparr>))))"

definition ClosePool :: "nat \<Rightarrow> 'r net \<Rightarrow> 'r net" where
  "ClosePool p s =
     (let n = dp_cap (pools s ! p); cs = dp_clients (pools s ! p) in
      upd_pool p (\<lambda>q. q\<lparr>dp_clients := drop n cs\<rparr>) (fold close_client (take n cs) s))"

section \<open>The manager\<close>

definition AddDevice :: "DeviceConfig \<Rightarrow> ('r, unit) netprog" where
  "AddDevice cfg =
     (if dc_id cfg = [] then raise ''device ID cannot be empty'' else
      let cfg' = (if dc_pool_size cfg \<le> 0 then cfg\<lparr>dc_pool_size := 5\<rparr> else cfg) in
      andThen (newDevicePool cfg') (\<lambda>pool.
      upd_st (\<lambda>s. s\<lparr>devices := AList.update (dc_id cfg') pool (devices s)\<rparr>)))"

definition GetDevice :: "string \<Rightarrow> ('r, nat) netprog" where
  "GetDevice i s =
     (case map_of (devices s) i of
        None \<Rightarrow> (Inl (Raise (''no device with ID '' @ i @ '' found'')), s)
      | Some p \<Rightarrow> (Inr p, s))"

text \<open>The two listings follow the order of the map, which Go leaves open.\<close>

definition GetDevicesByISP :: "string \<Rightarrow> 'r net \<Rightarrow> nat list" where
  "GetDevicesByISP isp s = filter (\<lambda>p. dc_ispid (dp_config (pools s ! p)) = isp) (map snd (devices s))"

definition ListAllDevices :: "'r net \<Rightarrow> DeviceConfig list" where
  "ListAllDevices s = map (\<lambda>(i, p). dp_config (pools s ! p)) (devices s)"

definition RemoveDevice :: "string \<Rightarrow> ('r, unit) netprog" where
  "RemoveDevice i s =
     (case map_of (devices s) i of
        None \<Rightarrow> (Inl (Raise (''no device with ID '' @ i @ '' found'')), s)
      | Some p \<Rightarrow> (Inr (), (ClosePool p s)\<lparr>devices := AList.delete i (devices s)\<rparr>))"

definition CloseManager :: "'r net \<Rightarrow> 'r net" where
  "CloseManager s = fold (\<lambda>(i, p). ClosePool p) (devices s) s"

section \<open>Conservation of connections\<close>

text \<open>Every open connection is in one place: idle in one pool, or lent to one caller.  \<open>lent\<close> is
  the list of connections callers hold, with the pool they came from.\<close>

definition pooled :: "'r net \<Rightarrow> nat multiset" where
  "pooled s = mset (concat (map dp_clients (pools s)))"

definition net_ok :: "'r net \<Rightarrow> nat multiset \<Rightarrow> bool" where
  "net_ok s held \<longleftrightarrow>
     mset (open_clients s) = pooled s + held \<and> distinct (open_clients s) \<and>
     (\<forall>c \<in> set (open_clients s). c < next_client s) \<and>
     (\<forall>q \<in> set (pools s). length (dp_clients q) \<le> dp_cap q) \<and>
     (\<forall>p \<in> snd ` set (devices s). p < length (pools s))"

lemma pooled_upd:
  assumes "p < length (pools s)"
  shows "pooled (upd_pool p f s) + mset (dp_clients (pools s ! p)) = pooled s + mset (dp_clients (f (pools s ! p)))"
proof -
  have "pools s = take p (pools s) @ pools s ! p # drop (Suc p) (pools s)"
    using assms by (simp add: id_take_nth_drop)
  then have "mset (concat (map dp_clients (pools s))) =
      mset (concat (map dp_clients (take p (pools s)))) + mset (dp_clients (pools s ! p)) +
      mset (concat (map dp_clients (drop (Suc p) (pools s))))"
    by (metis (no_types, lifting) concat.simps(2) concat_append list.simps(9) map_append mset_append union_assoc)
  moreover have "mset (concat (map dp_clients ((pools s)[p := q]))) =
      mset (concat (map dp_clients (take p (pools s)))) + mset (dp_clients q) +
      mset (concat (map dp_clients (drop (Suc p) (pools s))))" for q
    using assms by (simp add: upd_conv_take_nth_drop)
  ultimately show ?thesis by (simp add: pooled_def upd_pool_def)
qed

lemma pooled_other [simp]:
  "pooled (s\<lparr>dialed := a\<rparr>) = pooled s" "pooled (s\<lparr>dials := b\<rparr>) = pooled s"
  "pooled (s\<lparr>next_client := n\<rparr>) = pooled s" "pooled (s\<lparr>open_clients := cs\<rparr>) = pooled s"
  "pooled (s\<lparr>router := r\<rparr>) = pooled s" "pooled (s\<lparr>devices := d\<rparr>) = pooled s"
  by (simp_all add: pooled_def)

lemma dial_ok:
  assumes "net_ok s held" and "dial a s = (res, s')"
  shows "pools s' = pools s \<and> devices s' = devices s \<and>
    (case res of Inr c \<Rightarrow> net_ok s' (held + {#c#}) | Inl x \<Rightarrow> x \<noteq> GoPanic \<and> net_ok s' held)"
  using assms
  by (auto simp: dial_def net_ok_def Let_def pooled_def less_Suc_eq split: list.splits option.splits)

lemma close_client_ok:
  assumes "net_ok s (held + {#c#})"
  shows "net_ok (close_client c s) held"
proof -
  have "mset (remove1 c (open_clients s)) = pooled s + held"
    using assms by (simp add: net_ok_def)
  with assms show ?thesis by (auto simp: net_ok_def close_client_def dest: notin_set_remove1 in_set_remove1)
qed

lemma close_fields [simp]:
  "pools (close_client c s) = pools s" "devices (close_client c s) = devices s"
  "next_client (close_client c s) = next_client s"
  by (simp_all add: close_client_def)

lemma close_all_fields [simp]:
  "pools (fold close_client cs s) = pools s" "devices (fold close_client cs s) = devices s"
  by (induction cs arbitrary: s) simp_all

lemma close_all_ok: "net_ok s (held + mset cs) \<Longrightarrow> net_ok (fold close_client cs s) held"
proof (induction cs arbitrary: s)
  case (Cons c cs)
  then have "net_ok (close_client c s) (held + mset cs)"
    by (intro close_client_ok) (simp add: ac_simps)
  with Cons.IH show ?case by simp
qed simp

lemma fill_pool_ok:
  assumes "net_ok s (held + mset cs)" and "fill_pool n cfg cs s = (res, s')"
  shows "pools s' = pools s \<and> devices s' = devices s \<and>
    (case res of Inr cs' \<Rightarrow> net_ok s' (held + mset cs') \<and> length cs' = length cs + n
     | Inl x \<Rightarrow> x \<noteq> GoPanic \<and> net_ok s' held)"
  using assms
proof (induction n arbitrary: cs s)
  case 0
  then show ?case by (auto simp: ret_def)
next
  case (Suc n)
  obtain r s1 where d: "dial (dc_address cfg @ '':'' @ dc_port cfg) s = (r, s1)" by fastforce
  note ok = dial_ok [OF Suc.prems(1) d]
  show ?case
  proof (cases r)
    case (Inr c)
    with ok have "net_ok s1 (held + mset (cs @ [c]))" by (simp add: ac_simps)
    moreover have "fill_pool n cfg (cs @ [c]) s1 = (res, s')"
      using Suc.prems(2) d Inr by (simp add: andThen_def onErr_def)
    ultimately have "pools s' = pools s1 \<and> devices s' = devices s1 \<and>
        (case res of Inr cs' \<Rightarrow> net_ok s' (held + mset cs') \<and> length cs' = length (cs @ [c]) + n
         | Inl x \<Rightarrow> x \<noteq> GoPanic \<and> net_ok s' held)"
      by (rule Suc.IH)
    with ok show ?thesis by (auto split: sum.splits)
  next
    case (Inl x)
    with ok obtain e where "x = Raise e" by (cases x) auto
    with Suc.prems(2) d Inl ok show ?thesis
      by (auto simp: andThen_def onErr_def upd_st_def raise_def intro: close_all_ok)
  qed
qed

lemma newDevicePool_ok:
  assumes "net_ok s held" and "newDevicePool cfg s = (res, s')"
  shows "devices s' = devices s \<and> net_ok s' held \<and>
    (case res of
       Inr p \<Rightarrow> p = length (pools s) \<and> (\<exists>cs. pools s' = pools s @ [\<lparr>dp_config = cfg, dp_clients = cs, dp_cap = nat (dc_pool_size cfg)\<rparr>] \<and>
           length cs = nat (dc_pool_size cfg))
     | Inl x \<Rightarrow> x \<noteq> GoPanic \<and> pools s' = pools s)"
proof -
  obtain r s1 where f: "fill_pool (nat (dc_pool_size cfg)) cfg [] s = (r, s1)" by fastforce
  have "net_ok s (held + mset [])" using assms(1) by simp
  note ok = fill_pool_ok [OF this f]
  show ?thesis
  proof (cases r)
    case (Inl x)
    with f assms(2) ok show ?thesis by (auto simp: newDevicePool_def andThen_def)
  next
    case (Inr cs)
    let ?q = "\<lparr>dp_config = cfg, dp_clients = cs, dp_cap = nat (dc_pool_size cfg)\<rparr>"
    from Inr ok have cs: "net_ok s1 (held + mset cs)" "length cs = nat (dc_pool_size cfg)" by simp_all
    have "net_ok (s1\<lparr>pools := pools s1 @ [?q]\<rparr>) held"
      using cs by (auto simp: net_ok_def pooled_def ac_simps)
    with f assms(2) ok Inr cs(2) show ?thesis
      by (auto simp: newDevicePool_def andThen_def get_st_def upd_st_def ret_def)
  qed
qed

lemma update_ptrs: "snd ` set (AList.update k v xs) \<subseteq> insert v (snd ` set xs)"
  by (induction xs) auto

lemma AddDevice_ok:
  assumes "net_ok s held" and "AddDevice cfg s = (res, s')"
  shows "net_ok s' held \<and> length (pools s) \<le> length (pools s')"
proof (cases "dc_id cfg = []")
  case True
  with assms show ?thesis by (simp add: AddDevice_def raise_def)
next
  case False
  define cfg' where "cfg' = (if dc_pool_size cfg \<le> 0 then cfg\<lparr>dc_pool_size := 5\<rparr> else cfg)"
  obtain r s1 where n: "newDevicePool cfg' s = (r, s1)" by fastforce
  note ok = newDevicePool_ok [OF assms(1) n]
  show ?thesis
  proof (cases r)
    case (Inl x)
    with n assms(2) ok False show ?thesis
      by (auto simp: AddDevice_def Let_def andThen_def cfg'_def [symmetric])
  next
    case (Inr p)
    with n assms(2) False have s': "s' = s1\<lparr>devices := AList.update (dc_id cfg') p (devices s1)\<rparr>"
      by (simp add: AddDevice_def Let_def andThen_def upd_st_def cfg'_def [symmetric])
    from ok Inr have "p < length (pools s1)" by auto
    then have "\<forall>q \<in> snd ` set (AList.update (dc_id cfg') p (devices s1)). q < length (pools s1)"
      using ok update_ptrs [of "dc_id cfg'" p "devices s1"] unfolding net_ok_def by fastforce
    with ok Inr show ?thesis by (auto simp: s' net_ok_def)
  qed
qed

lemma upd_pool_fields [simp]:
  "open_clients (upd_pool p f s) = open_clients s" "next_client (upd_pool p f s) = next_client s"
  "devices (upd_pool p f s) = devices s" "length (pools (upd_pool p f s)) = length (pools s)"
  by (simp_all add: upd_pool_def)

lemma upd_pool_ok:
  assumes "net_ok s held" and "p < length (pools s)"
    and "length (dp_clients (f (pools s ! p))) \<le> dp_cap (f (pools s ! p))"
    and "pooled (upd_pool p f s) + held' = pooled s + held"
  shows "net_ok (upd_pool p f s) held'"
proof -
  have "\<forall>q \<in> set (pools (upd_pool p f s)). length (dp_clients q) \<le> dp_cap q"
    using assms(1,3) set_update_subset_insert [of "pools s" p "f (pools s ! p)"]
    by (auto simp: net_ok_def upd_pool_def)
  with assms show ?thesis by (simp add: net_ok_def)
qed

lemma GetClient_ok:
  assumes "net_ok s held" and "p < length (pools s)" and "GetClient p s = (res, s')"
  shows "net_ok s' (held + (case res of Some c \<Rightarrow> {#c#} | None \<Rightarrow> {#}))"
proof (cases "dp_clients (pools s ! p)")
  case Nil
  obtain r s1 where d: "dial (dc_address (dp_config (pools s ! p))) s = (r, s1)" by fastforce
  with dial_ok [OF assms(1) d] assms(3) Nil show ?thesis by (auto simp: GetClient_def split: sum.splits)
next
  case (Cons c cs)
  let ?f = "\<lambda>q. q\<lparr>dp_clients := cs\<rparr>"
  have "pooled (upd_pool p ?f s) + mset (dp_clients (pools s ! p)) = pooled s + mset cs"
    using pooled_upd [OF assms(2), of ?f] by simp
  then have "pooled (upd_pool p ?f s) + (held + {#c#}) = pooled s + held"
    using Cons by (simp add: ac_simps)
  moreover have "length (dp_clients (pools s ! p)) \<le> dp_cap (pools s ! p)"
    using assms(1,2) by (simp add: net_ok_def)
  ultimately have "net_ok (upd_pool p ?f s) (held + {#c#})"
    using Cons by (intro upd_pool_ok [OF assms(1,2)]) simp_all
  with Cons assms(3) show ?thesis by (auto simp: GetClient_def)
qed

lemma ReturnClient_ok:
  assumes "net_ok s (held + {#c#})" and "p < length (pools s)"
  shows "net_ok (ReturnClient p (Some c) s) held"
proof (cases "length (dp_clients (pools s ! p)) < dp_cap (pools s ! p)")
  case True
  let ?f = "\<lambda>q. q\<lparr>dp_clients := dp_clients q @ [c]\<rparr>"
  have "pooled (upd_pool p ?f s) + held = pooled s + (held + {#c#})"
    using pooled_upd [OF assms(2), of ?f] by (simp add: ac_simps)
  with True show ?thesis
    using upd_pool_ok [OF assms, of ?f held] by (simp add: ReturnClient_def)
qed (simp add: ReturnClient_def close_client_ok [OF assms(1)])

lemma ClosePool_ok:
  assumes "net_ok s held" and "p < length (pools s)"
  shows "net_ok (ClosePool p s) held" and "dp_clients (pools (ClosePool p s) ! p) = []"
    and "devices (ClosePool p s) = devices s" and "length (pools (ClosePool p s)) = length (pools s)"
proof -
  let ?cs = "dp_clients (pools s ! p)" and ?f = "\<lambda>q. q\<lparr>dp_clients := []\<rparr>"
  have len: "length ?cs \<le> dp_cap (pools s ! p)" using assms by (simp add: net_ok_def)
  then have eq: "ClosePool p s = upd_pool p ?f (fold close_client ?cs s)"
    by (simp add: ClosePool_def)
  have "upd_pool p ?f (close_client c t) = close_client c (upd_pool p ?f t)" for c and t :: "'a net"
    by (simp add: upd_pool_def close_client_def)
  then have swap: "upd_pool p ?f (fold close_client cs t) = fold close_client cs (upd_pool p ?f t)"
    for cs and t :: "'a net"
    by (induction cs arbitrary: t) simp_all
  have "pooled (upd_pool p ?f s) + (held + mset ?cs) = pooled s + held"
    using pooled_upd [OF assms(2), of ?f] by (simp add: ac_simps)
  then have "net_ok (upd_pool p ?f s) (held + mset ?cs)"
    by (intro upd_pool_ok [OF assms]) simp_all
  then show "net_ok (ClosePool p s) held" unfolding eq swap by (rule close_all_ok)
  show "dp_clients (pools (ClosePool p s) ! p) = []" "devices (ClosePool p s) = devices s"
    "length (pools (ClosePool p s)) = length (pools s)"
    using assms(2) by (simp_all add: eq upd_pool_def)
qed

lemma RemoveDevice_ok:
  assumes "net_ok s held" and "RemoveDevice i s = (res, s')"
  shows "net_ok s' held"
proof (cases "map_of (devices s) i")
  case None
  with assms show ?thesis by (simp add: RemoveDevice_def)
next
  case (Some p)
  have "p \<in> snd ` set (devices s)" using map_of_SomeD [OF Some] by force
  then have p: "p < length (pools s)" using assms(1) unfolding net_ok_def by blast
  from Some assms(2) have s': "s' = (ClosePool p s)\<lparr>devices := AList.delete i (devices s)\<rparr>"
    by (simp add: RemoveDevice_def)
  show ?thesis
    using ClosePool_ok [OF assms(1) p] by (auto simp: s' net_ok_def AList.delete_eq)
qed

lemma CloseManager_ok:
  assumes "net_ok s held"
  shows "net_ok (CloseManager s) held"
proof -
  have "net_ok (fold (\<lambda>(i, p). ClosePool p) ds t) held"
    if "net_ok t held" "\<forall>(i, p) \<in> set ds. p < length (pools t)" for ds t
    using that
  proof (induction ds arbitrary: t)
    case (Cons d ds)
    obtain i p where d: "d = (i, p)" by fastforce
    with Cons.prems have p: "p < length (pools t)" by simp
    note c = ClosePool_ok [OF Cons.prems(1) p]
    with Cons d show ?case by simp
  qed simp
  moreover have "\<forall>(i, p) \<in> set (devices s). p < length (pools s)"
    using assms by (force simp: net_ok_def)
  ultimately show ?thesis unfolding CloseManager_def using assms by blast
qed

section \<open>Interleavings\<close>

text \<open>Callers borrow and return connections in any order, while devices are added and removed.\<close>

inductive net_step :: "'r net \<times> (nat \<times> nat) list \<Rightarrow> 'r net \<times> (nat \<times> nat) list \<Rightarrow> bool" where
  add: "AddDevice cfg s = (res, s') \<Longrightarrow> net_step (s, lent) (s', lent)"
| remove: "RemoveDevice i s = (res, s') \<Longrightarrow> net_step (s, lent) (s', lent)"
| borrow: "p < length (pools s) \<Longrightarrow> GetClient p s = (Some c, s') \<Longrightarrow> net_step (s, lent) (s', (p, c) # lent)"
| refuse: "p < length (pools s) \<Longrightarrow> GetClient p s = (None, s') \<Longrightarrow> net_step (s, lent) (s', lent)"
| give_back: "(p, c) \<in> set lent \<Longrightarrow> net_step (s, lent) (ReturnClient p (Some c) s, remove1 (p, c) lent)"
| shutdown: "net_step (s, lent) (CloseManager s, lent)"

inductive net_reachable :: "'r net \<times> (nat \<times> nat) list \<Rightarrow> bool" where
  start: "net_reachable (NewManager r ds, [])"
| step: "net_reachable x \<Longrightarrow> net_step x y \<Longrightarrow> net_reachable y"

lemma pools_grow:
  "GetClient p s = (res, s') \<Longrightarrow> length (pools s') = length (pools s)"
  "length (pools (ReturnClient p c s)) = length (pools s)"
  "length (pools (ClosePool p s)) = length (pools s)"
  by (auto simp: GetClient_def ReturnClient_def ClosePool_def dial_def Let_def
      split: list.splits option.splits sum.splits)

lemma CloseManager_pools: "length (pools (CloseManager s)) = length (pools s)"
proof -
  have "length (pools (fold (\<lambda>(i, p). ClosePool p) ds t)) = length (pools t)" for ds and t :: "'a net"
  proof (induction ds arbitrary: t)
    case (Cons d ds)
    then show ?case by (cases d) (simp add: pools_grow)
  qed simp
  then show ?thesis by (simp add: CloseManager_def)
qed

lemma RemoveDevice_pools: "RemoveDevice i s = (res, s') \<Longrightarrow> length (pools s') = length (pools s)"
  by (auto simp: RemoveDevice_def pools_grow split: option.splits)

text \<open>The invariant of the whole: conservation, and every lent connection came from a pool of
  the heap.\<close>

definition net_inv :: "'r net \<times> (nat \<times> nat) list \<Rightarrow> bool" where
  "net_inv x \<longleftrightarrow> net_ok (fst x) (mset (map snd (snd x))) \<and> (\<forall>b \<in> set (snd x). fst b < length (pools (fst x)))"

lemma net_inv_step:
  assumes "net_step x y" and "net_inv x"
  shows "net_inv y"
  using assms
proof (cases rule: net_step.cases)
  case (give_back p c lent s)
  have c: "mset (map snd lent) = mset (map snd (remove1 (p, c) lent)) + {#c#}"
  proof -
    have "mset lent = mset (remove1 (p, c) lent) + {#(p, c)#}" using give_back(3) by simp
    then have "image_mset snd (mset lent) = image_mset snd (mset (remove1 (p, c) lent) + {#(p, c)#})" by (rule arg_cong)
    then show ?thesis by (simp only: image_mset_union image_mset_single snd_conv mset_map)
  qed
  with assms(2) give_back have "net_ok s (mset (map snd (remove1 (p, c) lent)) + {#c#})" "p < length (pools s)"
    by (auto simp: net_inv_def)
  note r = ReturnClient_ok [OF this]
  show ?thesis
    using assms(2) give_back r pools_grow(2) [of p "Some c" s]
    by (auto simp: net_inv_def dest: notin_set_remove1 in_set_remove1)
next
  case (add cfg s res s' lent)
  with assms(2) AddDevice_ok [of s "mset (map snd lent)" cfg res s'] show ?thesis by (fastforce simp: net_inv_def)
next
  case (remove i s res s' lent)
  with assms(2) RemoveDevice_ok [of s "mset (map snd lent)" i res s'] RemoveDevice_pools [of i s res s'] show ?thesis
    by (auto simp: net_inv_def)
next
  case (borrow p s c s' lent)
  with assms(2) GetClient_ok [of s "mset (map snd lent)" p "Some c" s'] pools_grow(1) [of p s "Some c" s'] show ?thesis
    by (auto simp: net_inv_def)
next
  case (refuse p s s' lent)
  with assms(2) GetClient_ok [of s "mset (map snd lent)" p None s'] pools_grow(1) [of p s None s'] show ?thesis
    by (auto simp: net_inv_def)
next
  case (shutdown s lent)
  with assms(2) CloseManager_ok [of s "mset (map snd lent)"] CloseManager_pools [of s] show ?thesis
    by (auto simp: net_inv_def)
qed

lemma net_inv_reachable: "net_reachable x \<Longrightarrow> net_inv x"
proof (induction rule: net_reachable.induct)
  case (start r ds)
  show ?case by (simp add: net_inv_def net_ok_def NewManager_def pooled_def)
next
  case (step x y)
  then show ?case by (blast intro: net_inv_step)
qed

section \<open>Properties\<close>

text \<open>A router with two connections, one of them lent.\<close>

definition demo_config :: DeviceConfig where
  "demo_config =
     \<lparr>dc_id = ''r1'', dc_name = [], dc_address = ''10.0.0.1'', dc_port = ''8728'', dc_username = ''api'',
      dc_password = ''pw'', dc_pool_size = 2, dc_ispid = ''isp'', dc_description = []\<rparr>"

definition demo_pool :: "nat list \<Rightarrow> DevicePool" where
  "demo_pool cs = \<lparr>dp_config = demo_config, dp_clients = cs, dp_cap = 2\<rparr>"

definition demo_net :: "nat list \<Rightarrow> unit net" where
  "demo_net cs =
     \<lparr>pools = [demo_pool cs], devices = [(''r1'', 0)], dials = [], dialed = [''10.0.0.1:8728'', ''10.0.0.1:8728''],
      next_client = 2, open_clients = [1, 0], router = ()\<rparr>"

lemma demo_net_reachable: "net_reachable (demo_net [1], [(0, 0)])"
proof -
  have "AddDevice demo_config (NewManager () []) = (Inr (), demo_net [0, 1])" by code_simp
  from net_reachable.step [OF net_reachable.start net_step.add [OF this]]
  have 1: "net_reachable (demo_net [0, 1], [])" .
  have "GetClient 0 (demo_net [0, 1]) = (Some 0, demo_net [1])" by code_simp
  moreover have "0 < length (pools (demo_net [0, 1]))" by (simp add: demo_net_def)
  ultimately show ?thesis by (intro net_reachable.step [OF 1 net_step.borrow])
qed

text \<open>C23.  However borrowing, returning, adding, removing and shutting down interleave: no
  connection is in two hands (the connections callers hold are distinct, and none of them is
  idle in a pool), every connection held or idle is open, every open connection is held or
  idle, and no pool keeps more idle connections than its size.\<close>

theorem pool_conservation:
  assumes "net_reachable (s, lent)"
  shows "distinct (map snd lent) \<and> distinct (concat (map dp_clients (pools s))) \<and>
    set (map snd lent) \<inter> set (concat (map dp_clients (pools s))) = {} \<and>
    set (open_clients s) = set (map snd lent) \<union> set (concat (map dp_clients (pools s))) \<and>
    (\<forall>q \<in> set (pools s). length (dp_clients q) \<le> dp_cap q)"
proof -
  let ?idle = "concat (map dp_clients (pools s))" and ?held = "map snd lent"
  have ok: "net_ok s (mset ?held)" using net_inv_reachable [OF assms] by (simp add: net_inv_def)
  then have m: "mset (open_clients s) = mset (?idle @ ?held)" by (simp add: net_ok_def pooled_def)
  moreover have "distinct (open_clients s)" using ok by (simp add: net_ok_def)
  ultimately have "distinct (?idle @ ?held)" by (metis mset_eq_imp_distinct_iff)
  moreover have "set (open_clients s) = set (?idle @ ?held)" using m by (rule mset_eq_setD)
  ultimately show ?thesis using ok by (auto simp: net_ok_def)
qed

text \<open>Adding a device: what \<^verbatim>\<open>newDevicePool\<close> has to do when no dial fails, and when one does.\<close>

lemma fill_pool_run:
  "dials s = [] \<Longrightarrow> fill_pool n cfg cs s =
     (Inr (cs @ [next_client s..<next_client s + n]),
      s\<lparr>dialed := dialed s @ replicate n (dc_address cfg @ '':'' @ dc_port cfg), next_client := next_client s + n,
        open_clients := rev [next_client s..<next_client s + n] @ open_clients s\<rparr>)"
proof (induction n arbitrary: cs s)
  case 0
  then show ?case by (simp add: ret_def)
next
  case (Suc n)
  have d: "dial a s = (Inr (next_client s), s\<lparr>dialed := dialed s @ [a], next_client := next_client s + 1,
      open_clients := next_client s # open_clients s\<rparr>)" for a
    using Suc.prems by (simp add: dial_def Let_def)
  have upt: "[next_client s..<Suc (next_client s + n)] = next_client s # [Suc (next_client s)..<Suc (next_client s + n)]"
    by (simp add: upt_conv_Cons)
  show ?case
    using Suc.prems by (simp add: andThen_def onErr_def d Suc.IH upt del: upt_Suc)
qed

text \<open>Adding a device that answers registers a pool of the configured size (five when it
  is not positive) whose connections are new, distinct and open, dialled at address and port;
  a device without an id is refused with nothing dialled.\<close>

theorem add_device_fills_pool:
  assumes "dials s = []" and "net_ok s held"
  shows "if dc_id cfg = [] then AddDevice cfg s = (Inl (Raise ''device ID cannot be empty''), s)
    else let n = (if dc_pool_size cfg \<le> 0 then 5 else nat (dc_pool_size cfg)); s' = snd (AddDevice cfg s);
             p = length (pools s) in
      fst (AddDevice cfg s) = Inr () \<and> GetDevice (dc_id cfg) s' = (Inr p, s') \<and>
      dp_clients (pools s' ! p) = [next_client s..<next_client s + n] \<and> dp_cap (pools s' ! p) = n \<and>
      set (dp_clients (pools s' ! p)) \<subseteq> set (open_clients s') \<and>
      dialed s' = dialed s @ replicate n (dc_address cfg @ '':'' @ dc_port cfg) \<and> net_ok s' held"
proof (cases "dc_id cfg = []")
  case True
  then show ?thesis by (simp add: AddDevice_def raise_def)
next
  case False
  have "net_ok (snd (AddDevice cfg s)) held"
    using AddDevice_ok [OF assms(2), of cfg "fst (AddDevice cfg s)"] by simp
  with False assms(1) show ?thesis
    by (auto simp: AddDevice_def newDevicePool_def Let_def andThen_def upd_st_def get_st_def ret_def GetDevice_def
        fill_pool_run AList.update_conv')
qed

lemma add_device_undone:
  assumes "net_ok s held" and "AddDevice cfg s = (Inl x, s')"
  shows "x \<noteq> GoPanic \<and> devices s' = devices s \<and> pools s' = pools s \<and>
    mset (open_clients s') = mset (open_clients s)"
proof (cases "dc_id cfg = []")
  case True
  with assms(2) show ?thesis by (auto simp: AddDevice_def raise_def)
next
  case False
  define cfg' where "cfg' = (if dc_pool_size cfg \<le> 0 then cfg\<lparr>dc_pool_size := 5\<rparr> else cfg)"
  obtain r s1 where n: "newDevicePool cfg' s = (r, s1)" by fastforce
  note ok = newDevicePool_ok [OF assms(1) n]
  from n assms(2) False have "r = Inl x" "s' = s1"
    by (auto simp: AddDevice_def Let_def andThen_def upd_st_def cfg'_def [symmetric] split: sum.splits)
  with ok assms(1) show ?thesis by (auto simp: net_ok_def pooled_def)
qed

text \<open>Adding a device is all or nothing: when a dial fails, the connections opened so far
  are closed again, and the manager and the heap of pools are as before.\<close>

theorem add_device_all_or_nothing:
  assumes "net_ok s held" and "AddDevice cfg s = (Inl x, s')"
  shows "x \<noteq> GoPanic \<and> devices s' = devices s \<and> pools s' = pools s \<and>
    mset (open_clients s') = mset (open_clients s)"
  using assms by (rule add_device_undone)

text \<open>Running a command on a pool that has an idle connection dials nothing, sends the
  command with its arguments once, answers what the router answers (its error included), and
  gives the connection back: the pool ends with the same connections, the used one last.\<close>

theorem execute_returns_connection:
  assumes "p < length (pools s)" and "dp_clients (pools s ! p) = c # cs"
    and "length (dp_clients (pools s ! p)) \<le> dp_cap (pools s ! p)"
  shows "Execute run p command args s =
    (case fst (run (router s) (command # args)) of Inl e \<Rightarrow> Inl (Raise e) | Inr rows \<Rightarrow> Inr rows,
     s\<lparr>pools := (pools s)[p := (pools s ! p)\<lparr>dp_clients := cs @ [c]\<rparr>],
       router := snd (run (router s) (command # args))\<rparr>)"
  using assms
  by (cases "run (router s) (command # args)")
    (auto simp: Execute_def GetClient_def ReturnClient_def upd_pool_def split: sum.split)

text \<open>A connection outlives its pool: when a device is removed while a caller holds one of
  its connections, the caller's return puts the connection into the removed pool, where it
  stays open though no device of the manager leads to it any more.\<close>

theorem return_after_remove_leaks:
  assumes "net_reachable (s, lent)" and "(p, c) \<in> set lent" and "map_of (devices s) i = Some p"
    and "distinct (map snd (devices s))" and "0 < dp_cap (pools s ! p)"
    and "RemoveDevice i s = (res, s1)" and "s2 = ReturnClient p (Some c) s1"
  shows "c \<in> set (open_clients s2) \<and> c \<in> set (dp_clients (pools s2 ! p)) \<and> p \<notin> snd ` set (devices s2)"
proof -
  have inv: "net_inv (s, lent)" by (rule net_inv_reachable) (rule assms)
  then have ok: "net_ok s (mset (map snd lent))" and p: "p < length (pools s)"
    using assms(2) by (auto simp: net_inv_def)
  from assms(3,6) have s1: "s1 = (ClosePool p s)\<lparr>devices := AList.delete i (devices s)\<rparr>"
    by (simp add: RemoveDevice_def)
  note cp = ClosePool_ok [OF ok p]
  have cap: "dp_cap (pools (ClosePool p s) ! p) = dp_cap (pools s ! p)"
    using p by (simp add: ClosePool_def upd_pool_def Let_def)
  have p1: "p < length (pools s1)" using p cp(4) by (simp add: s1)
  have empty: "dp_clients (pools s1 ! p) = []" using cp(2) by (simp add: s1)
  have s2: "s2 = upd_pool p (\<lambda>q. q\<lparr>dp_clients := dp_clients q @ [c]\<rparr>) s1"
    using assms(5,7) empty cap by (simp add: ReturnClient_def s1)
  have "c \<in># mset (open_clients s1)"
    using cp(1) assms(2) by (force simp: s1 net_ok_def)
  moreover have "p \<notin> snd ` set (AList.delete i (devices s))"
  proof
    assume "p \<in> snd ` set (AList.delete i (devices s))"
    then obtain j where "(j, p) \<in> set (devices s)" "j \<noteq> i" by (auto simp: AList.delete_eq)
    then show False using map_of_SomeD [OF assms(3)] assms(4) by (fastforce simp: distinct_map inj_on_def)
  qed
  ultimately show ?thesis using p1 empty by (simp add: s2) (simp add: upd_pool_def s1)
qed

theorem pool_conservation_witness:
  "set (open_clients (demo_net [1])) = set (map snd [(0 :: nat, 0)]) \<union> {1}"
  using pool_conservation [OF demo_net_reachable] by (simp add: demo_net_def demo_pool_def)

lemma demo_net_ok: "net_ok (NewManager () ds) {#}"
  by (simp add: net_ok_def NewManager_def pooled_def)

theorem add_device_fills_pool_witness:
  "fst (AddDevice demo_config (NewManager () [])) = Inr () \<and>
   dp_clients (pools (snd (AddDevice demo_config (NewManager () []))) ! 0) = [0, 1]"
  using add_device_fills_pool [OF _ demo_net_ok, of "[]" demo_config]
  by (simp add: NewManager_def demo_config_def Let_def upt_rec)

theorem add_device_all_or_nothing_witness:
  "open_clients (snd (AddDevice demo_config (NewManager () [None, Some ''refused'']))) = [] \<and>
   devices (snd (AddDevice demo_config (NewManager () [None, Some ''refused'']))) = []"
proof -
  let ?s = "NewManager () [None, Some ''refused'']"
  have "AddDevice demo_config ?s = (Inl (Raise ''failed to create client 1: refused''), snd (AddDevice demo_config ?s))"
    by code_simp
  from add_device_all_or_nothing [OF demo_net_ok this] show ?thesis by (simp add: NewManager_def)
qed

theorem execute_returns_connection_witness:
  "Execute (\<lambda>r args. (Inr [[(''name'', ''MikroTik'')]], r)) 0 ''/system/identity/print'' [] (demo_net [0, 1]) =
     (Inr [[(''name'', ''MikroTik'')]], demo_net [1, 0])"
  using execute_returns_connection [of 0 "demo_net [0, 1]" 0 "[1]" "\<lambda>r args. (Inr [[(''name'', ''MikroTik'')]], r)"
      "''/system/identity/print''" "[]"]
  by (simp add: demo_net_def demo_pool_def)

theorem return_after_remove_leaks_witness:
  "0 \<in> set (open_clients (ReturnClient 0 (Some 0) (snd (RemoveDevice ''r1'' (demo_net [1]))))) \<and>
   devices (snd (RemoveDevice ''r1'' (demo_net [1]))) = []"
proof -
  have d: "devices (snd (RemoveDevice ''r1'' (demo_net [1]))) = []" by code_simp
  from return_after_remove_leaks [OF demo_net_reachable, of 0 0 "''r1''", OF _ _ _ _ prod.collapse [symmetric] refl] d
  show ?thesis by (simp add: demo_net_def demo_pool_def)
qed

end
