(* ===== verification/Transactions.thy ===== *)
theory Transactions
  imports Prelude
begin

text \<open>
  Database connections and transactions as the handlers use them through gorm.

  The database server is outside the repository.  What the handlers see of it is its
  answers, so the state holds the committed tables (of any type \<open>'d\<close>), the transaction in
  progress with its own copy of the tables, and a script \<open>faults\<close> of the errors the server
  will answer the coming statements with (\<open>[]\<close>: every statement succeeds).  A failed
  \<^verbatim>\<open>Begin\<close> leaves a handle that answers every statement with the same error, as gorm's does;
  a commit ends its transaction whether it succeeds or not, as \<^verbatim>\<open>database/sql\<close> does.
\<close>

datatype 'd tx_state = NoTx | BrokenTx string | OpenTx 'd

record 'd db_state =
  committed :: 'd
  txn :: "'d tx_state"
  faults :: "string option list"
  db_up :: bool

datatype conn = Db | Tx

type_synonym ('d, 'm, 'a) dbprog = "(('d, 'm) db_state_scheme, string, 'a) prog"

section \<open>Connections and transactions\<close>

text \<open>\<^verbatim>\<open>gdatabase.GetDB(...)\<close>: nil when the connection was never set up.\<close>

definition GetDB :: "('d, 'm) db_state_scheme \<Rightarrow> conn option" where
  "GetDB w = (if db_up w then Some Db else None)"

definition next_fault :: "('d, 'm) db_state_scheme \<Rightarrow> string option \<times> ('d, 'm) db_state_scheme" where
  "next_fault w = (case faults w of [] \<Rightarrow> (None, w) | f # fs \<Rightarrow> (f, w\<lparr>faults := fs\<rparr>))"

definition stmt :: "conn \<Rightarrow> ('d \<Rightarrow> 'a \<times> 'd) \<Rightarrow> ('d, 'm, 'a) dbprog" where
  "stmt c f w =
     (case c of
        Db \<Rightarrow>
          (case next_fault w of
             (Some e, w') \<Rightarrow> (Inl (Raise e), w')
           | (None, w') \<Rightarrow> (Inr (fst (f (committed w'))), w'\<lparr>committed := snd (f (committed w'))\<rparr>))
      | Tx \<Rightarrow>
          (case txn w of
             NoTx \<Rightarrow> (Inl (Raise ''sql: transaction has already been committed or rolled back''), w)
           | BrokenTx e \<Rightarrow> (Inl (Raise e), w)
           | OpenTx d \<Rightarrow>
               (case next_fault w of
                  (Some e, w') \<Rightarrow> (Inl (Raise e), w')
                | (None, w') \<Rightarrow> (Inr (fst (f d)), w'\<lparr>txn := OpenTx (snd (f d))\<rparr>))))"

definition begin_tx :: "('d, 'm, unit) dbprog" where
  "begin_tx w =
     (case next_fault w of
        (Some e, w') \<Rightarrow> (Inl (Raise e), w'\<lparr>txn := BrokenTx e\<rparr>)
      | (None, w') \<Rightarrow> (Inr (), w'\<lparr>txn := OpenTx (committed w')\<rparr>))"

definition rollback :: "(('d, 'm) db_state_scheme, 'e, unit) prog" where
  "rollback w = (Inr (), w\<lparr>txn := NoTx\<rparr>)"

definition commit_tx :: "('d, 'm, unit) dbprog" where
  "commit_tx w =
     (case txn w of
        NoTx \<Rightarrow> (Inl (Raise ''sql: transaction has already been committed or rolled back''), w)
      | BrokenTx e \<Rightarrow> (Inl (Raise e), w)
      | OpenTx d \<Rightarrow>
          (case next_fault w of
             (Some e, w') \<Rightarrow> (Inl (Raise e), w'\<lparr>txn := NoTx\<rparr>)
           | (None, w') \<Rightarrow> (Inr (), w'\<lparr>committed := d, txn := NoTx\<rparr>)))"

text \<open>A parameter \<^verbatim>\<open>tx *gorm.DB\<close> that may be nil falls back on the shared connection; a
  method call through a connection that is nil panics.\<close>

definition tx_or_db :: "conn option \<Rightarrow> ('d, 'm, conn) dbprog" where
  "tx_or_db tx w =
     (case tx of
        Some c \<Rightarrow> (Inr c, w)
      | None \<Rightarrow>
          (case GetDB w of
             Some c \<Rightarrow> (Inr c, w)
           | None \<Rightarrow> (Inl (Raise ''database connection not available''), w)))"

definition deref :: "conn option \<Rightarrow> ('s, 'e, conn) prog" where
  "deref c = (case c of Some c \<Rightarrow> ret c | None \<Rightarrow> go_panic)"

definition wrap_err :: "string \<Rightarrow> ('s, string, 'a) prog \<Rightarrow> ('s, string, 'a) prog" where
  "wrap_err msg m = onErr m (\<lambda>e. raise (msg @ '': '' @ e))"

text \<open>\<^verbatim>\<open>Limit\<close> and \<^verbatim>\<open>Offset\<close>: a negative limit is none, an offset below 1 is none.\<close>

definition paginate :: "int \<Rightarrow> int \<Rightarrow> 'a list \<Rightarrow> 'a list" where
  "paginate limit offset xs =
     (let ys = drop (nat offset) xs in if limit < 0 then ys else take (nat limit) ys)"

end
