(* ===== verification/Mikrotik_Service.thy ===== *)
theory Mikrotik_Service
  imports Device_Pool Transactions
begin

text \<open>
  The service between the device table and the connection manager
  (server/service/mikrotik_manager.go), and the commands it runs on a router
  (server/service/mikrotik.go), the hotspot login among them.  gorm's documented behaviour is
  written out where the service relies on it: a create fills columns that have a default and
  refuses a key that is taken, an update from a struct assigns its non-zero fields.
\<close>

section \<open>Devices\<close>

record MikroTikDevice =
  md_id :: string
  md_name :: "string option"
  md_address :: string
  md_port :: string
  md_username :: string
  md_password :: string
  md_pool_size :: int
  md_status :: string

abbreviation "StatusActive \<equiv> ''active''"
abbreviation "StatusInactive \<equiv> ''inactive''"
abbreviation "StatusMaintenance \<equiv> ''maintenance''"

definition NewMikroTikDevice :: "string \<Rightarrow> string \<Rightarrow> string \<Rightarrow> string \<Rightarrow> string \<Rightarrow> string \<Rightarrow> MikroTikDevice" where
  "NewMikroTikDevice i name address port username password =
     \<lparr>md_id = i, md_name = Some name, md_address = address, md_port = port, md_username = username,
      md_password = password, md_pool_size = 5, md_status = StatusActive\<rparr>"

definition SetName :: "string \<Rightarrow> MikroTikDevice \<Rightarrow> MikroTikDevice" where
  "SetName name d = d\<lparr>md_name := (if name = [] then None else Some name)\<rparr>"

definition GetName :: "MikroTikDevice \<Rightarrow> string" where
  "GetName d = (case md_name d of None \<Rightarrow> [] | Some n \<Rightarrow> n)"

definition IsActive :: "MikroTikDevice \<Rightarrow> bool" where
  "IsActive d \<longleftrightarrow> md_status d = StatusActive"

definition Activate :: "MikroTikDevice \<Rightarrow> MikroTikDevice" where
  "Activate d = d\<lparr>md_status := StatusActive\<rparr>"

definition Deactivate :: "MikroTikDevice \<Rightarrow> MikroTikDevice" where
  "Deactivate d = d\<lparr>md_status := StatusInactive\<rparr>"

definition SetMaintenance :: "MikroTikDevice \<Rightarrow> MikroTikDevice" where
  "SetMaintenance d = d\<lparr>md_status := StatusMaintenance\<rparr>"

text \<open>The defaults of the struct's gorm tags.\<close>

definition with_defaults :: "MikroTikDevice \<Rightarrow> MikroTikDevice" where
  "with_defaults d =
     d\<lparr>md_pool_size := (if md_pool_size d = 0 then 5 else md_pool_size d),
       md_status := (if md_status d = [] then StatusActive else md_status d)\<rparr>"

definition apply_updates :: "MikroTikDevice \<Rightarrow> MikroTikDevice \<Rightarrow> MikroTikDevice" where
  "apply_updates u d =
     \<lparr>md_id = (if md_id u = [] then md_id d else md_id u),
      md_name = (case md_name u of None \<Rightarrow> md_name d | Some n \<Rightarrow> Some n),
      md_address = (if md_address u = [] then md_address d else md_address u),
      md_port = (if md_port u = [] then md_port d else md_port u),
      md_username = (if md_username u = [] then md_username d else md_username u),
      md_password = (if md_password u = [] then md_password d else md_password u),
      md_pool_size = (if md_pool_size u = 0 then md_pool_size d else md_pool_size u),
      md_status = (if md_status u = [] then md_status d else md_status u)\<rparr>"

type_synonym device_table = "MikroTikDevice list"

definition find_device :: "string \<Rightarrow> device_table \<Rightarrow> MikroTikDevice option" where
  "find_device i rows = find (\<lambda>d. md_id d = i) rows"

definition drop_device :: "string \<Rightarrow> device_table \<Rightarrow> device_table" where
  "drop_device i rows = filter (\<lambda>d. md_id d \<noteq> i) rows"

definition put_device :: "string \<Rightarrow> MikroTikDevice \<Rightarrow> device_table \<Rightarrow> device_table" where
  "put_device i d' rows = map (\<lambda>d. if md_id d = i then d' else d) rows"

section \<open>The service\<close>

record 'r svc =
  sv_db :: "device_table db_state"
  sv_net :: "'r net"

type_synonym ('r, 'a) svcprog = "('r svc, string, 'a) prog"

definition on_net :: "('r net, 'e, 'a) prog \<Rightarrow> ('r svc, 'e, 'a) prog" where
  "on_net = zoom sv_net sv_net_update"

definition on_table :: "(device_table \<Rightarrow> 'a \<times> device_table) \<Rightarrow> ('r, 'a) svcprog" where
  "on_table f = zoom sv_db sv_db_update (stmt Db f)"

definition device_config :: "MikroTikDevice \<Rightarrow> DeviceConfig" where
  "device_config d =
     \<lparr>dc_id = md_id d, dc_name = [], dc_address = md_address d, dc_port = md_port d, dc_username = md_username d,
      dc_password = md_password d, dc_pool_size = md_pool_size d, dc_ispid = [], dc_description = []\<rparr>"

definition LoadAllDevices :: "('r, unit) svcprog" where
  "LoadAllDevices =
     andThen (wrap_err ''failed to load devices from database''
        (on_table (\<lambda>rows. (filter IsActive rows, rows)))) (\<lambda>devices.
     forEach (\<lambda>device.
        wrap_err (''failed to add device '' @ md_id device @ '' to manager'')
          (on_net (AddDevice (device_config device)))) devices)"

definition create_device :: "MikroTikDevice \<Rightarrow> ('r, MikroTikDevice) svcprog" where
  "create_device d =
     andThen (on_table (\<lambda>rows.
        if find_device (md_id d) rows = None then (True, rows @ [with_defaults d]) else (False, rows))) (\<lambda>ok.
     if ok then ret (with_defaults d) else raise ''Duplicate entry'')"

definition AddDeviceToManager :: "MikroTikDevice \<Rightarrow> ('r, unit) svcprog" where
  "AddDeviceToManager d =
     andThen (wrap_err ''failed to save device to database'' (create_device d)) (\<lambda>device.
     if IsActive device then
       onErr (on_net (AddDevice (device_config device))) (\<lambda>e.
         andThen (attempt (on_table (\<lambda>rows. ((), drop_device (md_id device) rows)))) (\<lambda>_.
         raise (''failed to add device to manager: '' @ e)))
     else ret ())"

definition UpdateDeviceInManager :: "string \<Rightarrow> MikroTikDevice \<Rightarrow> ('r, unit) svcprog" where
  "UpdateDeviceInManager deviceID updates =
     andThen (wrap_err ''device not found''
        (andThen (on_table (\<lambda>rows. (find_device deviceID rows, rows))) (\<lambda>found.
           case found of None \<Rightarrow> raise ''record not found'' | Some d \<Rightarrow> ret d))) (\<lambda>existing.
     andThen (wrap_err ''failed to update device in database''
        (on_table (\<lambda>rows. ((), put_device deviceID (apply_updates updates existing) rows)))) (\<lambda>_.
     andThen (attempt (on_net (RemoveDevice deviceID))) (\<lambda>_.
     if IsActive updates then
       wrap_err ''failed to re-add device to manager'' (on_net (AddDevice (device_config updates)))
     else ret ())))"

definition RemoveDeviceFromManager :: "string \<Rightarrow> ('r, unit) svcprog" where
  "RemoveDeviceFromManager deviceID =
     andThen (attempt (on_net (RemoveDevice deviceID))) (\<lambda>_.
     wrap_err ''failed to delete device from database''
       (on_table (\<lambda>rows. ((), drop_device deviceID rows))))"

definition GetDevicePool :: "string \<Rightarrow> ('r, nat) netprog" where
  "GetDevicePool = GetDevice"

section \<open>Commands\<close>

definition ExecuteOnDevice ::
  "'r router_run \<Rightarrow> string \<Rightarrow> string \<Rightarrow> string list \<Rightarrow> ('r, reply_row list) netprog" where
  "ExecuteOnDevice run deviceID command args =
     andThen (GetDevicePool deviceID) (\<lambda>pool. Execute run pool command args)"

definition TestDeviceConnection :: "'r router_run \<Rightarrow> string \<Rightarrow> ('r, unit) netprog" where
  "TestDeviceConnection run deviceID =
     andThen (GetDevicePool deviceID) (\<lambda>pool.
     andThen (Execute run pool ''/system/identity/print'' []) (\<lambda>_. ret ()))"

definition GetDeviceStats :: "'r router_run \<Rightarrow> string \<Rightarrow> ('r, reply_row) netprog" where
  "GetDeviceStats run deviceID =
     andThen (GetDevicePool deviceID) (\<lambda>pool.
     andThen (Execute run pool ''/system/resource/print'' []) (\<lambda>resources.
     ret (case resources of r # _ \<Rightarrow> r | [] \<Rightarrow> [])))"

record MikrotikLogin =
  ml_address :: string
  ml_username :: string
  ml_password :: string
  ml_device_id :: string

definition login_args :: "MikrotikLogin \<Rightarrow> string option \<Rightarrow> string \<Rightarrow> string list" where
  "login_args pl mac loginIP =
     [''=ip='' @ loginIP, ''=user='' @ ml_username pl] @
     (if ml_password pl \<noteq> [] then [''=password='' @ ml_password pl] else []) @
     (case mac of Some m \<Rightarrow> [''=mac-address='' @ m] | None \<Rightarrow> [])"

text \<open>The inner function \<^verbatim>\<open>attemptLogin\<close>.\<close>

definition attemptLogin ::
  "'r router_run \<Rightarrow> nat \<Rightarrow> MikrotikLogin \<Rightarrow> string option \<Rightarrow> string \<Rightarrow> ('r, unit) netprog" where
  "attemptLogin run pool pl mac loginIP =
     (if loginIP = [] then raise ''login IP address is empty'' else
      andThen (onErr (Execute run pool ''/ip/hotspot/active/login'' (login_args pl mac loginIP)) (\<lambda>e.
        raise (''hotspot login command failed for IP '' @ loginIP @ '': '' @ e))) (\<lambda>_. ret ()))"

definition all_failed :: "string \<Rightarrow> string \<Rightarrow> string \<Rightarrow> string \<Rightarrow> string" where
  "all_failed toAddress e1 address e2 =
     ''all login attempts failed. Attempt 1 (toAddress: '' @ toAddress @ ''): '' @ e1 @
     ''. Attempt 2 (payload.Address: '' @ address @ ''): '' @ e2"

definition LoginHotspotDeviceByAddress :: "'r router_run \<Rightarrow> MikrotikLogin \<Rightarrow> ('r, unit) netprog" where
  "LoginHotspotDeviceByAddress run pl =
     andThen (onErr (GetDevicePool (ml_device_id pl)) (\<lambda>e. raise (''failed to get device: '' @ e))) (\<lambda>pool.
     andThen (onErr (Execute run pool ''/ip/hotspot/host/print'' [''?address='' @ ml_address pl]) (\<lambda>e.
        raise (''host print command failed: '' @ e))) (\<lambda>hosts.
     case hosts of
       [] \<Rightarrow> raise (''no hotspot host found with address: '' @ ml_address pl)
     | hostEntry # _ \<Rightarrow>
         let toAddress = (case map_of hostEntry ''to-address'' of Some a \<Rightarrow> a | None \<Rightarrow> []);
             mac = map_of hostEntry ''mac-address'' in
         andThen (if toAddress \<noteq> [] then attempt (attemptLogin run pool pl mac toAddress)
                  else ret (Inl ''to-address was not found, skipping first login attempt'')) (\<lambda>first.
         case first of
           Inr _ \<Rightarrow> ret ()
         | Inl e1 \<Rightarrow>
             onErr (attemptLogin run pool pl mac (ml_address pl)) (\<lambda>e2.
               raise (all_failed toAddress e1 (ml_address pl) e2)))))"

section \<open>Commands over a pool that has a connection\<close>

text \<open>The login as a conversation with the router alone: what is sent, in which order, and what
  comes of each answer.\<close>

definition try_login ::
  "'r router_run \<Rightarrow> MikrotikLogin \<Rightarrow> string option \<Rightarrow> string \<Rightarrow> 'r \<Rightarrow> (string + unit) \<times> 'r" where
  "try_login run pl mac ip r =
     (if ip = [] then (Inl ''login IP address is empty'', r) else
      case run r (''/ip/hotspot/active/login'' # login_args pl mac ip) of
        (Inl e, r') \<Rightarrow> (Inl (''hotspot login command failed for IP '' @ ip @ '': '' @ e), r')
      | (Inr _, r') \<Rightarrow> (Inr (), r'))"

definition login_script :: "'r router_run \<Rightarrow> MikrotikLogin \<Rightarrow> 'r \<Rightarrow> (string + unit) \<times> 'r" where
  "login_script run pl r =
     (case run r [''/ip/hotspot/host/print'', ''?address='' @ ml_address pl] of
        (Inl e, r1) \<Rightarrow> (Inl (''host print command failed: '' @ e), r1)
      | (Inr [], r1) \<Rightarrow> (Inl (''no hotspot host found with address: '' @ ml_address pl), r1)
      | (Inr (h # _), r1) \<Rightarrow>
          let a = (case map_of h ''to-address'' of Some a \<Rightarrow> a | None \<Rightarrow> []); mac = map_of h ''mac-address'' in
          (case (if a \<noteq> [] then try_login run pl mac a r1
                 else (Inl ''to-address was not found, skipping first login attempt'', r1)) of
             (Inr _, r2) \<Rightarrow> (Inr (), r2)
           | (Inl e1, r2) \<Rightarrow>
               (case try_login run pl mac (ml_address pl) r2 of
                  (Inr _, r3) \<Rightarrow> (Inr (), r3)
                | (Inl e2, r3) \<Rightarrow> (Inl (all_failed a e1 (ml_address pl) e2), r3))))"

definition as_exit :: "string + 'a \<Rightarrow> string exit + 'a" where
  "as_exit x = (case x of Inl e \<Rightarrow> Inl (Raise e) | Inr a \<Rightarrow> Inr a)"

lemma as_exit_simps [simp]: "as_exit (Inl e) = Inl (Raise e)" "as_exit (Inr a) = Inr a"
  by (simp_all add: as_exit_def)

text \<open>Pool \<open>p\<close> has an idle connection.\<close>

definition ready_pool :: "nat \<Rightarrow> 'r net \<Rightarrow> bool" where
  "ready_pool p s \<longleftrightarrow> p < length (pools s) \<and> dp_clients (pools s ! p) \<noteq> [] \<and>
     length (dp_clients (pools s ! p)) \<le> dp_cap (pools s ! p)"

text \<open>What a command leaves as it was: the connections, the devices, what was dialled; the
  idle connections of the pool may have changed places.\<close>

definition pool_same :: "nat \<Rightarrow> 'r net \<Rightarrow> 'r net \<Rightarrow> bool" where
  "pool_same p s s' \<longleftrightarrow> ready_pool p s' \<and> open_clients s' = open_clients s \<and> devices s' = devices s \<and>
     dialed s' = dialed s \<and> mset (dp_clients (pools s' ! p)) = mset (dp_clients (pools s ! p))"

lemma pool_same_refl: "ready_pool p s \<Longrightarrow> pool_same p s s"
  by (simp add: pool_same_def)

lemma pool_same_trans: "pool_same p s s1 \<Longrightarrow> pool_same p s1 s2 \<Longrightarrow> pool_same p s s2"
  by (simp add: pool_same_def)

lemma Execute_run:
  assumes "ready_pool p s"
  shows "\<exists>s'. Execute run p command args s = (as_exit (fst (run (router s) (command # args))), s') \<and>
    router s' = snd (run (router s) (command # args)) \<and> pool_same p s s'"
proof -
  obtain c cs where c: "dp_clients (pools s ! p) = c # cs"
    using assms by (cases "dp_clients (pools s ! p)") (auto simp: ready_pool_def)
  with assms show ?thesis
    by (cases "run (router s) (command # args)")
      (auto simp: Execute_def GetClient_def ReturnClient_def upd_pool_def ready_pool_def pool_same_def
        as_exit_def split: sum.split)
qed

lemma attemptLogin_run:
  assumes "ready_pool p s"
  shows "\<exists>s'. attemptLogin run p pl mac ip s = (as_exit (fst (try_login run pl mac ip (router s))), s') \<and>
    router s' = snd (try_login run pl mac ip (router s)) \<and> pool_same p s s'"
proof (cases "ip = []")
  case True
  with assms show ?thesis by (simp add: attemptLogin_def raise_def try_login_def pool_same_refl)
next
  case False
  obtain s' where s': "Execute run p ''/ip/hotspot/active/login'' (login_args pl mac ip) s =
      (as_exit (fst (run (router s) (''/ip/hotspot/active/login'' # login_args pl mac ip))), s')"
    "router s' = snd (run (router s) (''/ip/hotspot/active/login'' # login_args pl mac ip))" "pool_same p s s'"
    using Execute_run [OF assms] by blast
  show ?thesis
  proof (cases "run (router s) (''/ip/hotspot/active/login'' # login_args pl mac ip)")
    case (Pair x r)
    with s' False show ?thesis
      by (intro exI [of _ s'], cases x)
        (simp_all add: attemptLogin_def andThen_def onErr_def raise_def ret_def try_login_def)
  qed
qed

lemma login_run:
  assumes "map_of (devices s) (ml_device_id pl) = Some p" and "ready_pool p s"
  shows "\<exists>s'. LoginHotspotDeviceByAddress run pl s = (as_exit (fst (login_script run pl (router s))), s') \<and>
    router s' = snd (login_script run pl (router s)) \<and> pool_same p s s'"
proof -
  let ?q = "[''/ip/hotspot/host/print'', ''?address='' @ ml_address pl]"
  obtain s1 where s1: "Execute run p ''/ip/hotspot/host/print'' [''?address='' @ ml_address pl] s =
      (as_exit (fst (run (router s) ?q)), s1)" "router s1 = snd (run (router s) ?q)" "pool_same p s s1"
    using Execute_run [OF assms(2)] by blast
  obtain x r1 where r1: "run (router s) ?q = (x, r1)" by fastforce
  have dev: "GetDevicePool (ml_device_id pl) s = (Inr p, s)"
    using assms(1) by (simp add: GetDevicePool_def GetDevice_def)
  note start = LoginHotspotDeviceByAddress_def andThen_def onErr_def dev s1(1) r1 login_script_def
  consider (fail) e where "x = Inl e" | (none) "x = Inr []" | (host) h hs where "x = Inr (h # hs)"
    by (metis list.exhaust sum.exhaust)
  then show ?thesis
  proof cases
    case fail
    with s1 r1 show ?thesis by (intro exI [of _ s1]) (simp add: start raise_def)
  next
    case none
    with s1 r1 show ?thesis by (intro exI [of _ s1]) (simp add: start raise_def)
  next
    case host
    define a where "a = (case map_of h ''to-address'' of Some a \<Rightarrow> a | None \<Rightarrow> [])"
    define mac where "mac = map_of h ''mac-address''"
    have ready1: "ready_pool p s1" using s1(3) by (simp add: pool_same_def)
    define f where "f = (if a \<noteq> [] then try_login run pl mac a r1
        else (Inl ''to-address was not found, skipping first login attempt'', r1))"
    obtain s2 where s2: "(if a \<noteq> [] then attempt (attemptLogin run p pl mac a)
         else ret (Inl ''to-address was not found, skipping first login attempt'')) s1 =
        (Inr (fst f) :: string exit + (string + unit), s2)"
      "router s2 = snd f" "pool_same p s1 s2"
    proof (cases "a = []")
      case True
      with that [of s1] s1(2) r1 ready1 show thesis by (simp add: f_def ret_def pool_same_refl)
    next
      case False
      from attemptLogin_run [OF ready1, of run pl mac a] obtain t where
        t: "attemptLogin run p pl mac a s1 = (as_exit (fst (try_login run pl mac a r1)), t)"
          "router t = snd (try_login run pl mac a r1)" "pool_same p s1 t"
        using s1(2) r1 by auto
      show thesis
        using that [of t] t False by (cases "fst (try_login run pl mac a r1)") (simp_all add: f_def attempt_def)
    qed
    obtain y r2 where f: "f = (y, r2)" by fastforce
    have step: "LoginHotspotDeviceByAddress run pl s =
        (case y of Inr _ \<Rightarrow> ret () | Inl e1 \<Rightarrow> onErr (attemptLogin run p pl mac (ml_address pl)) (\<lambda>e2.
               raise (all_failed a e1 (ml_address pl) e2))) s2"
    proof -
      have 1: "onErr (GetDevicePool (ml_device_id pl)) g s = (Inr p, s)" for g
        by (rule onErr_Inr) (rule dev)
      have 2: "onErr (Execute run p ''/ip/hotspot/host/print'' [''?address='' @ ml_address pl]) g s =
          (Inr (h # hs), s1)" for g
        by (rule onErr_Inr) (simp only: s1(1) r1 host fst_conv as_exit_simps)
      have 3: "(if a \<noteq> [] then attempt (attemptLogin run p pl mac a)
         else ret (Inl ''to-address was not found, skipping first login attempt'')) s1 =
         (Inr y :: string exit + (string + unit), s2)"
        by (simp only: s2(1) f fst_conv)
      show ?thesis
        unfolding LoginHotspotDeviceByAddress_def
        by (rule run_step, rule 1, rule run_step, rule 2,
            unfold list.case Let_def a_def [symmetric] mac_def [symmetric], rule run_step, rule 3)
          (simp split: sum.split)
    qed
    have script: "login_script run pl (router s) =
        (case f of (Inr _, r2) \<Rightarrow> (Inr (), r2) | (Inl e1, r2) \<Rightarrow>
               (case try_login run pl mac (ml_address pl) r2 of
                  (Inr _, r3) \<Rightarrow> (Inr (), r3) | (Inl e2, r3) \<Rightarrow> (Inl (all_failed a e1 (ml_address pl) e2), r3)))"
      using host r1 by (simp add: login_script_def a_def [symmetric] mac_def [symmetric] Let_def f_def)
    have same2: "pool_same p s s2" using s1(3) s2(3) by (rule pool_same_trans)
    show ?thesis
    proof (cases y)
      case (Inr u)
      with step script f s2(2) same2 show ?thesis by (intro exI [of _ s2]) (simp add: ret_def)
    next
      case (Inl e1)
      have ready2: "ready_pool p s2" using s2(3) by (simp add: pool_same_def)
      from attemptLogin_run [OF ready2, of run pl mac "ml_address pl"] obtain s3 where
        s3: "attemptLogin run p pl mac (ml_address pl) s2 = (as_exit (fst (try_login run pl mac (ml_address pl) r2)), s3)"
          "router s3 = snd (try_login run pl mac (ml_address pl) r2)" "pool_same p s2 s3"
        using s2(2) f by auto
      obtain z r3 where z: "try_login run pl mac (ml_address pl) r2 = (z, r3)" by fastforce
      have "pool_same p s s3" using same2 s3(3) by (rule pool_same_trans)
      with step script f Inl s3 z show ?thesis
        by (intro exI [of _ s3], cases z) (simp_all add: onErr_def raise_def)
    qed
  qed
qed

section \<open>Properties\<close>


text \<open>A router that knows one host and accepts the login at its to-address.\<close>

definition demo_router :: "unit router_run" where
  "demo_router r words =
     (if hd words = ''/ip/hotspot/host/print'' then
        (Inr [[(''address'', ''10.5.0.9''), (''to-address'', ''10.5.50.9''), (''mac-address'', ''AA:BB'')]], r)
      else if words ! 1 = ''=ip=10.5.50.9'' then (Inr [], r) else (Inl ''unknown host IP'', r))"

definition demo_login :: MikrotikLogin where
  "demo_login = \<lparr>ml_address = ''10.5.0.9'', ml_username = ''bob'', ml_password = [], ml_device_id = ''r1''\<rparr>"


text \<open>What the table operations do when the database answers.\<close>

lemma on_table_run:
  "faults (sv_db s) = [] \<Longrightarrow> on_table f s =
     (Inr (fst (f (committed (sv_db s)))), s\<lparr>sv_db := (sv_db s)\<lparr>committed := snd (f (committed (sv_db s)))\<rparr>\<rparr>)"
  by (simp add: on_table_def zoom_def stmt_def next_fault_def)

lemma drop_new: "find_device i rows = None \<Longrightarrow> drop_device i (rows @ [d]) = rows @ (if md_id d = i then [] else [d])"
  by (auto simp: drop_device_def find_device_def find_None_iff intro: filter_True)

text \<open>Adding a device keeps the table and the manager together: when the database answers
  and the id is new, an active device that the manager cannot connect to is taken out of the
  table again, and the manager has no new device, pool or open connection.\<close>

theorem add_device_compensates:
  assumes "faults (sv_db s) = []" and "find_device (md_id d) (committed (sv_db s)) = None"
    and "net_ok (sv_net s) held" and "AddDeviceToManager d s = (Inl x, s')"
  shows "committed (sv_db s') = committed (sv_db s) \<and> devices (sv_net s') = devices (sv_net s) \<and>
    pools (sv_net s') = pools (sv_net s) \<and> mset (open_clients (sv_net s')) = mset (open_clients (sv_net s))"
proof -
  let ?d = "with_defaults d"
  let ?s = "s\<lparr>sv_db := (sv_db s)\<lparr>committed := committed (sv_db s) @ [?d]\<rparr>\<rparr>"
  have c: "wrap_err m (create_device d) s = (Inr ?d, ?s)" for m
    using assms(1,2) by (simp add: wrap_err_def onErr_def create_device_def andThen_def on_table_run ret_def)
  have id: "md_id ?d = md_id d" by (simp add: with_defaults_def)
  obtain r n where a: "AddDevice (device_config ?d) (sv_net s) = (r, n)" by fastforce
  with assms(1,4) c obtain e where e: "r = Inl e" "IsActive ?d"
    by (cases r) (auto simp: AddDeviceToManager_def andThen_def onErr_def on_net_def zoom_def ret_def split: if_splits)
  note add = a [unfolded e(1)]
  have n: "e \<noteq> GoPanic" "devices n = devices (sv_net s)" "pools n = pools (sv_net s)"
    "mset (open_clients n) = mset (open_clients (sv_net s))"
    using add_device_undone [OF assms(3) add] by auto
  then obtain msg where msg: "e = Raise msg" by (cases e) auto
  have "s' = s\<lparr>sv_db := sv_db s, sv_net := n\<rparr>"
    using assms(1,2,4) c e add msg id
    by (simp add: AddDeviceToManager_def andThen_def onErr_def on_net_def zoom_def attempt_def on_table_run
        raise_def drop_new)
  with n show ?thesis by simp
qed

definition demo_svc :: "device_table \<Rightarrow> string option list \<Rightarrow> unit svc" where
  "demo_svc rows ds =
     \<lparr>sv_db = \<lparr>committed = rows, txn = NoTx, faults = [], db_up = True\<rparr>, sv_net = NewManager () ds\<rparr>"

definition demo_device :: MikroTikDevice where
  "demo_device = NewMikroTikDevice ''r1'' ''tower'' ''10.0.0.1'' ''8728'' ''api'' ''pw''"

theorem add_device_compensates_witness:
  "committed (sv_db (snd (AddDeviceToManager demo_device (demo_svc [] [None, Some ''refused''])))) = []"
proof -
  let ?s = "demo_svc [] [None, Some ''refused'']"
  have "AddDeviceToManager demo_device ?s =
      (Inl (Raise ''failed to add device to manager: failed to create client 1: refused''),
       snd (AddDeviceToManager demo_device ?s))" by code_simp
  from add_device_compensates [OF _ _ _ this, of "{#}"] demo_net_ok show ?thesis
    by (simp add: demo_svc_def find_device_def)
qed

lemma find_put: "find_device i rows \<noteq> None \<Longrightarrow> md_id d = i \<Longrightarrow> find_device i (put_device i d rows) = Some d"
  by (induction rows) (auto simp: find_device_def put_device_def)

text \<open>An update that leaves the status out (so that the table keeps the device active)
  takes the device out of the manager: afterwards the row is still active, and no command
  reaches the device until the devices are loaded again.\<close>

theorem partial_update_drops_device:
  assumes "faults (sv_db s) = []" and "find_device i (committed (sv_db s)) = Some d" and "IsActive d"
    and "md_status updates = []" and "md_id updates = []"
  shows "\<exists>s'. UpdateDeviceInManager i updates s = (Inr (), s') \<and>
    (\<exists>d'. find_device i (committed (sv_db s')) = Some d' \<and> IsActive d') \<and>
    GetDevice i (sv_net s') = (Inl (Raise (''no device with ID '' @ i @ '' found'')), sv_net s')"
proof -
  let ?u = "apply_updates updates d"
  let ?n = "snd (RemoveDevice i (sv_net s))"
  let ?s = "s\<lparr>sv_db := (sv_db s)\<lparr>committed := put_device i ?u (committed (sv_db s))\<rparr>, sv_net := ?n\<rparr>"
  have "attempt (RemoveDevice i) (sv_net s) = (Inr (case fst (RemoveDevice i (sv_net s)) of
      Inl (Raise e) \<Rightarrow> Inl e | Inl GoPanic \<Rightarrow> Inl [] | Inr a \<Rightarrow> Inr a) :: string exit + (string + unit), ?n)"
    by (simp add: attempt_def RemoveDevice_def split: option.split)
  then have "UpdateDeviceInManager i updates s = (Inr (), ?s)"
    using assms
    by (simp add: UpdateDeviceInManager_def andThen_def wrap_err_def onErr_def on_table_run ret_def on_net_def
        zoom_def attempt_def IsActive_def RemoveDevice_def split: option.split)
  moreover have "md_id d = i" using assms(2) by (auto simp: find_device_def find_Some_iff)
  then have "md_id ?u = i" "IsActive ?u"
    using assms(3-5) by (simp_all add: apply_updates_def IsActive_def)
  then have "find_device i (put_device i ?u (committed (sv_db s))) = Some ?u"
    using assms(2) by (intro find_put) auto
  moreover have "map_of (devices ?n) i = None"
    by (auto simp: RemoveDevice_def AList.delete_conv' split: option.split)
  ultimately show ?thesis using \<open>IsActive ?u\<close> by (simp add: GetDevice_def)
qed

theorem partial_update_drops_device_witness:
  "\<exists>s'. UpdateDeviceInManager ''r1''
     \<lparr>md_id = [], md_name = None, md_address = [], md_port = [], md_username = [], md_password = ''new'',
      md_pool_size = 0, md_status = []\<rparr> (demo_svc [demo_device] []) = (Inr (), s') \<and>
     map_of (devices (sv_net s')) ''r1'' = None"
  using partial_update_drops_device [of "demo_svc [demo_device] []" "''r1''" demo_device
      "\<lparr>md_id = [], md_name = None, md_address = [], md_port = [], md_username = [], md_password = ''new'',
      md_pool_size = 0, md_status = []\<rparr>"]
  by (auto simp: demo_svc_def demo_device_def NewMikroTikDevice_def find_device_def IsActive_def GetDevice_def
      split: option.splits)

end
