(* ===== verification/Go_Time.thy ===== *)
theory Go_Time
  imports Go_Strings
begin

text \<open>
  The part of Go's package \<^verbatim>\<open>time\<close> behind the subscription expiry dates: the proleptic
  Gregorian calendar, \<^verbatim>\<open>Format\<close> and \<^verbatim>\<open>ParseInLocation\<close> for the layout
  \<^verbatim>\<open>"Jan 2 2006 15:04:05"\<close>, and \<^verbatim>\<open>Duration\<close> arithmetic on 64-bit integers.  An instant is
  an \<^typ>\<open>int\<close>, nanoseconds since the Unix epoch; a location is a fixed offset from UTC in
  seconds (the deployments' zone, East Africa Time, has no daylight saving).
\<close>

section \<open>64-bit durations\<close>

definition wrap64 :: "int \<Rightarrow> int" where
  "wrap64 x = (x + 2 ^ 63) mod 2 ^ 64 - 2 ^ 63"

lemma wrap64_id: "- (2 ^ 63) \<le> x \<Longrightarrow> x < 2 ^ 63 \<Longrightarrow> wrap64 x = x"
  by (simp add: wrap64_def)

lemma wrap64_range: "- (2 ^ 63) \<le> wrap64 x \<and> wrap64 x < 2 ^ 63"
  by (simp add: wrap64_def)

abbreviation second :: int where "second \<equiv> 1000000000"

text \<open>\<^verbatim>\<open>t.Add(time.Duration(d) * time.Second)\<close>\<close>

definition add_seconds :: "int \<Rightarrow> int \<Rightarrow> int" where
  "add_seconds t d = t + wrap64 (d * second)"

section \<open>The calendar\<close>

definition leap :: "int \<Rightarrow> bool" where
  "leap y \<longleftrightarrow> 4 dvd y \<and> (\<not> 100 dvd y \<or> 400 dvd y)"

text \<open>Days from 1 January of year 1 to 1 January of year \<open>y\<close>.\<close>

definition days_before_year :: "int \<Rightarrow> int" where
  "days_before_year y = 365 * (y - 1) + (y - 1) div 4 - (y - 1) div 100 + (y - 1) div 400"

abbreviation epoch_day :: int where "epoch_day \<equiv> 719162"

definition month_lengths :: "int \<Rightarrow> nat list" where
  "month_lengths y = [31, if leap y then 29 else 28, 31, 30, 31, 30, 31, 31, 30, 31, 30, 31]"

lemma length_month_lengths [simp]: "length (month_lengths y) = 12"
  by (simp add: month_lengths_def)

lemma div_pred:
  fixes y k :: int
  assumes "0 < k"
  shows "y div k - (y - 1) div k = (if k dvd y then 1 else 0)"
proof (cases "k dvd y")
  case True
  then obtain q where q: "y = k * q" by blast
  have "(k * q - 1) div k = q - 1"
    by (rule int_div_pos_eq [where r = "k - 1"]) (use assms in \<open>simp_all add: algebra_simps\<close>)
  with True q assms show ?thesis by simp
next
  case False
  then have r: "y mod k \<noteq> 0" by (simp add: dvd_eq_mod_eq_0)
  have "(y - 1) div k = y div k"
  proof (rule int_div_pos_eq [where r = "y mod k - 1"])
    show "y - 1 = k * (y div k) + (y mod k - 1)" by simp
    show "0 \<le> y mod k - 1" using r assms pos_mod_sign [of k y] by linarith
    show "y mod k - 1 < k" using assms pos_mod_bound [of k y] by linarith
  qed
  with False show ?thesis by simp
qed

lemma year_difference:
  fixes a b c :: int
  assumes "a - a' = p" and "b - b' = q" and "c - c' = r"
  shows "365 * y + a - b + c - (365 * (y - 1) + a' - b' + c') = 365 + p - q + r"
  using assms by (simp add: algebra_simps)

lemma days_before_year_Suc:
  "days_before_year (y + 1) = days_before_year y + int (sum_list (month_lengths y))"
proof -
  let ?d = "\<lambda>k. if k dvd y then 1 else 0 :: int"
  have "days_before_year (y + 1) - days_before_year y = 365 + ?d 4 - ?d 100 + ?d 400"
    unfolding days_before_year_def add_diff_cancel_right'
    by (rule year_difference; rule div_pred; simp)
  moreover have "100 dvd y \<Longrightarrow> 4 dvd y"
    by (rule dvd_trans [of 4 100]) simp_all
  moreover have "400 dvd y \<Longrightarrow> 100 dvd y"
    by (rule dvd_trans [of 100 400]) simp_all
  ultimately have "days_before_year (y + 1) - days_before_year y = (if leap y then 366 else 365)"
    unfolding leap_def by (cases "4 dvd y"; cases "100 dvd y"; cases "400 dvd y") simp_all
  then have "days_before_year (y + 1) = days_before_year y + (if leap y then 366 else 365)"
    by (simp only: diff_eq_eq add.commute)
  then show ?thesis by (simp add: month_lengths_def)
qed

lemma days_before_year_less: "days_before_year y < days_before_year (y + 1)"
  by (simp add: days_before_year_Suc month_lengths_def)

text \<open>The year that holds day \<open>n\<close> (days since 1 January of year 1): start at a year that
  begins no later than \<open>n\<close> and step while the next one does too.\<close>

function year_from :: "int \<Rightarrow> int \<Rightarrow> int" where
  "year_from y n = (if days_before_year (y + 1) \<le> n then year_from (y + 1) n else y)"
  by pat_completeness auto
termination
proof (relation "measure (\<lambda>(y, n). nat (n - days_before_year y))")
  fix y n :: int
  assume "days_before_year (y + 1) \<le> n"
  with days_before_year_less [of y]
  show "((y + 1, n), y, n) \<in> measure (\<lambda>(y, n). nat (n - days_before_year y))" by simp
qed simp

declare year_from.simps [simp del]

definition year_of :: "int \<Rightarrow> int" where
  "year_of n = year_from (if 0 \<le> n then n div 366 + 1 else n div 365) n"

lemma year_from_bounds:
  "days_before_year y \<le> n \<Longrightarrow>
   days_before_year (year_from y n) \<le> n \<and> n < days_before_year (year_from y n + 1)"
proof (induction y n rule: year_from.induct)
  case (1 y n)
  then show ?case by (auto simp: year_from.simps [of y n])
qed

lemma year_start: "days_before_year (if 0 \<le> n then n div 366 + 1 else n div 365) \<le> n"
proof (cases "0 \<le> n")
  case True
  define k where "k = n div 366"
  have "366 * k \<le> n" "0 \<le> k" using True by (simp_all add: k_def)
  moreover have "k div 4 \<le> k" using \<open>0 \<le> k\<close> by linarith
  moreover have "k div 400 \<le> k div 100" using \<open>0 \<le> k\<close> by (simp add: zdiv_mono2)
  ultimately show ?thesis using True by (simp add: days_before_year_def k_def [symmetric])
next
  case False
  define k where "k = n div 365 - 1"
  have "365 * (k + 1) \<le> n" by (simp add: k_def)
  moreover have "k < 0" using False by (simp add: k_def; linarith)
  moreover have "k div 4 \<le> k div 100" using \<open>k < 0\<close> by (simp add: zdiv_mono2_neg)
  moreover have "k div 400 \<le> 0" using \<open>k < 0\<close> by linarith
  ultimately show ?thesis using False by (simp add: days_before_year_def k_def [symmetric])
qed

lemma year_of_bounds: "days_before_year (year_of n) \<le> n \<and> n < days_before_year (year_of n + 1)"
proof -
  have "days_before_year (if 0 \<le> n then n div 366 + 1 else n div 365) \<le> n"
    by (rule year_start)
  then show ?thesis unfolding year_of_def by (rule year_from_bounds)
qed

text \<open>Month (counted from 0) and day of the month (counted from 0) of a day of the year.\<close>

fun scan_months :: "nat list \<Rightarrow> nat \<Rightarrow> nat \<times> nat" where
  "scan_months [] r = (0, r)"
| "scan_months (l # ls) r =
     (if r < l then (0, r) else (case scan_months ls (r - l) of (m, d) \<Rightarrow> (Suc m, d)))"

lemma scan_months_correct:
  "r < sum_list ls \<Longrightarrow> scan_months ls r = (m, d) \<Longrightarrow>
   m < length ls \<and> d < ls ! m \<and> r = sum_list (take m ls) + d"
proof (induction ls arbitrary: r m d)
  case (Cons l ls)
  show ?case
  proof (cases "r < l")
    case True
    with Cons.prems show ?thesis by auto
  next
    case False
    with Cons.prems obtain m' where *: "scan_months ls (r - l) = (m', d)" "m = Suc m'"
      by (auto split: prod.splits)
    moreover from False Cons.prems have "r - l < sum_list ls" by simp
    ultimately show ?thesis using Cons.IH [of "r - l" m' d] False by auto
  qed
qed simp

definition civil :: "int \<Rightarrow> int \<times> nat \<times> nat" where
  "civil n = (let y = year_of n in (y, scan_months (month_lengths y) (nat (n - days_before_year y))))"

text \<open>The inverse: the day number of a date given by year, month and day, both counted
  from 0.\<close>

definition day_number :: "int \<Rightarrow> nat \<Rightarrow> nat \<Rightarrow> int" where
  "day_number y m d = days_before_year y + int (sum_list (take m (month_lengths y)) + d)"

lemma civil_correct:
  assumes "civil n = (y, m, d)"
  shows "m < 12" "d < month_lengths y ! m" "day_number y m d = n"
proof -
  from assms have y: "y = year_of n"
    and s: "scan_months (month_lengths y) (nat (n - days_before_year y)) = (m, d)"
    by (auto simp: civil_def Let_def)
  from year_of_bounds [of n] y have lo: "days_before_year y \<le> n"
    and hi: "n < days_before_year y + int (sum_list (month_lengths y))"
    by (simp_all add: days_before_year_Suc)
  then have "nat (n - days_before_year y) < sum_list (month_lengths y)" by linarith
  from scan_months_correct [OF this s]
  show "m < 12" "d < month_lengths y ! m" "day_number y m d = n"
    using lo by (auto simp: day_number_def)
qed

lemma month_lengths_bound: "m < 12 \<Longrightarrow> month_lengths y ! m \<le> 31"
  by (auto simp: month_lengths_def less_Suc_eq numeral_eq_Suc)

section \<open>Format and ParseInLocation\<close>

definition month_names :: "string list" where
  "month_names = [''Jan'', ''Feb'', ''Mar'', ''Apr'', ''May'', ''Jun'',
                  ''Jul'', ''Aug'', ''Sep'', ''Oct'', ''Nov'', ''Dec'']"

text \<open>The clock reading of instant \<open>t\<close> at offset \<open>z\<close>: day number and second of the day.\<close>

definition local_day :: "int \<Rightarrow> int \<Rightarrow> int" where
  "local_day z t = (t div second + z) div 86400 + epoch_day"

definition local_second :: "int \<Rightarrow> int \<Rightarrow> nat" where
  "local_second z t = nat ((t div second + z) mod 86400)"

definition local_year :: "int \<Rightarrow> int \<Rightarrow> int" where
  "local_year z t = fst (civil (local_day z t))"

text \<open>\<^verbatim>\<open>t.Format("Jan 2 2006 15:04:05")\<close>; Go writes a negative year with a sign and four
  digits.\<close>

definition format_year :: "int \<Rightarrow> string" where
  "format_year y = (if y < 0 then CHR ''-'' # pad4 (nat (- y)) else pad4 (nat y))"

definition format_expiry :: "int \<Rightarrow> int \<Rightarrow> string" where
  "format_expiry z t =
     (case civil (local_day z t) of
        (y, m, d) \<Rightarrow>
          (let s = local_second z t in
           month_names ! m @ '' '' @ show_nat (d + 1) @ '' '' @ format_year y @ '' '' @
           pad2 (s div 3600) @ '':'' @ pad2 (s div 60 mod 60) @ '':'' @ pad2 (s mod 60)))"

text \<open>The pieces of Go's parser: a month name in any case, blanks, a literal byte, a number
  of one or two digits (\<^verbatim>\<open>getnum\<close>), the four-digit year, and the fraction of a second it
  accepts after the seconds although the layout has none.\<close>

fun month_index :: "string list \<Rightarrow> string \<Rightarrow> nat option" where
  "month_index [] s = None"
| "month_index (n # ns) s = (if to_lower n = s then Some 0 else map_option Suc (month_index ns s))"

definition parse_month :: "string \<Rightarrow> (nat \<times> string) option" where
  "parse_month s =
     (if length s < 3 then None
      else (case month_index month_names (to_lower (take 3 s)) of
              None \<Rightarrow> None | Some m \<Rightarrow> Some (m, drop 3 s)))"

definition parse_blank :: "string \<Rightarrow> string option" where
  "parse_blank s =
     (if s \<noteq> [] \<and> hd s \<noteq> CHR '' '' then None else Some (dropWhile (\<lambda>c. c = CHR '' '') s))"

definition parse_byte :: "char \<Rightarrow> string \<Rightarrow> string option" where
  "parse_byte c s = (case s of [] \<Rightarrow> None | x # xs \<Rightarrow> if x = c then Some xs else None)"

definition getnum :: "bool \<Rightarrow> string \<Rightarrow> (nat \<times> string) option" where
  "getnum fixed s =
     (case s of
        [] \<Rightarrow> None
      | a # t \<Rightarrow>
          if \<not> is_digit a then None
          else (case t of
                  b # u \<Rightarrow>
                    if is_digit b then Some (digit_val a * 10 + digit_val b, u)
                    else if fixed then None else Some (digit_val a, t)
                | [] \<Rightarrow> if fixed then None else Some (digit_val a, t)))"

definition parse_year :: "string \<Rightarrow> (nat \<times> string) option" where
  "parse_year s =
     (if length s < 4 \<or> \<not> list_all is_digit (take 4 s) then None
      else Some (read_nat (take 4 s), drop 4 s))"

definition parse_fraction :: "string \<Rightarrow> nat \<times> string" where
  "parse_fraction s =
     (case s of
        p # d # t \<Rightarrow>
          if (p = CHR ''.'' \<or> p = CHR '','') \<and> is_digit d
          then (let ds = takeWhile is_digit (d # t); k = take 9 ds
                in (read_nat k * 10 ^ (9 - length k), dropWhile is_digit (d # t)))
          else (0, s)
      | _ \<Rightarrow> (0, s))"

definition unix_nanos :: "int \<Rightarrow> int \<Rightarrow> nat \<Rightarrow> nat \<Rightarrow> nat \<Rightarrow> nat \<Rightarrow> int" where
  "unix_nanos z y m d sec nsec =
     ((day_number y m d - epoch_day) * 86400 + int sec - z) * second + int nsec"

text \<open>\<^verbatim>\<open>time.ParseInLocation("Jan 2 2006 15:04:05", s, loc)\<close>: \<open>None\<close> is an error.\<close>

definition parse_expiry :: "int \<Rightarrow> string \<Rightarrow> int option" where
  "parse_expiry z s =
     Option.bind (parse_month s) (\<lambda>(m, s).
     Option.bind (parse_blank s) (\<lambda>s.
     Option.bind (getnum False s) (\<lambda>(d, s).
     Option.bind (parse_blank s) (\<lambda>s.
     Option.bind (parse_year s) (\<lambda>(y, s).
     Option.bind (parse_blank s) (\<lambda>s.
     Option.bind (getnum False s) (\<lambda>(h, s).
     if 24 \<le> h then None else
     Option.bind (parse_byte CHR '':'' s) (\<lambda>s.
     Option.bind (getnum True s) (\<lambda>(mi, s).
     if 60 \<le> mi then None else
     Option.bind (parse_byte CHR '':'' s) (\<lambda>s.
     Option.bind (getnum True s) (\<lambda>(sec, s).
     if 60 \<le> sec then None else
     (case parse_fraction s of (nsec, s) \<Rightarrow>
        if s \<noteq> [] then None
        else if d < 1 \<or> month_lengths (int y) ! m < d then None
        else Some (unix_nanos z (int y) m (d - 1) (h * 3600 + mi * 60 + sec) nsec)))))))))))))"

subsection \<open>Parsing what was formatted\<close>

lemma parse_month_name:
  assumes "m < 12"
  shows "parse_month (month_names ! m @ s) = Some (m, s)"
proof -
  from assms have "m = 0 \<or> m = 1 \<or> m = 2 \<or> m = 3 \<or> m = 4 \<or> m = 5 \<or> m = 6 \<or> m = 7 \<or> m = 8 \<or>
    m = 9 \<or> m = 10 \<or> m = 11" by presburger
  then show ?thesis
    by (elim disjE)
      (simp_all add: parse_month_def month_names_def to_lower_def lower_char_def)
qed

lemma parse_blank_1: "s \<noteq> [] \<Longrightarrow> hd s \<noteq> CHR '' '' \<Longrightarrow> parse_blank (CHR '' '' # s) = Some s"
  by (cases s) (simp_all add: parse_blank_def)

lemma getnum_show:
  assumes "n < 100" and "s = [] \<or> \<not> is_digit (hd s)"
  shows "getnum False (show_nat n @ s) = Some (n, s)"
proof (cases "n < 10")
  case True
  with assms(2) show ?thesis by (auto simp: show_nat_1 getnum_def split: list.splits)
next
  case False
  with assms(1) show ?thesis by (simp add: show_nat_2 getnum_def)
qed

lemma getnum_pad2:
  assumes "n < 100"
  shows "getnum fixed (pad2 n @ s) = Some (n, s)"
  using assms by (simp add: pad2_digits getnum_def)

lemma four_digits:
  "((n div 1000 * 10 + n div 100 mod 10) * 10 + n div 10 mod 10) * 10 + n mod 10 = (n :: nat)"
proof -
  have step: "k div 10 * 10 + k mod 10 = k" for k :: nat by simp
  have "n div 1000 = n div 100 div 10" "n div 100 = n div 10 div 10"
    by (simp_all add: div_mult2_eq [symmetric])
  then show ?thesis by (simp only: step)
qed

lemma parse_year_pad4:
  assumes "n < 10000"
  shows "parse_year (pad4 n @ s) = Some (n, s)"
proof -
  have "read_nat (pad4 n) = n"
    unfolding pad4_digits [OF assms] read_nat_def using assms four_digits [of n]
    by (simp add: mult.commute)
  with assms show ?thesis by (simp add: pad4_digits parse_year_def)
qed

lemma parse_blank_show: "parse_blank (CHR '' '' # show_nat n @ s) = Some (show_nat n @ s)"
proof (rule parse_blank_1)
  have "is_digit (hd (show_nat n))" using digits_show_nat [of n] by simp
  then show "hd (show_nat n @ s) \<noteq> CHR '' ''" by auto
qed simp

lemma parse_blank_pad2:
  "n < 100 \<Longrightarrow> parse_blank (CHR '' '' # pad2 n @ s) = Some (pad2 n @ s)"
  by (rule parse_blank_1) (simp_all add: pad2_digits)

lemma parse_blank_pad4:
  "n < 10000 \<Longrightarrow> parse_blank (CHR '' '' # pad4 n @ s) = Some (pad4 n @ s)"
  by (rule parse_blank_1) (simp_all add: pad4_digits)

lemma seconds_of_day: "(s :: nat) div 3600 * 3600 + s div 60 mod 60 * 60 + s mod 60 = s"
proof -
  have "s div 3600 = s div 60 div 60" by (simp add: div_mult2_eq [symmetric])
  then have "s div 3600 * 3600 + s div 60 mod 60 * 60 + s mod 60 =
      (s div 60 div 60 * 60 + s div 60 mod 60) * 60 + s mod 60"
    by (simp only: add_mult_distrib mult.assoc)
  also have "\<dots> = s" by (simp only: div_mult_mod_eq)
  finally show ?thesis .
qed

lemmas parse_steps = parse_month_name parse_blank_show parse_blank_pad2 parse_blank_pad4
  getnum_show getnum_pad2 parse_year_pad4

lemma unix_nanos_local:
  assumes "civil (local_day z t) = (y, m, d)"
  shows "unix_nanos z y m d (local_second z t) 0 = t div second * second"
proof -
  let ?u = "t div second + z"
  have "day_number y m d = ?u div 86400 + epoch_day"
    using civil_correct(3) [OF assms] by (simp add: local_day_def)
  moreover have "int (local_second z t) = ?u mod 86400"
    by (simp add: local_second_def)
  moreover have "?u div 86400 * 86400 + ?u mod 86400 = ?u" by (rule div_mult_mod_eq)
  ultimately show ?thesis by (simp add: unix_nanos_def)
qed

text \<open>Formatting an instant and parsing the text in the same location gives the instant
  back, cut to whole seconds, for every instant of the years 0 to 9999.\<close>

lemma parse_format_expiry:
  assumes "0 \<le> local_year z t" and "local_year z t \<le> 9999"
  shows "parse_expiry z (format_expiry z t) = Some (t div second * second)"
proof -
  obtain y m d where c: "civil (local_day z t) = (y, m, d)" by (cases "civil (local_day z t)") auto
  with assms have y: "0 \<le> y" "nat y < 10000" by (simp_all add: local_year_def)
  note cc = civil_correct [OF c]
  from cc(1,2) have d: "Suc d < 100" using month_lengths_bound [of m y] by linarith
  define s where "s = local_second z t"
  have s: "s < 86400" by (simp add: s_def local_second_def nat_less_iff)
  then have h: "s div 3600 < 24" "s div 60 mod 60 < 60" "s mod 60 < 60"
    by (simp_all add: div_less_iff_less_mult)
  let ?sec = "s div 3600 * 3600 + s div 60 mod 60 * 60 + s mod 60"
  have f: "format_expiry z t =
    month_names ! m @ CHR '' '' # show_nat (Suc d) @ CHR '' '' # pad4 (nat y) @ CHR '' '' #
    pad2 (s div 3600) @ CHR '':'' # pad2 (s div 60 mod 60) @ CHR '':'' # pad2 (s mod 60)"
    using c y by (simp add: format_expiry_def format_year_def s_def Let_def)
  have e: "getnum True (pad2 (s mod 60)) = Some (s mod 60, [])"
    using getnum_pad2 [of "s mod 60" True "[]"] h by simp
  have "parse_expiry z (format_expiry z t) = Some (unix_nanos z y m d ?sec 0)"
    unfolding f parse_expiry_def
    using cc(1,2) y h d
    by (simp add: parse_steps e parse_byte_def parse_fraction_def not_le)
  then show ?thesis
    using unix_nanos_local [OF c] by (simp add: seconds_of_day s_def)
qed

end
