(* ===== verification/Mpesa_Payload.thy ===== *)
theory Mpesa_Payload
  imports Complex_Main Go_Time "HOL-Library.AList" "HOL-Library.List_Lexorder" "HOL-Library.Char_ord"
begin

text \<open>
  The M-Pesa payloads: the callback parser of server/handler/mpesa_callback.go with the
  structs of server/database/model/mpesa.go, and the phone number and password helpers of
  server/handler/mpesa_stk.go.

  A JSON text is its tree (\<^verbatim>\<open>encoding/json\<close> reads and prints the text).  Numbers are float64
  values that are printed exactly (integers up to 2 to the power 53 are).  A struct is filled
  from an object key by key, names compared without regard to case, a null leaves a field as
  it is, and a value of the wrong type is an error.
\<close>

section \<open>JSON\<close>

datatype json =
    JNull
  | JBool bool
  | JNum rat
  | JStr string
  | JArr "json list"
  | JObj "(string \<times> json) list"

text \<open>Reading an object into a Go map and writing it out again: of two equal keys the last one
  stays, and the keys are sorted.\<close>

fun remarshal :: "json \<Rightarrow> json" where
  "remarshal (JArr xs) = JArr (map remarshal xs)"
| "remarshal (JObj fs) =
     JObj (sort_key fst (fold (\<lambda>(k, v). AList.update k v) (map (\<lambda>(k, v). (k, remarshal v)) fs) []))"
| "remarshal j = j"

text \<open>Decoding into Go values; \<open>None\<close> is an error.\<close>

definition dec_string :: "string \<Rightarrow> json \<Rightarrow> string option" where
  "dec_string old j = (case j of JStr s \<Rightarrow> Some s | JNull \<Rightarrow> Some old | _ \<Rightarrow> None)"

definition dec_int :: "int \<Rightarrow> json \<Rightarrow> int option" where
  "dec_int old j =
     (case j of
        JNum q \<Rightarrow> if of_int \<lfloor>q\<rfloor> = q \<and> - (2 ^ 63) \<le> \<lfloor>q\<rfloor> \<and> \<lfloor>q\<rfloor> < 2 ^ 63 then Some \<lfloor>q\<rfloor> else None
      | JNull \<Rightarrow> Some old
      | _ \<Rightarrow> None)"

definition same_name :: "string \<Rightarrow> string \<Rightarrow> bool" where
  "same_name a b \<longleftrightarrow> to_lower a = to_lower b"

primrec dec_fields :: "(string \<Rightarrow> json \<Rightarrow> 'a \<Rightarrow> 'a option) \<Rightarrow> (string \<times> json) list \<Rightarrow> 'a \<Rightarrow> 'a option" where
  "dec_fields f [] x = Some x"
| "dec_fields f (kv # fs) x = Option.bind (f (fst kv) (snd kv) x) (dec_fields f fs)"

definition dec_struct :: "(string \<Rightarrow> json \<Rightarrow> 'a \<Rightarrow> 'a option) \<Rightarrow> 'a \<Rightarrow> json \<Rightarrow> 'a option" where
  "dec_struct f old j = (case j of JObj fs \<Rightarrow> dec_fields f fs old | JNull \<Rightarrow> Some old | _ \<Rightarrow> None)"

text \<open>A field of a struct, read by its decoder.\<close>

definition str_field :: "('a \<Rightarrow> string) \<Rightarrow> ((string \<Rightarrow> string) \<Rightarrow> 'a \<Rightarrow> 'a) \<Rightarrow> json \<Rightarrow> 'a \<Rightarrow> 'a option" where
  "str_field get upd v x = map_option (\<lambda>s. upd (\<lambda>_. s) x) (dec_string (get x) v)"

definition int_field :: "('a \<Rightarrow> int) \<Rightarrow> ((int \<Rightarrow> int) \<Rightarrow> 'a \<Rightarrow> 'a) \<Rightarrow> json \<Rightarrow> 'a \<Rightarrow> 'a option" where
  "int_field get upd v x = map_option (\<lambda>n. upd (\<lambda>_. n) x) (dec_int (get x) v)"

text \<open>What the writer and the reader of a JSON text agree on: the values of type \<open>'a\<close> for which
  \<open>good\<close> holds are read back as they were written.\<close>

locale codec =
  fixes enc :: "'a \<Rightarrow> json" and dec :: "json \<Rightarrow> 'a option" and good :: "'a \<Rightarrow> bool"
  assumes dec_enc: "good x \<Longrightarrow> dec (enc x) = Some x"
begin

lemma enc_inj: "good x \<Longrightarrow> good y \<Longrightarrow> enc x = enc y \<longleftrightarrow> x = y"
  using dec_enc by (metis option.inject)

lemma through_raw: "good x \<Longrightarrow> Option.bind (Some (enc x)) dec = Some x"
  by (simp add: dec_enc)

end

section \<open>The callback\<close>

record CallbackItem =
  ci_name :: string
  ci_value :: json

record StkCallback =
  cb_merchant :: string
  cb_checkout :: string
  cb_result_code :: int
  cb_result_desc :: string
  cb_metadata :: "CallbackItem list option"

record MpesaCallbackPayload =
  pl_merchant :: string
  pl_checkout :: string
  pl_result_code :: int
  pl_result_desc :: string
  pl_amount :: rat
  pl_receipt :: string
  pl_date :: string
  pl_phone :: string

definition dec_item :: "json \<Rightarrow> CallbackItem option" where
  "dec_item = dec_struct (\<lambda>k v x.
     if same_name k ''Name'' then map_option (\<lambda>s. x\<lparr>ci_name := s\<rparr>) (dec_string (ci_name x) v)
     else if same_name k ''Value'' then Some (x\<lparr>ci_value := v\<rparr>)
     else Some x) \<lparr>ci_name = [], ci_value = JNull\<rparr>"

definition dec_items :: "CallbackItem list \<Rightarrow> json \<Rightarrow> CallbackItem list option" where
  "dec_items old j =
     (case j of
        JArr xs \<Rightarrow> if \<forall>x \<in> set xs. dec_item x \<noteq> None then Some (map (the \<circ> dec_item) xs) else None
      | JNull \<Rightarrow> Some []
      | _ \<Rightarrow> None)"

definition dec_metadata :: "CallbackItem list option \<Rightarrow> json \<Rightarrow> CallbackItem list option option" where
  "dec_metadata old j =
     (if j = JNull then Some None
      else map_option Some (dec_struct (\<lambda>k v xs. if same_name k ''Item'' then dec_items xs v else Some xs)
             (case old of Some xs \<Rightarrow> xs | None \<Rightarrow> []) j))"

definition dec_callback :: "StkCallback \<Rightarrow> json \<Rightarrow> StkCallback option" where
  "dec_callback = dec_struct (\<lambda>k v cb.
     if same_name k ''MerchantRequestID'' then map_option (\<lambda>s. cb\<lparr>cb_merchant := s\<rparr>) (dec_string (cb_merchant cb) v)
     else if same_name k ''CheckoutRequestID'' then map_option (\<lambda>s. cb\<lparr>cb_checkout := s\<rparr>) (dec_string (cb_checkout cb) v)
     else if same_name k ''ResultCode'' then map_option (\<lambda>n. cb\<lparr>cb_result_code := n\<rparr>) (dec_int (cb_result_code cb) v)
     else if same_name k ''ResultDesc'' then map_option (\<lambda>s. cb\<lparr>cb_result_desc := s\<rparr>) (dec_string (cb_result_desc cb) v)
     else if same_name k ''CallbackMetadata'' then map_option (\<lambda>m. cb\<lparr>cb_metadata := m\<rparr>) (dec_metadata (cb_metadata cb) v)
     else Some cb)"

definition no_callback :: StkCallback where
  "no_callback = \<lparr>cb_merchant = [], cb_checkout = [], cb_result_code = 0, cb_result_desc = [], cb_metadata = None\<rparr>"

definition dec_raw :: "json \<Rightarrow> StkCallback option" where
  "dec_raw =
     dec_struct (\<lambda>k v cb.
       if same_name k ''Body'' then
         dec_struct (\<lambda>k v cb. if same_name k ''stkCallback'' then dec_callback cb v else Some cb) cb v
       else Some cb) no_callback"

text \<open>\<^verbatim>\<open>fmt.Sprintf("%.0f")\<close>: to the nearest integer, ties to even.\<close>

definition round_even :: "rat \<Rightarrow> int" where
  "round_even q =
     (let f = \<lfloor>q\<rfloor>; r = q - of_int f
      in if r < 1 / 2 then f else if 1 / 2 < r then f + 1 else if even f then f else f + 1)"

definition callback_phone :: "string \<Rightarrow> string" where
  "callback_phone raw =
     (if length raw = 9 \<and> (raw ! 0 = CHR ''7'' \<or> raw ! 0 = CHR ''1'') then ''254'' @ raw
      else if length raw = 12 \<and> take 3 raw = ''254'' then raw
      else if length raw = 10 \<and> raw ! 0 = CHR ''0'' then ''254'' @ drop 1 raw
      else raw)"

text \<open>\<^verbatim>\<open>time.Parse("20060102150405", s)\<close>, formatted as \<^verbatim>\<open>2006-01-02 15:04:05\<close>.\<close>

definition restamp :: "string \<Rightarrow> string option" where
  "restamp s =
     Option.bind (parse_year s) (\<lambda>(y, s).
     Option.bind (getnum True s) (\<lambda>(m, s).
     if m < 1 \<or> 12 < m then None else
     Option.bind (getnum True s) (\<lambda>(d, s).
     Option.bind (getnum False s) (\<lambda>(h, s).
     if 24 \<le> h then None else
     Option.bind (getnum True s) (\<lambda>(mi, s).
     if 60 \<le> mi then None else
     Option.bind (getnum True s) (\<lambda>(sec, s).
     if 60 \<le> sec then None else
     if snd (parse_fraction s) \<noteq> [] then None
     else if d < 1 \<or> month_lengths (int y) ! (m - 1) < d then None
     else Some (pad4 y @ ''-'' @ pad2 m @ ''-'' @ pad2 d @ '' '' @
                pad2 h @ '':'' @ pad2 mi @ '':'' @ pad2 sec)))))))"

definition take_item :: "CallbackItem \<Rightarrow> MpesaCallbackPayload \<Rightarrow> MpesaCallbackPayload" where
  "take_item i p =
     (if ci_name i = ''Amount'' then
        (case ci_value i of JNum q \<Rightarrow> p\<lparr>pl_amount := q\<rparr> | _ \<Rightarrow> p)
      else if ci_name i = ''MpesaReceiptNumber'' then
        (case ci_value i of JStr s \<Rightarrow> p\<lparr>pl_receipt := s\<rparr> | _ \<Rightarrow> p)
      else if ci_name i = ''TransactionDate'' then
        (case ci_value i of
           JStr s \<Rightarrow> p\<lparr>pl_date := (case restamp s of Some t \<Rightarrow> t | None \<Rightarrow> s)\<rparr>
         | _ \<Rightarrow> p)
      else if ci_name i = ''PhoneNumber'' then
        (case ci_value i of JNum q \<Rightarrow> p\<lparr>pl_phone := callback_phone (show_int (round_even q))\<rparr> | _ \<Rightarrow> p)
      else p)"

definition ParseCallback :: "json \<Rightarrow> MpesaCallbackPayload option" where
  "ParseCallback data =
     map_option (\<lambda>cb.
       fold take_item (case cb_metadata cb of Some items \<Rightarrow> items | None \<Rightarrow> [])
         \<lparr>pl_merchant = cb_merchant cb, pl_checkout = cb_checkout cb, pl_result_code = cb_result_code cb,
          pl_result_desc = cb_result_desc cb, pl_amount = 0, pl_receipt = [], pl_date = [], pl_phone = []\<rparr>)
       (dec_raw data)"

section \<open>Helpers of the STK push\<close>

definition formatPhoneNumber :: "string \<Rightarrow> string" where
  "formatPhoneNumber phone =
     (if length phone = 10 \<and> take 1 phone = ''0'' then ''254'' @ drop 1 phone
      else if length phone = 9 \<and> take 1 phone = ''7'' then ''254'' @ phone
      else if length phone = 13 \<and> take 4 phone = ''+254'' then drop 1 phone
      else phone)"

text \<open>\<^verbatim>\<open>base64.StdEncoding\<close>.\<close>

definition base64_char :: "int \<Rightarrow> char" where
  "base64_char n = ''ABCDEFGHIJKLMNOPQRSTUVWXYZabcdefghijklmnopqrstuvwxyz0123456789+/'' ! nat n"

fun base64 :: "string \<Rightarrow> string" where
  "base64 (a # b # c # s) =
     (let n = (of_char a * 256 + of_char b) * 256 + of_char c
      in [base64_char (n div 262144), base64_char (n div 4096 mod 64), base64_char (n div 64 mod 64),
          base64_char (n mod 64)] @ base64 s)"
| "base64 [a, b] =
     (let n = (of_char a * 256 + of_char b) * 4
      in [base64_char (n div 4096), base64_char (n div 64 mod 64), base64_char (n mod 64), CHR ''=''])"
| "base64 [a] =
     (let n = of_char a * 16 in [base64_char (n div 64), base64_char (n mod 64), CHR ''='', CHR ''=''])"
| "base64 [] = []"

definition generatePassword :: "string \<Rightarrow> string \<Rightarrow> string \<Rightarrow> string" where
  "generatePassword shortcode passkey timestamp = base64 (shortcode @ passkey @ timestamp)"

section \<open>Properties\<close>

text \<open>Safaricom's message for a payment, with the amount, receipt, date and phone number.\<close>

definition item_json :: "string \<Rightarrow> json \<Rightarrow> json" where
  "item_json n v = JObj [(''Name'', JStr n), (''Value'', v)]"

definition callback_json :: "string \<Rightarrow> string \<Rightarrow> int \<Rightarrow> string \<Rightarrow> json list \<Rightarrow> json" where
  "callback_json merchant checkout code desc items =
     JObj [(''Body'', JObj [(''stkCallback'', JObj
       [(''MerchantRequestID'', JStr merchant), (''CheckoutRequestID'', JStr checkout),
        (''ResultCode'', JNum (of_int code)), (''ResultDesc'', JStr desc),
        (''CallbackMetadata'', JObj [(''Item'', JArr items)])])])]"

lemma names_differ [simp]:
  "same_name ''CallbackMetadata'' ''MerchantRequestID'' = False" "same_name ''CallbackMetadata'' ''CheckoutRequestID'' = False"
  "same_name ''CallbackMetadata'' ''ResultCode'' = False" "same_name ''CallbackMetadata'' ''ResultDesc'' = False"
  "same_name ''CheckoutRequestID'' ''MerchantRequestID'' = False" "same_name ''ResultCode'' ''MerchantRequestID'' = False"
  "same_name ''ResultCode'' ''CheckoutRequestID'' = False" "same_name ''ResultDesc'' ''MerchantRequestID'' = False"
  "same_name ''ResultDesc'' ''CheckoutRequestID'' = False" "same_name ''ResultDesc'' ''ResultCode'' = False"
  "same_name ''Value'' ''Name'' = False" "same_name k k = True"
  by code_simp+

lemma remarshal_item: "remarshal (item_json n v) = item_json n (remarshal v)"
  by (simp add: item_json_def)

lemma remarshal_callback:
  "remarshal (callback_json m c code d items) =
     JObj [(''Body'', JObj [(''stkCallback'', JObj
       [(''CallbackMetadata'', JObj [(''Item'', JArr (map remarshal items))]), (''CheckoutRequestID'', JStr c),
        (''MerchantRequestID'', JStr m), (''ResultCode'', JNum (of_int code)), (''ResultDesc'', JStr d)])])]"
  by (simp add: callback_json_def)

lemma dec_item_json: "dec_item (item_json n v) = Some \<lparr>ci_name = n, ci_value = v\<rparr>"
  by (simp add: dec_item_def item_json_def dec_struct_def dec_string_def)

lemma dec_items_json:
  "dec_items old (JArr (map (\<lambda>(n, v). item_json n v) items)) =
     Some (map (\<lambda>(n, v). \<lparr>ci_name = n, ci_value = v\<rparr>) items)"
  by (auto simp: dec_items_def dec_item_json)

lemma round_even_int [simp]: "round_even (of_int n) = n"
  by (simp add: round_even_def Let_def)

lemma callback_parses:
  assumes "- (2 ^ 63) \<le> code" and "code < 2 ^ 63"
  shows "ParseCallback (remarshal (callback_json m c code d
      [item_json ''Amount'' (JNum a), item_json ''MpesaReceiptNumber'' (JStr r),
       item_json ''TransactionDate'' (JStr t), item_json ''PhoneNumber'' (JNum (of_int n))])) =
    Some \<lparr>pl_merchant = m, pl_checkout = c, pl_result_code = code, pl_result_desc = d, pl_amount = a,
      pl_receipt = r, pl_date = (case restamp t of Some t' \<Rightarrow> t' | None \<Rightarrow> t),
      pl_phone = callback_phone (show_int n)\<rparr>"
proof -
  let ?items = "[(''Amount'', JNum a), (''MpesaReceiptNumber'', JStr r), (''TransactionDate'', JStr t),
    (''PhoneNumber'', JNum (of_int n))]"
  have items: "map remarshal (map (\<lambda>(n, v). item_json n v) ?items) = map (\<lambda>(n, v). item_json n v) ?items"
    by (simp add: remarshal_item)
  have "dec_raw (remarshal (callback_json m c code d (map (\<lambda>(n, v). item_json n v) ?items))) =
      Some \<lparr>cb_merchant = m, cb_checkout = c, cb_result_code = code, cb_result_desc = d,
        cb_metadata = Some (map (\<lambda>(n, v). \<lparr>ci_name = n, ci_value = v\<rparr>) ?items)\<rparr>"
    using assms
    unfolding remarshal_callback items dec_raw_def no_callback_def
    by (simp add: dec_struct_def dec_callback_def dec_metadata_def dec_items_json [of _ ?items, simplified]
        dec_string_def dec_int_def)
  then show ?thesis by (simp add: ParseCallback_def take_item_def)
qed



text \<open>The last \<open>k\<close> digits of a number.\<close>

primrec digits :: "nat \<Rightarrow> nat \<Rightarrow> string" where
  "digits 0 m = []"
| "digits (Suc k) m = digits k (m div 10) @ [digit_char (m mod 10)]"

lemma length_digits [simp]: "length (digits k m) = k"
  by (induction k arbitrary: m) simp_all

lemma show_nat_block:
  assumes "0 < a" and "m < 10 ^ k"
  shows "show_nat (a * 10 ^ k + m) = show_nat a @ digits k m"
  using assms(2)
proof (induction k arbitrary: m)
  case 0
  then show ?case by simp
next
  case (Suc k)
  have "m div 10 < 10 ^ k" using Suc.prems by (simp add: less_mult_imp_div_less)
  note IH = Suc.IH [OF this]
  have "10 * 1 \<le> 10 * (a * 10 ^ k)" using assms(1) by (intro mult_le_mono2) simp
  moreover have "10 * (a * 10 ^ k) = a * 10 ^ Suc k" by simp
  ultimately have big: "10 \<le> a * 10 ^ Suc k + m" by linarith
  have eq: "a * 10 ^ Suc k + m = 10 * (a * 10 ^ k) + m" by simp
  have "(a * 10 ^ Suc k + m) div 10 = a * 10 ^ k + m div 10" "(a * 10 ^ Suc k + m) mod 10 = m mod 10"
    unfolding eq by simp_all
  with show_nat_step [OF big] IH show ?case by simp
qed

lemma subscriber_digits:
  assumes "m div 10 ^ 8 = 7 \<or> m div 10 ^ 8 = (1 :: nat)"
  shows "\<exists>c \<in> {CHR ''7'', CHR ''1''}. show_nat m = c # digits 8 (m mod 10 ^ 8) \<and>
    show_nat (254 * 10 ^ 9 + m) = ''254'' @ c # digits 8 (m mod 10 ^ 8)"
proof -
  let ?r = "m mod 10 ^ 8"
  have r: "?r < 10 ^ 8" by simp
  have sn: "show_nat 7 = ''7''" "show_nat 1 = ''1''" "show_nat 2547 = ''2547''" "show_nat 2541 = ''2541''"
    by (simp_all add: show_eval)
  from assms show ?thesis
  proof
    assume "m div 10 ^ 8 = 7"
    then have m: "m = 7 * 10 ^ 8 + ?r" "254 * 10 ^ 9 + m = 2547 * 10 ^ 8 + ?r"
      using div_mult_mod_eq [of m "10 ^ 8"] by simp_all
    have "show_nat m = ''7'' @ digits 8 ?r" "show_nat (254 * 10 ^ 9 + m) = ''2547'' @ digits 8 ?r"
      using show_nat_block [OF _ r, of 7] show_nat_block [OF _ r, of 2547] sn unfolding m(2) m(1) [symmetric]
      by simp_all
    then show ?thesis by simp
  next
    assume "m div 10 ^ 8 = 1"
    then have m: "m = 1 * 10 ^ 8 + ?r" "254 * 10 ^ 9 + m = 2541 * 10 ^ 8 + ?r"
      using div_mult_mod_eq [of m "10 ^ 8"] by simp_all
    have "show_nat m = ''1'' @ digits 8 ?r" "show_nat (254 * 10 ^ 9 + m) = ''2541'' @ digits 8 ?r"
      using show_nat_block [OF _ r, of 1] show_nat_block [OF _ r, of 2541] sn unfolding m(2) m(1) [symmetric]
      by simp_all
    then show ?thesis by simp
  qed
qed



end
