(* ===== verification/Payments.thy ===== *)
theory Payments
  imports Mpesa_Payload Transactions
begin

text \<open>
  Orders, payments and service plans (server/database/model), and the service that records a
  payment, server/service/mpesa.go.  Rows are kept in the order of their ids, so the first
  match of a query is the one with the smallest id, as gorm's \<^verbatim>\<open>First\<close> returns it.
\<close>

record ServicePlan =
  sp_id :: int
  sp_name :: string
  sp_price :: int
  sp_duration :: int

record Order =
  or_id :: int
  or_number :: string
  or_status :: string
  or_amount :: int
  or_username :: string
  or_ip :: string
  or_dns :: string
  or_mac :: string
  or_phone :: string
  or_checkout :: string
  or_merchant :: string
  or_response_code :: string
  or_result_desc :: string
  or_isp :: string
  or_zone :: string
  or_device_id :: string
  or_is_home_user :: bool
  or_devices :: int
  or_plan_id :: int

record Payment =
  pm_id :: int
  pm_amount :: rat
  pm_receipt :: string
  pm_phone :: string
  pm_date :: string
  pm_merchant :: string
  pm_checkout :: string
  pm_result_code :: int
  pm_result_desc :: string
  pm_username :: string
  pm_order_id :: int

record app_db =
  orders :: "Order list"
  payments :: "Payment list"
  plans :: "ServicePlan list"
  next_order :: int
  next_payment :: int

type_synonym 'a app = "(app_db db_state, string, 'a) prog"

text \<open>A statement on the connection \<^verbatim>\<open>gdatabase.GetDB(config.AppDB)\<close>, which panics when it is
  nil; a lookup that finds nothing is the error \<^verbatim>\<open>record not found\<close>.\<close>

definition app_stmt :: "(app_db \<Rightarrow> 'a \<times> app_db) \<Rightarrow> 'a app" where
  "app_stmt f = andThen get_st (\<lambda>w. andThen (deref (GetDB w)) (\<lambda>c. stmt c f))"

abbreviation "not_found \<equiv> ''record not found''"

definition first_row :: "(app_db \<Rightarrow> 'a option) \<Rightarrow> 'a app" where
  "first_row f = andThen (app_stmt (\<lambda>d. (f d, d))) (\<lambda>r. case r of Some x \<Rightarrow> ret x | None \<Rightarrow> raise not_found)"

definition order_by_checkout :: "string \<Rightarrow> app_db \<Rightarrow> Order option" where
  "order_by_checkout c d = find (\<lambda>r. or_checkout r = c) (orders d)"

definition result_message :: "int \<Rightarrow> string \<Rightarrow> string" where
  "result_message code desc =
     (if code = 0 then ''Payment received successfully''
      else if code = 1 then ''Insufficient balance''
      else if code = 1001 then ''Payment is being processed''
      else if code = 1002 then ''Payment request is being processed''
      else if code = 1031 then ''Request cancelled by user''
      else if code = 1032 then ''The request was canceled by the user''
      else if code = 1037 then ''Your M-Pesa phone cannot be reached!''
      else if code = 2001 then ''Wrong PIN provided''
      else if code = 17 then ''User account does not exist''
      else if code = 20 then ''User account is inactive''
      else if code = 26 then ''Payment request timed out''
      else ''Payment failed: '' @ desc)"

record save_result =
  sr_status :: string
  sr_ip :: string
  sr_payment :: int
  sr_message :: string

definition new_payment :: "MpesaCallbackPayload \<Rightarrow> Order \<Rightarrow> int \<Rightarrow> Payment" where
  "new_payment p order i =
     \<lparr>pm_id = i, pm_amount = pl_amount p, pm_receipt = pl_receipt p, pm_phone = pl_phone p, pm_date = pl_date p,
      pm_merchant = pl_merchant p, pm_checkout = pl_checkout p, pm_result_code = pl_result_code p,
      pm_result_desc = pl_result_desc p, pm_username = or_username order, pm_order_id = or_id order\<rparr>"

definition insert_payment :: "MpesaCallbackPayload \<Rightarrow> Order \<Rightarrow> app_db \<Rightarrow> int \<times> app_db" where
  "insert_payment p order d =
     (next_payment d,
      d\<lparr>payments := payments d @ [new_payment p order (next_payment d)], next_payment := next_payment d + 1\<rparr>)"

definition save_order :: "Order \<Rightarrow> app_db \<Rightarrow> unit \<times> app_db" where
  "save_order order d = ((), d\<lparr>orders := map (\<lambda>r. if or_id r = or_id order then order else r) (orders d)\<rparr>)"

definition paid_status :: "int \<Rightarrow> string" where
  "paid_status code = (if code = 0 then ''paid'' else ''payment_failed'')"

text \<open>The error of \<^verbatim>\<open>Begin\<close> is not tested: a failed one is noticed by the first statement.  A
  failed commit is returned as it is.\<close>

definition or_rollback :: "'a app \<Rightarrow> 'a app" where
  "or_rollback m = onErr m (\<lambda>e. andThen rollback (\<lambda>_. raise e))"

definition SaveMpesaPayment :: "MpesaCallbackPayload \<Rightarrow> save_result app" where
  "SaveMpesaPayment p =
     andThen (first_row (order_by_checkout (pl_checkout p))) (\<lambda>order.
     andThen (onErr begin_tx (\<lambda>e. ret ())) (\<lambda>_.
     andThen (or_rollback (stmt Tx (insert_payment p order))) (\<lambda>paymentID.
     andThen (or_rollback (stmt Tx (save_order (order\<lparr>or_status := paid_status (pl_result_code p)\<rparr>)))) (\<lambda>_.
     andThen commit_tx (\<lambda>_.
     ret \<lparr>sr_status = (if pl_result_code p = 0 then ''success'' else ''error''), sr_ip = or_ip order,
          sr_payment = paymentID, sr_message = result_message (pl_result_code p) (pl_result_desc p)\<rparr>)))))"

section \<open>Recording a payment\<close>

text \<open>The tables with the payment recorded.\<close>

definition recorded :: "MpesaCallbackPayload \<Rightarrow> Order \<Rightarrow> app_db \<Rightarrow> app_db" where
  "recorded p order d =
     snd (save_order (order\<lparr>or_status := paid_status (pl_result_code p)\<rparr>) (snd (insert_payment p order d)))"

definition no_tx :: "app_db db_state \<Rightarrow> bool" where
  "no_tx w \<longleftrightarrow> (\<forall>d. txn w \<noteq> OpenTx d)"

text \<open>The database answers, and no transaction is open.\<close>

definition app_up :: "app_db db_state \<Rightarrow> bool" where
  "app_up w \<longleftrightarrow> faults w = [] \<and> db_up w \<and> no_tx w"

lemma app_stmt_run: "app_up w \<Longrightarrow> app_stmt (\<lambda>d. (f d, d)) w = (Inr (f (committed w)), w)"
  by (simp add: app_up_def app_stmt_def andThen_def get_st_def GetDB_def deref_def ret_def stmt_def next_fault_def)

lemma first_row_run:
  "app_up w \<Longrightarrow> first_row f w = (case f (committed w) of Some x \<Rightarrow> (Inr x, w) | None \<Rightarrow> (Inl (Raise not_found), w))"
  by (simp add: first_row_def andThen_def app_stmt_run ret_def raise_def split: option.split)

lemma next_fault_same:
  "next_fault w = (f, w') \<Longrightarrow> committed w' = committed w \<and> txn w' = txn w \<and> db_up w' = db_up w"
  by (auto simp: next_fault_def split: list.splits)

lemma first_row_triple:
  "triple (\<lambda>w. committed w = c \<and> no_tx w) (first_row f)
     (\<lambda>x w. f c = Some x \<and> committed w = c \<and> no_tx w) (\<lambda>_ w. committed w = c \<and> no_tx w)"
  by (auto simp: next_fault_same triple_def first_row_def app_stmt_def andThen_def get_st_def GetDB_def deref_def ret_def
      go_panic_def raise_def stmt_def no_tx_def split: prod.splits option.splits)

lemma begin_triple:
  "triple (\<lambda>w. committed w = c \<and> no_tx w) (onErr begin_tx (\<lambda>e. ret ()))
     (\<lambda>_ w. committed w = c \<and> (txn w = OpenTx c \<or> (\<exists>e. txn w = BrokenTx e))) (\<lambda>_ w. committed w = c \<and> no_tx w)"
  by (auto simp: next_fault_same triple_def onErr_def begin_tx_def ret_def split: prod.splits option.splits)

lemma or_rollback_triple:
  "triple (\<lambda>w. committed w = c \<and> (txn w = OpenTx d \<or> (\<exists>e. txn w = BrokenTx e))) (or_rollback (stmt Tx f))
     (\<lambda>x w. x = fst (f d) \<and> committed w = c \<and> txn w = OpenTx (snd (f d))) (\<lambda>_ w. committed w = c \<and> no_tx w)"
  by (auto simp: next_fault_same triple_def or_rollback_def onErr_def stmt_def andThen_def rollback_def raise_def no_tx_def
      split: prod.splits option.splits)

lemma commit_triple:
  "triple (\<lambda>w. committed w = c \<and> txn w = OpenTx d) commit_tx
     (\<lambda>_ w. committed w = d \<and> no_tx w) (\<lambda>_ w. committed w = c \<and> no_tx w)"
  by (auto simp: next_fault_same triple_def commit_tx_def no_tx_def split: prod.splits option.splits)

lemma save_payment_triple:
  "triple (\<lambda>w. committed w = c \<and> no_tx w) (SaveMpesaPayment p)
     (\<lambda>r w. no_tx w \<and> (\<exists>order. order_by_checkout (pl_checkout p) c = Some order \<and> committed w = recorded p order c \<and>
        r = \<lparr>sr_status = (if pl_result_code p = 0 then ''success'' else ''error''), sr_ip = or_ip order,
             sr_payment = next_payment c, sr_message = result_message (pl_result_code p) (pl_result_desc p)\<rparr>))
     (\<lambda>_ w. committed w = c \<and> no_tx w)"
  unfolding SaveMpesaPayment_def
proof (rule triple_andThen [OF first_row_triple], rule triple_andThen)
  fix order
  show "triple (\<lambda>w. order_by_checkout (pl_checkout p) c = Some order \<and> committed w = c \<and> no_tx w)
      (onErr begin_tx (\<lambda>e. ret ()))
      (\<lambda>_ w. order_by_checkout (pl_checkout p) c = Some order \<and> committed w = c \<and>
          (txn w = OpenTx c \<or> (\<exists>e. txn w = BrokenTx e)))
      (\<lambda>_ w. committed w = c \<and> no_tx w)"
    using begin_triple [of c] by (auto simp: triple_def split: prod.splits sum.splits)
next
  fix order :: Order and u :: unit
  let ?o = "order\<lparr>or_status := paid_status (pl_result_code p)\<rparr>"
  let ?r = "\<lparr>sr_status = (if pl_result_code p = 0 then ''success'' else ''error''), sr_ip = or_ip order,
      sr_payment = next_payment c, sr_message = result_message (pl_result_code p) (pl_result_desc p)\<rparr>"
  let ?E = "\<lambda>_ w. committed w = c \<and> no_tx w"
  let ?Q = "\<lambda>r w. no_tx w \<and> (\<exists>order. order_by_checkout (pl_checkout p) c = Some order \<and>
      committed w = recorded p order c \<and>
      r = \<lparr>sr_status = (if pl_result_code p = 0 then ''success'' else ''error''), sr_ip = or_ip order,
             sr_payment = next_payment c, sr_message = result_message (pl_result_code p) (pl_result_desc p)\<rparr>)"
  show "triple (\<lambda>w. order_by_checkout (pl_checkout p) c = Some order \<and> committed w = c \<and>
          (txn w = OpenTx c \<or> (\<exists>e. txn w = BrokenTx e)))
      (andThen (or_rollback (stmt Tx (insert_payment p order))) (\<lambda>paymentID.
       andThen (or_rollback (stmt Tx (save_order ?o))) (\<lambda>_.
       andThen commit_tx (\<lambda>_.
       ret \<lparr>sr_status = (if pl_result_code p = 0 then ''success'' else ''error''), sr_ip = or_ip order,
          sr_payment = paymentID, sr_message = result_message (pl_result_code p) (pl_result_desc p)\<rparr>)))) ?Q ?E"
  proof (cases "order_by_checkout (pl_checkout p) c = Some order")
    case True
    let ?d = "snd (insert_payment p order c)"
    have rest: "triple (\<lambda>w. i = fst (insert_payment p order c) \<and> committed w = c \<and> txn w = OpenTx ?d)
      (andThen (or_rollback (stmt Tx (save_order ?o))) (\<lambda>_. andThen commit_tx (\<lambda>_.
         ret \<lparr>sr_status = (if pl_result_code p = 0 then ''success'' else ''error''), sr_ip = or_ip order,
          sr_payment = i, sr_message = result_message (pl_result_code p) (pl_result_desc p)\<rparr>))) ?Q ?E" for i
    proof (cases "i = next_payment c")
      case i: True
      show ?thesis
        by (rule triple_andThen [OF triple_pre [OF or_rollback_triple [of c ?d]]], blast,
            rule triple_andThen [OF triple_pre [OF commit_triple [of c "snd (save_order ?o ?d)"]]], blast, rule triple_ret)
          (use True i in \<open>auto simp: recorded_def\<close>)
    qed (simp add: triple_def insert_payment_def)
    show ?thesis
      by (rule triple_andThen [OF triple_pre [OF or_rollback_triple [of c c "insert_payment p order"]] rest]) blast
  qed (simp add: triple_def)
qed

text \<open>C20.  Recording a payment is atomic under every pattern of database failures: either the
  service succeeds, and the payment row (with the order's id and user) and the order's new
  status are both committed, or it fails, and neither is.  The order becomes \<^verbatim>\<open>paid\<close> exactly
  when the result code is 0.\<close>

theorem save_payment_atomic:
  assumes "no_tx w" and "SaveMpesaPayment p w = (res, w')"
  shows "no_tx w' \<and>
    (case res of
       Inl _ \<Rightarrow> committed w' = committed w
     | Inr r \<Rightarrow> (\<exists>order. order_by_checkout (pl_checkout p) (committed w) = Some order \<and> sr_ip r = or_ip order \<and>
         payments (committed w') = payments (committed w) @ [new_payment p order (sr_payment r)] \<and>
         orders (committed w') = map (\<lambda>o'. if or_id o' = or_id order
           then order\<lparr>or_status := if pl_result_code p = 0 then ''paid'' else ''payment_failed''\<rparr> else o') (orders (committed w)) \<and>
         (sr_status r = ''success'') = (pl_result_code p = 0)))"
proof (cases res)
  case (Inl x)
  with tripleD(2) [OF save_payment_triple [of "committed w" p], of w x w'] assms show ?thesis by simp
next
  case (Inr r)
  with tripleD(1) [OF save_payment_triple [of "committed w" p], of w r w'] assms
  obtain order where o: "no_tx w'" "order_by_checkout (pl_checkout p) (committed w) = Some order"
    "committed w' = recorded p order (committed w)"
    "r = \<lparr>sr_status = (if pl_result_code p = 0 then ''success'' else ''error''), sr_ip = or_ip order,
       sr_payment = next_payment (committed w), sr_message = result_message (pl_result_code p) (pl_result_desc p)\<rparr>"
    by auto
  show ?thesis
    unfolding Inr sum.case
    by (intro conjI exI [of _ order] o(1,2))
      (simp_all add: o(3,4) recorded_def insert_payment_def save_order_def paid_status_def)
qed

text \<open>An order that is waiting for its payment, for the examples.\<close>

definition demo_plan :: ServicePlan where
  "demo_plan = \<lparr>sp_id = 1, sp_name = ''daily'', sp_price = 50, sp_duration = 86400\<rparr>"

definition demo_order :: Order where
  "demo_order = \<lparr>or_id = 7, or_number = ''ORD-1'', or_status = ''PENDING'', or_amount = 50, or_username = ''bob'',
     or_ip = ''10.5.0.9'', or_dns = [], or_mac = ''AA:BB'', or_phone = ''0708374149'', or_checkout = ''ws_CO_1'',
     or_merchant = ''29115'', or_response_code = ''0'', or_result_desc = ''ok'', or_isp = ''demo'', or_zone = ''Z'',
     or_device_id = ''r1'', or_is_home_user = False, or_devices = 1, or_plan_id = 1\<rparr>"

definition demo_app :: app_db where
  "demo_app = \<lparr>orders = [demo_order], payments = [], plans = [demo_plan], next_order = 8, next_payment = 1\<rparr>"

definition demo_payload :: MpesaCallbackPayload where
  "demo_payload = \<lparr>pl_merchant = ''29115'', pl_checkout = ''ws_CO_1'', pl_result_code = 0, pl_result_desc = ''ok'',
     pl_amount = 50, pl_receipt = ''NLJ7RT61SV'', pl_date = ''2019-12-19 10:21:15'', pl_phone = ''254708374149''\<rparr>"

theorem save_payment_atomic_witness:
  "let w = \<lparr>committed = demo_app, txn = NoTx, faults = [], db_up = True\<rparr> in
     payments (committed (snd (SaveMpesaPayment demo_payload w))) = [new_payment demo_payload demo_order 1] \<and>
     map or_status (orders (committed (snd (SaveMpesaPayment demo_payload w)))) = [''paid'']"
proof -
  let ?w = "\<lparr>committed = demo_app, txn = NoTx, faults = [], db_up = True\<rparr>"
  have "order_by_checkout (pl_checkout demo_payload) (committed ?w) = Some demo_order"
    by (simp add: order_by_checkout_def demo_payload_def demo_app_def demo_order_def)
  moreover have "map_sum (\<lambda>_. ()) sr_payment (fst (SaveMpesaPayment demo_payload ?w)) = Inr 1" by code_simp
  then have "\<exists>r. fst (SaveMpesaPayment demo_payload ?w) = Inr r \<and> sr_payment r = 1"
    by (cases "fst (SaveMpesaPayment demo_payload ?w)") auto
  ultimately show ?thesis
    using save_payment_atomic [of ?w demo_payload, OF _ prod.collapse [symmetric]]
    by (auto simp: no_tx_def demo_app_def demo_payload_def)
qed

end
