(* ===== verification/Radius_DB.thy ===== *)
theory Radius_DB
  imports Go_Time Transactions
begin

text \<open>
  The RADIUS database the hotspot handlers write: the tables \<^verbatim>\<open>radcheck\<close>, \<^verbatim>\<open>radreply\<close> and
  \<^verbatim>\<open>radusergroup\<close> (server/database/model/radius.go), connections and transactions, and the
  SQL helper functions at the end of server/handler/hotspot_user.go.  Text is compared byte by
  byte.
\<close>

section \<open>Tables\<close>

record rad_attr =
  ra_id :: int
  ra_username :: string
  ra_attribute :: string
  ra_op :: string
  ra_value :: string

type_synonym RadCheck = rad_attr
type_synonym RadReply = rad_attr

record RadUserGroup =
  ug_id :: int
  ug_username :: string
  ug_groupname :: string
  ug_priority :: int

record radius_db =
  radcheck :: "RadCheck list"
  radreply :: "RadReply list"
  radusergroup :: "RadUserGroup list"
  next_check :: int
  next_reply :: int
  next_group :: int

text \<open>The world of a handler call: the database, the clock and zone of the process, and the
  order in which Go's \<^verbatim>\<open>range\<close> visits the keys of a map, which the language leaves open.\<close>

record radius_world = "radius_db db_state" +
  clock :: int
  zone :: int
  range_order :: "string list \<Rightarrow> string list"

type_synonym 'a sql = "(radius_world, string, 'a) prog"

section \<open>The SQL statements on the tables\<close>

definition sel_attr :: "string \<Rightarrow> rad_attr list \<Rightarrow> rad_attr list" where
  "sel_attr u rows = filter (\<lambda>r. ra_username r = u) rows"

definition upd_attr :: "string \<Rightarrow> string \<Rightarrow> string \<Rightarrow> string \<Rightarrow> rad_attr list \<Rightarrow> rad_attr list" where
  "upd_attr u a op v rows =
     map (\<lambda>r. if ra_username r = u \<and> ra_attribute r = a then r\<lparr>ra_op := op, ra_value := v\<rparr> else r) rows"

definition del_attr :: "string \<Rightarrow> string \<Rightarrow> rad_attr list \<Rightarrow> rad_attr list" where
  "del_attr u a rows = filter (\<lambda>r. \<not> (ra_username r = u \<and> ra_attribute r = a)) rows"

definition new_attr :: "int \<Rightarrow> string \<Rightarrow> string \<Rightarrow> string \<Rightarrow> string \<Rightarrow> rad_attr" where
  "new_attr i u a op v = \<lparr>ra_id = i, ra_username = u, ra_attribute = a, ra_op = op, ra_value = v\<rparr>"

definition sel_group :: "string \<Rightarrow> RadUserGroup list \<Rightarrow> RadUserGroup list" where
  "sel_group u rows = filter (\<lambda>r. ug_username r = u) rows"

definition upd_group :: "string \<Rightarrow> string \<Rightarrow> int \<Rightarrow> RadUserGroup list \<Rightarrow> RadUserGroup list" where
  "upd_group u g p rows =
     map (\<lambda>r. if ug_username r = u \<and> ug_groupname r = g then r\<lparr>ug_priority := p\<rparr> else r) rows"

definition del_group :: "string \<Rightarrow> string \<Rightarrow> RadUserGroup list \<Rightarrow> RadUserGroup list" where
  "del_group u g rows = filter (\<lambda>r. \<not> (ug_username r = u \<and> ug_groupname r = g)) rows"

definition new_group :: "int \<Rightarrow> string \<Rightarrow> string \<Rightarrow> int \<Rightarrow> RadUserGroup" where
  "new_group i u g p = \<lparr>ug_id = i, ug_username = u, ug_groupname = g, ug_priority = p\<rparr>"

definition ins_check :: "string \<Rightarrow> string \<Rightarrow> string \<Rightarrow> string \<Rightarrow> radius_db \<Rightarrow> radius_db" where
  "ins_check u a op v d =
     d\<lparr>radcheck := radcheck d @ [new_attr (next_check d) u a op v], next_check := next_check d + 1\<rparr>"

definition ins_reply :: "string \<Rightarrow> string \<Rightarrow> string \<Rightarrow> string \<Rightarrow> radius_db \<Rightarrow> radius_db" where
  "ins_reply u a op v d =
     d\<lparr>radreply := radreply d @ [new_attr (next_reply d) u a op v], next_reply := next_reply d + 1\<rparr>"

definition ins_group :: "string \<Rightarrow> string \<Rightarrow> int \<Rightarrow> radius_db \<Rightarrow> radius_db" where
  "ins_group u g p d =
     d\<lparr>radusergroup := radusergroup d @ [new_group (next_group d) u g p], next_group := next_group d + 1\<rparr>"

abbreviation exec_on :: "(radius_db \<Rightarrow> radius_db) \<Rightarrow> radius_db \<Rightarrow> unit \<times> radius_db" where
  "exec_on f d \<equiv> ((), f d)"

abbreviation query_on :: "(radius_db \<Rightarrow> 'a) \<Rightarrow> radius_db \<Rightarrow> 'a \<times> radius_db" where
  "query_on f d \<equiv> (f d, d)"

section \<open>Helper functions for database operations\<close>

definition userExists :: "conn option \<Rightarrow> string \<Rightarrow> bool sql" where
  "userExists tx u =
     andThen (tx_or_db tx) (\<lambda>c.
     andThen (wrap_err ''failed to query user existence''
                (stmt c (query_on (\<lambda>d. length (sel_attr u (radcheck d)))))) (\<lambda>count.
     ret (0 < count)))"

definition insertRadCheck :: "conn option \<Rightarrow> string \<Rightarrow> string \<Rightarrow> string \<Rightarrow> string \<Rightarrow> unit sql" where
  "insertRadCheck tx u a op v =
     (case tx of
        Some c \<Rightarrow> wrap_err ''failed to insert into radcheck'' (stmt c (exec_on (ins_check u a op v)))
      | None \<Rightarrow>
          andThen get_st (\<lambda>w. andThen (deref (GetDB w)) (\<lambda>c.
            wrap_err ''failed to insert into radcheck'' (stmt c (exec_on (ins_check u a op v))))))"

definition insertRadReply :: "conn option \<Rightarrow> string \<Rightarrow> string \<Rightarrow> string \<Rightarrow> string \<Rightarrow> unit sql" where
  "insertRadReply tx u a op v =
     andThen (tx_or_db tx) (\<lambda>c.
       wrap_err ''failed to insert into radreply'' (stmt c (exec_on (ins_reply u a op v))))"

definition insertRadUserGroup :: "conn option \<Rightarrow> string \<Rightarrow> string \<Rightarrow> int \<Rightarrow> unit sql" where
  "insertRadUserGroup tx u g p =
     andThen (tx_or_db tx) (\<lambda>c.
       wrap_err ''failed to insert into radusergroup'' (stmt c (exec_on (ins_group u g p))))"

text \<open>\<^verbatim>\<open>db.Raw(...)\<close> and \<^verbatim>\<open>db.Exec(...)\<close> on \<^verbatim>\<open>GetDB(config.RadiusDB)\<close>.\<close>

definition on_db :: "string \<Rightarrow> (radius_db \<Rightarrow> 'a \<times> radius_db) \<Rightarrow> 'a sql" where
  "on_db msg f = andThen get_st (\<lambda>w. andThen (deref (GetDB w)) (\<lambda>c. wrap_err msg (stmt c f)))"

definition getRadCheckAttributes :: "string \<Rightarrow> RadCheck list sql" where
  "getRadCheckAttributes u =
     on_db ''failed to query radcheck attributes'' (query_on (\<lambda>d. sel_attr u (radcheck d)))"

definition getRadCheckAttributesTx :: "string \<Rightarrow> RadCheck list sql" where
  "getRadCheckAttributesTx u =
     wrap_err ''failed to retrieve radcheck attributes (tx)''
       (stmt Tx (query_on (\<lambda>d. sel_attr u (radcheck d))))"

definition getRadReplyAttributes :: "string \<Rightarrow> RadReply list sql" where
  "getRadReplyAttributes u =
     on_db ''failed to query radreply attributes'' (query_on (\<lambda>d. sel_attr u (radreply d)))"

definition getRadReplyAttributesTx :: "string \<Rightarrow> RadReply list sql" where
  "getRadReplyAttributesTx u =
     wrap_err ''failed to retrieve radreply attributes (tx)''
       (stmt Tx (query_on (\<lambda>d. sel_attr u (radreply d))))"

definition getRadUserGroups :: "string \<Rightarrow> RadUserGroup list sql" where
  "getRadUserGroups u =
     on_db ''failed to query radusergroup memberships'' (query_on (\<lambda>d. sel_group u (radusergroup d)))"

definition getRadUserGroupsTx :: "string \<Rightarrow> RadUserGroup list sql" where
  "getRadUserGroupsTx u =
     wrap_err ''failed to retrieve radusergroup memberships (tx)''
       (stmt Tx (query_on (\<lambda>d. sel_group u (radusergroup d))))"

definition updateRadCheckAttribute :: "string \<Rightarrow> string \<Rightarrow> string \<Rightarrow> string \<Rightarrow> unit sql" where
  "updateRadCheckAttribute u a op v =
     on_db ''failed to update radcheck attribute''
       (exec_on (\<lambda>d. d\<lparr>radcheck := upd_attr u a op v (radcheck d)\<rparr>))"

definition updateRadCheckAttributeTx :: "string \<Rightarrow> string \<Rightarrow> string \<Rightarrow> string \<Rightarrow> unit sql" where
  "updateRadCheckAttributeTx u a op v =
     wrap_err ''failed to update radcheck attribute (tx)''
       (stmt Tx (exec_on (\<lambda>d. d\<lparr>radcheck := upd_attr u a op v (radcheck d)\<rparr>)))"

definition updateRadReplyAttribute :: "string \<Rightarrow> string \<Rightarrow> string \<Rightarrow> string \<Rightarrow> unit sql" where
  "updateRadReplyAttribute u a op v =
     on_db ''failed to update radreply attribute''
       (exec_on (\<lambda>d. d\<lparr>radreply := upd_attr u a op v (radreply d)\<rparr>))"

definition updateRadReplyAttributeTx :: "string \<Rightarrow> string \<Rightarrow> string \<Rightarrow> string \<Rightarrow> unit sql" where
  "updateRadReplyAttributeTx u a op v =
     wrap_err ''failed to update radreply attribute (tx)''
       (stmt Tx (exec_on (\<lambda>d. d\<lparr>radreply := upd_attr u a op v (radreply d)\<rparr>)))"

definition updateRadUserGroup :: "string \<Rightarrow> string \<Rightarrow> int \<Rightarrow> unit sql" where
  "updateRadUserGroup u g p =
     on_db ''failed to update radusergroup''
       (exec_on (\<lambda>d. d\<lparr>radusergroup := upd_group u g p (radusergroup d)\<rparr>))"

definition updateRadUserGroupTx :: "string \<Rightarrow> string \<Rightarrow> int \<Rightarrow> unit sql" where
  "updateRadUserGroupTx u g p =
     wrap_err ''failed to update radusergroup (tx)''
       (stmt Tx (exec_on (\<lambda>d. d\<lparr>radusergroup := upd_group u g p (radusergroup d)\<rparr>)))"

definition deleteRadCheckAttribute :: "string \<Rightarrow> string \<Rightarrow> unit sql" where
  "deleteRadCheckAttribute u a =
     on_db ''failed to delete radcheck attribute''
       (exec_on (\<lambda>d. d\<lparr>radcheck := del_attr u a (radcheck d)\<rparr>))"

definition deleteRadCheckAttributeTx :: "string \<Rightarrow> string \<Rightarrow> unit sql" where
  "deleteRadCheckAttributeTx u a =
     wrap_err ''failed to delete radcheck attribute (tx)''
       (stmt Tx (exec_on (\<lambda>d. d\<lparr>radcheck := del_attr u a (radcheck d)\<rparr>)))"

definition deleteRadReplyAttribute :: "string \<Rightarrow> string \<Rightarrow> unit sql" where
  "deleteRadReplyAttribute u a =
     on_db ''failed to delete radreply attribute''
       (exec_on (\<lambda>d. d\<lparr>radreply := del_attr u a (radreply d)\<rparr>))"

definition deleteRadReplyAttributeTx :: "string \<Rightarrow> string \<Rightarrow> unit sql" where
  "deleteRadReplyAttributeTx u a =
     wrap_err ''failed to delete radreply attribute (tx)''
       (stmt Tx (exec_on (\<lambda>d. d\<lparr>radreply := del_attr u a (radreply d)\<rparr>)))"

definition deleteRadUserGroup :: "string \<Rightarrow> string \<Rightarrow> unit sql" where
  "deleteRadUserGroup u g =
     on_db ''failed to delete radusergroup''
       (exec_on (\<lambda>d. d\<lparr>radusergroup := del_group u g (radusergroup d)\<rparr>))"

definition deleteRadUserGroupTx :: "string \<Rightarrow> string \<Rightarrow> unit sql" where
  "deleteRadUserGroupTx u g =
     wrap_err ''failed to delete radusergroup (tx)''
       (stmt Tx (exec_on (\<lambda>d. d\<lparr>radusergroup := del_group u g (radusergroup d)\<rparr>)))"

definition checkAttributeExists :: "string \<Rightarrow> string \<Rightarrow> bool sql" where
  "checkAttributeExists u a =
     andThen (on_db ''failed to check radcheck attribute existence''
       (query_on (\<lambda>d. length (filter (\<lambda>r. ra_username r = u \<and> ra_attribute r = a) (radcheck d)))))
     (\<lambda>count. ret (0 < count))"

definition replyAttributeExists :: "string \<Rightarrow> string \<Rightarrow> bool sql" where
  "replyAttributeExists u a =
     andThen (on_db ''failed to check radreply attribute existence''
       (query_on (\<lambda>d. length (filter (\<lambda>r. ra_username r = u \<and> ra_attribute r = a) (radreply d)))))
     (\<lambda>count. ret (0 < count))"

definition userGroupExists :: "string \<Rightarrow> string \<Rightarrow> bool sql" where
  "userGroupExists u g =
     andThen (on_db ''failed to check user group existence''
       (query_on (\<lambda>d. length (filter (\<lambda>r. ug_username r = u \<and> ug_groupname r = g) (radusergroup d)))))
     (\<lambda>count. ret (0 < count))"

end
