(* ===== verification/Hotspot.thy ===== *)
theory Hotspot
  imports Radius_DB
begin

text \<open>
  The hotspot user handlers of server/handler/hotspot_user.go: create, read, update and
  delete a user over the three RADIUS tables, and the handlers of single attributes and
  group memberships.  A handler returns a body (\<^verbatim>\<open>gin.H\<close>, an association list here) and an
  HTTP status code.  \<^verbatim>\<open>UpdateHotspotUser\<close> is long; its four parts (password, check
  attributes, reply attributes, groups) are definitions of their own, composed as the
  function composes them.
\<close>

section \<open>Requests and responses\<close>

abbreviation "defaultOp \<equiv> '':=''"
abbreviation "AttrCleartextPassword \<equiv> ''Cleartext-Password''"
abbreviation "AttrAuthType \<equiv> ''Auth-Type''"

record rad_input =
  ri_attribute :: string
  ri_op :: string
  ri_value :: string

record group_input =
  gi_groupname :: string
  gi_priority :: "int option"

text \<open>Slices and pointers that may be nil are options: \<^verbatim>\<open>UpdateHotspotUser\<close> tells a nil
  slice (no change) from an empty one (remove all).\<close>

record HotspotUserInput =
  hu_username :: string
  hu_password :: "string option"
  hu_checks :: "rad_input list option"
  hu_replies :: "rad_input list option"
  hu_groups :: "group_input list option"

record HotspotUser =
  hs_username :: string
  hs_checks :: "RadCheck list"
  hs_replies :: "RadReply list"
  hs_groups :: "RadUserGroup list"

datatype gval = VStr string | VInt int | VStrPtr "string option" | VErr "string option" | VUser HotspotUser

type_synonym gin_h = "(string \<times> gval) list"
type_synonym reply = "gin_h \<times> nat"
type_synonym 'a handler = "(radius_world, reply, 'a) prog"

definition slice :: "'a list option \<Rightarrow> 'a list" where
  "slice xs = (case xs of None \<Rightarrow> [] | Some ys \<Rightarrow> ys)"

definition op_of :: "rad_input \<Rightarrow> string" where
  "op_of a = (if ri_op a = [] then defaultOp else ri_op a)"

definition priority_of :: "group_input \<Rightarrow> int" where
  "priority_of g = (case gi_priority g of None \<Rightarrow> 1 | Some p \<Rightarrow> p)"

definition err :: "string \<Rightarrow> nat \<Rightarrow> reply" where
  "err msg code = ([(''error'', VStr msg)], code)"

text \<open>\<^verbatim>\<open>if err != nil { return err500 }\<close>, and the same inside a transaction, after
  \<^verbatim>\<open>tx.Rollback()\<close>.\<close>

definition or_fail :: "'a sql \<Rightarrow> (string \<Rightarrow> string) \<Rightarrow> 'a handler" where
  "or_fail m msg = onErr m (\<lambda>e. raise (err (msg e) 500))"

definition or_abort :: "'a sql \<Rightarrow> (string \<Rightarrow> string) \<Rightarrow> 'a handler" where
  "or_abort m msg = onErr m (\<lambda>e. andThen rollback (\<lambda>_. raise (err (msg e) 500)))"

definition about :: "string \<Rightarrow> string \<Rightarrow> string \<Rightarrow> string" where
  "about what name e = what @ '' '' @ [CHR 0x27] @ name @ [CHR 0x27] @ '': '' @ e"

text \<open>\<^verbatim>\<open>for key := range m\<close> over the keys of a map.\<close>

definition forRange :: "string list \<Rightarrow> (string \<Rightarrow> unit handler) \<Rightarrow> unit handler" where
  "forRange keys f = andThen get_st (\<lambda>w. forEach f (range_order w keys))"

section \<open>Create\<close>

definition create_password :: "HotspotUserInput \<Rightarrow> unit handler" where
  "create_password input =
     (case hu_password input of
        Some p \<Rightarrow>
          if p \<noteq> [] then
            or_abort (insertRadCheck (Some Tx) (hu_username input) AttrCleartextPassword defaultOp p)
              (\<lambda>e. ''Failed to add password: '' @ e)
          else
            or_abort (insertRadCheck (Some Tx) (hu_username input) AttrAuthType defaultOp ''Accept'')
              (\<lambda>e. ''Failed to add accept: '' @ e)
      | None \<Rightarrow>
          or_abort (insertRadCheck (Some Tx) (hu_username input) AttrAuthType defaultOp ''Accept'')
            (\<lambda>e. ''Failed to add accept: '' @ e))"

text \<open>The inserts and the commit, once the name is known to be free.\<close>

definition create_rows :: "HotspotUserInput \<Rightarrow> unit handler" where
  "create_rows input =
     andThen (create_password input) (\<lambda>_.
     andThen (forEach (\<lambda>a.
        or_abort (insertRadCheck (Some Tx) (hu_username input) (ri_attribute a) (op_of a) (ri_value a))
          (about ''Failed to add check attribute'' (ri_attribute a))) (slice (hu_checks input))) (\<lambda>_.
     andThen (forEach (\<lambda>a.
        or_abort (insertRadReply (Some Tx) (hu_username input) (ri_attribute a) (op_of a) (ri_value a))
          (about ''Failed to add reply attribute'' (ri_attribute a))) (slice (hu_replies input))) (\<lambda>_.
     forEach (\<lambda>g.
        or_abort (insertRadUserGroup (Some Tx) (hu_username input) (gi_groupname g) (priority_of g))
          (about ''Failed to add user to group'' (gi_groupname g))) (slice (hu_groups input)))))"

definition create_body :: "HotspotUserInput \<Rightarrow> reply handler" where
  "create_body input =
     andThen get_st (\<lambda>w.
     andThen (or_fail (andThen (deref (GetDB w)) (\<lambda>_. begin_tx))
                (\<lambda>e. ''Failed to start transaction: '' @ e)) (\<lambda>_.
     andThen (or_abort (userExists (Some Tx) (hu_username input))
                (\<lambda>e. ''Failed to check if user exists: '' @ e)) (\<lambda>exists.
     if exists then andThen rollback (\<lambda>_. raise (err ''User already exists'' 409)) else
     andThen (create_rows input) (\<lambda>_.
     andThen (or_abort commit_tx (\<lambda>e. ''Failed to commit transaction: '' @ e)) (\<lambda>_.
     ret ([(''message'', VStr ''Hotspot user created successfully''),
           (''username'', VStr (hu_username input))], 201))))))"

definition CreateHotspotUser :: "HotspotUserInput \<Rightarrow> radius_world \<Rightarrow> reply outcome \<times> radius_world" where
  "CreateHotspotUser input = finish (create_body input)"

section \<open>Read\<close>

definition require_user :: "string \<Rightarrow> unit handler" where
  "require_user u =
     andThen (or_fail (userExists None u) (\<lambda>e. ''Failed to check if user exists: '' @ e)) (\<lambda>exists.
     if exists then ret () else raise (err ''User not found'' 404))"

definition GetHotspotUser :: "string \<Rightarrow> radius_world \<Rightarrow> reply outcome \<times> radius_world" where
  "GetHotspotUser u = finish (
     andThen (require_user u) (\<lambda>_.
     andThen (or_fail (getRadCheckAttributes u) (\<lambda>e. ''Failed to get check attributes: '' @ e)) (\<lambda>cs.
     andThen (or_fail (getRadReplyAttributes u) (\<lambda>e. ''Failed to get reply attributes: '' @ e)) (\<lambda>rs.
     andThen (or_fail (getRadUserGroups u) (\<lambda>e. ''Failed to get group memberships: '' @ e)) (\<lambda>gs.
     ret ([(''user'', VUser \<lparr>hs_username = u, hs_checks = cs, hs_replies = rs, hs_groups = gs\<rparr>)], 200))))))"

section \<open>Update\<close>

text \<open>The loops of the update: build a map from the current rows (the last row of a name
  wins), update or insert every item of the request, and record its name as processed.\<close>

definition row_map :: "('r \<Rightarrow> string) \<Rightarrow> 'r list \<Rightarrow> string \<Rightarrow> 'r option" where
  "row_map key rows = map_of (rev (map (\<lambda>r. (key r, r)) rows))"

primrec process_items ::
  "('i \<Rightarrow> string) \<Rightarrow> ('r \<Rightarrow> 'i \<Rightarrow> bool) \<Rightarrow> ('i \<Rightarrow> unit handler) \<Rightarrow> ('i \<Rightarrow> unit handler) \<Rightarrow>
   (string \<Rightarrow> 'r option) \<Rightarrow> 'i list \<Rightarrow> string list \<Rightarrow> (string list) handler" where
  "process_items name differs upd ins m [] processed = ret processed"
| "process_items name differs upd ins m (i # is) processed =
     andThen
       (case m (name i) of
          Some existing \<Rightarrow> if differs existing i then upd i else ret ()
        | None \<Rightarrow> ins i) (\<lambda>_.
     process_items name differs upd ins m is (name i # processed))"

text \<open>Password: nil adds the accept-all rule, empty removes the password.  The value is
  whether that rule was added.\<close>

definition update_password :: "string \<Rightarrow> string option \<Rightarrow> bool handler" where
  "update_password u pw =
     (case pw of
        Some p \<Rightarrow>
          andThen (or_abort (deleteRadCheckAttributeTx u AttrCleartextPassword)
                     (\<lambda>e. ''Failed to update password: '' @ e)) (\<lambda>_.
          andThen (if p \<noteq> [] then
                     or_abort (insertRadCheck (Some Tx) u AttrCleartextPassword defaultOp p)
                       (\<lambda>e. ''Failed to update password: '' @ e)
                   else ret ()) (\<lambda>_.
          ret False))
      | None \<Rightarrow>
          andThen (or_abort (insertRadCheck (Some Tx) u AttrAuthType defaultOp ''Accept'')
                     (\<lambda>e. ''Failed to add accept: '' @ e)) (\<lambda>_.
          ret True))"

definition attr_differs :: "rad_attr \<Rightarrow> rad_input \<Rightarrow> bool" where
  "attr_differs r a \<longleftrightarrow> ra_op r \<noteq> op_of a \<or> ra_value r \<noteq> ri_value a"

definition update_checks :: "string \<Rightarrow> bool \<Rightarrow> rad_input list \<Rightarrow> unit handler" where
  "update_checks u authTypeAdded inputs =
     andThen (or_abort (getRadCheckAttributesTx u)
                (\<lambda>e. ''Failed to get current check attributes: '' @ e)) (\<lambda>current.
     let rows = filter (\<lambda>r. ra_attribute r \<noteq> AttrCleartextPassword) current;
         m = row_map ra_attribute rows in
     andThen (process_items ri_attribute attr_differs
        (\<lambda>a. or_abort (updateRadCheckAttributeTx u (ri_attribute a) (op_of a) (ri_value a))
               (about ''Failed to update check attribute'' (ri_attribute a)))
        (\<lambda>a. or_abort (insertRadCheck (Some Tx) u (ri_attribute a) (op_of a) (ri_value a))
               (about ''Failed to add check attribute'' (ri_attribute a)))
        m inputs []) (\<lambda>processed.
     forRange (remdups (map ra_attribute rows)) (\<lambda>name.
       let preserve = name = AttrCleartextPassword \<or> (authTypeAdded \<and> name = AttrAuthType) in
       if \<not> preserve \<and> name \<notin> set processed then
         or_abort (deleteRadCheckAttributeTx u name) (about ''Failed to delete check attribute'' name)
       else ret ())))"

definition update_replies :: "string \<Rightarrow> rad_input list \<Rightarrow> unit handler" where
  "update_replies u inputs =
     andThen (or_abort (getRadReplyAttributesTx u)
                (\<lambda>e. ''Failed to get current reply attributes: '' @ e)) (\<lambda>rows.
     andThen (process_items ri_attribute attr_differs
        (\<lambda>a. or_abort (updateRadReplyAttributeTx u (ri_attribute a) (op_of a) (ri_value a))
               (about ''Failed to update reply attribute'' (ri_attribute a)))
        (\<lambda>a. or_abort (insertRadReply (Some Tx) u (ri_attribute a) (op_of a) (ri_value a))
               (about ''Failed to add reply attribute'' (ri_attribute a)))
        (row_map ra_attribute rows) inputs []) (\<lambda>processed.
     forRange (remdups (map ra_attribute rows)) (\<lambda>name.
       if name \<notin> set processed then
         or_abort (deleteRadReplyAttributeTx u name) (about ''Failed to delete reply attribute'' name)
       else ret ())))"

definition group_differs :: "RadUserGroup \<Rightarrow> group_input \<Rightarrow> bool" where
  "group_differs r g \<longleftrightarrow> ug_priority r \<noteq> priority_of g"

definition update_groups :: "string \<Rightarrow> group_input list \<Rightarrow> unit handler" where
  "update_groups u inputs =
     andThen (or_abort (getRadUserGroupsTx u) (\<lambda>e. ''Failed to get current groups: '' @ e)) (\<lambda>rows.
     andThen (process_items gi_groupname group_differs
        (\<lambda>g. or_abort (updateRadUserGroupTx u (gi_groupname g) (priority_of g))
               (about ''Failed to update group'' (gi_groupname g)))
        (\<lambda>g. or_abort (insertRadUserGroup (Some Tx) u (gi_groupname g) (priority_of g))
               (about ''Failed to add user to group'' (gi_groupname g)))
        (row_map ug_groupname rows) inputs []) (\<lambda>processed.
     forRange (remdups (map ug_groupname rows)) (\<lambda>name.
       if name \<notin> set processed then
         or_abort (deleteRadUserGroupTx u name) (about ''Failed to remove user from group'' name)
       else ret ())))"

text \<open>After \<^verbatim>\<open>tx := db.Begin()\<close> the function tests the error of the earlier query, which is
  nil there, so a failed \<^verbatim>\<open>Begin\<close> is not noticed at this point.\<close>

definition update_rows :: "HotspotUserInput \<Rightarrow> unit handler" where
  "update_rows input =
     andThen (update_password (hu_username input) (hu_password input)) (\<lambda>authTypeAdded.
     andThen (case hu_checks input of None \<Rightarrow> ret ()
              | Some cs \<Rightarrow> update_checks (hu_username input) authTypeAdded cs) (\<lambda>_.
     andThen (case hu_replies input of None \<Rightarrow> ret ()
              | Some rs \<Rightarrow> update_replies (hu_username input) rs) (\<lambda>_.
     (case hu_groups input of None \<Rightarrow> ret ()
      | Some gs \<Rightarrow> update_groups (hu_username input) gs))))"

definition update_body :: "HotspotUserInput \<Rightarrow> reply handler" where
  "update_body input =
     andThen (require_user (hu_username input)) (\<lambda>_.
     andThen get_st (\<lambda>w.
     andThen (onErr (andThen (deref (GetDB w)) (\<lambda>_. begin_tx)) (\<lambda>e. ret ())) (\<lambda>_.
     andThen (update_rows input) (\<lambda>_.
     andThen (or_abort commit_tx (\<lambda>e. ''Failed to commit transaction: '' @ e)) (\<lambda>_.
     ret ([(''message'', VStr ''Hotspot user updated successfully''),
           (''username'', VStr (hu_username input))], 200))))))"

definition UpdateHotspotUser :: "HotspotUserInput \<Rightarrow> radius_world \<Rightarrow> reply outcome \<times> radius_world" where
  "UpdateHotspotUser input = finish (update_body input)"

section \<open>Delete\<close>

definition del_user_attrs :: "string \<Rightarrow> rad_attr list \<Rightarrow> rad_attr list" where
  "del_user_attrs u rows = filter (\<lambda>r. ra_username r \<noteq> u) rows"

definition del_user_groups :: "string \<Rightarrow> RadUserGroup list \<Rightarrow> RadUserGroup list" where
  "del_user_groups u rows = filter (\<lambda>r. ug_username r \<noteq> u) rows"

definition delete_rows :: "string \<Rightarrow> unit handler" where
  "delete_rows u =
     andThen (or_abort (stmt Tx (exec_on (\<lambda>d. d\<lparr>radcheck := del_user_attrs u (radcheck d)\<rparr>)))
                (\<lambda>e. ''Failed to delete from radcheck: '' @ e)) (\<lambda>_.
     andThen (or_abort (stmt Tx (exec_on (\<lambda>d. d\<lparr>radreply := del_user_attrs u (radreply d)\<rparr>)))
                (\<lambda>e. ''Failed to delete from radreply: '' @ e)) (\<lambda>_.
     or_abort (stmt Tx (exec_on (\<lambda>d. d\<lparr>radusergroup := del_user_groups u (radusergroup d)\<rparr>)))
                (\<lambda>e. ''Failed to delete from radusergroup: '' @ e)))"

definition delete_body :: "string \<Rightarrow> reply handler" where
  "delete_body u =
     andThen (require_user u) (\<lambda>_.
     andThen get_st (\<lambda>w.
     andThen (or_fail (andThen (deref (GetDB w)) (\<lambda>_. begin_tx))
                (\<lambda>e. ''Failed to start transaction: '' @ e)) (\<lambda>_.
     andThen (delete_rows u) (\<lambda>_.
     andThen (or_abort commit_tx (\<lambda>e. ''Failed to commit transaction: '' @ e)) (\<lambda>_.
     ret ([(''message'', VStr ''Hotspot user deleted successfully''), (''username'', VStr u)], 200))))))"

definition DeleteHotspotUser :: "string \<Rightarrow> radius_world \<Rightarrow> reply outcome \<times> radius_world" where
  "DeleteHotspotUser u = finish (delete_body u)"

section \<open>Single attributes and groups\<close>

definition AddOrUpdateRadCheckAttribute ::
  "string \<Rightarrow> rad_input \<Rightarrow> radius_world \<Rightarrow> reply outcome \<times> radius_world" where
  "AddOrUpdateRadCheckAttribute u a = finish (
     andThen (require_user u) (\<lambda>_.
     andThen (or_fail (checkAttributeExists u (ri_attribute a))
                (\<lambda>e. ''Failed to check if attribute exists: '' @ e)) (\<lambda>exists.
     andThen (if exists then
                or_fail (updateRadCheckAttribute u (ri_attribute a) (op_of a) (ri_value a))
                  (\<lambda>e. ''Failed to update attribute: '' @ e)
              else
                or_fail (insertRadCheck None u (ri_attribute a) (op_of a) (ri_value a))
                  (\<lambda>e. ''Failed to add attribute: '' @ e)) (\<lambda>_.
     ret ([(''message'', VStr ''Attribute updated successfully''), (''username'', VStr u),
           (''attribute'', VStr (ri_attribute a)), (''value'', VStr (ri_value a))], 200)))))"

definition DeleteRadCheckAttribute ::
  "string \<Rightarrow> string \<Rightarrow> radius_world \<Rightarrow> reply outcome \<times> radius_world" where
  "DeleteRadCheckAttribute u a = finish (
     andThen (require_user u) (\<lambda>_.
     andThen (or_fail (checkAttributeExists u a)
                (\<lambda>e. ''Failed to check if attribute exists: '' @ e)) (\<lambda>exists.
     if \<not> exists then raise (err ''Attribute not found'' 404) else
     andThen (or_fail (deleteRadCheckAttribute u a) (\<lambda>e. ''Failed to delete attribute: '' @ e)) (\<lambda>_.
     ret ([(''message'', VStr ''Attribute deleted successfully''), (''username'', VStr u),
           (''attribute'', VStr a)], 200)))))"

definition AddOrUpdateRadReplyAttribute ::
  "string \<Rightarrow> rad_input \<Rightarrow> radius_world \<Rightarrow> reply outcome \<times> radius_world" where
  "AddOrUpdateRadReplyAttribute u a = finish (
     andThen (require_user u) (\<lambda>_.
     andThen (or_fail (replyAttributeExists u (ri_attribute a))
                (\<lambda>e. ''Failed to check if attribute exists: '' @ e)) (\<lambda>exists.
     andThen (if exists then
                or_fail (updateRadReplyAttribute u (ri_attribute a) (op_of a) (ri_value a))
                  (\<lambda>e. ''Failed to update attribute: '' @ e)
              else
                or_fail (insertRadReply None u (ri_attribute a) (op_of a) (ri_value a))
                  (\<lambda>e. ''Failed to add attribute: '' @ e)) (\<lambda>_.
     ret ([(''message'', VStr ''Reply attribute updated successfully''), (''username'', VStr u),
           (''attribute'', VStr (ri_attribute a)), (''value'', VStr (ri_value a))], 200)))))"

definition DeleteRadReplyAttribute ::
  "string \<Rightarrow> string \<Rightarrow> radius_world \<Rightarrow> reply outcome \<times> radius_world" where
  "DeleteRadReplyAttribute u a = finish (
     andThen (require_user u) (\<lambda>_.
     andThen (or_fail (replyAttributeExists u a)
                (\<lambda>e. ''Failed to check if attribute exists: '' @ e)) (\<lambda>exists.
     if \<not> exists then raise (err ''Attribute not found'' 404) else
     andThen (or_fail (deleteRadReplyAttribute u a) (\<lambda>e. ''Failed to delete attribute: '' @ e)) (\<lambda>_.
     ret ([(''message'', VStr ''Reply attribute deleted successfully''), (''username'', VStr u),
           (''attribute'', VStr a)], 200)))))"

definition AddRadUserGroup ::
  "string \<Rightarrow> group_input \<Rightarrow> radius_world \<Rightarrow> reply outcome \<times> radius_world" where
  "AddRadUserGroup u g = finish (
     andThen (require_user u) (\<lambda>_.
     andThen (or_fail (userGroupExists u (gi_groupname g))
                (\<lambda>e. ''Failed to check if user is in group: '' @ e)) (\<lambda>exists.
     andThen (if exists then
                or_fail (updateRadUserGroup u (gi_groupname g) (priority_of g))
                  (\<lambda>e. ''Failed to update user group: '' @ e)
              else
                or_fail (insertRadUserGroup None u (gi_groupname g) (priority_of g))
                  (\<lambda>e. ''Failed to add user to group: '' @ e)) (\<lambda>_.
     ret ([(''message'', VStr ''User added to group successfully''), (''username'', VStr u),
           (''groupname'', VStr (gi_groupname g)), (''priority'', VInt (priority_of g))], 200)))))"

definition DeleteRadUserGroup ::
  "string \<Rightarrow> string \<Rightarrow> radius_world \<Rightarrow> reply outcome \<times> radius_world" where
  "DeleteRadUserGroup u g = finish (
     andThen (require_user u) (\<lambda>_.
     andThen (or_fail (userGroupExists u g)
                (\<lambda>e. ''Failed to check if user is in group: '' @ e)) (\<lambda>exists.
     if \<not> exists then raise (err ''User is not a member of this group'' 404) else
     andThen (or_fail (deleteRadUserGroup u g) (\<lambda>e. ''Failed to delete user from group: '' @ e)) (\<lambda>_.
     ret ([(''message'', VStr ''User removed from group successfully''), (''username'', VStr u),
           (''groupname'', VStr g)], 200)))))"

section \<open>Expiry\<close>

text \<open>\<^verbatim>\<open>IsUserExpired\<close> returns a status word and an error; here the error is the \<open>Raise\<close> of
  the program (its status word is then \<^verbatim>\<open>"error"\<close>).  The text of a date the parser
  refuses is left out of the message.\<close>

definition expiration_query :: "string \<Rightarrow> radius_db \<Rightarrow> string" where
  "expiration_query u d =
     (case filter (\<lambda>r. ra_username r = u \<and> ra_attribute r = ''Expiration'') (radcheck d) of
        [] \<Rightarrow> [] | r # _ \<Rightarrow> ra_value r)"

definition IsUserExpired :: "string \<Rightarrow> string sql" where
  "IsUserExpired u =
     andThen get_st (\<lambda>w.
     andThen (userExists None u) (\<lambda>exists.
     if \<not> exists then ret ''NO_EXIST'' else
     andThen (andThen (deref (GetDB w)) (\<lambda>c.
                wrap_err (''failed to fetch expiration for user '' @ u)
                  (stmt c (query_on (expiration_query u))))) (\<lambda>expiration.
     if expiration = [] then ret ''EXPIRED'' else
     (case parse_expiry (zone w) expiration of
        None \<Rightarrow> raise (''failed to parse expiration for user '' @ u)
      | Some t \<Rightarrow> if clock w > t then ret ''EXPIRED'' else ret ''NOT_EXPIRED''))))"

end
