(* ===== verification/Radius_Laws.thy ===== *)
theory Radius_Laws
  imports Hotspot
begin

text \<open>
  Reasoning about handlers over the RADIUS database.  Two kinds of facts:
  \<^item> what a program keeps whatever the server answers (rules \<open>tx_safe\<close>): statements inside a
    transaction do not touch the committed tables, an aborted handler leaves no transaction
    open;
  \<^item> what a program does when the server answers every statement (\<open>tx_runs\<close>): inside a
    transaction it is a function of the transaction's tables, and these functions compose.
\<close>

section \<open>Safety, whatever the server answers\<close>

named_theorems tx_safe \<open>triples of programs that work inside a transaction\<close>

definition idle :: "radius_db \<Rightarrow> radius_world \<Rightarrow> bool" where
  "idle c w \<longleftrightarrow> committed w = c \<and> (\<forall>d. txn w \<noteq> OpenTx d)"

definition at_db :: "radius_db \<Rightarrow> radius_world \<Rightarrow> bool" where
  "at_db c w \<longleftrightarrow> committed w = c"

definition closed :: "radius_world \<Rightarrow> bool" where
  "closed w \<longleftrightarrow> (\<forall>d. txn w \<noteq> OpenTx d)"

text \<open>An exit that leaves the committed tables as they were and no transaction open, with a
  error response.\<close>

fun aborted :: "nat \<Rightarrow> radius_db \<Rightarrow> reply exit \<Rightarrow> radius_world \<Rightarrow> bool" where
  "aborted ok c (Raise (b, code)) w = (code \<noteq> ok \<and> 400 \<le> code \<and> idle c w)"
| "aborted ok c GoPanic w = idle c w"

lemma next_fault_keeps [simp]:
  "next_fault w = (f, w') \<Longrightarrow>
   committed w' = committed w \<and> txn w' = txn w \<and> db_up w' = db_up w \<and> clock w' = clock w \<and>
   zone w' = zone w \<and> range_order w' = range_order w"
  by (auto simp: next_fault_def split: list.splits)

lemma stmt_Tx_safe: "triple (at_db c) (stmt Tx f) (\<lambda>_. at_db c) (\<lambda>x w. at_db c w \<and> x \<noteq> GoPanic)"
  by (auto simp: triple_def at_db_def stmt_def split: tx_state.splits prod.splits option.splits)

lemma stmt_query_safe: "triple (idle c) (stmt Db (query_on f)) (\<lambda>_. idle c) (\<lambda>_. idle c)"
  by (auto simp: triple_def idle_def stmt_def split: prod.splits option.splits)

lemma begin_tx_safe: "triple (idle c) begin_tx (\<lambda>_. at_db c) (\<lambda>_. idle c)"
  by (auto simp: triple_def idle_def at_db_def begin_tx_def split: prod.splits option.splits)

lemma rollback_safe: "triple (at_db c) rollback (\<lambda>_. idle c) E"
  by (simp add: triple_def rollback_def idle_def at_db_def)

lemma commit_tx_safe:
  "triple (at_db c) commit_tx (\<lambda>_. closed) (\<lambda>x w. at_db c w \<and> x \<noteq> GoPanic)"
  by (auto simp: triple_def at_db_def closed_def commit_tx_def
      split: tx_state.splits prod.splits option.splits)

lemma or_abort_safe:
  assumes "triple (at_db c) m Q (\<lambda>x w. at_db c w \<and> x \<noteq> GoPanic)" and "ok \<noteq> 500"
  shows "triple (at_db c) (or_abort m msg) Q (aborted ok c)"
  unfolding or_abort_def
proof (rule triple_onErr [where R = "\<lambda>_. at_db c"])
  show "triple (at_db c) m Q (\<lambda>x s. case x of Raise e \<Rightarrow> at_db c s | GoPanic \<Rightarrow> aborted ok c GoPanic s)"
    by (rule triple_weaken [OF assms(1)]) (auto split: exit.splits)
  show "triple (at_db c) (andThen rollback (\<lambda>_. raise (err (msg e) 500))) Q (aborted ok c)" for e
    using assms(2)
    by (intro triple_andThen [OF rollback_safe] triple_raise) (simp add: err_def)
qed

lemma wrap_err_safe:
  assumes "triple (at_db c) m Q (\<lambda>x w. at_db c w \<and> x \<noteq> GoPanic)"
  shows "triple (at_db c) (wrap_err msg m) Q (\<lambda>x w. at_db c w \<and> x \<noteq> GoPanic)"
  unfolding wrap_err_def
  by (rule triple_onErr [where R = "\<lambda>_. at_db c"])
    (rule triple_weaken [OF assms], auto split: exit.splits intro: triple_raise)

lemma tx_or_db_Tx [simp]: "tx_or_db (Some c) = ret c"
  by (rule ext) (simp add: tx_or_db_def ret_def)

lemma sql_tx_safe [tx_safe]:
  "triple (at_db c) (insertRadCheck (Some Tx) u a op v) (\<lambda>_. at_db c) (\<lambda>x w. at_db c w \<and> x \<noteq> GoPanic)"
  "triple (at_db c) (insertRadReply (Some Tx) u a op v) (\<lambda>_. at_db c) (\<lambda>x w. at_db c w \<and> x \<noteq> GoPanic)"
  "triple (at_db c) (insertRadUserGroup (Some Tx) u a p) (\<lambda>_. at_db c) (\<lambda>x w. at_db c w \<and> x \<noteq> GoPanic)"
  "triple (at_db c) (getRadCheckAttributesTx u) (\<lambda>_. at_db c) (\<lambda>x w. at_db c w \<and> x \<noteq> GoPanic)"
  "triple (at_db c) (getRadReplyAttributesTx u) (\<lambda>_. at_db c) (\<lambda>x w. at_db c w \<and> x \<noteq> GoPanic)"
  "triple (at_db c) (getRadUserGroupsTx u) (\<lambda>_. at_db c) (\<lambda>x w. at_db c w \<and> x \<noteq> GoPanic)"
  "triple (at_db c) (updateRadCheckAttributeTx u a op v) (\<lambda>_. at_db c) (\<lambda>x w. at_db c w \<and> x \<noteq> GoPanic)"
  "triple (at_db c) (updateRadReplyAttributeTx u a op v) (\<lambda>_. at_db c) (\<lambda>x w. at_db c w \<and> x \<noteq> GoPanic)"
  "triple (at_db c) (updateRadUserGroupTx u a p) (\<lambda>_. at_db c) (\<lambda>x w. at_db c w \<and> x \<noteq> GoPanic)"
  "triple (at_db c) (deleteRadCheckAttributeTx u a) (\<lambda>_. at_db c) (\<lambda>x w. at_db c w \<and> x \<noteq> GoPanic)"
  "triple (at_db c) (deleteRadReplyAttributeTx u a) (\<lambda>_. at_db c) (\<lambda>x w. at_db c w \<and> x \<noteq> GoPanic)"
  "triple (at_db c) (deleteRadUserGroupTx u a) (\<lambda>_. at_db c) (\<lambda>x w. at_db c w \<and> x \<noteq> GoPanic)"
  unfolding insertRadCheck_def insertRadReply_def insertRadUserGroup_def
    getRadCheckAttributesTx_def getRadReplyAttributesTx_def getRadUserGroupsTx_def
    updateRadCheckAttributeTx_def updateRadReplyAttributeTx_def updateRadUserGroupTx_def
    deleteRadCheckAttributeTx_def deleteRadReplyAttributeTx_def deleteRadUserGroupTx_def
  by (simp_all add: wrap_err_safe stmt_Tx_safe)

lemma userExists_tx_safe [tx_safe]:
  "triple (at_db c) (userExists (Some Tx) u) (\<lambda>_. at_db c) (\<lambda>x w. at_db c w \<and> x \<noteq> GoPanic)"
  unfolding userExists_def tx_or_db_Tx andThen_ret
  by (rule triple_andThen [OF wrap_err_safe [OF stmt_Tx_safe]]) (simp add: triple_ret)

lemma rollback_raise_safe:
  "code \<noteq> ok \<Longrightarrow> 400 \<le> code \<Longrightarrow> triple (at_db c) (andThen rollback (\<lambda>_. raise (err msg code))) Q (aborted ok c)"
  by (intro triple_andThen [OF rollback_safe] triple_raise) (simp add: err_def)

lemma forRange_safe:
  assumes "\<And>k. triple (at_db c) (f k) (\<lambda>_. at_db c) E"
  shows "triple (at_db c) (forRange ks f) (\<lambda>_. at_db c) E"
  unfolding forRange_def
proof (rule triple_andThen [where R = "\<lambda>_. at_db c"])
  show "triple (at_db c) get_st (\<lambda>_. at_db c) E" by (simp add: triple_def get_st_def)
  show "triple (at_db c) (forEach f (range_order w ks)) (\<lambda>_. at_db c) E" for w
    by (rule triple_forEach) (rule assms)
qed

lemma process_items_safe:
  assumes "\<And>i. triple (at_db c) (upd i) (\<lambda>_. at_db c) E" and "\<And>i. triple (at_db c) (ins i) (\<lambda>_. at_db c) E"
  shows "triple (at_db c) (process_items name differs upd ins m is processed) (\<lambda>_. at_db c) E"
proof (induction "is" arbitrary: processed)
  case Nil
  show ?case by (simp add: triple_ret)
next
  case (Cons i "is")
  have "triple (at_db c)
      (case m (name i) of Some existing \<Rightarrow> if differs existing i then upd i else ret () | None \<Rightarrow> ins i)
      (\<lambda>_. at_db c) E"
    using assms by (auto split: option.split intro: triple_ret)
  then show ?case by (auto intro!: triple_andThen Cons.IH)
qed

lemmas abort_safe = tx_safe [THEN or_abort_safe]

lemma update_phases_safe:
  assumes "ok \<noteq> 500"
  shows "triple (at_db c) (update_password u pw) (\<lambda>_. at_db c) (aborted ok c)"
    and "triple (at_db c) (update_checks u b cs) (\<lambda>_. at_db c) (aborted ok c)"
    and "triple (at_db c) (update_replies u rs) (\<lambda>_. at_db c) (aborted ok c)"
    and "triple (at_db c) (update_groups u gs) (\<lambda>_. at_db c) (aborted ok c)"
proof -
  show "triple (at_db c) (update_password u pw) (\<lambda>_. at_db c) (aborted ok c)"
    unfolding update_password_def using assms
    by (auto split: option.split intro!: triple_ret triple_andThen [OF abort_safe(1)]
        triple_andThen [OF abort_safe(10)] triple_andThen [where R = "\<lambda>_. at_db c"]
        intro: abort_safe)
  show "triple (at_db c) (update_checks u b cs) (\<lambda>_. at_db c) (aborted ok c)"
    unfolding update_checks_def Let_def using assms
    by (auto intro!: triple_andThen [OF abort_safe(4)] triple_andThen [OF process_items_safe]
        forRange_safe intro: abort_safe triple_ret)
  show "triple (at_db c) (update_replies u rs) (\<lambda>_. at_db c) (aborted ok c)"
    unfolding update_replies_def Let_def using assms
    by (auto intro!: triple_andThen [OF abort_safe(5)] triple_andThen [OF process_items_safe]
        forRange_safe intro: abort_safe triple_ret)
  show "triple (at_db c) (update_groups u gs) (\<lambda>_. at_db c) (aborted ok c)"
    unfolding update_groups_def Let_def using assms
    by (auto intro!: triple_andThen [OF abort_safe(6)] triple_andThen [OF process_items_safe]
        forRange_safe intro: abort_safe triple_ret)
qed

lemma update_rows_safe:
  assumes "ok \<noteq> 500"
  shows "triple (at_db c) (update_rows input) (\<lambda>_. at_db c) (aborted ok c)"
  unfolding update_rows_def
  by (intro triple_andThen [where R = "\<lambda>_. at_db c"])
    (auto split: option.split intro: update_phases_safe [OF assms] triple_ret)

lemma create_rows_safe:
  assumes "ok \<noteq> 500"
  shows "triple (at_db c) (create_rows input) (\<lambda>_. at_db c) (aborted ok c)"
  unfolding create_rows_def create_password_def using assms
  by (intro triple_andThen [where R = "\<lambda>_. at_db c"] triple_forEach)
    (auto split: option.split intro: abort_safe triple_ret)

lemma or_fail_safe:
  assumes "triple (idle c) m Q (\<lambda>_. idle c)" and "ok \<noteq> 500"
  shows "triple (idle c) (or_fail m msg) Q (aborted ok c)"
  unfolding or_fail_def
proof (rule triple_onErr [where R = "\<lambda>_. idle c"])
  show "triple (idle c) m Q (\<lambda>x s. case x of Raise e \<Rightarrow> idle c s | GoPanic \<Rightarrow> aborted ok c GoPanic s)"
    by (rule triple_weaken [OF assms(1)]) (auto split: exit.splits)
  show "triple (idle c) (raise (err (msg e) 500)) Q (aborted ok c)" for e
    using assms(2) by (intro triple_raise) (simp add: err_def)
qed

lemma wrap_err_idle:
  assumes "triple (idle c) m Q (\<lambda>_. idle c)"
  shows "triple (idle c) (wrap_err msg m) Q (\<lambda>_. idle c)"
  unfolding wrap_err_def
  by (rule triple_onErr [where R = "\<lambda>_. idle c"])
    (rule triple_weaken [OF assms], auto split: exit.splits intro: triple_raise)

lemma userExists_None_safe: "triple (idle c) (userExists None u) (\<lambda>_. idle c) (\<lambda>_. idle c)"
  unfolding userExists_def
proof (rule triple_andThen [where R = "\<lambda>x w. idle c w \<and> x = Db"])
  show "triple (idle c) (tx_or_db None) (\<lambda>x w. idle c w \<and> x = Db) (\<lambda>_. idle c)"
    by (auto simp: triple_def tx_or_db_def GetDB_def)
  show "triple (\<lambda>w. idle c w \<and> x = Db)
      (andThen (wrap_err msg (stmt x (query_on (\<lambda>d. length (sel_attr u (radcheck d))))))
        (\<lambda>count. ret (0 < count))) (\<lambda>_. idle c) (\<lambda>_. idle c)" for x msg
    by (cases x)
      (auto intro!: triple_andThen [OF wrap_err_idle [OF stmt_query_safe]] triple_ret
        simp: triple_def [of "\<lambda>w. False"])
qed

lemma require_user_safe:
  "ok \<noteq> 500 \<Longrightarrow> ok \<noteq> 404 \<Longrightarrow> triple (idle c) (require_user u) (\<lambda>_. idle c) (aborted ok c)"
  unfolding require_user_def
  by (auto intro!: triple_andThen [OF or_fail_safe [OF userExists_None_safe]] triple_ret triple_raise
      simp: err_def)

lemma deref_begin_safe:
  "triple (idle c) (andThen (deref h) (\<lambda>_. begin_tx)) (\<lambda>_. at_db c) (\<lambda>_. idle c)"
  unfolding deref_def
  by (cases h) (auto intro!: begin_tx_safe triple_andThen [where R = "\<lambda>_ _. False"] triple_go_panic
      simp: triple_def [of "\<lambda>_. False"])

lemma get_st_safe: "triple P get_st (\<lambda>_. P) E"
  by (simp add: triple_def get_st_def)

lemma commit_abort_safe: "ok \<noteq> 500 \<Longrightarrow> triple (at_db c) (or_abort commit_tx msg) (\<lambda>_. closed) (aborted ok c)"
  by (rule or_abort_safe [OF commit_tx_safe])

section \<open>Atomicity of the transactional handlers\<close>

text \<open>Every way out of a transactional handler but the success code leaves the committed
  tables as they were, and no way out leaves a transaction open.\<close>

lemma idle_closed: "idle c w \<longleftrightarrow> closed w \<and> committed w = c"
  by (auto simp: idle_def closed_def)

lemma create_safe: "triple (idle c) (create_body input) (\<lambda>r w. closed w \<and> snd r = 201) (aborted 201 c)"
  unfolding create_body_def
proof (rule triple_andThen [OF get_st_safe],
    rule triple_andThen [OF or_fail_safe [OF deref_begin_safe]], simp,
    rule triple_andThen [OF abort_safe(13)], simp, rule triple_if)
  show "triple (at_db c) (andThen rollback (\<lambda>_. raise (err ''User already exists'' 409))) Q (aborted 201 c)" for Q
    by (simp add: rollback_raise_safe)
next
  show "triple (at_db c) (andThen (create_rows input) (\<lambda>_. andThen (or_abort commit_tx msg) (\<lambda>_. ret (b, 201))))
      (\<lambda>r w. closed w \<and> snd r = 201) (aborted 201 c)" for msg b
    by (auto intro!: triple_andThen [OF create_rows_safe] triple_andThen [OF commit_abort_safe] triple_ret)
qed

lemma update_safe: "triple (idle c) (update_body input) (\<lambda>r w. closed w \<and> snd r = 200) (aborted 200 c)"
  unfolding update_body_def
proof (rule triple_andThen [OF require_user_safe], simp, simp,
    rule triple_andThen [OF get_st_safe], rule triple_andThen [where R = "\<lambda>_. at_db c"])
  fix h :: radius_world
  show "triple (idle c) (onErr (andThen (deref (GetDB h)) (\<lambda>_. begin_tx)) (\<lambda>e. ret ())) (\<lambda>_. at_db c) (aborted 200 c)"
    by (rule triple_onErr [where R = "\<lambda>_. idle c"], rule triple_weaken [OF deref_begin_safe])
      (auto split: exit.splits intro!: triple_ret simp: idle_def at_db_def)
next
  show "triple (at_db c) (andThen (update_rows input) (\<lambda>_. andThen (or_abort commit_tx msg) (\<lambda>_. ret (b, 200))))
      (\<lambda>r w. closed w \<and> snd r = 200) (aborted 200 c)" for msg b
    by (auto intro!: triple_andThen [OF update_rows_safe] triple_andThen [OF commit_abort_safe] triple_ret)
qed

lemma delete_rows_safe:
  assumes "ok \<noteq> 500"
  shows "triple (at_db c) (delete_rows u) (\<lambda>_. at_db c) (aborted ok c)"
  unfolding delete_rows_def using assms
  by (auto intro!: triple_andThen [OF or_abort_safe [OF stmt_Tx_safe]] or_abort_safe [OF stmt_Tx_safe])

lemma delete_safe: "triple (idle c) (delete_body u) (\<lambda>r w. closed w \<and> snd r = 200) (aborted 200 c)"
  unfolding delete_body_def
proof (rule triple_andThen [OF require_user_safe], simp, simp,
    rule triple_andThen [OF get_st_safe], rule triple_andThen [OF or_fail_safe [OF deref_begin_safe]], simp)
  show "triple (at_db c) (andThen (delete_rows u) (\<lambda>_. andThen (or_abort commit_tx msg) (\<lambda>_. ret (b, 200))))
      (\<lambda>r w. closed w \<and> snd r = 200) (aborted 200 c)" for msg b
    by (auto intro!: triple_andThen [OF delete_rows_safe] triple_andThen [OF commit_abort_safe] triple_ret)
qed

end
