(* ===== verification/Table_Sync.thy ===== *)
theory Table_Sync
  imports Radius_Laws
begin

text \<open>
  The reconciliation that \<^verbatim>\<open>UpdateHotspotUser\<close> does three times, on \<^verbatim>\<open>radcheck\<close>,
  \<^verbatim>\<open>radreply\<close> and \<^verbatim>\<open>radusergroup\<close>: bring the rows of one user in line with the items of a
  request.  The locale \<open>synced_table\<close> is the interface a table offers (insert, update and
  delete of the rows of a user under a key); what the reconciliation achieves is proved once
  over it, in terms of the rows a user has under a key (\<open>slot\<close>), and the locale is
  interpreted on the three tables.
\<close>

section \<open>The effect of the loops on the tables\<close>

definition item_step ::
  "('i \<Rightarrow> string) \<Rightarrow> ('r \<Rightarrow> 'i \<Rightarrow> bool) \<Rightarrow> ('i \<Rightarrow> 'd \<Rightarrow> 'd) \<Rightarrow> ('i \<Rightarrow> 'd \<Rightarrow> 'd) \<Rightarrow>
   (string \<Rightarrow> 'r option) \<Rightarrow> 'i \<Rightarrow> 'd \<Rightarrow> 'd" where
  "item_step name differs upd ins m i d =
     (case m (name i) of
        Some r \<Rightarrow> if differs r i then upd i d else d
      | None \<Rightarrow> ins i d)"

definition delete_step :: "(string \<Rightarrow> bool) \<Rightarrow> (string \<Rightarrow> 'd \<Rightarrow> 'd) \<Rightarrow> string \<Rightarrow> 'd \<Rightarrow> 'd" where
  "delete_step doomed del k d = (if doomed k then del k d else d)"

section \<open>The interface of a table\<close>

locale synced_table =
  fixes rows :: "'d \<Rightarrow> 'r list"
    and owner :: "'r \<Rightarrow> string"
    and key :: "'r \<Rightarrow> string"
    and name :: "'i \<Rightarrow> string"
    and differs :: "'r \<Rightarrow> 'i \<Rightarrow> bool"
    and assign :: "'i \<Rightarrow> 'r \<Rightarrow> 'r"
    and upd :: "string \<Rightarrow> 'i \<Rightarrow> 'd \<Rightarrow> 'd"
    and ins :: "string \<Rightarrow> 'i \<Rightarrow> 'd \<Rightarrow> 'd"
    and del :: "string \<Rightarrow> string \<Rightarrow> 'd \<Rightarrow> 'd"
    and frame :: "'d \<Rightarrow> 'f"
  assumes rows_upd: "rows (upd u i d) = map (\<lambda>r. if owner r = u \<and> key r = name i then assign i r else r) (rows d)"
    and rows_ins: "\<exists>r. rows (ins u i d) = rows d @ [r] \<and> owner r = u \<and> key r = name i \<and> \<not> differs r i"
    and rows_del: "rows (del u k d) = filter (\<lambda>r. \<not> (owner r = u \<and> key r = k)) (rows d)"
    and assign_keeps: "owner (assign i r) = owner r" "key (assign i r) = key r"
    and assign_conforms: "\<not> differs (assign i r) i"
    and frame_keeps: "frame (upd u i d) = frame d" "frame (ins u i d) = frame d" "frame (del u k d) = frame d"
begin

definition slot :: "'d \<Rightarrow> string \<Rightarrow> string \<Rightarrow> 'r list" where
  "slot d v k = filter (\<lambda>r. owner r = v \<and> key r = k) (rows d)"

lemma filter_assign:
  "filter (\<lambda>r. owner r = v \<and> key r = k) (map (\<lambda>r. if owner r = u \<and> key r = name i then assign i r else r) xs) =
   (if v = u \<and> k = name i then map (assign i) (filter (\<lambda>r. owner r = v \<and> key r = k) xs)
    else filter (\<lambda>r. owner r = v \<and> key r = k) xs)"
  by (induction xs) (auto simp: assign_keeps)

lemma slot_upd:
  "slot (upd u i d) v k = (if v = u \<and> k = name i then map (assign i) (slot d v k) else slot d v k)"
  unfolding slot_def rows_upd by (rule filter_assign)

lemma slot_ins:
  "\<exists>r. \<not> differs r i \<and> (\<forall>v k. slot (ins u i d) v k = (if v = u \<and> k = name i then slot d v k @ [r] else slot d v k))"
proof -
  from rows_ins [of u i d] obtain r where
    "rows (ins u i d) = rows d @ [r]" "owner r = u" "key r = name i" "\<not> differs r i" by blast
  then show ?thesis by (intro exI [of _ r]) (auto simp: slot_def)
qed

lemma slot_del: "slot (del u k' d) v k = (if v = u \<and> k = k' then [] else slot d v k)"
  unfolding slot_def rows_del by (auto simp: filter_empty_conv intro: filter_cong)

lemma row_map_slot:
  assumes "\<And>r. r \<in> set (rows d) \<Longrightarrow> owner r = u \<Longrightarrow> key r = k \<Longrightarrow> keep r"
    and "length (slot d u k) \<le> 1"
  shows "row_map key (filter keep (filter (\<lambda>r. owner r = u) (rows d))) k =
         (case slot d u k of [] \<Rightarrow> None | r # _ \<Rightarrow> Some r)"
proof -
  have last: "map_of (rev (map (\<lambda>r. (key r, r)) xs)) k =
      (case rev (filter (\<lambda>r. key r = k) xs) of [] \<Rightarrow> None | r # _ \<Rightarrow> Some r)" for xs :: "'r list"
  proof (induction xs rule: rev_induct)
    case (snoc x xs)
    then show ?case by (auto split: list.splits)
  qed simp
  have "filter (\<lambda>r. key r = k) (filter keep (filter (\<lambda>r. owner r = u) (rows d))) = slot d u k"
    using assms(1) by (auto simp: slot_def intro!: filter_cong)
  with last [of "filter keep (filter (\<lambda>r. owner r = u) (rows d))"] assms(2) show ?thesis
    by (cases "slot d u k") (auto simp: row_map_def)
qed

text \<open>The handlers of a single item: update the rows of its name, or insert one.\<close>

definition upsert :: "string \<Rightarrow> 'i \<Rightarrow> 'd \<Rightarrow> 'd" where
  "upsert u i d = (if slot d u (name i) \<noteq> [] then upd u i d else ins u i d)"

lemma upsert_slot:
  assumes "d' = upsert u i d"
  shows "slot d' u (name i) \<noteq> []" and "r \<in> set (slot d' u (name i)) \<Longrightarrow> \<not> differs r i"
    and "length (slot d' u (name i)) = max 1 (length (slot d u (name i)))"
    and "v \<noteq> u \<or> k \<noteq> name i \<Longrightarrow> slot d' v k = slot d v k"
    and "frame d' = frame d"
proof -
  from slot_ins [of i u d] obtain x where x: "\<not> differs x i"
    "\<And>v k. slot (ins u i d) v k = (if v = u \<and> k = name i then slot d v k @ [x] else slot d v k)"
    by blast
  note facts = assms upsert_def slot_upd assign_conforms frame_keeps x
  show "slot d' u (name i) \<noteq> []" by (simp add: facts)
  show "r \<in> set (slot d' u (name i)) \<Longrightarrow> \<not> differs r i" by (auto simp: facts split: if_splits)
  show "length (slot d' u (name i)) = max 1 (length (slot d u (name i)))"
    by (cases "slot d u (name i)") (simp_all add: facts)
  show "v \<noteq> u \<or> k \<noteq> name i \<Longrightarrow> slot d' v k = slot d v k" by (auto simp: facts)
  show "frame d' = frame d" by (simp add: facts)
qed

text \<open>The map the code builds from the rows of \<open>u\<close> tells, for the name of an item, the row
  under that name, of which there is at most one.\<close>

definition ready :: "(string \<Rightarrow> 'r option) \<Rightarrow> string \<Rightarrow> 'd \<Rightarrow> 'i \<Rightarrow> bool" where
  "ready m u d i \<longleftrightarrow>
     m (name i) = (case slot d u (name i) of [] \<Rightarrow> None | r # _ \<Rightarrow> Some r) \<and>
     length (slot d u (name i)) \<le> 1"

definition conformed :: "string \<Rightarrow> 'd \<Rightarrow> 'i \<Rightarrow> bool" where
  "conformed u d i \<longleftrightarrow> (\<exists>r. slot d u (name i) = [r] \<and> \<not> differs r i)"

text \<open>One item: its slot holds one row, as requested; no other slot changes.\<close>

lemma item_step_slot:
  assumes "ready m u d i" and "d' = item_step name differs (upd u) (ins u) m i d"
  shows "conformed u d' i \<and> (\<forall>v k. v \<noteq> u \<or> k \<noteq> name i \<longrightarrow> slot d' v k = slot d v k) \<and>
    frame d' = frame d"
proof -
  from slot_ins [of i u d] obtain r where r: "\<not> differs r i"
    "\<And>v k. slot (ins u i d) v k = (if v = u \<and> k = name i then slot d v k @ [r] else slot d v k)"
    by blast
  consider "slot d u (name i) = []" | x where "slot d u (name i) = [x]"
    using assms(1) by (cases "slot d u (name i)") (auto simp: ready_def)
  then show ?thesis
    using assms r
    by cases (auto simp: ready_def conformed_def item_step_def slot_upd assign_conforms frame_keeps)
qed

text \<open>All items, with distinct names.\<close>

lemma items_slot:
  assumes "distinct (map name is)" and "\<forall>i \<in> set is. ready m u d i"
    and "d' = fold (item_step name differs (upd u) (ins u) m) is d"
  shows "(\<forall>i \<in> set is. conformed u d' i) \<and>
    (\<forall>v k. v \<noteq> u \<or> k \<notin> name ` set is \<longrightarrow> slot d' v k = slot d v k) \<and> frame d' = frame d"
  using assms
proof (induction "is" arbitrary: d)
  case Nil
  then show ?case by simp
next
  case (Cons i "is")
  let ?d1 = "item_step name differs (upd u) (ins u) m i d"
  from Cons.prems(2) have step: "conformed u ?d1 i" "frame ?d1 = frame d"
    "\<And>v k. v \<noteq> u \<or> k \<noteq> name i \<Longrightarrow> slot ?d1 v k = slot d v k"
    using item_step_slot [of m u d i ?d1] by auto
  from Cons.prems(1) have fresh: "name i \<notin> name ` set is" by auto
  then have "\<forall>j \<in> set is. ready m u ?d1 j"
    using Cons.prems(2) step(3) unfolding ready_def by (metis imageI list.set_intros(2))
  with Cons have IH: "\<forall>j \<in> set is. conformed u d' j" "frame d' = frame ?d1"
    "\<And>v k. v \<noteq> u \<or> k \<notin> name ` set is \<Longrightarrow> slot d' v k = slot ?d1 v k"
    by auto
  have "conformed u d' i" using step(1) IH(3) [of u "name i"] fresh by (simp add: conformed_def)
  with IH step show ?case by auto
qed

text \<open>The deletion loop empties the doomed slots among its keys, in any order.\<close>

lemma deletes_slot:
  assumes "d' = fold (delete_step doomed (del u)) ks d"
  shows "(\<forall>v k. slot d' v k = (if v = u \<and> k \<in> set ks \<and> doomed k then [] else slot d v k)) \<and>
    frame d' = frame d"
  using assms
proof (induction ks arbitrary: d)
  case (Cons k ks)
  from Cons.prems have "d' = fold (delete_step doomed (del u)) ks (delete_step doomed (del u) k d)"
    by simp
  from Cons.IH [OF this] show ?case by (auto simp: delete_step_def slot_del frame_keeps)
qed simp

text \<open>The whole reconciliation: items conform, keys that are neither requested nor spared
  are gone, everything else is as before.\<close>

lemma sync_slot:
  assumes "distinct (map name is)" and "\<forall>i \<in> set is. ready m u d i"
    and ks: "\<And>k. slot d u k \<noteq> [] \<Longrightarrow> \<not> spared k \<Longrightarrow> k \<in> set ks"
    and d': "d' = fold (delete_step (\<lambda>k. \<not> spared k \<and> k \<notin> name ` set is) (del u)) ks
                (fold (item_step name differs (upd u) (ins u) m) is d)"
  shows "i \<in> set is \<Longrightarrow> conformed u d' i"
    and "k \<notin> name ` set is \<Longrightarrow> slot d' u k = (if spared k then slot d u k else [])"
    and "v \<noteq> u \<Longrightarrow> slot d' v k = slot d v k"
    and "frame d' = frame d"
proof -
  let ?d1 = "fold (item_step name differs (upd u) (ins u) m) is d"
  have 1: "\<forall>i \<in> set is. conformed u ?d1 i" "frame ?d1 = frame d"
    "\<And>v k. v \<noteq> u \<or> k \<notin> name ` set is \<Longrightarrow> slot ?d1 v k = slot d v k"
    using items_slot [OF assms(1,2) refl] by auto
  have 2: "slot d' v k = (if v = u \<and> k \<in> set ks \<and> \<not> spared k \<and> k \<notin> name ` set is then [] else slot ?d1 v k)"
    and 3: "frame d' = frame ?d1" for v k
    using deletes_slot [OF d'] by auto
  show "i \<in> set is \<Longrightarrow> conformed u d' i" using 1(1) 2 by (auto simp: conformed_def)
  show "k \<notin> name ` set is \<Longrightarrow> slot d' u k = (if spared k then slot d u k else [])"
    using 1(3) 2 ks by auto
  show "v \<noteq> u \<Longrightarrow> slot d' v k = slot d v k" using 1(3) 2 by auto
  show "frame d' = frame d" using 3 1(2) by simp
qed

end

section \<open>The three tables\<close>

definition assign_attr :: "rad_input \<Rightarrow> rad_attr \<Rightarrow> rad_attr" where
  "assign_attr a r = r\<lparr>ra_op := op_of a, ra_value := ri_value a\<rparr>"

definition assign_group :: "group_input \<Rightarrow> RadUserGroup \<Rightarrow> RadUserGroup" where
  "assign_group g r = r\<lparr>ug_priority := priority_of g\<rparr>"

definition upd_check :: "string \<Rightarrow> rad_input \<Rightarrow> radius_db \<Rightarrow> radius_db" where
  "upd_check u a d = d\<lparr>radcheck := upd_attr u (ri_attribute a) (op_of a) (ri_value a) (radcheck d)\<rparr>"

definition add_check :: "string \<Rightarrow> rad_input \<Rightarrow> radius_db \<Rightarrow> radius_db" where
  "add_check u a = ins_check u (ri_attribute a) (op_of a) (ri_value a)"

definition del_check :: "string \<Rightarrow> string \<Rightarrow> radius_db \<Rightarrow> radius_db" where
  "del_check u k d = d\<lparr>radcheck := del_attr u k (radcheck d)\<rparr>"

definition upd_reply :: "string \<Rightarrow> rad_input \<Rightarrow> radius_db \<Rightarrow> radius_db" where
  "upd_reply u a d = d\<lparr>radreply := upd_attr u (ri_attribute a) (op_of a) (ri_value a) (radreply d)\<rparr>"

definition add_reply :: "string \<Rightarrow> rad_input \<Rightarrow> radius_db \<Rightarrow> radius_db" where
  "add_reply u a = ins_reply u (ri_attribute a) (op_of a) (ri_value a)"

definition del_reply :: "string \<Rightarrow> string \<Rightarrow> radius_db \<Rightarrow> radius_db" where
  "del_reply u k d = d\<lparr>radreply := del_attr u k (radreply d)\<rparr>"

definition upd_member :: "string \<Rightarrow> group_input \<Rightarrow> radius_db \<Rightarrow> radius_db" where
  "upd_member u g d = d\<lparr>radusergroup := upd_group u (gi_groupname g) (priority_of g) (radusergroup d)\<rparr>"

definition add_member :: "string \<Rightarrow> group_input \<Rightarrow> radius_db \<Rightarrow> radius_db" where
  "add_member u g = ins_group u (gi_groupname g) (priority_of g)"

definition del_member :: "string \<Rightarrow> string \<Rightarrow> radius_db \<Rightarrow> radius_db" where
  "del_member u k d = d\<lparr>radusergroup := del_group u k (radusergroup d)\<rparr>"

interpretation check: synced_table radcheck ra_username ra_attribute ri_attribute attr_differs
  assign_attr upd_check add_check del_check "\<lambda>d. (radreply d, radusergroup d)"
  by unfold_locales
    (auto simp: upd_check_def upd_attr_def add_check_def ins_check_def new_attr_def attr_differs_def
      del_check_def del_attr_def assign_attr_def)

interpretation rpl: synced_table radreply ra_username ra_attribute ri_attribute attr_differs
  assign_attr upd_reply add_reply del_reply "\<lambda>d. (radcheck d, radusergroup d)"
  by unfold_locales
    (auto simp: upd_reply_def upd_attr_def add_reply_def ins_reply_def new_attr_def attr_differs_def
      del_reply_def del_attr_def assign_attr_def)

interpretation grp: synced_table radusergroup ug_username ug_groupname gi_groupname group_differs
  assign_group upd_member add_member del_member "\<lambda>d. (radcheck d, radreply d)"
  by unfold_locales
    (auto simp: upd_member_def upd_group_def add_member_def ins_group_def new_group_def group_differs_def
      del_member_def del_group_def assign_group_def)

end
