(* ===== verification/Hotspot_Spec.thy ===== *)
theory Hotspot_Spec
  imports Table_Sync
begin

text \<open>
  What the hotspot handlers do when the database answers: exact results of create, update
  and delete on the tables, and the properties of the handlers of hotspot_user.go.
\<close>

section \<open>Programs inside a transaction, as functions of its tables\<close>

named_theorems runs_rules \<open>composition rules of tx\_runs\<close>

text \<open>\<open>tx_runs ro m a g\<close>: inside a transaction on tables \<open>d\<close>, whatever the server answers, the
  program either fails, and only because a statement failed, or returns \<open>a d\<close> and leaves the
  transaction's tables as \<open>g d\<close>.\<close>

definition tx_runs ::
  "(string list \<Rightarrow> string list) \<Rightarrow> (radius_world, 'e, 'a) prog \<Rightarrow> (radius_db \<Rightarrow> 'a) \<Rightarrow>
   (radius_db \<Rightarrow> radius_db) \<Rightarrow> bool" where
  "tx_runs ro m a g \<longleftrightarrow>
     (\<forall>w d. txn w = OpenTx d \<longrightarrow> range_order w = ro \<longrightarrow>
        (case m w of
           (Inl x, w') \<Rightarrow> faults w \<noteq> []
         | (Inr x, w') \<Rightarrow> x = a d \<and>
             (\<exists>fs. w' = w\<lparr>txn := OpenTx (g d), faults := fs\<rparr> \<and> (faults w = [] \<longrightarrow> fs = []))))"

lemma tx_runs_Inr:
  "tx_runs ro m a g \<Longrightarrow> txn w = OpenTx d \<Longrightarrow> range_order w = ro \<Longrightarrow> m w = (Inr x, w') \<Longrightarrow>
   x = a d \<and> (\<exists>fs. w' = w\<lparr>txn := OpenTx (g d), faults := fs\<rparr> \<and> (faults w = [] \<longrightarrow> fs = []))"
  unfolding tx_runs_def by fastforce

lemma tx_runs_Inl:
  "tx_runs ro m a g \<Longrightarrow> txn w = OpenTx d \<Longrightarrow> range_order w = ro \<Longrightarrow> m w = (Inl x, w') \<Longrightarrow> faults w \<noteq> []"
  unfolding tx_runs_def by fastforce

lemma tx_runsI:
  assumes "\<And>w d x w'. txn w = OpenTx d \<Longrightarrow> range_order w = ro \<Longrightarrow> m w = (Inl x, w') \<Longrightarrow> faults w \<noteq> []"
    and "\<And>w d x w'. txn w = OpenTx d \<Longrightarrow> range_order w = ro \<Longrightarrow> m w = (Inr x, w') \<Longrightarrow>
      x = a d \<and> (\<exists>fs. w' = w\<lparr>txn := OpenTx (g d), faults := fs\<rparr> \<and> (faults w = [] \<longrightarrow> fs = []))"
  shows "tx_runs ro m a g"
  unfolding tx_runs_def using assms by (fastforce split: prod.splits sum.splits)

lemma tx_runsD:
  assumes "tx_runs ro m a g" and "txn w = OpenTx d" and "faults w = []" and "range_order w = ro"
  shows "m w = (Inr (a d), w\<lparr>txn := OpenTx (g d)\<rparr>)"
proof (cases "m w")
  case (Pair r w')
  show ?thesis
  proof (cases r)
    case (Inl x)
    with Pair assms tx_runs_Inl [OF assms(1,2,4)] show ?thesis by blast
  next
    case (Inr x)
    with Pair assms tx_runs_Inr [OF assms(1,2,4)] show ?thesis by fastforce
  qed
qed

lemma next_fault_none: "faults w = [] \<Longrightarrow> next_fault w = (None, w)"
  by (simp add: next_fault_def)

lemma next_fault_cases:
  obtains (fault) e fs where "faults w \<noteq> []" "next_fault w = (Some e, w\<lparr>faults := fs\<rparr>)"
  | (answer) fs where "faults w = [] \<longrightarrow> fs = []" "next_fault w = (None, w\<lparr>faults := fs\<rparr>)"
proof (cases "faults w")
  case Nil
  then show ?thesis using answer [of "[]"] by (simp add: next_fault_def)
next
  case (Cons f fs)
  then show ?thesis using fault answer by (cases f) (auto simp: next_fault_def)
qed

lemma faults_txn_swap: "w\<lparr>faults := fs, txn := t\<rparr> = w\<lparr>txn := t, faults := fs\<rparr>"
  by simp

lemma runs_stmt [runs_rules]: "tx_runs ro (stmt Tx f) (\<lambda>d. fst (f d)) (\<lambda>d. snd (f d))"
proof (rule tx_runsI)
  show "faults w \<noteq> []" if "txn w = OpenTx d" "stmt Tx f w = (Inl x, w')" for w d x w'
    using that by (cases w rule: next_fault_cases) (auto simp: stmt_def)
  show "x = fst (f d) \<and> (\<exists>fs. w' = w\<lparr>txn := OpenTx (snd (f d)), faults := fs\<rparr> \<and> (faults w = [] \<longrightarrow> fs = []))"
    if "txn w = OpenTx d" "stmt Tx f w = (Inr x, w')" for w d x w'
    using that by (cases w rule: next_fault_cases) (auto simp: stmt_def faults_txn_swap)
qed

lemma runs_ret [runs_rules]: "tx_runs ro (ret a) (\<lambda>_. a) (\<lambda>d. d)"
proof (rule tx_runsI)
  show "x = a \<and> (\<exists>fs. w' = w\<lparr>txn := OpenTx d, faults := fs\<rparr> \<and> (faults w = [] \<longrightarrow> fs = []))"
    if "txn w = OpenTx d" "ret a w = (Inr x, w')" for w d x w'
    using that by (intro conjI exI [of _ "faults w"]) (auto simp: ret_def)
qed (simp add: ret_def)

lemma runs_andThen [runs_rules]:
  assumes m: "tx_runs ro m a g" and f: "\<And>x. tx_runs ro (f x) (b x) (h x)"
  shows "tx_runs ro (andThen m f) (\<lambda>d. b (a d) (g d)) (\<lambda>d. h (a d) (g d))"
proof (rule tx_runsI)
  fix w d x w'
  assume w: "txn w = OpenTx d" "range_order w = ro" and i: "andThen m f w = (Inl x, w')"
  show "faults w \<noteq> []"
  proof (cases "m w")
    case (Pair r v)
    show ?thesis
    proof (cases r)
      case (Inl y)
      with Pair tx_runs_Inl [OF m w] show ?thesis by blast
    next
      case (Inr y)
      with Pair tx_runs_Inr [OF m w] obtain fs where v: "v = w\<lparr>txn := OpenTx (g d), faults := fs\<rparr>"
        "faults w = [] \<longrightarrow> fs = []" by blast
      then have "faults v \<noteq> []"
        using tx_runs_Inl [OF f, of v "g d" y x w'] i Pair Inr w by (simp add: andThen_def)
      with v show ?thesis by auto
    qed
  qed
next
  fix w d x w'
  assume w: "txn w = OpenTx d" "range_order w = ro" and i: "andThen m f w = (Inr x, w')"
  then obtain y v where 1: "m w = (Inr y, v)" and 2: "f y v = (Inr x, w')"
    by (auto simp: andThen_def split: prod.splits sum.splits)
  from tx_runs_Inr [OF m w 1] obtain fs where v: "y = a d" "v = w\<lparr>txn := OpenTx (g d), faults := fs\<rparr>"
    "faults w = [] \<longrightarrow> fs = []" by blast
  with tx_runs_Inr [OF f _ _ 2, of "g d"] w
  show "x = b (a d) (g d) \<and>
      (\<exists>fs. w' = w\<lparr>txn := OpenTx (h (a d) (g d)), faults := fs\<rparr> \<and> (faults w = [] \<longrightarrow> fs = []))"
    by auto
qed

lemma runs_onErr:
  assumes "tx_runs ro m a g" and "\<And>e w. \<exists>x w'. h e w = (Inl x, w')"
  shows "tx_runs ro (onErr m h) a g"
proof (rule tx_runsI)
  show "faults w \<noteq> []" if "txn w = OpenTx d" "range_order w = ro" "onErr m h w = (Inl x, w')" for w d x w'
    using that tx_runs_Inl [OF assms(1) that(1,2)]
    by (auto simp: onErr_def split: prod.splits sum.splits exit.splits)
  show "x = a d \<and> (\<exists>fs. w' = w\<lparr>txn := OpenTx (g d), faults := fs\<rparr> \<and> (faults w = [] \<longrightarrow> fs = []))"
    if "txn w = OpenTx d" "range_order w = ro" "onErr m h w = (Inr x, w')" for w d x w'
  proof -
    have "m w = (Inr x, w')"
      using that(3) assms(2) by (auto simp: onErr_def split: prod.splits sum.splits exit.splits) (metis old.sum.distinct(1) prod.inject)
    then show ?thesis using tx_runs_Inr [OF assms(1) that(1,2)] by blast
  qed
qed

lemma runs_wrap [runs_rules]: "tx_runs ro m a g \<Longrightarrow> tx_runs ro (wrap_err msg m) a g"
  unfolding wrap_err_def by (rule runs_onErr) (simp_all add: raise_def)

lemma runs_or_abort [runs_rules]: "tx_runs ro m a g \<Longrightarrow> tx_runs ro (or_abort m msg) a g"
  unfolding or_abort_def by (rule runs_onErr) (simp_all add: andThen_def rollback_def raise_def)

lemma runs_if [runs_rules]:
  "tx_runs ro m a g \<Longrightarrow> tx_runs ro m' a' g' \<Longrightarrow>
   tx_runs ro (if b then m else m') (\<lambda>d. if b then a d else a' d) (\<lambda>d. if b then g d else g' d)"
  by (simp add: tx_runs_def)

lemma runs_forEach [runs_rules]:
  assumes "\<And>x. tx_runs ro (f x) (\<lambda>_. ()) (g x)"
  shows "tx_runs ro (forEach f xs) (\<lambda>_. ()) (fold g xs)"
proof (induction xs)
  case Nil
  show ?case using runs_ret [of ro "()"] by (simp add: id_def)
next
  case (Cons x xs)
  show ?case using runs_andThen [OF assms [of x], of "\<lambda>_. forEach f xs"] Cons by (simp add: comp_def)
qed

lemma runs_get_st:
  assumes "\<And>w. range_order w = ro \<Longrightarrow> tx_runs ro (f w) a g"
  shows "tx_runs ro (andThen get_st f) a g"
  using assms unfolding tx_runs_def get_st_def andThen_def by simp

lemma runs_forRange [runs_rules]:
  assumes "\<And>x. tx_runs ro (f x) (\<lambda>_. ()) (g x)"
  shows "tx_runs ro (forRange ks f) (\<lambda>_. ()) (fold g (ro ks))"
  unfolding forRange_def by (rule runs_get_st) (simp add: runs_forEach [OF assms])

lemma runs_cong:
  assumes "tx_runs ro m a g" and "\<And>d. a d = a' d" and "\<And>d. g d = g' d"
  shows "tx_runs ro m a' g'"
proof -
  have "a = a'" and "g = g'" using assms(2,3) by auto
  with assms(1) show ?thesis by simp
qed

lemma runs_process [runs_rules]:
  assumes "\<And>i. tx_runs ro (upd i) (\<lambda>_. ()) (u i)" and "\<And>i. tx_runs ro (ins i) (\<lambda>_. ()) (n i)"
  shows "tx_runs ro (process_items name differs upd ins m is processed)
           (\<lambda>_. rev (map name is) @ processed) (fold (item_step name differs u n m) is)"
proof (induction "is" arbitrary: processed)
  case Nil
  show ?case using runs_ret [of ro processed] by (simp add: id_def)
next
  case (Cons i "is")
  have step: "tx_runs ro
      (case m (name i) of Some existing \<Rightarrow> if differs existing i then upd i else ret () | None \<Rightarrow> ins i)
      (\<lambda>_. ()) (item_step name differs u n m i)"
  proof (cases "m (name i)")
    case None
    with assms(2) [of i] show ?thesis by (simp add: item_step_def [abs_def])
  next
    case (Some r)
    with runs_if [OF assms(1) [of i] runs_ret [of ro "()"], of "differs r i"] show ?thesis
      by (simp add: item_step_def [abs_def] if_distrib [of "\<lambda>f. f _"])
  qed
  show ?case
    using runs_andThen [OF step, of "\<lambda>_. process_items name differs upd ins m is (name i # processed)"]
      Cons [of "name i # processed"]
    by (simp add: comp_def)
qed

section \<open>The statements\<close>

lemma sql_runs [runs_rules]:
  "tx_runs ro (insertRadCheck (Some Tx) u k op v) (\<lambda>_. ()) (ins_check u k op v)"
  "tx_runs ro (insertRadReply (Some Tx) u k op v) (\<lambda>_. ()) (ins_reply u k op v)"
  "tx_runs ro (insertRadUserGroup (Some Tx) u k p) (\<lambda>_. ()) (ins_group u k p)"
  "tx_runs ro (getRadCheckAttributesTx u) (\<lambda>d. sel_attr u (radcheck d)) (\<lambda>d. d)"
  "tx_runs ro (getRadReplyAttributesTx u) (\<lambda>d. sel_attr u (radreply d)) (\<lambda>d. d)"
  "tx_runs ro (getRadUserGroupsTx u) (\<lambda>d. sel_group u (radusergroup d)) (\<lambda>d. d)"
  "tx_runs ro (updateRadCheckAttributeTx u (ri_attribute a) (op_of a) (ri_value a)) (\<lambda>_. ()) (upd_check u a)"
  "tx_runs ro (updateRadReplyAttributeTx u (ri_attribute a) (op_of a) (ri_value a)) (\<lambda>_. ()) (upd_reply u a)"
  "tx_runs ro (updateRadUserGroupTx u (gi_groupname g) (priority_of g)) (\<lambda>_. ()) (upd_member u g)"
  "tx_runs ro (deleteRadCheckAttributeTx u k) (\<lambda>_. ()) (del_check u k)"
  "tx_runs ro (deleteRadReplyAttributeTx u k) (\<lambda>_. ()) (del_reply u k)"
  "tx_runs ro (deleteRadUserGroupTx u k) (\<lambda>_. ()) (del_member u k)"
  unfolding insertRadCheck_def insertRadReply_def insertRadUserGroup_def tx_or_db_Tx andThen_ret
    getRadCheckAttributesTx_def getRadReplyAttributesTx_def getRadUserGroupsTx_def
    updateRadCheckAttributeTx_def updateRadReplyAttributeTx_def updateRadUserGroupTx_def
    deleteRadCheckAttributeTx_def deleteRadReplyAttributeTx_def deleteRadUserGroupTx_def option.case
    upd_check_def upd_reply_def upd_member_def del_check_def del_reply_def del_member_def
  by (rule runs_wrap, rule runs_cong [OF runs_stmt], simp, simp)+

lemma runs_userExists [runs_rules]:
  "tx_runs ro (userExists (Some Tx) u) (\<lambda>d. sel_attr u (radcheck d) \<noteq> []) (\<lambda>d. d)"
  unfolding userExists_def tx_or_db_Tx andThen_ret
  by (rule runs_cong, rule runs_andThen [OF runs_wrap [OF runs_stmt] runs_ret]) auto

section \<open>Handlers as functions of the tables\<close>

definition user_exists :: "string \<Rightarrow> radius_db \<Rightarrow> bool" where
  "user_exists u d \<longleftrightarrow> sel_attr u (radcheck d) \<noteq> []"

text \<open>The world a handler starts from when nothing goes wrong.\<close>

definition healthy :: "radius_world \<Rightarrow> bool" where
  "healthy w \<longleftrightarrow> db_up w \<and> faults w = [] \<and> closed w"

lemma require_user_run:
  "healthy w \<Longrightarrow> require_user u w =
     (if user_exists u (committed w) then (Inr (), w) else (Inl (Raise (err ''User not found'' 404)), w))"
  by (simp add: require_user_def or_fail_def userExists_def tx_or_db_def GetDB_def healthy_def
      user_exists_def andThen_def onErr_def wrap_err_def stmt_def next_fault_none ret_def raise_def)

lemma begin_run:
  "healthy w \<Longrightarrow> andThen (deref (GetDB w)) (\<lambda>_. begin_tx) w = (Inr (), w\<lparr>txn := OpenTx (committed w)\<rparr>)"
  by (simp add: healthy_def GetDB_def deref_def begin_tx_def next_fault_none)

lemma commit_run:
  "txn w = OpenTx d \<Longrightarrow> faults w = [] \<Longrightarrow>
   or_abort commit_tx msg w = (Inr (), w\<lparr>committed := d, txn := NoTx\<rparr>)"
  by (simp add: or_abort_def onErr_def commit_tx_def next_fault_none)

text \<open>A transaction body that runs, then commits: the committed tables become the body's
  function of the old ones.\<close>

lemma tx_body_run:
  assumes "tx_runs ro m a g" and "txn w = OpenTx d" and "faults w = []" and "range_order w = ro"
  shows "andThen m (\<lambda>_. andThen (or_abort commit_tx msg) (\<lambda>_. ret r)) w =
         (Inr r, w\<lparr>committed := g d, txn := NoTx\<rparr>)"
  using tx_runsD [OF assms]
  by (simp add: andThen_Inr [where s' = "w\<lparr>txn := OpenTx (g d)\<rparr>"]
      andThen_Inr [OF commit_run] assms ret_def)

definition created :: "HotspotUserInput \<Rightarrow> radius_db \<Rightarrow> radius_db" where
  "created input d =
     (let u = hu_username input;
          d0 = (case hu_password input of
                  Some p \<Rightarrow>
                    if p \<noteq> [] then ins_check u AttrCleartextPassword defaultOp p d
                    else ins_check u AttrAuthType defaultOp ''Accept'' d
                | None \<Rightarrow> ins_check u AttrAuthType defaultOp ''Accept'' d)
      in fold (add_member u) (slice (hu_groups input))
           (fold (add_reply u) (slice (hu_replies input))
             (fold (add_check u) (slice (hu_checks input)) d0)))"

definition password_set :: "string \<Rightarrow> string option \<Rightarrow> radius_db \<Rightarrow> radius_db" where
  "password_set u pw d =
     (case pw of
        None \<Rightarrow> ins_check u AttrAuthType defaultOp ''Accept'' d
      | Some p \<Rightarrow>
          (if p \<noteq> [] then ins_check u AttrCleartextPassword defaultOp p (del_check u AttrCleartextPassword d)
           else del_check u AttrCleartextPassword d))"

lemma runs_update_password [runs_rules]:
  "tx_runs ro (update_password u pw) (\<lambda>_. pw = None) (password_set u pw)"
proof (cases pw)
  case None
  then show ?thesis
    using runs_andThen [OF runs_or_abort [OF sql_runs(1)] runs_ret]
    by (simp add: update_password_def password_set_def [abs_def])
next
  case (Some p)
  show ?thesis
    unfolding Some update_password_def option.case
    by (rule runs_cong, rule runs_andThen [OF runs_or_abort [OF sql_runs(10)]], rule runs_andThen,
        rule runs_if [OF runs_or_abort [OF sql_runs(1)] runs_ret], rule runs_ret)
      (simp_all add: password_set_def)
qed

definition checks_synced ::
  "(string list \<Rightarrow> string list) \<Rightarrow> string \<Rightarrow> bool \<Rightarrow> rad_input list \<Rightarrow> radius_db \<Rightarrow> radius_db" where
  "checks_synced ro u added cs d =
     (let rows = filter (\<lambda>r. ra_attribute r \<noteq> AttrCleartextPassword) (sel_attr u (radcheck d))
      in fold (delete_step (\<lambda>k. \<not> (k = AttrCleartextPassword \<or> (added \<and> k = AttrAuthType)) \<and>
                                k \<notin> ri_attribute ` set cs) (del_check u))
           (ro (remdups (map ra_attribute rows)))
           (fold (item_step ri_attribute attr_differs (upd_check u) (add_check u)
                    (row_map ra_attribute rows)) cs d))"

definition replies_synced ::
  "(string list \<Rightarrow> string list) \<Rightarrow> string \<Rightarrow> rad_input list \<Rightarrow> radius_db \<Rightarrow> radius_db" where
  "replies_synced ro u rs d =
     (let rows = sel_attr u (radreply d)
      in fold (delete_step (\<lambda>k. k \<notin> ri_attribute ` set rs) (del_reply u))
           (ro (remdups (map ra_attribute rows)))
           (fold (item_step ri_attribute attr_differs (upd_reply u) (add_reply u)
                    (row_map ra_attribute rows)) rs d))"

definition groups_synced ::
  "(string list \<Rightarrow> string list) \<Rightarrow> string \<Rightarrow> group_input list \<Rightarrow> radius_db \<Rightarrow> radius_db" where
  "groups_synced ro u gs d =
     (let rows = sel_group u (radusergroup d)
      in fold (delete_step (\<lambda>k. k \<notin> gi_groupname ` set gs) (del_member u))
           (ro (remdups (map ug_groupname rows)))
           (fold (item_step gi_groupname group_differs (upd_member u) (add_member u)
                    (row_map ug_groupname rows)) gs d))"

lemma runs_delete_if:
  "tx_runs ro m (\<lambda>_. ()) (del k) \<Longrightarrow>
   tx_runs ro (if doomed k then or_abort m msg else ret ()) (\<lambda>_. ()) (delete_step doomed del k)"
  by (rule runs_cong [OF runs_if [OF runs_or_abort runs_ret]]) (simp_all add: delete_step_def)

lemma runs_update_checks:
  "tx_runs ro (update_checks u added cs) (\<lambda>_. ()) (checks_synced ro u added cs)"
  unfolding update_checks_def Let_def
  by (rule runs_cong, rule runs_andThen [OF runs_or_abort [OF sql_runs(4)]],
      rule runs_andThen [OF runs_process [OF runs_or_abort [OF sql_runs(7)] runs_or_abort [OF sql_runs(1)]]],
      rule runs_forRange [OF runs_delete_if [OF sql_runs(10)]])
    (simp_all add: checks_synced_def Let_def add_check_def [abs_def])

lemma runs_update_replies:
  "tx_runs ro (update_replies u rs) (\<lambda>_. ()) (replies_synced ro u rs)"
  unfolding update_replies_def
  by (rule runs_cong, rule runs_andThen [OF runs_or_abort [OF sql_runs(5)]],
      rule runs_andThen [OF runs_process [OF runs_or_abort [OF sql_runs(8)] runs_or_abort [OF sql_runs(2)]]],
      rule runs_forRange [OF runs_delete_if [OF sql_runs(11)]])
    (simp_all add: replies_synced_def Let_def add_reply_def [abs_def])

lemma runs_update_groups:
  "tx_runs ro (update_groups u gs) (\<lambda>_. ()) (groups_synced ro u gs)"
  unfolding update_groups_def
  by (rule runs_cong, rule runs_andThen [OF runs_or_abort [OF sql_runs(6)]],
      rule runs_andThen [OF runs_process [OF runs_or_abort [OF sql_runs(9)] runs_or_abort [OF sql_runs(3)]]],
      rule runs_forRange [OF runs_delete_if [OF sql_runs(12)]])
    (simp_all add: groups_synced_def Let_def add_member_def [abs_def])

text \<open>The tables after a successful \<^verbatim>\<open>UpdateHotspotUser\<close>.\<close>

definition opt_apply :: "('a \<Rightarrow> 'd \<Rightarrow> 'd) \<Rightarrow> 'a option \<Rightarrow> 'd \<Rightarrow> 'd" where
  "opt_apply f x d = (case x of None \<Rightarrow> d | Some a \<Rightarrow> f a d)"

definition updated :: "(string list \<Rightarrow> string list) \<Rightarrow> HotspotUserInput \<Rightarrow> radius_db \<Rightarrow> radius_db" where
  "updated ro input d =
     (let u = hu_username input
      in opt_apply (groups_synced ro u) (hu_groups input)
           (opt_apply (replies_synced ro u) (hu_replies input)
             (opt_apply (checks_synced ro u (hu_password input = None)) (hu_checks input)
               (password_set u (hu_password input) d))))"

lemma runs_opt:
  "(\<And>x. tx_runs ro (f x) (\<lambda>_. ()) (g x)) \<Longrightarrow>
   tx_runs ro (case ox of None \<Rightarrow> ret () | Some x \<Rightarrow> f x) (\<lambda>_. ()) (opt_apply g ox)"
  using runs_ret [of ro "()"] by (cases ox) (simp_all add: opt_apply_def [abs_def])

lemma runs_update_rows: "tx_runs ro (update_rows input) (\<lambda>_. ()) (updated ro input)"
  unfolding update_rows_def
  by (rule runs_cong, rule runs_andThen [OF runs_update_password],
      rule runs_andThen [OF runs_opt [OF runs_update_checks]],
      rule runs_andThen [OF runs_opt [OF runs_update_replies]], rule runs_opt [OF runs_update_groups])
    (simp_all add: updated_def Let_def)

lemma runs_create_password:
  "tx_runs ro (create_password input) (\<lambda>_. ())
     (\<lambda>d. case hu_password input of
            Some p \<Rightarrow>
              if p \<noteq> [] then ins_check (hu_username input) AttrCleartextPassword defaultOp p d
              else ins_check (hu_username input) AttrAuthType defaultOp ''Accept'' d
          | None \<Rightarrow> ins_check (hu_username input) AttrAuthType defaultOp ''Accept'' d)"
  unfolding create_password_def
  by (cases "hu_password input") (auto intro: runs_or_abort sql_runs)

lemma runs_create_rows: "tx_runs ro (create_rows input) (\<lambda>_. ()) (created input)"
  unfolding create_rows_def
  by (rule runs_cong, rule runs_andThen [OF runs_create_password],
      rule runs_andThen [OF runs_forEach [OF runs_or_abort [OF sql_runs(1)]]],
      rule runs_andThen [OF runs_forEach [OF runs_or_abort [OF sql_runs(2)]]],
      rule runs_forEach [OF runs_or_abort [OF sql_runs(3)]])
    (simp_all add: created_def Let_def add_check_def [abs_def] add_reply_def [abs_def] add_member_def [abs_def])

text \<open>The tables after a successful \<^verbatim>\<open>DeleteHotspotUser\<close>.\<close>

definition purged :: "string \<Rightarrow> radius_db \<Rightarrow> radius_db" where
  "purged u d = d\<lparr>radcheck := del_user_attrs u (radcheck d), radreply := del_user_attrs u (radreply d),
     radusergroup := del_user_groups u (radusergroup d)\<rparr>"

lemma runs_delete_rows: "tx_runs ro (delete_rows u) (\<lambda>_. ()) (purged u)"
  unfolding delete_rows_def
  by (rule runs_cong, rule runs_andThen [OF runs_or_abort [OF runs_stmt]],
      rule runs_andThen [OF runs_or_abort [OF runs_stmt]], rule runs_or_abort [OF runs_stmt])
    (simp_all add: purged_def)

lemma opened:
  "healthy w \<Longrightarrow> txn (w\<lparr>txn := OpenTx (committed w)\<rparr>) = OpenTx (committed w) \<and>
   faults (w\<lparr>txn := OpenTx (committed w)\<rparr>) = [] \<and>
   range_order (w\<lparr>txn := OpenTx (committed w)\<rparr>) = range_order w"
  by (simp add: healthy_def)

lemma onErr_begin_run:
  "healthy w \<Longrightarrow> onErr (andThen (deref (GetDB w)) (\<lambda>_. begin_tx)) h w = (Inr (), w\<lparr>txn := OpenTx (committed w)\<rparr>)"
  by (rule onErr_Inr) (rule begin_run)

lemma UpdateHotspotUser_run:
  assumes "healthy w" and "user_exists (hu_username input) (committed w)"
  shows "UpdateHotspotUser input w =
    (Returns ([(''message'', VStr ''Hotspot user updated successfully''),
               (''username'', VStr (hu_username input))], 200),
     w\<lparr>committed := updated (range_order w) input (committed w), txn := NoTx\<rparr>)"
proof -
  let ?w = "w\<lparr>txn := OpenTx (committed w)\<rparr>"
  have 1: "require_user (hu_username input) w = (Inr (), w)"
    using assms by (simp add: require_user_run)
  have 2: "andThen (update_rows input) (\<lambda>_. andThen (or_abort commit_tx msg) (\<lambda>_. ret r)) ?w =
      (Inr r, ?w\<lparr>committed := updated (range_order w) input (committed w), txn := NoTx\<rparr>)" for msg r
    using opened [OF assms(1)] by (intro tx_body_run [OF runs_update_rows]) auto
  show ?thesis
    unfolding UpdateHotspotUser_def update_body_def
    by (rule finish_Inr, rule run_step, rule 1, rule run_step, rule get_st_run, rule run_step,
        rule onErr_begin_run [OF assms(1)], subst 2) simp
qed

lemma CreateHotspotUser_run:
  assumes "healthy w" and "\<not> user_exists (hu_username input) (committed w)"
  shows "CreateHotspotUser input w =
    (Returns ([(''message'', VStr ''Hotspot user created successfully''),
               (''username'', VStr (hu_username input))], 201),
     w\<lparr>committed := created input (committed w), txn := NoTx\<rparr>)"
proof -
  let ?w = "w\<lparr>txn := OpenTx (committed w)\<rparr>"
  have 1: "or_abort (userExists (Some Tx) (hu_username input)) msg ?w = (Inr False, ?w)" for msg
    using tx_runsD [OF runs_or_abort [OF runs_userExists], of ?w "committed w"] opened [OF assms(1)] assms(2)
    by (simp add: user_exists_def)
  have 2: "andThen (create_rows input) (\<lambda>_. andThen (or_abort commit_tx msg) (\<lambda>_. ret r)) ?w =
      (Inr r, ?w\<lparr>committed := created input (committed w), txn := NoTx\<rparr>)" for msg r
    using opened [OF assms(1)] by (intro tx_body_run [OF runs_create_rows]) auto
  show ?thesis
    unfolding CreateHotspotUser_def create_body_def or_fail_def
    by (rule finish_Inr, rule run_step, rule get_st_run, rule run_step,
        rule onErr_begin_run [OF assms(1)], rule run_step, rule 1, unfold if_False, subst 2) simp
qed

lemma DeleteHotspotUser_run:
  assumes "healthy w" and "user_exists u (committed w)"
  shows "DeleteHotspotUser u w =
    (Returns ([(''message'', VStr ''Hotspot user deleted successfully''), (''username'', VStr u)], 200),
     w\<lparr>committed := purged u (committed w), txn := NoTx\<rparr>)"
proof -
  let ?w = "w\<lparr>txn := OpenTx (committed w)\<rparr>"
  have 1: "require_user u w = (Inr (), w)"
    using assms by (simp add: require_user_run)
  have 2: "andThen (delete_rows u) (\<lambda>_. andThen (or_abort commit_tx msg) (\<lambda>_. ret r)) ?w =
      (Inr r, ?w\<lparr>committed := purged u (committed w), txn := NoTx\<rparr>)" for msg r
    using opened [OF assms(1)] by (intro tx_body_run [OF runs_delete_rows]) auto
  show ?thesis
    unfolding DeleteHotspotUser_def delete_body_def or_fail_def
    by (rule finish_Inr, rule run_step, rule 1, rule run_step, rule get_st_run, rule run_step,
        rule onErr_begin_run [OF assms(1)], subst 2) simp
qed

section \<open>All or nothing\<close>

lemma runs_triple:
  "tx_runs ro m a g \<Longrightarrow>
   triple (\<lambda>w. txn w = OpenTx d \<and> range_order w = ro) m
     (\<lambda>x w. x = a d \<and> txn w = OpenTx (g d) \<and> range_order w = ro) (\<lambda>_ _. True)"
  unfolding triple_def by (auto split: prod.splits sum.splits dest: tx_runs_Inr)

lemma commit_ok: "triple (\<lambda>w. txn w = OpenTx d) (or_abort commit_tx msg) (\<lambda>_ w. committed w = d) (\<lambda>_ _. True)"
  by (auto simp: triple_def or_abort_def onErr_def commit_tx_def andThen_def rollback_def raise_def
      split: prod.splits option.splits)

lemma body_ok:
  assumes "tx_runs ro m a g"
  shows "triple (\<lambda>w. txn w = OpenTx d \<and> range_order w = ro)
    (andThen m (\<lambda>_. andThen (or_abort commit_tx msg) (\<lambda>_. ret r))) (\<lambda>_ w. committed w = g d) (\<lambda>_ _. True)"
  by (rule triple_andThen [OF runs_triple [OF assms]],
      rule triple_andThen [OF triple_pre [OF commit_ok]], auto intro: triple_ret)

lemma begin_ok:
  "triple (\<lambda>w. committed w = c \<and> range_order w = ro) (andThen (deref h) (\<lambda>_. begin_tx))
     (\<lambda>_ w. txn w = OpenTx c \<and> range_order w = ro) (\<lambda>x w. x \<noteq> GoPanic \<longrightarrow> (\<exists>e. txn w = BrokenTx e))"
proof (cases h)
  case None
  then show ?thesis by (simp add: triple_def deref_def andThen_def go_panic_def)
next
  case (Some k)
  then show ?thesis
    by (auto simp: triple_def deref_def begin_tx_def split: prod.splits option.splits)
qed

lemma begin_then_ok:
  assumes "triple (\<lambda>w. txn w = OpenTx c \<and> range_order w = ro) k Q (\<lambda>_ _. True)"
  shows "triple (\<lambda>w. committed w = c \<and> range_order w = ro)
    (andThen get_st (\<lambda>v. andThen (or_fail (andThen (deref (GetDB v)) (\<lambda>_. begin_tx)) msg) (\<lambda>_. k))) Q (\<lambda>_ _. True)"
proof (rule triple_andThen [OF get_st_safe], rule triple_andThen [OF _ assms])
  show "triple (\<lambda>w. committed w = c \<and> range_order w = ro) (or_fail (andThen (deref (GetDB v)) (\<lambda>_. begin_tx)) msg)
      (\<lambda>_ w. txn w = OpenTx c \<and> range_order w = ro) (\<lambda>_ _. True)" for v
    unfolding or_fail_def
    by (rule triple_onErr [where R = "\<lambda>_ _. True"], rule triple_weaken [OF begin_ok])
      (auto split: exit.splits intro: triple_raise)
qed

lemma require_user_ok:
  "triple (\<lambda>w. committed w = c \<and> range_order w = ro) (require_user u)
     (\<lambda>_ w. committed w = c \<and> range_order w = ro) (\<lambda>_ _. True)"
  by (auto simp: triple_def require_user_def or_fail_def userExists_def tx_or_db_def GetDB_def andThen_def
      onErr_def wrap_err_def stmt_def ret_def raise_def
      split: prod.splits sum.splits option.splits exit.splits)

lemma create_ok:
  "triple (\<lambda>w. committed w = c \<and> range_order w = ro) (create_body input)
     (\<lambda>_ w. committed w = created input c) (\<lambda>_ _. True)"
  unfolding create_body_def
proof (rule begin_then_ok, rule triple_andThen [OF runs_triple [OF runs_or_abort [OF runs_userExists]]])
  show "triple (\<lambda>w. x = (sel_attr (hu_username input) (radcheck c) \<noteq> []) \<and> txn w = OpenTx c \<and> range_order w = ro)
      (if x then andThen rollback (\<lambda>_. raise r) else
       andThen (create_rows input) (\<lambda>_. andThen (or_abort commit_tx m3) (\<lambda>_. ret r')))
      (\<lambda>_ w. committed w = created input c) (\<lambda>_ _. True)" for x r m3 r'
    by (rule triple_if, simp add: triple_def andThen_def rollback_def raise_def)
      (auto intro: triple_pre [OF body_ok [OF runs_create_rows]])
qed

lemma delete_ok:
  "triple (\<lambda>w. committed w = c \<and> range_order w = ro) (delete_body u)
     (\<lambda>_ w. committed w = purged u c) (\<lambda>_ _. True)"
  unfolding delete_body_def
  by (rule triple_andThen [OF require_user_ok], rule begin_then_ok, rule body_ok, rule runs_delete_rows)

text \<open>A broken transaction answers no statement, so the update does not get past the
  password.\<close>

lemma broken_stmt: "txn w = BrokenTx e \<Longrightarrow> or_abort (wrap_err m (stmt Tx f)) msg w =
    (Inl (Raise (err (msg (m @ '': '' @ e)) 500)), w\<lparr>txn := NoTx\<rparr>)"
  by (simp add: or_abort_def onErr_def wrap_err_def stmt_def andThen_def rollback_def raise_def)

lemma broken_rows: "triple (\<lambda>w. txn w = BrokenTx e) (update_rows input) (\<lambda>_ _. False) (\<lambda>_ _. True)"
  by (auto simp: triple_def update_rows_def update_password_def insertRadCheck_def
      deleteRadCheckAttributeTx_def andThen_def broken_stmt split: option.splits)

lemma update_ok:
  "triple (\<lambda>w. committed w = c \<and> range_order w = ro) (update_body input)
     (\<lambda>_ w. committed w = updated ro input c) (\<lambda>_ _. True)"
  unfolding update_body_def
proof (rule triple_andThen [OF require_user_ok], rule triple_andThen [OF get_st_safe],
    rule triple_andThen [where R = "\<lambda>_ w. txn w = OpenTx c \<and> range_order w = ro \<or> (\<exists>e. txn w = BrokenTx e)"])
  show "triple (\<lambda>w. committed w = c \<and> range_order w = ro)
      (onErr (andThen (deref (GetDB v)) (\<lambda>_. begin_tx)) (\<lambda>e. ret ()))
      (\<lambda>_ w. txn w = OpenTx c \<and> range_order w = ro \<or> (\<exists>e. txn w = BrokenTx e)) (\<lambda>_ _. True)" for v
    by (rule triple_onErr [where R = "\<lambda>_ w. \<exists>e. txn w = BrokenTx e"], rule triple_weaken [OF begin_ok])
      (auto split: exit.splits intro: triple_ret)
  show "triple (\<lambda>w. txn w = OpenTx c \<and> range_order w = ro \<or> (\<exists>e. txn w = BrokenTx e))
      (andThen (update_rows input) (\<lambda>_. andThen (or_abort commit_tx msg) (\<lambda>_. ret r)))
      (\<lambda>_ w. committed w = updated ro input c) (\<lambda>_ _. True)" for msg r
  proof (rule triple_cases)
    show "triple (\<lambda>w. txn w = BrokenTx e)
      (andThen (update_rows input) (\<lambda>_. andThen (or_abort commit_tx msg) (\<lambda>_. ret r)))
      (\<lambda>_ w. committed w = updated ro input c) (\<lambda>_ _. True)" for e
      by (rule triple_andThen [OF broken_rows]) (simp add: triple_def)
  qed (rule body_ok [OF runs_update_rows])
qed

text \<open>What a transactional handler guarantees whatever the server answers: no transaction
  stays open; with the success code the committed tables are the handler's function of the
  old ones; any other response is an error, and with it, or after a panic, they are the old
  ones.\<close>

fun all_or_nothing :: "nat \<Rightarrow> radius_db \<Rightarrow> radius_db \<Rightarrow> reply outcome \<times> radius_world \<Rightarrow> bool" where
  "all_or_nothing ok c c' (Returns (b, code), w) =
     (closed w \<and> committed w = (if code = ok then c' else c) \<and> (code = ok \<or> 400 \<le> code))"
| "all_or_nothing ok c c' (Panics, w) = (closed w \<and> committed w = c)"

lemma all_or_nothing_finish:
  assumes "triple (idle c) m (\<lambda>r w. closed w \<and> snd r = ok) (aborted ok c)"
    and "triple (\<lambda>w. committed w = c \<and> range_order w = ro) m (\<lambda>_ w. committed w = c') (\<lambda>_ _. True)"
    and "idle c w" and "range_order w = ro"
  shows "all_or_nothing ok c c' (finish m w)"
proof (cases "m w")
  case (Pair x w')
  have w: "committed w = c \<and> range_order w = ro" using assms by (simp add: idle_def)
  show ?thesis
  proof (cases x)
    case (Inr r)
    with Pair tripleD(1) [OF assms(1,3)] tripleD(1) [OF assms(2) w]
    have "closed w' \<and> snd r = ok" and "committed w' = c'" by blast+
    with Pair Inr show ?thesis by (cases r) (simp add: finish_def)
  next
    case (Inl e)
    with Pair tripleD(2) [OF assms(1,3)] have "aborted ok c e w'" by blast
    with Pair Inl show ?thesis
      by (cases e) (auto simp: finish_def idle_closed)
  qed
qed

end
