(* ===== verification/Hotspot_Correct.thy ===== *)
theory Hotspot_Correct
  imports Hotspot_Spec
begin

text \<open>
  The properties of the hotspot handlers: all-or-nothing transactions under any faults of the
  database server, what create, read, update and delete do to the three tables, isolation of
  users from each other, the error responses, and the handlers of single attributes.
\<close>

section \<open>Statements outside a transaction\<close>

lemma on_db_run:
  "healthy w \<Longrightarrow> on_db msg f w = (Inr (fst (f (committed w))), w\<lparr>committed := snd (f (committed w))\<rparr>)"
  by (simp add: on_db_def healthy_def GetDB_def deref_def get_st_def andThen_def ret_def wrap_err_def
      onErr_def stmt_def next_fault_none)

lemma insert_None_run:
  assumes "healthy w"
  shows "insertRadCheck None u a op v w = (Inr (), w\<lparr>committed := ins_check u a op v (committed w)\<rparr>)"
    and "insertRadReply None u a op v w = (Inr (), w\<lparr>committed := ins_reply u a op v (committed w)\<rparr>)"
    and "insertRadUserGroup None u a p w = (Inr (), w\<lparr>committed := ins_group u a p (committed w)\<rparr>)"
  using assms
  by (simp_all add: insertRadCheck_def insertRadReply_def insertRadUserGroup_def tx_or_db_def healthy_def
      GetDB_def deref_def get_st_def andThen_def ret_def wrap_err_def onErr_def stmt_def next_fault_none)

lemma healthy_committed [simp]: "healthy (w\<lparr>committed := d\<rparr>) = healthy w"
  by (simp add: healthy_def closed_def)

lemma healthy_committed_txn: "healthy w \<Longrightarrow> healthy (w\<lparr>committed := d, txn := NoTx\<rparr>)"
  by (simp add: healthy_def closed_def)

lemma or_fail_Inr: "m w = (Inr a, w') \<Longrightarrow> or_fail m msg w = (Inr a, w')"
  unfolding or_fail_def by (rule onErr_Inr)

lemma exists_run:
  assumes "healthy w"
  shows "checkAttributeExists u a w = (Inr (check.slot (committed w) u a \<noteq> []), w)"
    and "replyAttributeExists u a w = (Inr (rpl.slot (committed w) u a \<noteq> []), w)"
    and "userGroupExists u a w = (Inr (grp.slot (committed w) u a \<noteq> []), w)"
  using assms
  by (simp_all add: checkAttributeExists_def replyAttributeExists_def userGroupExists_def andThen_def
      on_db_run ret_def check.slot_def rpl.slot_def grp.slot_def)

lemma GetHotspotUser_run:
  assumes "healthy w"
  shows "GetHotspotUser u w =
    (if user_exists u (committed w) then
       (Returns ([(''user'', VUser \<lparr>hs_username = u, hs_checks = sel_attr u (radcheck (committed w)),
           hs_replies = sel_attr u (radreply (committed w)),
           hs_groups = sel_group u (radusergroup (committed w))\<rparr>)], 200), w)
     else (Returns (err ''User not found'' 404), w))"
  using assms
  by (simp add: GetHotspotUser_def finish_def andThen_def require_user_run or_fail_def onErr_def
      getRadCheckAttributes_def getRadReplyAttributes_def getRadUserGroups_def on_db_run ret_def)

section \<open>Handlers of single attributes\<close>

lemma AddOrUpdateRadCheckAttribute_run:
  assumes "healthy w" and "user_exists u (committed w)"
  shows "AddOrUpdateRadCheckAttribute u a w =
    (Returns ([(''message'', VStr ''Attribute updated successfully''), (''username'', VStr u),
           (''attribute'', VStr (ri_attribute a)), (''value'', VStr (ri_value a))], 200),
     w\<lparr>committed := check.upsert u a (committed w)\<rparr>)"
  using assms
  by (simp add: AddOrUpdateRadCheckAttribute_def finish_def andThen_def require_user_run or_fail_def onErr_def
      exists_run insert_None_run updateRadCheckAttribute_def on_db_run ret_def check.upsert_def
      upd_check_def add_check_def)

lemma AddOrUpdateRadReplyAttribute_run:
  assumes "healthy w" and "user_exists u (committed w)"
  shows "AddOrUpdateRadReplyAttribute u a w =
    (Returns ([(''message'', VStr ''Reply attribute updated successfully''), (''username'', VStr u),
           (''attribute'', VStr (ri_attribute a)), (''value'', VStr (ri_value a))], 200),
     w\<lparr>committed := rpl.upsert u a (committed w)\<rparr>)"
  using assms
  by (simp add: AddOrUpdateRadReplyAttribute_def finish_def andThen_def require_user_run or_fail_def onErr_def
      exists_run insert_None_run updateRadReplyAttribute_def on_db_run ret_def rpl.upsert_def
      upd_reply_def add_reply_def)

lemma AddRadUserGroup_run:
  assumes "healthy w" and "user_exists u (committed w)"
  shows "AddRadUserGroup u g w =
    (Returns ([(''message'', VStr ''User added to group successfully''), (''username'', VStr u),
           (''groupname'', VStr (gi_groupname g)), (''priority'', VInt (priority_of g))], 200),
     w\<lparr>committed := grp.upsert u g (committed w)\<rparr>)"
  using assms
  by (simp add: AddRadUserGroup_def finish_def andThen_def require_user_run or_fail_def onErr_def
      exists_run insert_None_run updateRadUserGroup_def on_db_run ret_def grp.upsert_def
      upd_member_def add_member_def)

lemma delete_attribute_run:
  assumes "healthy w" and "user_exists u (committed w)"
  shows "DeleteRadCheckAttribute u k w =
      (if check.slot (committed w) u k = [] then (Returns (err ''Attribute not found'' 404), w)
       else (Returns ([(''message'', VStr ''Attribute deleted successfully''), (''username'', VStr u),
               (''attribute'', VStr k)], 200), w\<lparr>committed := del_check u k (committed w)\<rparr>))"
    and "DeleteRadReplyAttribute u k w =
      (if rpl.slot (committed w) u k = [] then (Returns (err ''Attribute not found'' 404), w)
       else (Returns ([(''message'', VStr ''Reply attribute deleted successfully''), (''username'', VStr u),
               (''attribute'', VStr k)], 200), w\<lparr>committed := del_reply u k (committed w)\<rparr>))"
    and "DeleteRadUserGroup u k w =
      (if grp.slot (committed w) u k = [] then (Returns (err ''User is not a member of this group'' 404), w)
       else (Returns ([(''message'', VStr ''User removed from group successfully''), (''username'', VStr u),
               (''groupname'', VStr k)], 200), w\<lparr>committed := del_member u k (committed w)\<rparr>))"
  using assms
  by (simp_all add: DeleteRadCheckAttribute_def DeleteRadReplyAttribute_def DeleteRadUserGroup_def finish_def
      andThen_def require_user_run or_fail_def onErr_def exists_run deleteRadCheckAttribute_def
      deleteRadReplyAttribute_def deleteRadUserGroup_def on_db_run ret_def raise_def
      del_check_def del_reply_def del_member_def)

section \<open>Isolation of users\<close>

text \<open>Everything the three tables hold of a user.\<close>

definition user_view :: "string \<Rightarrow> radius_db \<Rightarrow> rad_attr list \<times> rad_attr list \<times> RadUserGroup list" where
  "user_view v d = (sel_attr v (radcheck d), sel_attr v (radreply d), sel_group v (radusergroup d))"

named_theorems isolated \<open>operations for one user leave the view of another as it is\<close>

lemma filter_map_if:
  "(\<And>r. Q r \<Longrightarrow> \<not> P r) \<Longrightarrow> (\<And>r. P (f r) = P r) \<Longrightarrow>
   filter P (map (\<lambda>r. if Q r then f r else r) xs) = filter P xs"
  by (induction xs) auto

lemma view_ins [isolated]:
  "v \<noteq> u \<Longrightarrow> user_view v (ins_check u a op x d) = user_view v d"
  "v \<noteq> u \<Longrightarrow> user_view v (ins_reply u a op x d) = user_view v d"
  "v \<noteq> u \<Longrightarrow> user_view v (ins_group u a p d) = user_view v d"
  by (simp_all add: user_view_def sel_attr_def sel_group_def ins_check_def ins_reply_def ins_group_def
      new_attr_def new_group_def)

lemma view_add [isolated]:
  "v \<noteq> u \<Longrightarrow> user_view v (add_check u i d) = user_view v d"
  "v \<noteq> u \<Longrightarrow> user_view v (add_reply u i d) = user_view v d"
  "v \<noteq> u \<Longrightarrow> user_view v (add_member u g d) = user_view v d"
  by (simp_all add: add_check_def add_reply_def add_member_def isolated)

lemma view_upd [isolated]:
  "v \<noteq> u \<Longrightarrow> user_view v (upd_check u i d) = user_view v d"
  "v \<noteq> u \<Longrightarrow> user_view v (upd_reply u i d) = user_view v d"
  "v \<noteq> u \<Longrightarrow> user_view v (upd_member u g d) = user_view v d"
  by (auto simp: user_view_def sel_attr_def sel_group_def upd_check_def upd_reply_def upd_member_def
      upd_attr_def upd_group_def intro!: filter_map_if)

lemma view_del [isolated]:
  "v \<noteq> u \<Longrightarrow> user_view v (del_check u k d) = user_view v d"
  "v \<noteq> u \<Longrightarrow> user_view v (del_reply u k d) = user_view v d"
  "v \<noteq> u \<Longrightarrow> user_view v (del_member u k d) = user_view v d"
  "v \<noteq> u \<Longrightarrow> user_view v (purged u d) = user_view v d"
  by (auto simp: user_view_def sel_attr_def sel_group_def del_check_def del_reply_def del_member_def
      del_attr_def del_group_def purged_def del_user_attrs_def del_user_groups_def intro!: filter_cong)

lemma view_fold:
  "(\<And>x e. user_view v (f x e) = user_view v e) \<Longrightarrow> user_view v (fold f xs d) = user_view v d"
  by (induction xs arbitrary: d) simp_all

lemma view_steps [isolated]:
  "(\<And>e. user_view v (upd i e) = user_view v e) \<Longrightarrow> (\<And>e. user_view v (ins i e) = user_view v e) \<Longrightarrow>
   user_view v (item_step name differs upd ins m i d) = user_view v d"
  "(\<And>e. user_view v (del k e) = user_view v e) \<Longrightarrow> user_view v (delete_step doomed del k d) = user_view v d"
  by (simp_all add: item_step_def delete_step_def split: option.split)

lemma view_created: "v \<noteq> hu_username input \<Longrightarrow> user_view v (created input d) = user_view v d"
  by (simp add: created_def Let_def view_fold isolated split: option.split)

lemma view_updated: "v \<noteq> hu_username input \<Longrightarrow> user_view v (updated ro input d) = user_view v d"
  by (simp add: updated_def Let_def opt_apply_def groups_synced_def replies_synced_def checks_synced_def
      password_set_def view_fold isolated split: option.split)

lemma all_or_nothing_view:
  "all_or_nothing ok c c' r \<Longrightarrow> user_view v c' = user_view v c \<Longrightarrow> user_view v (committed (snd r)) = user_view v c"
  by (cases "(ok, c, c', r)" rule: all_or_nothing.cases) (auto split: if_splits)

section \<open>Transactions\<close>

lemma closed_idle: "closed w \<Longrightarrow> idle (committed w) w"
  by (simp add: idle_closed)

text \<open>C2.  Whatever the database server answers (any script of failing statements, a failed
  begin or commit, no connection at all), creating a user is all or nothing: no transaction
  stays open; the response 201 means the committed tables are exactly the old ones with the
  credential row, the check and reply attributes and the group memberships of the request
  added; any other response, and a panic, means the tables are as before.\<close>

theorem create_all_or_nothing:
  "closed w \<Longrightarrow>
   all_or_nothing 201 (committed w) (created input (committed w)) (CreateHotspotUser input w)"
  unfolding CreateHotspotUser_def
  by (rule all_or_nothing_finish [OF create_safe create_ok closed_idle refl])

text \<open>C3.  The same of an update, though the function does not notice a failed
  \<^verbatim>\<open>Begin\<close>: 200 with the whole update committed, or nothing changed.\<close>

theorem update_all_or_nothing:
  "closed w \<Longrightarrow>
   all_or_nothing 200 (committed w) (updated (range_order w) input (committed w)) (UpdateHotspotUser input w)"
  unfolding UpdateHotspotUser_def
  by (rule all_or_nothing_finish [OF update_safe update_ok closed_idle refl])

text \<open>The same of a delete.\<close>

theorem delete_all_or_nothing:
  "closed w \<Longrightarrow> all_or_nothing 200 (committed w) (purged u (committed w)) (DeleteHotspotUser u w)"
  unfolding DeleteHotspotUser_def
  by (rule all_or_nothing_finish [OF delete_safe delete_ok closed_idle refl])

text \<open>A small database for the examples: alice with a password and a speed limit, bob with
  the accept-all rule; the server refuses the fifth statement in the second world.\<close>

definition demo_db :: radius_db where
  "demo_db =
     \<lparr>radcheck = [new_attr 1 ''alice'' AttrCleartextPassword defaultOp ''s3cret'',
                  new_attr 2 ''bob'' AttrAuthType defaultOp ''Accept''],
      radreply = [new_attr 1 ''alice'' ''Mikrotik-Rate-Limit'' defaultOp ''2M''],
      radusergroup = [new_group 1 ''alice'' ''daily'' 1],
      next_check = 3, next_reply = 2, next_group = 2\<rparr>"

definition demo_world :: "string option list \<Rightarrow> radius_world" where
  "demo_world fs =
     \<lparr>committed = demo_db, txn = NoTx, faults = fs, db_up = True, clock = 0, zone = 10800,
      range_order = rev\<rparr>"

definition demo_input :: "string \<Rightarrow> string option \<Rightarrow> HotspotUserInput" where
  "demo_input u pw =
     \<lparr>hu_username = u, hu_password = pw,
      hu_checks = Some [\<lparr>ri_attribute = ''Expiration'', ri_op = [], ri_value = ''Jan 1 2026 00:00:00''\<rparr>],
      hu_replies = Some [], hu_groups = Some [\<lparr>gi_groupname = ''weekly'', gi_priority = None\<rparr>]\<rparr>"

abbreviation "refusal \<equiv> [None, None, None, None, Some ''server has gone away'']"

lemma demo_simps [simp]:
  "committed (demo_world fs) = demo_db" "closed (demo_world fs)" "range_order (demo_world fs) = rev"
  "healthy (demo_world [])" "zone (demo_world fs) = 10800" "clock (demo_world fs) = 0"
  by (simp_all add: demo_world_def closed_def healthy_def)

theorem create_all_or_nothing_witness:
  "closed (demo_world refusal) \<and>
   all_or_nothing 201 demo_db (created (demo_input ''carol'' None) demo_db)
     (CreateHotspotUser (demo_input ''carol'' None) (demo_world refusal))"
  using create_all_or_nothing [of "demo_world refusal" "demo_input ''carol'' None"] by simp

theorem update_all_or_nothing_witness:
  "closed (demo_world refusal) \<and>
   all_or_nothing 200 demo_db (updated rev (demo_input ''alice'' None) demo_db)
     (UpdateHotspotUser (demo_input ''alice'' None) (demo_world refusal))"
  using update_all_or_nothing [of "demo_world refusal" "demo_input ''alice'' None"] by simp

theorem delete_all_or_nothing_witness:
  "closed (demo_world refusal) \<and>
   all_or_nothing 200 demo_db (purged ''alice'' demo_db) (DeleteHotspotUser ''alice'' (demo_world refusal))"
  using delete_all_or_nothing [of "demo_world refusal" "''alice''"] by simp

text \<open>C29.  Requests for one user never touch what another user has in any of the three
  tables, whatever the server answers.\<close>

theorem users_isolated:
  assumes "closed w"
  shows "v \<noteq> hu_username input \<Longrightarrow>
      user_view v (committed (snd (CreateHotspotUser input w))) = user_view v (committed w) \<and>
      user_view v (committed (snd (UpdateHotspotUser input w))) = user_view v (committed w) \<and>
      user_view v (committed (snd (DeleteHotspotUser (hu_username input) w))) = user_view v (committed w)"
  unfolding CreateHotspotUser_def UpdateHotspotUser_def DeleteHotspotUser_def
  by (intro conjI all_or_nothing_view [OF all_or_nothing_finish [OF create_safe create_ok closed_idle refl]]
      all_or_nothing_view [OF all_or_nothing_finish [OF update_safe update_ok closed_idle refl]]
      all_or_nothing_view [OF all_or_nothing_finish [OF delete_safe delete_ok closed_idle refl]]
      view_created view_updated isolated assms)

theorem users_isolated_witness:
  "user_view ''bob'' (committed (snd (UpdateHotspotUser (demo_input ''alice'' None) (demo_world [])))) =
     user_view ''bob'' demo_db"
  using users_isolated [of "demo_world []" "''bob''" "demo_input ''alice'' None"]
  by (simp add: demo_input_def)

section \<open>What create, update and delete achieve\<close>

text \<open>A row without its id, and what a request asks for.\<close>

definition attr_view :: "rad_attr \<Rightarrow> string \<times> string \<times> string" where
  "attr_view r = (ra_attribute r, ra_op r, ra_value r)"

definition asked_attr :: "rad_input \<Rightarrow> string \<times> string \<times> string" where
  "asked_attr a = (ri_attribute a, op_of a, ri_value a)"

definition asked_credential :: "string option \<Rightarrow> string \<times> string \<times> string" where
  "asked_credential pw =
     (case pw of
        Some p \<Rightarrow> if p \<noteq> [] then (AttrCleartextPassword, defaultOp, p) else (AttrAuthType, defaultOp, ''Accept'')
      | None \<Rightarrow> (AttrAuthType, defaultOp, ''Accept''))"

lemma sel_add_check:
  "map attr_view (sel_attr u (radcheck (fold (add_check u) cs d))) =
     map attr_view (sel_attr u (radcheck d)) @ map asked_attr cs"
  "radreply (fold (add_check u) cs d) = radreply d" "radusergroup (fold (add_check u) cs d) = radusergroup d"
  by (induction cs arbitrary: d)
    (simp_all add: add_check_def ins_check_def sel_attr_def new_attr_def attr_view_def asked_attr_def)

lemma sel_add_reply:
  "map attr_view (sel_attr u (radreply (fold (add_reply u) rs d))) =
     map attr_view (sel_attr u (radreply d)) @ map asked_attr rs"
  "radcheck (fold (add_reply u) rs d) = radcheck d" "radusergroup (fold (add_reply u) rs d) = radusergroup d"
  by (induction rs arbitrary: d)
    (simp_all add: add_reply_def ins_reply_def sel_attr_def new_attr_def attr_view_def asked_attr_def)

lemma sel_add_member:
  "map (\<lambda>r. (ug_groupname r, ug_priority r)) (sel_group u (radusergroup (fold (add_member u) gs d))) =
     map (\<lambda>r. (ug_groupname r, ug_priority r)) (sel_group u (radusergroup d)) @
     map (\<lambda>g. (gi_groupname g, priority_of g)) gs"
  "radcheck (fold (add_member u) gs d) = radcheck d" "radreply (fold (add_member u) gs d) = radreply d"
  by (induction gs arbitrary: d)
    (simp_all add: add_member_def ins_group_def sel_group_def new_group_def)

lemma ins_credential:
  "sel_attr u (radcheck d) = [] \<Longrightarrow>
   map attr_view (sel_attr u (radcheck
     (case pw of
        Some p \<Rightarrow>
          if p \<noteq> [] then ins_check u AttrCleartextPassword defaultOp p d
          else ins_check u AttrAuthType defaultOp ''Accept'' d
      | None \<Rightarrow> ins_check u AttrAuthType defaultOp ''Accept'' d))) = [asked_credential pw]"
  "radreply (case pw of
        Some p \<Rightarrow>
          if p \<noteq> [] then ins_check u AttrCleartextPassword defaultOp p d
          else ins_check u AttrAuthType defaultOp ''Accept'' d
      | None \<Rightarrow> ins_check u AttrAuthType defaultOp ''Accept'' d) = radreply d"
  "radusergroup (case pw of
        Some p \<Rightarrow>
          if p \<noteq> [] then ins_check u AttrCleartextPassword defaultOp p d
          else ins_check u AttrAuthType defaultOp ''Accept'' d
      | None \<Rightarrow> ins_check u AttrAuthType defaultOp ''Accept'' d) = radusergroup d"
  by (auto simp: ins_check_def sel_attr_def new_attr_def attr_view_def asked_credential_def split: option.split)

lemma created_rows:
  assumes "\<not> user_exists u d" and "hu_username input = u"
  shows "map attr_view (sel_attr u (radcheck (created input d))) =
      asked_credential (hu_password input) # map asked_attr (slice (hu_checks input))"
    and "map attr_view (sel_attr u (radreply (created input d))) =
      map attr_view (sel_attr u (radreply d)) @ map asked_attr (slice (hu_replies input))"
    and "map (\<lambda>r. (ug_groupname r, ug_priority r)) (sel_group u (radusergroup (created input d))) =
      map (\<lambda>r. (ug_groupname r, ug_priority r)) (sel_group u (radusergroup d)) @
      map (\<lambda>g. (gi_groupname g, priority_of g)) (slice (hu_groups input))"
  using assms
  by (simp_all add: created_def Let_def sel_add_check sel_add_reply sel_add_member ins_credential user_exists_def)

text \<open>The rows a user has under one attribute or in one group.\<close>

definition check_rows :: "radius_db \<Rightarrow> string \<Rightarrow> string \<Rightarrow> rad_attr list" where
  "check_rows d u k = filter (\<lambda>r. ra_username r = u \<and> ra_attribute r = k) (radcheck d)"

definition reply_rows :: "radius_db \<Rightarrow> string \<Rightarrow> string \<Rightarrow> rad_attr list" where
  "reply_rows d u k = filter (\<lambda>r. ra_username r = u \<and> ra_attribute r = k) (radreply d)"

definition group_rows :: "radius_db \<Rightarrow> string \<Rightarrow> string \<Rightarrow> RadUserGroup list" where
  "group_rows d u k = filter (\<lambda>r. ug_username r = u \<and> ug_groupname r = k) (radusergroup d)"

lemma rows_slot: "check.slot = check_rows" "rpl.slot = reply_rows" "grp.slot = group_rows"
  by (auto simp: fun_eq_iff check.slot_def check_rows_def rpl.slot_def reply_rows_def grp.slot_def group_rows_def)

lemma check_rows_password_set:
  "check_rows (password_set u pw d) u k =
     (if k = AttrCleartextPassword \<and> pw \<noteq> None then
        (if the pw = [] then [] else [new_attr (next_check d) u k defaultOp (the pw)])
      else if k = AttrAuthType \<and> pw = None then
        check_rows d u k @ [new_attr (next_check d) u k defaultOp ''Accept'']
      else check_rows d u k)"
  by (auto simp: check_rows_def password_set_def ins_check_def del_check_def del_attr_def new_attr_def
      filter_empty_conv intro!: filter_cong split: option.split)

lemma password_set_frame [simp]:
  "radreply (password_set u pw d) = radreply d" "radusergroup (password_set u pw d) = radusergroup d"
  by (simp_all add: password_set_def ins_check_def del_check_def split: option.split)

text \<open>Requests whose items have one row each to land on: distinct names, none of them a name
  the password step handles, and at most one row of the user under each.\<close>

definition plain_checks :: "string \<Rightarrow> rad_input list \<Rightarrow> radius_db \<Rightarrow> bool" where
  "plain_checks u cs d \<longleftrightarrow>
     distinct (map ri_attribute cs) \<and>
     (\<forall>a \<in> set cs. ri_attribute a \<noteq> AttrCleartextPassword \<and> ri_attribute a \<noteq> AttrAuthType \<and>
        length (check_rows d u (ri_attribute a)) \<le> 1)"

definition plain_replies :: "string \<Rightarrow> rad_input list \<Rightarrow> radius_db \<Rightarrow> bool" where
  "plain_replies u rs d \<longleftrightarrow>
     distinct (map ri_attribute rs) \<and> (\<forall>a \<in> set rs. length (reply_rows d u (ri_attribute a)) \<le> 1)"

definition plain_groups :: "string \<Rightarrow> group_input list \<Rightarrow> radius_db \<Rightarrow> bool" where
  "plain_groups u gs d \<longleftrightarrow>
     distinct (map gi_groupname gs) \<and> (\<forall>g \<in> set gs. length (group_rows d u (gi_groupname g)) \<le> 1)"

text \<open>\<^verbatim>\<open>range\<close> visits every key of a map, in some order.\<close>

definition visits_all :: "(string list \<Rightarrow> string list) \<Rightarrow> bool" where
  "visits_all ro \<longleftrightarrow> (\<forall>ks. set (ro ks) = set ks)"

lemma sel_key: "check_rows d u k \<noteq> [] \<longleftrightarrow> k \<in> ra_attribute ` set (sel_attr u (radcheck d))"
  "reply_rows d u k \<noteq> [] \<longleftrightarrow> k \<in> ra_attribute ` set (sel_attr u (radreply d))"
  "group_rows d u k \<noteq> [] \<longleftrightarrow> k \<in> ug_groupname ` set (sel_group u (radusergroup d))"
  by (auto simp: check_rows_def reply_rows_def group_rows_def sel_attr_def sel_group_def filter_empty_conv)

lemma fold_keeps: "(\<And>x e. f (g x e) = f e) \<Longrightarrow> f (fold g xs d) = f d"
  by (induction xs arbitrary: d) simp_all

lemma step_keeps:
  "(\<And>e. f (upd i e) = f e) \<Longrightarrow> (\<And>e. f (ins i e) = f e) \<Longrightarrow> f (item_step name differs upd ins m i d) = f d"
  "(\<And>e. f (del k e) = f e) \<Longrightarrow> f (delete_step doomed del k d) = f d"
  by (simp_all add: item_step_def delete_step_def split: option.split)

lemma synced_frames [simp]:
  "radreply (checks_synced ro u added cs d) = radreply d"
  "radusergroup (checks_synced ro u added cs d) = radusergroup d"
  "radcheck (replies_synced ro u rs d) = radcheck d"
  "radusergroup (replies_synced ro u rs d) = radusergroup d"
  "radcheck (groups_synced ro u gs d) = radcheck d"
  "radreply (groups_synced ro u gs d) = radreply d"
  by (simp_all add: checks_synced_def replies_synced_def groups_synced_def Let_def
      fold_keeps [where f = radcheck] fold_keeps [where f = radreply] fold_keeps [where f = radusergroup]
      step_keeps [where f = radcheck] step_keeps [where f = radreply] step_keeps [where f = radusergroup]
      upd_check_def add_check_def ins_check_def del_check_def upd_reply_def add_reply_def ins_reply_def
      del_reply_def upd_member_def add_member_def ins_group_def del_member_def)

lemma opt_keeps: "(\<And>a. f (g a d) = f d) \<Longrightarrow> f (opt_apply g x d) = f d"
  by (simp add: opt_apply_def split: option.split)

text \<open>Each table of an update depends on its own part of the request.\<close>

lemma updated_parts:
  assumes "u = hu_username input"
  shows "radcheck (updated ro input d) =
      radcheck (opt_apply (checks_synced ro u (hu_password input = None)) (hu_checks input)
                  (password_set u (hu_password input) d))"
    and "hu_replies input = Some rs \<Longrightarrow> \<exists>e. radreply e = radreply d \<and>
      radreply (updated ro input d) = radreply (replies_synced ro u rs e)"
    and "hu_groups input = Some gs \<Longrightarrow> \<exists>e. radusergroup e = radusergroup d \<and>
      radusergroup (updated ro input d) = radusergroup (groups_synced ro u gs e)"
proof -
  let ?c = "opt_apply (checks_synced ro u (hu_password input = None)) (hu_checks input)
              (password_set u (hu_password input) d)"
  let ?r = "opt_apply (replies_synced ro u) (hu_replies input) ?c"
  have upd: "updated ro input d = opt_apply (groups_synced ro u) (hu_groups input) ?r"
    by (simp add: updated_def Let_def assms)
  show "radcheck (updated ro input d) = radcheck ?c"
    by (simp add: upd opt_keeps [where f = radcheck])
  have c: "radreply ?c = radreply d" by (simp add: opt_keeps [where f = radreply])
  show "\<exists>e. radreply e = radreply d \<and> radreply (updated ro input d) = radreply (replies_synced ro u rs e)"
    if "hu_replies input = Some rs"
    by (rule exI [of _ ?c]) (simp add: upd c that opt_keeps [where f = radreply] opt_apply_def [of _ "Some rs"])
  have r: "radusergroup ?r = radusergroup d" by (simp add: opt_keeps [where f = radusergroup])
  show "\<exists>e. radusergroup e = radusergroup d \<and> radusergroup (updated ro input d) = radusergroup (groups_synced ro u gs e)"
    if "hu_groups input = Some gs"
    by (rule exI [of _ ?r]) (simp add: upd r that opt_apply_def [of _ "Some gs"])
qed

lemma checks_synced_slots:
  assumes plain: "plain_checks u cs d" and ro: "visits_all ro"
    and d'_def: "d' = checks_synced ro u added cs d"
  shows "a \<in> set cs \<Longrightarrow> \<exists>r. check_rows d' u (ri_attribute a) = [r] \<and> \<not> attr_differs r a"
    and "k \<notin> ri_attribute ` set cs \<Longrightarrow>
      check_rows d' u k = (if k = AttrCleartextPassword \<or> added \<and> k = AttrAuthType then check_rows d u k else [])"
proof -
  let ?keep = "\<lambda>r. ra_attribute r \<noteq> AttrCleartextPassword"
  let ?rows = "filter ?keep (sel_attr u (radcheck d))"
  let ?spared = "\<lambda>k. k = AttrCleartextPassword \<or> added \<and> k = AttrAuthType"
  have ready: "\<forall>i \<in> set cs. check.ready (row_map ra_attribute ?rows) u d i"
    using plain check.row_map_slot [of d u _ ?keep]
    by (auto simp: check.ready_def plain_checks_def sel_attr_def rows_slot)
  have keys: "check.slot d u k \<noteq> [] \<Longrightarrow> \<not> ?spared k \<Longrightarrow> k \<in> set (ro (remdups (map ra_attribute ?rows)))" for k
    using ro sel_key(1) [of d u k] by (auto simp: visits_all_def rows_slot)
  have d': "d' = fold (delete_step (\<lambda>k. \<not> ?spared k \<and> k \<notin> ri_attribute ` set cs) (del_check u))
      (ro (remdups (map ra_attribute ?rows)))
      (fold (item_step ri_attribute attr_differs (upd_check u) (add_check u) (row_map ra_attribute ?rows)) cs d)"
    by (simp add: d'_def checks_synced_def Let_def)
  have dist: "distinct (map ri_attribute cs)" using plain by (simp add: plain_checks_def)
  note sync = check.sync_slot [OF dist ready keys d', unfolded rows_slot]
  show "a \<in> set cs \<Longrightarrow> \<exists>r. check_rows d' u (ri_attribute a) = [r] \<and> \<not> attr_differs r a"
    using sync(1) by (simp add: check.conformed_def rows_slot)
  show "k \<notin> ri_attribute ` set cs \<Longrightarrow> check_rows d' u k = (if ?spared k then check_rows d u k else [])"
    by (rule sync(2))
qed

lemma replies_synced_slots:
  assumes plain: "plain_replies u rs d" and ro: "visits_all ro"
    and d'_def: "d' = replies_synced ro u rs d"
  shows "a \<in> set rs \<Longrightarrow> \<exists>r. reply_rows d' u (ri_attribute a) = [r] \<and> \<not> attr_differs r a"
    and "k \<notin> ri_attribute ` set rs \<Longrightarrow> reply_rows d' u k = []"
proof -
  let ?rows = "sel_attr u (radreply d)"
  have ready: "\<forall>i \<in> set rs. rpl.ready (row_map ra_attribute ?rows) u d i"
    using plain rpl.row_map_slot [of d u _ "\<lambda>_. True"]
    by (auto simp: rpl.ready_def plain_replies_def sel_attr_def rows_slot)
  have keys: "rpl.slot d u k \<noteq> [] \<Longrightarrow> \<not> False \<Longrightarrow> k \<in> set (ro (remdups (map ra_attribute ?rows)))" for k
    using ro sel_key(2) [of d u k] by (auto simp: visits_all_def rows_slot)
  have d': "d' = fold (delete_step (\<lambda>k. \<not> False \<and> k \<notin> ri_attribute ` set rs) (del_reply u))
      (ro (remdups (map ra_attribute ?rows)))
      (fold (item_step ri_attribute attr_differs (upd_reply u) (add_reply u) (row_map ra_attribute ?rows)) rs d)"
    by (simp add: d'_def replies_synced_def Let_def)
  have dist: "distinct (map ri_attribute rs)" using plain by (simp add: plain_replies_def)
  note sync = rpl.sync_slot [where spared = "\<lambda>_. False", OF dist ready keys d', unfolded rows_slot]
  show "a \<in> set rs \<Longrightarrow> \<exists>r. reply_rows d' u (ri_attribute a) = [r] \<and> \<not> attr_differs r a"
    using sync(1) by (simp add: rpl.conformed_def rows_slot)
  show "k \<notin> ri_attribute ` set rs \<Longrightarrow> reply_rows d' u k = []"
    using sync(2) by simp
qed

lemma groups_synced_slots:
  assumes plain: "plain_groups u gs d" and ro: "visits_all ro"
    and d'_def: "d' = groups_synced ro u gs d"
  shows "g \<in> set gs \<Longrightarrow> \<exists>r. group_rows d' u (gi_groupname g) = [r] \<and> \<not> group_differs r g"
    and "k \<notin> gi_groupname ` set gs \<Longrightarrow> group_rows d' u k = []"
proof -
  let ?rows = "sel_group u (radusergroup d)"
  have ready: "\<forall>i \<in> set gs. grp.ready (row_map ug_groupname ?rows) u d i"
    using plain grp.row_map_slot [of d u _ "\<lambda>_. True"]
    by (auto simp: grp.ready_def plain_groups_def sel_group_def rows_slot)
  have keys: "grp.slot d u k \<noteq> [] \<Longrightarrow> \<not> False \<Longrightarrow> k \<in> set (ro (remdups (map ug_groupname ?rows)))" for k
    using ro sel_key(3) [of d u k] by (auto simp: visits_all_def rows_slot)
  have d': "d' = fold (delete_step (\<lambda>k. \<not> False \<and> k \<notin> gi_groupname ` set gs) (del_member u))
      (ro (remdups (map ug_groupname ?rows)))
      (fold (item_step gi_groupname group_differs (upd_member u) (add_member u) (row_map ug_groupname ?rows)) gs d)"
    by (simp add: d'_def groups_synced_def Let_def)
  have dist: "distinct (map gi_groupname gs)" using plain by (simp add: plain_groups_def)
  note sync = grp.sync_slot [where spared = "\<lambda>_. False", OF dist ready keys d', unfolded rows_slot]
  show "g \<in> set gs \<Longrightarrow> \<exists>r. group_rows d' u (gi_groupname g) = [r] \<and> \<not> group_differs r g"
    using sync(1) by (simp add: grp.conformed_def rows_slot)
  show "k \<notin> gi_groupname ` set gs \<Longrightarrow> group_rows d' u k = []"
    using sync(2) by simp
qed

text \<open>Create, then read: when the name is free the create answers 201, and reading the
  user back answers 200 with the credential row first (the password, or the accept-all rule
  when there is none or an empty one), then the requested check attributes in order, with the
  default operator where none was given; reply attributes and groups follow what the tables
  already held under that name.\<close>

theorem create_then_get:
  assumes "healthy w" and "\<not> user_exists u (committed w)" and "hu_username input = u"
  shows "\<exists>b w' x.
    CreateHotspotUser input w = (Returns (b, 201), w') \<and>
    GetHotspotUser u w' = (Returns ([(''user'', VUser x)], 200), w') \<and>
    map attr_view (hs_checks x) = asked_credential (hu_password input) # map asked_attr (slice (hu_checks input)) \<and>
    map attr_view (hs_replies x) =
      map attr_view (sel_attr u (radreply (committed w))) @ map asked_attr (slice (hu_replies input)) \<and>
    map (\<lambda>r. (ug_groupname r, ug_priority r)) (hs_groups x) =
      map (\<lambda>r. (ug_groupname r, ug_priority r)) (sel_group u (radusergroup (committed w))) @
      map (\<lambda>g. (gi_groupname g, priority_of g)) (slice (hu_groups input))"
proof -
  let ?d = "created input (committed w)"
  let ?w = "w\<lparr>committed := ?d, txn := NoTx\<rparr>"
  note rows = created_rows [OF assms(2,3)]
  from rows(1) have ex: "user_exists u ?d" by (auto simp: user_exists_def)
  have "CreateHotspotUser input w =
    (Returns ([(''message'', VStr ''Hotspot user created successfully''), (''username'', VStr u)], 201), ?w)"
    using CreateHotspotUser_run [of w input] assms by simp
  moreover have "GetHotspotUser u ?w =
    (Returns ([(''user'', VUser \<lparr>hs_username = u, hs_checks = sel_attr u (radcheck ?d),
       hs_replies = sel_attr u (radreply ?d), hs_groups = sel_group u (radusergroup ?d)\<rparr>)], 200), ?w)"
    using GetHotspotUser_run [OF healthy_committed_txn [OF assms(1)]] ex by simp
  ultimately show ?thesis using rows by auto
qed

theorem create_then_get_witness:
  "\<exists>b w' x. CreateHotspotUser (demo_input ''carol'' None) (demo_world []) = (Returns (b, 201), w') \<and>
     GetHotspotUser ''carol'' w' = (Returns ([(''user'', VUser x)], 200), w') \<and>
     map attr_view (hs_checks x) =
       [(AttrAuthType, defaultOp, ''Accept''), (''Expiration'', defaultOp, ''Jan 1 2026 00:00:00'')] \<and>
     hs_replies x = [] \<and> map (\<lambda>r. (ug_groupname r, ug_priority r)) (hs_groups x) = [(''weekly'', 1)]"
  using create_then_get [of "demo_world []" "''carol''" "demo_input ''carol'' None"]
  by (simp add: demo_input_def demo_db_def user_exists_def sel_attr_def sel_group_def new_attr_def
      new_group_def asked_credential_def asked_attr_def slice_def op_of_def priority_of_def)

lemma update_checks_spec:
  assumes "healthy w" and "user_exists u (committed w)" and "visits_all (range_order w)"
    and "hu_username input = u" and "hu_checks input = Some cs" and "plain_checks u cs (committed w)"
  shows "\<exists>b w'. UpdateHotspotUser input w = (Returns (b, 200), w') \<and>
    (\<forall>a \<in> set cs. map attr_view (check_rows (committed w') u (ri_attribute a)) = [asked_attr a]) \<and>
    (\<forall>k. k \<notin> ri_attribute ` set cs \<longrightarrow>
      check_rows (committed w') u k =
        (let old = check_rows (committed w) u k; i = next_check (committed w) in
         case hu_password input of
           None \<Rightarrow> if k = AttrCleartextPassword then old
                   else if k = AttrAuthType then old @ [new_attr i u k defaultOp ''Accept''] else []
         | Some p \<Rightarrow> if k = AttrCleartextPassword \<and> p \<noteq> [] then [new_attr i u k defaultOp p] else []))"
proof -
  let ?e = "password_set u (hu_password input) (committed w)"
  let ?d = "checks_synced (range_order w) u (hu_password input = None) cs ?e"
  have plain: "plain_checks u cs ?e"
    using assms(6) by (auto simp: plain_checks_def check_rows_password_set)
  note sync = checks_synced_slots [where added = "hu_password input = None", OF plain assms(3) refl]
  let ?w = "w\<lparr>committed := updated (range_order w) input (committed w), txn := NoTx\<rparr>"
  have run: "UpdateHotspotUser input w = (Returns ([(''message'', VStr ''Hotspot user updated successfully''),
      (''username'', VStr u)], 200), ?w)"
    using UpdateHotspotUser_run [of w input] assms by simp
  have rows: "check_rows (committed ?w) u k = check_rows ?d u k" for k
    using updated_parts(1) [of u input] assms by (simp add: check_rows_def opt_apply_def)
  have 1: "map attr_view (check_rows ?d u (ri_attribute a)) = [asked_attr a]" if "a \<in> set cs" for a
  proof -
    from sync(1) [OF that] obtain r where r: "check_rows ?d u (ri_attribute a) = [r]" "\<not> attr_differs r a" by blast
    then have "r \<in> set (check_rows ?d u (ri_attribute a))" by simp
    then have "ra_attribute r = ri_attribute a" by (simp add: check_rows_def)
    with r show ?thesis by (simp add: attr_view_def asked_attr_def attr_differs_def)
  qed
  have 2: "check_rows ?d u k =
        (let old = check_rows (committed w) u k; i = next_check (committed w) in
         case hu_password input of
           None \<Rightarrow> if k = AttrCleartextPassword then old
                   else if k = AttrAuthType then old @ [new_attr i u k defaultOp ''Accept''] else []
         | Some p \<Rightarrow> if k = AttrCleartextPassword \<and> p \<noteq> [] then [new_attr i u k defaultOp p] else [])"
    if "k \<notin> ri_attribute ` set cs" for k
    unfolding sync(2) [OF that] by (simp add: check_rows_password_set Let_def split: option.split)
  show ?thesis
    unfolding run
  proof (intro exI conjI ballI allI impI, rule refl)
    show "map attr_view (check_rows (committed ?w) u (ri_attribute a)) = [asked_attr a]" if "a \<in> set cs" for a
      unfolding rows by (rule 1 [OF that])
  qed (unfold rows, rule 2)
qed

text \<open>C19.  A successful update brings the check attributes of the user in line with the
  request: every requested attribute has exactly one row, with the requested operator and
  value; the password rows are the new password (none for an empty one, the old rows when no
  password was sent); without a password one accept-all row is added to those there, with a
  password the accept-all rows are removed; nothing else is left of the user in
  \<^verbatim>\<open>radcheck\<close>.  The order in which Go visits the keys of the map does not matter.\<close>

theorem update_reconciles_checks:
  assumes "healthy w" and "user_exists u (committed w)" and "visits_all (range_order w)"
    and "hu_username input = u" and "hu_checks input = Some cs" and "plain_checks u cs (committed w)"
  shows "\<exists>b w'. UpdateHotspotUser input w = (Returns (b, 200), w') \<and>
    (\<forall>a \<in> set cs. map attr_view (check_rows (committed w') u (ri_attribute a)) = [asked_attr a]) \<and>
    (\<forall>k. k \<notin> ri_attribute ` set cs \<longrightarrow>
      check_rows (committed w') u k =
        (let old = check_rows (committed w) u k; i = next_check (committed w) in
         case hu_password input of
           None \<Rightarrow> if k = AttrCleartextPassword then old
                   else if k = AttrAuthType then old @ [new_attr i u k defaultOp ''Accept''] else []
         | Some p \<Rightarrow> if k = AttrCleartextPassword \<and> p \<noteq> [] then [new_attr i u k defaultOp p] else []))"
  using assms by (rule update_checks_spec)

lemma demo_plain:
  "plain_checks ''alice'' [\<lparr>ri_attribute = ''Expiration'', ri_op = [], ri_value = x\<rparr>] demo_db"
  "plain_replies ''alice'' [] demo_db"
  "plain_groups ''alice'' [\<lparr>gi_groupname = ''weekly'', gi_priority = None\<rparr>] demo_db"
  "visits_all rev" "user_exists ''alice'' demo_db" "user_exists ''bob'' demo_db"
  by (simp_all add: plain_checks_def plain_replies_def plain_groups_def visits_all_def user_exists_def
      check_rows_def group_rows_def sel_attr_def demo_db_def new_attr_def new_group_def)

theorem update_reconciles_checks_witness:
  "\<exists>b w'. UpdateHotspotUser (demo_input ''alice'' None) (demo_world []) = (Returns (b, 200), w') \<and>
     map attr_view (check_rows (committed w') ''alice'' ''Expiration'') =
       [(''Expiration'', defaultOp, ''Jan 1 2026 00:00:00'')] \<and>
     map attr_view (check_rows (committed w') ''alice'' AttrAuthType) = [(AttrAuthType, defaultOp, ''Accept'')]"
proof -
  have "check_rows demo_db ''alice'' AttrAuthType = []"
    by (simp add: check_rows_def demo_db_def new_attr_def)
  then show ?thesis
    using update_reconciles_checks [of "demo_world []" "''alice''" "demo_input ''alice'' None",
        OF _ _ _ _ _ demo_plain(1) [of "''Jan 1 2026 00:00:00''", folded demo_simps(1) [of "[]"]]]
    by (fastforce simp: demo_plain demo_input_def asked_attr_def op_of_def new_attr_def attr_view_def)
qed

text \<open>A successful update brings the reply attributes in line with the request: one row
  per requested attribute, with its operator and value, and no other reply row of the user.\<close>

theorem update_reconciles_replies:
  assumes "healthy w" and "user_exists u (committed w)" and "visits_all (range_order w)"
    and "hu_username input = u" and "hu_replies input = Some rs" and "plain_replies u rs (committed w)"
  shows "\<exists>b w'. UpdateHotspotUser input w = (Returns (b, 200), w') \<and>
    (\<forall>a \<in> set rs. map attr_view (reply_rows (committed w') u (ri_attribute a)) = [asked_attr a]) \<and>
    (\<forall>k. k \<notin> ri_attribute ` set rs \<longrightarrow> reply_rows (committed w') u k = [])"
proof -
  let ?d = "updated (range_order w) input (committed w)"
  obtain e where e: "radreply e = radreply (committed w)"
    "radreply ?d = radreply (replies_synced (range_order w) u rs e)"
    using updated_parts(2) [of u input rs] assms by blast
  have plain: "plain_replies u rs e"
    using assms(6) e(1) by (simp add: plain_replies_def reply_rows_def)
  note sync = replies_synced_slots [OF plain assms(3) refl]
  have rows: "reply_rows ?d u k = reply_rows (replies_synced (range_order w) u rs e) u k" for k
    by (simp add: reply_rows_def e(2))
  have 1: "map attr_view (reply_rows ?d u (ri_attribute a)) = [asked_attr a]" if "a \<in> set rs" for a
  proof -
    from sync(1) [OF that] obtain r where r: "reply_rows ?d u (ri_attribute a) = [r]" "\<not> attr_differs r a"
      unfolding rows by blast
    then have "r \<in> set (reply_rows ?d u (ri_attribute a))" by simp
    then have "ra_attribute r = ri_attribute a" by (simp add: reply_rows_def)
    with r show ?thesis by (simp add: attr_view_def asked_attr_def attr_differs_def)
  qed
  have "UpdateHotspotUser input w = (Returns ([(''message'', VStr ''Hotspot user updated successfully''),
      (''username'', VStr u)], 200), w\<lparr>committed := ?d, txn := NoTx\<rparr>)"
    using UpdateHotspotUser_run [of w input] assms by simp
  with 1 sync(2) show ?thesis by (simp add: rows)
qed

theorem update_reconciles_replies_witness:
  "\<exists>b w'. UpdateHotspotUser (demo_input ''alice'' None) (demo_world []) = (Returns (b, 200), w') \<and>
     reply_rows (committed w') ''alice'' ''Mikrotik-Rate-Limit'' = []"
  using update_reconciles_replies [of "demo_world []" "''alice''" "demo_input ''alice'' None" "[]"]
  by (auto simp: demo_plain demo_input_def)

text \<open>A successful update makes the user a member of exactly the requested groups, with
  the requested priorities (1 where none was given).\<close>

theorem update_reconciles_groups:
  assumes "healthy w" and "user_exists u (committed w)" and "visits_all (range_order w)"
    and "hu_username input = u" and "hu_groups input = Some gs" and "plain_groups u gs (committed w)"
  shows "\<exists>b w'. UpdateHotspotUser input w = (Returns (b, 200), w') \<and>
    (\<forall>g \<in> set gs. \<exists>r. group_rows (committed w') u (gi_groupname g) = [r] \<and> ug_priority r = priority_of g) \<and>
    (\<forall>k. k \<notin> gi_groupname ` set gs \<longrightarrow> group_rows (committed w') u k = [])"
proof -
  let ?d = "updated (range_order w) input (committed w)"
  obtain e where e: "radusergroup e = radusergroup (committed w)"
    "radusergroup ?d = radusergroup (groups_synced (range_order w) u gs e)"
    using updated_parts(3) [of u input gs] assms by blast
  have plain: "plain_groups u gs e"
    using assms(6) e(1) by (simp add: plain_groups_def group_rows_def)
  note sync = groups_synced_slots [OF plain assms(3) refl]
  have rows: "group_rows ?d u k = group_rows (groups_synced (range_order w) u gs e) u k" for k
    by (simp add: group_rows_def e(2))
  have "UpdateHotspotUser input w = (Returns ([(''message'', VStr ''Hotspot user updated successfully''),
      (''username'', VStr u)], 200), w\<lparr>committed := ?d, txn := NoTx\<rparr>)"
    using UpdateHotspotUser_run [of w input] assms by simp
  with sync show ?thesis by (simp add: rows group_differs_def)
qed

theorem update_reconciles_groups_witness:
  "\<exists>b w'. UpdateHotspotUser (demo_input ''alice'' None) (demo_world []) = (Returns (b, 200), w') \<and>
     (\<exists>r. group_rows (committed w') ''alice'' ''weekly'' = [r] \<and> ug_priority r = 1) \<and>
     group_rows (committed w') ''alice'' ''daily'' = []"
  using update_reconciles_groups [of "demo_world []" "''alice''" "demo_input ''alice'' None",
      OF _ _ _ _ _ demo_plain(3) [folded demo_simps(1) [of "[]"]]]
  by (auto simp: demo_plain demo_input_def priority_of_def)

text \<open>Deleting an existing user answers 200 and leaves no row of the user in any table;
  reading the user afterwards answers 404, and deleting again answers 404.\<close>

theorem delete_then_gone:
  assumes "healthy w" and "user_exists u (committed w)"
  shows "\<exists>b w'. DeleteHotspotUser u w = (Returns (b, 200), w') \<and> user_view u (committed w') = ([], [], []) \<and>
    GetHotspotUser u w' = (Returns (err ''User not found'' 404), w') \<and>
    DeleteHotspotUser u w' = (Returns (err ''User not found'' 404), w')"
proof -
  let ?w = "w\<lparr>committed := purged u (committed w), txn := NoTx\<rparr>"
  have gone: "user_view u (purged u (committed w)) = ([], [], [])"
    by (simp add: user_view_def purged_def sel_attr_def sel_group_def del_user_attrs_def
        del_user_groups_def filter_empty_conv)
  then have nex: "\<not> user_exists u (committed ?w)" by (simp add: user_view_def user_exists_def)
  have h: "healthy ?w" by (rule healthy_committed_txn) (rule assms)
  have "DeleteHotspotUser u ?w = (Returns (err ''User not found'' 404), ?w)"
    using require_user_run [OF h, of u] nex
    by (simp add: DeleteHotspotUser_def delete_body_def finish_def andThen_def)
  then show ?thesis
    using DeleteHotspotUser_run [OF assms] gone GetHotspotUser_run [OF h, of u] nex by simp
qed

theorem delete_then_gone_witness:
  "\<exists>b w'. DeleteHotspotUser ''alice'' (demo_world []) = (Returns (b, 200), w') \<and>
     user_view ''alice'' (committed w') = ([], [], [])"
  using delete_then_gone [of "demo_world []" "''alice''"] by (auto simp: demo_plain)

text \<open>Error responses: a name that is taken answers 409 to a create; a name that is not
  there answers 404 to a read, an update, a delete and each handler of single attributes and
  groups.  Nothing is written in any of these cases.\<close>

theorem wrong_user_refused:
  assumes "healthy w" and "hu_username input = u"
  shows "if user_exists u (committed w)
    then CreateHotspotUser input w = (Returns (err ''User already exists'' 409), w\<lparr>txn := NoTx\<rparr>)
    else list_all (\<lambda>handler. handler w = (Returns (err ''User not found'' 404), w))
      [GetHotspotUser u, UpdateHotspotUser input, DeleteHotspotUser u,
       AddOrUpdateRadCheckAttribute u a, DeleteRadCheckAttribute u k,
       AddOrUpdateRadReplyAttribute u a, DeleteRadReplyAttribute u k,
       AddRadUserGroup u g, DeleteRadUserGroup u k]"
proof (cases "user_exists u (committed w)")
  case True
  let ?w = "w\<lparr>txn := OpenTx (committed w)\<rparr>"
  have 1: "or_abort (userExists (Some Tx) (hu_username input)) msg ?w = (Inr True, ?w)" for msg
    using tx_runsD [OF runs_or_abort [OF runs_userExists], of ?w "committed w"] opened [OF assms(1)] True assms(2)
    by (simp add: user_exists_def)
  have "CreateHotspotUser input w = (Returns (err ''User already exists'' 409), w\<lparr>txn := NoTx\<rparr>)"
    unfolding CreateHotspotUser_def create_body_def or_fail_def
    by (rule finish_Raise, rule run_step, rule get_st_run, rule run_step,
        rule onErr_begin_run [OF assms(1)], rule run_step, rule 1)
      (simp add: andThen_def rollback_def raise_def)
  with True show ?thesis by simp
next
  case False
  then have "finish (andThen (require_user u) f) w = (Returns (err ''User not found'' 404), w)" for f
    by (simp add: finish_def andThen_def require_user_run [OF assms(1)])
  with False assms(2) show ?thesis
    by (simp add: GetHotspotUser_def UpdateHotspotUser_def update_body_def DeleteHotspotUser_def delete_body_def
        AddOrUpdateRadCheckAttribute_def DeleteRadCheckAttribute_def AddOrUpdateRadReplyAttribute_def
        DeleteRadReplyAttribute_def AddRadUserGroup_def DeleteRadUserGroup_def)
qed

theorem wrong_user_refused_witness:
  "fst (CreateHotspotUser (demo_input ''bob'' None) (demo_world [])) = Returns (err ''User already exists'' 409) \<and>
   fst (DeleteHotspotUser ''carol'' (demo_world [])) = Returns (err ''User not found'' 404)"
proof -
  have "\<not> user_exists ''carol'' demo_db"
    by (simp add: user_exists_def demo_db_def sel_attr_def new_attr_def)
  then show ?thesis
    using wrong_user_refused [of "demo_world []" "demo_input ''bob'' None" "''bob''"]
      wrong_user_refused [of "demo_world []" "demo_input ''carol'' None" "''carol''"]
    by (simp add: demo_plain demo_input_def)
qed

text \<open>Adding or updating a single check attribute is an upsert: afterwards the user has
  a row under that name, every such row carries the requested operator and value, their
  number has not grown beyond one, and no other row of any user or table has changed.\<close>

theorem check_attribute_upsert:
  assumes "healthy w" and "user_exists u (committed w)"
  shows "\<exists>b w'. AddOrUpdateRadCheckAttribute u a w = (Returns (b, 200), w') \<and>
    (\<forall>r \<in> set (check_rows (committed w') u (ri_attribute a)). attr_view r = asked_attr a) \<and>
    length (check_rows (committed w') u (ri_attribute a)) =
      max 1 (length (check_rows (committed w) u (ri_attribute a))) \<and>
    (\<forall>v k. v \<noteq> u \<or> k \<noteq> ri_attribute a \<longrightarrow> check_rows (committed w') v k = check_rows (committed w) v k) \<and>
    radreply (committed w') = radreply (committed w) \<and> radusergroup (committed w') = radusergroup (committed w)"
proof -
  let ?d = "check.upsert u a (committed w)"
  note up = check.upsert_slot [where d' = ?d, OF refl, unfolded rows_slot]
  have "attr_view r = asked_attr a" if "r \<in> set (check_rows ?d u (ri_attribute a))" for r
    using up(2) [OF that] that by (simp add: attr_view_def asked_attr_def attr_differs_def check_rows_def)
  with up AddOrUpdateRadCheckAttribute_run [OF assms, of a] show ?thesis by simp
qed

theorem check_attribute_upsert_witness:
  "\<exists>b w'. AddOrUpdateRadCheckAttribute ''bob'' \<lparr>ri_attribute = AttrAuthType, ri_op = [], ri_value = ''Reject''\<rparr>
       (demo_world []) = (Returns (b, 200), w') \<and>
     length (check_rows (committed w') ''bob'' AttrAuthType) = 1"
  using check_attribute_upsert [of "demo_world []" "''bob''"
      "\<lparr>ri_attribute = AttrAuthType, ri_op = [], ri_value = ''Reject''\<rparr>"]
  by (auto simp: demo_plain) (auto simp: check_rows_def demo_db_def new_attr_def)

text \<open>The same of reply attributes and of group memberships.\<close>

theorem reply_and_group_upsert:
  assumes "healthy w" and "user_exists u (committed w)"
  shows "(\<exists>b w'. AddOrUpdateRadReplyAttribute u a w = (Returns (b, 200), w') \<and>
      reply_rows (committed w') u (ri_attribute a) \<noteq> [] \<and>
      (\<forall>r \<in> set (reply_rows (committed w') u (ri_attribute a)). attr_view r = asked_attr a) \<and>
      (\<forall>v k. v \<noteq> u \<or> k \<noteq> ri_attribute a \<longrightarrow> reply_rows (committed w') v k = reply_rows (committed w) v k)) \<and>
    (\<exists>b w'. AddRadUserGroup u g w = (Returns (b, 200), w') \<and>
      group_rows (committed w') u (gi_groupname g) \<noteq> [] \<and>
      (\<forall>r \<in> set (group_rows (committed w') u (gi_groupname g)). ug_priority r = priority_of g) \<and>
      (\<forall>v k. v \<noteq> u \<or> k \<noteq> gi_groupname g \<longrightarrow> group_rows (committed w') v k = group_rows (committed w) v k))"
proof -
  let ?d = "rpl.upsert u a (committed w)"
  note up = rpl.upsert_slot [where d' = ?d, OF refl, unfolded rows_slot]
  have "attr_view r = asked_attr a" if "r \<in> set (reply_rows ?d u (ri_attribute a))" for r
    using up(2) [OF that] that by (simp add: attr_view_def asked_attr_def attr_differs_def reply_rows_def)
  with up AddOrUpdateRadReplyAttribute_run [OF assms, of a]
  have "\<exists>b w'. AddOrUpdateRadReplyAttribute u a w = (Returns (b, 200), w') \<and>
      reply_rows (committed w') u (ri_attribute a) \<noteq> [] \<and>
      (\<forall>r \<in> set (reply_rows (committed w') u (ri_attribute a)). attr_view r = asked_attr a) \<and>
      (\<forall>v k. v \<noteq> u \<or> k \<noteq> ri_attribute a \<longrightarrow> reply_rows (committed w') v k = reply_rows (committed w) v k)"
    by simp
  moreover from grp.upsert_slot [where d' = "grp.upsert u g (committed w)", OF refl, unfolded rows_slot]
    AddRadUserGroup_run [OF assms, of g]
  have "\<exists>b w'. AddRadUserGroup u g w = (Returns (b, 200), w') \<and>
      group_rows (committed w') u (gi_groupname g) \<noteq> [] \<and>
      (\<forall>r \<in> set (group_rows (committed w') u (gi_groupname g)). ug_priority r = priority_of g) \<and>
      (\<forall>v k. v \<noteq> u \<or> k \<noteq> gi_groupname g \<longrightarrow> group_rows (committed w') v k = group_rows (committed w) v k)"
    by (simp add: group_differs_def)
  ultimately show ?thesis by (rule conjI)
qed

theorem reply_and_group_upsert_witness:
  "(\<exists>b w'. AddOrUpdateRadReplyAttribute ''bob'' \<lparr>ri_attribute = ''Session-Timeout'', ri_op = [], ri_value = ''60''\<rparr>
       (demo_world []) = (Returns (b, 200), w')) \<and>
   (\<exists>b w'. AddRadUserGroup ''bob'' \<lparr>gi_groupname = ''daily'', gi_priority = Some 3\<rparr> (demo_world []) =
       (Returns (b, 200), w'))"
  using reply_and_group_upsert [of "demo_world []" "''bob''"
      "\<lparr>ri_attribute = ''Session-Timeout'', ri_op = [], ri_value = ''60''\<rparr>" "\<lparr>gi_groupname = ''daily'', gi_priority = Some 3\<rparr>"]
  by (auto simp: demo_plain)

text \<open>Deleting a single check attribute, reply attribute or membership answers 404 and
  changes nothing when the user has no such row; otherwise it removes all rows of that name
  and no other.\<close>

theorem single_delete:
  assumes "healthy w" and "user_exists u (committed w)"
  shows "DeleteRadCheckAttribute u k w =
      (if check_rows (committed w) u k = [] then (Returns (err ''Attribute not found'' 404), w)
       else (Returns ([(''message'', VStr ''Attribute deleted successfully''), (''username'', VStr u),
               (''attribute'', VStr k)], 200), w\<lparr>committed := del_check u k (committed w)\<rparr>)) \<and>
    fst (DeleteRadReplyAttribute u k w) =
      (if reply_rows (committed w) u k = [] then Returns (err ''Attribute not found'' 404)
       else Returns ([(''message'', VStr ''Reply attribute deleted successfully''), (''username'', VStr u),
               (''attribute'', VStr k)], 200)) \<and>
    fst (DeleteRadUserGroup u k w) =
      (if group_rows (committed w) u k = [] then Returns (err ''User is not a member of this group'' 404)
       else Returns ([(''message'', VStr ''User removed from group successfully''), (''username'', VStr u),
               (''groupname'', VStr k)], 200)) \<and>
    (\<forall>v j. check_rows (committed (snd (DeleteRadCheckAttribute u k w))) v j =
              (if v = u \<and> j = k then [] else check_rows (committed w) v j) \<and>
           reply_rows (committed (snd (DeleteRadReplyAttribute u k w))) v j =
              (if v = u \<and> j = k then [] else reply_rows (committed w) v j) \<and>
           group_rows (committed (snd (DeleteRadUserGroup u k w))) v j =
              (if v = u \<and> j = k then [] else group_rows (committed w) v j))"
  using check.slot_del [of u k "committed w"] rpl.slot_del [of u k "committed w"]
    grp.slot_del [of u k "committed w"]
  by (simp add: delete_attribute_run [OF assms] rows_slot)

theorem single_delete_witness:
  "fst (DeleteRadCheckAttribute ''alice'' ''Expiration'' (demo_world [])) = Returns (err ''Attribute not found'' 404)"
  using single_delete [of "demo_world []" "''alice''" "''Expiration''"]
  by (simp add: demo_plain) (simp add: check_rows_def demo_db_def new_attr_def)

end
