(* ===== verification/Subscription.thy ===== *)
theory Subscription
  imports Hotspot_Correct
begin

text \<open>
  Paid subscriptions: server/handler/radius.go (\<^verbatim>\<open>ManageHotspotUser\<close>), which creates the
  RADIUS user or renews an expired one with an \<^verbatim>\<open>Expiration\<close> of now plus the duration of the
  plan, and \<^verbatim>\<open>IsUserExpired\<close>, which reads that attribute back.  Both see one reading of the
  clock per call.
\<close>

record HotspotSubscriptionRequest =
  sr_phone :: string
  sr_username :: string
  sr_password :: "string option"
  sr_is_home_user :: bool
  sr_isp :: string
  sr_service_name :: string
  sr_duration :: int
  sr_devices :: int

definition subscription_checks :: "HotspotSubscriptionRequest \<Rightarrow> int \<Rightarrow> int \<Rightarrow> rad_input list" where
  "subscription_checks req now z =
     [\<lparr>ri_attribute = ''Expiration'', ri_op = '':='',
        ri_value = format_expiry z (add_seconds now (sr_duration req))\<rparr>,
      \<lparr>ri_attribute = ''Simultaneous-Use'', ri_op = '':='', ri_value = show_int (sr_devices req)\<rparr>]"

definition subscription_input ::
  "HotspotSubscriptionRequest \<Rightarrow> string option \<Rightarrow> int \<Rightarrow> int \<Rightarrow> HotspotUserInput" where
  "subscription_input req password now z =
     \<lparr>hu_username = sr_username req, hu_password = password,
      hu_checks = Some (subscription_checks req now z), hu_replies = None,
      hu_groups = Some [\<lparr>gi_groupname = sr_service_name req, gi_priority = Some 1\<rparr>]\<rparr>"

text \<open>The password kept for a home user: the first \<^verbatim>\<open>Cleartext-Password\<close> row.  (A query that
  succeeds gives a slice that is not nil.)\<close>

definition home_password :: "HotspotSubscriptionRequest \<Rightarrow> bool \<Rightarrow> (string option) handler" where
  "home_password req isSubscribing =
     (if sr_is_home_user req then
        andThen (attempt (getRadCheckAttributes (sr_username req))) (\<lambda>res.
          (case res of
             Inr userAttr \<Rightarrow>
               (case find (\<lambda>r. ra_attribute r = ''Cleartext-Password'') userAttr of
                  Some r \<Rightarrow> ret (Some (ra_value r))
                | None \<Rightarrow> ret (sr_password req))
           | Inl e \<Rightarrow>
               if isSubscribing then raise (err (''User '' @ sr_username req @ '' does not exist!'') 404)
               else ret (sr_password req)))
      else ret (sr_password req))"

text \<open>\<^verbatim>\<open>fmt.Sprintf("%v", resp["error"])\<close> of a response of the hotspot handlers, whose errors
  are strings.\<close>

definition shown_error :: "gin_h \<Rightarrow> string" where
  "shown_error b = (case map_of b ''error'' of Some (VStr s) \<Rightarrow> s | _ \<Rightarrow> ''<nil>'')"

definition apply_subscription ::
  "HotspotSubscriptionRequest \<Rightarrow> bool \<Rightarrow> HotspotUserInput \<Rightarrow> string + string \<Rightarrow> unit handler" where
  "apply_subscription req isSubscribing hotspotUser res =
     (case res of
        Inr userStatus \<Rightarrow>
          if userStatus = ''NOT_EXPIRED'' \<and> isSubscribing then
            raise (err (''User '' @ sr_username req @ '' already has an active subscription'') 409)
          else if userStatus = ''NO_EXIST'' then
            andThen (callee (CreateHotspotUser hotspotUser)) (\<lambda>(resp, statusCode).
              if statusCode \<noteq> 201 then raise (err (''Failed to create user: '' @ shown_error resp) statusCode)
              else ret ())
          else if userStatus = ''EXPIRED'' then
            andThen (callee (UpdateHotspotUser hotspotUser)) (\<lambda>(resp, statusCode).
              if statusCode \<noteq> 200 then raise (err (''Failed to update user: '' @ shown_error resp) statusCode)
              else ret ())
          else raise ([(''error'', VErr None)], 500)
      | Inl e \<Rightarrow> raise ([(''error'', VErr (Some e))], 500))"

definition manage_body :: "HotspotSubscriptionRequest \<Rightarrow> bool \<Rightarrow> reply handler" where
  "manage_body req isSubscribing =
     andThen (home_password req isSubscribing) (\<lambda>password.
     andThen get_st (\<lambda>w.
     andThen (attempt (IsUserExpired (sr_username req))) (\<lambda>res.
     andThen (apply_subscription req isSubscribing
                (subscription_input req password (clock w) (zone w)) res) (\<lambda>_.
     ret ([(''message'', VStr ''Subscription made successfully''), (''username'', VStr (sr_username req)),
           (''password'', VStrPtr password), (''group'', VStr (sr_service_name req))], 200)))))"

definition ManageHotspotUser ::
  "HotspotSubscriptionRequest \<Rightarrow> bool \<Rightarrow> radius_world \<Rightarrow> reply outcome \<times> radius_world" where
  "ManageHotspotUser req isSubscribing = finish (manage_body req isSubscribing)"

section \<open>Running the handlers\<close>

text \<open>The status word as a function of the tables and the clock; \<open>None\<close> for a stored date that
  does not parse.\<close>

definition expiry_status :: "int \<Rightarrow> int \<Rightarrow> string \<Rightarrow> radius_db \<Rightarrow> string option" where
  "expiry_status z now u d =
     (if \<not> user_exists u d then Some ''NO_EXIST''
      else case check_rows d u ''Expiration'' of
        [] \<Rightarrow> Some ''EXPIRED''
      | r # _ \<Rightarrow>
          if ra_value r = [] then Some ''EXPIRED''
          else case parse_expiry z (ra_value r) of
            None \<Rightarrow> None
          | Some t \<Rightarrow> Some (if now > t then ''EXPIRED'' else ''NOT_EXPIRED''))"

lemma userExists_None_run: "healthy w \<Longrightarrow> userExists None u w = (Inr (user_exists u (committed w)), w)"
  by (simp add: userExists_def tx_or_db_def GetDB_def healthy_def user_exists_def andThen_def wrap_err_def
      onErr_def stmt_def next_fault_none ret_def)

lemma expiration_query_rows:
  "expiration_query u d = (case check_rows d u ''Expiration'' of [] \<Rightarrow> [] | r # _ \<Rightarrow> ra_value r)"
  by (simp add: expiration_query_def check_rows_def)

lemma IsUserExpired_run:
  assumes "healthy w"
  shows "IsUserExpired u w =
    (case expiry_status (zone w) (clock w) u (committed w) of
       None \<Rightarrow> (Inl (Raise (''failed to parse expiration for user '' @ u)), w)
     | Some s \<Rightarrow> (Inr s, w))"
proof -
  have "stmt Db (query_on (expiration_query u)) w = (Inr (expiration_query u (committed w)), w)"
    using assms by (simp add: stmt_def healthy_def next_fault_none)
  moreover have "GetDB w = Some Db" using assms by (simp add: GetDB_def healthy_def)
  ultimately show ?thesis
    using assms
    by (simp add: IsUserExpired_def get_st_def andThen_def userExists_None_run deref_def ret_def wrap_err_def
        onErr_def raise_def expiry_status_def expiration_query_rows split: list.split option.split)
qed

text \<open>The password the subscription works with.\<close>

definition kept_password :: "HotspotSubscriptionRequest \<Rightarrow> radius_db \<Rightarrow> string option" where
  "kept_password req d =
     (if sr_is_home_user req then
        (case check_rows d (sr_username req) AttrCleartextPassword of
           [] \<Rightarrow> sr_password req | r # _ \<Rightarrow> Some (ra_value r))
      else sr_password req)"

lemma find_filter: "find P xs = (case filter P xs of [] \<Rightarrow> None | x # _ \<Rightarrow> Some x)"
  by (induction xs) simp_all

lemma home_password_run:
  assumes "healthy w"
  shows "home_password req b w = (Inr (kept_password req (committed w)), w)"
proof -
  have "find (\<lambda>r. ra_attribute r = AttrCleartextPassword) (sel_attr u (radcheck d)) =
      (case check_rows d u AttrCleartextPassword of [] \<Rightarrow> None | r # _ \<Rightarrow> Some r)" for u d
    by (simp add: find_filter sel_attr_def check_rows_def conj_commute)
  then show ?thesis
    using assms
    by (simp add: home_password_def kept_password_def andThen_def attempt_def getRadCheckAttributes_def
        on_db_run ret_def split: list.split)
qed

lemma manage_run:
  assumes "healthy w" and "expiry_status (zone w) (clock w) (sr_username req) (committed w) = Some s"
  shows "manage_body req b w =
    andThen (apply_subscription req b
      (subscription_input req (kept_password req (committed w)) (clock w) (zone w)) (Inr s)) (\<lambda>_.
     ret ([(''message'', VStr ''Subscription made successfully''), (''username'', VStr (sr_username req)),
           (''password'', VStrPtr (kept_password req (committed w))), (''group'', VStr (sr_service_name req))], 200)) w"
proof -
  have 1: "attempt (IsUserExpired (sr_username req)) w = (Inr (Inr s), w)"
    using assms by (simp add: attempt_def IsUserExpired_run)
  show ?thesis
    unfolding manage_body_def
    by (rule run_step, rule home_password_run [OF assms(1)], rule run_step, rule get_st_run,
        rule run_step, rule 1, rule refl)
qed

lemma manage_active:
  assumes "healthy w" and "expiry_status (zone w) (clock w) (sr_username req) (committed w) = Some ''NOT_EXPIRED''"
  shows "ManageHotspotUser req True w =
    (Returns (err (''User '' @ sr_username req @ '' already has an active subscription'') 409), w)"
  using manage_run [OF assms, of True]
  by (simp add: ManageHotspotUser_def finish_def andThen_def apply_subscription_def raise_def)

text \<open>The only password in a response is a pointer.\<close>

definition no_plain_password :: "gin_h \<Rightarrow> bool" where
  "no_plain_password b \<longleftrightarrow> (\<forall>s. map_of b ''password'' \<noteq> Some (VStr s))"

lemma manage_password:
  assumes "ManageHotspotUser req isSubscribing w = (Returns (b, code), w')"
  shows "no_plain_password b"
proof -
  let ?E = "\<lambda>x (w :: radius_world). case x of Raise (b, code) \<Rightarrow> no_plain_password b | GoPanic \<Rightarrow> True"
  have any: "triple (\<lambda>_. True) (attempt m) (\<lambda>_ _. True) ?E" for m :: "'x sql"
    by (auto simp: triple_def attempt_def split: prod.splits sum.splits exit.splits)
  have call: "triple (\<lambda>_. True) (andThen (callee h) (\<lambda>(resp, statusCode).
      if statusCode \<noteq> k then raise (err (m resp) statusCode) else ret ())) (\<lambda>_ _. True) ?E" for h k m
    by (auto simp: triple_def andThen_def callee_def raise_def ret_def err_def no_plain_password_def
        split: prod.splits outcome.splits)
  have hp: "triple (\<lambda>_. True) (home_password req isSubscribing) (\<lambda>_ _. True) ?E"
    unfolding home_password_def
    by (rule triple_if, rule triple_andThen [OF any])
      (auto intro!: triple_ret triple_raise simp: err_def no_plain_password_def split: sum.split option.split)
  have ap: "triple (\<lambda>_. True) (apply_subscription req isSubscribing i res) (\<lambda>_ _. True) ?E" for i res
    unfolding apply_subscription_def
    by (cases res; simp; intro conjI impI call triple_raise; simp add: err_def no_plain_password_def)
  have gs: "triple (\<lambda>_. True) get_st (\<lambda>_ _. True) ?E"
    by (simp add: triple_def get_st_def)
  have "triple (\<lambda>_. True) (manage_body req isSubscribing) (\<lambda>r _. no_plain_password (fst r)) ?E"
    unfolding manage_body_def
    by (rule triple_andThen [OF hp], rule triple_andThen [OF gs], rule triple_andThen [OF any],
        rule triple_andThen [OF ap], rule triple_ret) (simp add: no_plain_password_def)
  note t = tripleD [OF this TrueI]
  from assms show ?thesis
    by (cases "manage_body req isSubscribing w"; cases "fst (manage_body req isSubscribing w)")
      (auto simp: ManageHotspotUser_def finish_def dest: t split: exit.splits)
qed

section \<open>Safety\<close>

text \<open>\<open>unspoilt c\<close>: an exit of the handler that left the committed tables alone.\<close>

fun unspoilt :: "radius_db \<Rightarrow> reply exit \<Rightarrow> radius_world \<Rightarrow> bool" where
  "unspoilt c (Raise (b, code)) w = (code \<noteq> 200 \<and> idle c w)"
| "unspoilt c GoPanic w = idle c w"

text \<open>\<open>calm c v\<close>: committed tables \<open>c\<close>, no transaction, clock and map order as in \<open>v\<close>.\<close>

definition calm :: "radius_db \<Rightarrow> radius_world \<Rightarrow> radius_world \<Rightarrow> bool" where
  "calm c v w \<longleftrightarrow> idle c w \<and> range_order w = range_order v \<and> clock w = clock v \<and> zone w = zone v"

lemma calm_idle: "calm c v w \<Longrightarrow> idle c w"
  by (simp add: calm_def)

lemma attempt_idle:
  assumes "triple (\<lambda>w. calm c v w) m (\<lambda>_ w. calm c v w)
      (\<lambda>_ w. calm c v w)"
  shows "triple (\<lambda>w. calm c v w) (attempt m) (\<lambda>_ w. calm c v w)
      (unspoilt c)"
proof (rule tripleI)
  fix w assume w: "calm c v w"
  show "case attempt m w of (Inl x, w') \<Rightarrow> unspoilt c x w' | (Inr a, w') \<Rightarrow> calm c v w'"
    using tripleD [OF assms w] by (cases "m w") (auto simp: attempt_def calm_def split: sum.splits exit.splits)
qed

lemma stmt_query_idle:
  "triple (\<lambda>w. calm c v w) (stmt Db (query_on f))
     (\<lambda>_ w. calm c v w) (\<lambda>_ w. calm c v w)"
  by (auto simp: triple_def calm_def idle_def stmt_def split: prod.splits option.splits)

lemma wrap_err_any:
  "triple P m Q (\<lambda>_. P) \<Longrightarrow> triple P (wrap_err msg m) Q (\<lambda>_. P)"
  unfolding wrap_err_def
  by (rule triple_onErr [where R = "\<lambda>_. P"], erule triple_weaken) (auto split: exit.splits intro: triple_raise)

lemma db_query_idle:
  "triple (\<lambda>w. calm c v w) (andThen (deref (GetDB x)) (\<lambda>k. wrap_err msg (stmt k (query_on f))))
     (\<lambda>_ w. calm c v w) (\<lambda>_ w. calm c v w)"
proof (cases "GetDB x")
  case None
  then show ?thesis by (simp add: deref_def triple_def andThen_def go_panic_def)
next
  case (Some k)
  then have "k = Db" by (simp add: GetDB_def split: if_splits)
  with Some show ?thesis by (simp add: deref_def wrap_err_any stmt_query_idle)
qed

lemma userExists_idle:
  "triple (\<lambda>w. calm c v w) (userExists None u)
     (\<lambda>_ w. calm c v w) (\<lambda>_ w. calm c v w)"
  by (auto simp: triple_def calm_def idle_def userExists_def tx_or_db_def GetDB_def andThen_def onErr_def wrap_err_def
      stmt_def ret_def raise_def split: prod.splits sum.splits option.splits exit.splits)

lemma IsUserExpired_idle:
  "triple (\<lambda>w. calm c v w) (IsUserExpired u)
     (\<lambda>_ w. calm c v w) (\<lambda>_ w. calm c v w)"
  unfolding IsUserExpired_def
  by (rule triple_andThen [OF get_st_safe], rule triple_andThen [OF userExists_idle], rule triple_if,
      simp add: triple_ret, rule triple_andThen [OF db_query_idle])
    (auto intro: triple_ret triple_raise split: option.split)

lemma home_password_idle:
  "triple (\<lambda>w. calm c v w) (home_password req b)
     (\<lambda>_ w. calm c v w) (unspoilt c)"
  unfolding home_password_def
proof (rule triple_if, rule triple_andThen [OF attempt_idle])
  show "triple (\<lambda>w. calm c v w) (getRadCheckAttributes u)
      (\<lambda>_ w. calm c v w) (\<lambda>_ w. calm c v w)" for u
    unfolding getRadCheckAttributes_def on_db_def
    by (rule triple_andThen [OF get_st_safe], rule db_query_idle)
qed (auto intro!: triple_ret triple_raise simp: err_def calm_def split: sum.split option.split)

lemma callee_all_or_nothing:
  assumes "\<And>w. calm c v w \<Longrightarrow> all_or_nothing ok c c' (h w)"
  shows "triple (\<lambda>w. calm c v w)
    (andThen (callee h) (\<lambda>(resp, code). if code \<noteq> ok then raise (err (msg resp) code) else ret ()))
    (\<lambda>_ w. closed w \<and> committed w = c') (unspoilt c)"
proof (rule tripleI)
  fix w assume w: "calm c v w"
  show "case andThen (callee h) (\<lambda>(resp, code). if code \<noteq> ok then raise (err (msg resp) code) else ret ()) w of
      (Inl x, w') \<Rightarrow> unspoilt c x w' | (Inr a, w') \<Rightarrow> closed w' \<and> committed w' = c'"
  proof (cases "h w")
    case (Pair r w')
    with assms [of w] w have a: "all_or_nothing ok c c' (r, w')" by simp
    show ?thesis
    proof (cases r)
      case (Returns rep)
      obtain resp code where rep: "rep = (resp, code)" by (cases rep)
      show ?thesis
        using a Pair Returns rep
        by (simp add: andThen_def callee_def raise_def ret_def err_def idle_closed split: if_splits)
    next
      case Panics
      with a Pair show ?thesis by (simp add: andThen_def callee_def idle_closed)
    qed
  qed
qed

text \<open>What a subscription may have done to the tables \<open>c\<close> when it succeeds.\<close>

definition subscribed :: "HotspotSubscriptionRequest \<Rightarrow> int \<Rightarrow> int \<Rightarrow> (string list \<Rightarrow> string list) \<Rightarrow>
    radius_db \<Rightarrow> radius_db \<Rightarrow> bool" where
  "subscribed req now z ro c c' \<longleftrightarrow>
     (\<exists>pw. c' = created (subscription_input req pw now z) c \<or> c' = updated ro (subscription_input req pw now z) c)"

lemma apply_idle:
  "triple (\<lambda>w. calm c v w)
     (apply_subscription req b (subscription_input req pw now z) res)
     (\<lambda>_ w. closed w \<and> subscribed req now z (range_order v) c (committed w)) (unspoilt c)"
proof -
  let ?i = "subscription_input req pw now z"
  have 1: "all_or_nothing 201 c (created ?i c) (CreateHotspotUser ?i w)" if "calm c v w" for w
    unfolding CreateHotspotUser_def
    by (rule all_or_nothing_finish [OF create_safe create_ok calm_idle [OF that] refl])
  have 2: "all_or_nothing 200 c (updated (range_order v) ?i c) (UpdateHotspotUser ?i w)" if "calm c v w" for w
    unfolding UpdateHotspotUser_def
    by (rule all_or_nothing_finish [OF update_safe update_ok calm_idle [OF that]])
      (use that in \<open>simp add: calm_def\<close>)
  have 3: "triple (\<lambda>w. calm c v w)
      (andThen (callee (CreateHotspotUser ?i)) (\<lambda>(resp, code). if code \<noteq> 201 then raise (err (m resp) code) else ret ()))
      (\<lambda>_ w. closed w \<and> subscribed req now z (range_order v) c (committed w)) (unspoilt c)" for m
    by (rule triple_weaken [OF callee_all_or_nothing [OF 1]]) (auto simp: subscribed_def)
  have 4: "triple (\<lambda>w. calm c v w)
      (andThen (callee (UpdateHotspotUser ?i)) (\<lambda>(resp, code). if code \<noteq> 200 then raise (err (m resp) code) else ret ()))
      (\<lambda>_ w. closed w \<and> subscribed req now z (range_order v) c (committed w)) (unspoilt c)" for m
    by (rule triple_weaken [OF callee_all_or_nothing [OF 2]]) (auto simp: subscribed_def)
  show ?thesis
  proof (cases res)
    case (Inl e)
    show ?thesis
      unfolding Inl apply_subscription_def sum.case by (rule triple_raise) (simp add: calm_def)
  next
    case (Inr s)
    show ?thesis
      unfolding Inr apply_subscription_def sum.case
      by (intro triple_if 3 4 triple_raise) (simp_all add: err_def calm_def)
  qed
qed

lemma manage_idle:
  "triple (calm c v) (manage_body req b)
     (\<lambda>r w. closed w \<and> snd r = 200 \<and> subscribed req (clock v) (zone v) (range_order v) c (committed w))
     (unspoilt c)"
  unfolding manage_body_def
proof (rule triple_andThen [OF home_password_idle],
    rule triple_andThen [where R = "\<lambda>x w. calm c v w \<and> clock x = clock v \<and> zone x = zone v"])
  show "triple (calm c v) get_st (\<lambda>x w. calm c v w \<and> clock x = clock v \<and> zone x = zone v) (unspoilt c)"
    by (simp add: triple_def get_st_def calm_def)
next
  fix pw and x :: radius_world
  show "triple (\<lambda>w. calm c v w \<and> clock x = clock v \<and> zone x = zone v)
    (andThen (attempt (IsUserExpired (sr_username req))) (\<lambda>res.
     andThen (apply_subscription req b (subscription_input req pw (clock x) (zone x)) res) (\<lambda>_. ret (r, 200))))
     (\<lambda>r w. closed w \<and> snd r = 200 \<and> subscribed req (clock v) (zone v) (range_order v) c (committed w)) (unspoilt c)" for r
  proof (cases "clock x = clock v \<and> zone x = zone v")
    case True
    show ?thesis
      by (rule triple_pre [where P = "calm c v"], unfold True [THEN conjunct1] True [THEN conjunct2],
          rule triple_andThen [OF attempt_idle [OF IsUserExpired_idle]], rule triple_andThen [OF apply_idle])
        (simp_all add: triple_ret)
  qed (auto simp only: triple_def)
qed


definition demo_request :: HotspotSubscriptionRequest where
  "demo_request =
     \<lparr>sr_phone = ''0712345678'', sr_username = ''bob'', sr_password = None, sr_is_home_user = False,
      sr_isp = ''demo'', sr_service_name = ''daily'', sr_duration = 86400, sr_devices = 1\<rparr>"


section \<open>Subscribing, and the expiry that comes of it\<close>

text \<open>The user may subscribe: no account yet, or one that has expired; one row at most under
  each attribute the subscription sets.\<close>

definition may_subscribe :: "HotspotSubscriptionRequest \<Rightarrow> radius_world \<Rightarrow> bool" where
  "may_subscribe req w \<longleftrightarrow>
     expiry_status (zone w) (clock w) (sr_username req) (committed w) \<in> {Some ''NO_EXIST'', Some ''EXPIRED''} \<and>
     length (check_rows (committed w) (sr_username req) ''Expiration'') \<le> 1 \<and>
     length (check_rows (committed w) (sr_username req) ''Simultaneous-Use'') \<le> 1"

text \<open>The moment a subscription ends, to the second.\<close>

definition end_of :: "HotspotSubscriptionRequest \<Rightarrow> int \<Rightarrow> int" where
  "end_of req now = add_seconds now (sr_duration req) div second * second"

lemma status_exists:
  "expiry_status z now u d = Some ''EXPIRED'' \<Longrightarrow> user_exists u d"
  "expiry_status z now u d = Some ''NO_EXIST'' \<Longrightarrow> \<not> user_exists u d"
  by (auto simp: expiry_status_def split: if_splits list.splits option.splits)

lemma created_check_rows:
  assumes "\<not> user_exists u d" and "hu_username input = u"
  shows "map attr_view (check_rows (created input d) u k) =
    filter (\<lambda>t. fst t = k) (asked_credential (hu_password input) # map asked_attr (slice (hu_checks input)))"
proof -
  have "check_rows e u k = filter (\<lambda>r. ra_attribute r = k) (sel_attr u (radcheck e))" for e
    by (simp add: check_rows_def sel_attr_def conj_commute)
  then have "map attr_view (check_rows e u k) =
      filter (\<lambda>t. fst t = k) (map attr_view (sel_attr u (radcheck e)))" for e
    by (simp add: filter_map comp_def attr_view_def)
  then show ?thesis using created_rows(1) [OF assms] by simp
qed

lemma subscription_plain:
  "may_subscribe req w \<Longrightarrow>
   plain_checks (sr_username req) (subscription_checks req now z) (committed w)"
  by (simp add: may_subscribe_def plain_checks_def subscription_checks_def)

lemma fst_credential: "fst (asked_credential pw) \<in> {AttrCleartextPassword, AttrAuthType}"
  by (simp add: asked_credential_def split: option.split)

lemma manage_success:
  assumes "healthy w" and "visits_all (range_order w)" and "may_subscribe req w"
  shows "\<exists>b w'. ManageHotspotUser req isSubscribing w = (Returns (b, 200), w') \<and>
    healthy w' \<and> zone w' = zone w \<and> clock w' = clock w \<and>
    map attr_view (check_rows (committed w') (sr_username req) ''Expiration'') =
      [(''Expiration'', '':='', format_expiry (zone w) (add_seconds (clock w) (sr_duration req)))] \<and>
    map attr_view (check_rows (committed w') (sr_username req) ''Simultaneous-Use'') =
      [(''Simultaneous-Use'', '':='', show_int (sr_devices req))]"
proof -
  let ?u = "sr_username req" and ?pw = "kept_password req (committed w)"
  let ?i = "subscription_input req ?pw (clock w) (zone w)"
  let ?cs = "subscription_checks req (clock w) (zone w)"
  have i: "hu_username ?i = ?u" "hu_password ?i = ?pw" "hu_checks ?i = Some ?cs"
    by (simp_all add: subscription_input_def)
  from assms(3) consider
    (new) "expiry_status (zone w) (clock w) ?u (committed w) = Some ''NO_EXIST''"
    | (old) "expiry_status (zone w) (clock w) ?u (committed w) = Some ''EXPIRED''"
    by (auto simp: may_subscribe_def)
  then show ?thesis
  proof cases
    case new
    let ?w = "w\<lparr>committed := created ?i (committed w), txn := NoTx\<rparr>"
    note nex = status_exists(2) [OF new]
    have "\<exists>b. ManageHotspotUser req isSubscribing w = (Returns (b, 200), ?w)"
      unfolding ManageHotspotUser_def finish_def manage_run [OF assms(1) new]
      using CreateHotspotUser_run [of w ?i] assms(1) nex i
      by (simp add: andThen_def apply_subscription_def callee_def ret_def)
    moreover have "map attr_view (check_rows (created ?i (committed w)) ?u k) = filter (\<lambda>t. fst t = k) (map asked_attr ?cs)"
      if "k \<noteq> AttrCleartextPassword" "k \<noteq> AttrAuthType" for k
      using created_check_rows [OF nex i(1), of k] i that fst_credential [of ?pw] by (auto simp: slice_def)
    ultimately show ?thesis
      using healthy_committed_txn [OF assms(1)]
      by (auto simp: subscription_checks_def asked_attr_def op_of_def)
  next
    case old
    note ex = status_exists(1) [OF old]
    obtain b w' where run: "UpdateHotspotUser ?i w = (Returns (b, 200), w')"
      and rows: "\<forall>a \<in> set ?cs. map attr_view (check_rows (committed w') ?u (ri_attribute a)) = [asked_attr a]"
      using update_checks_spec [OF assms(1) ex assms(2) i(1,3) subscription_plain [OF assms(3)]] by blast
    have w': "w' = w\<lparr>committed := updated (range_order w) ?i (committed w), txn := NoTx\<rparr>"
      using UpdateHotspotUser_run [of w ?i] run assms(1) ex i by simp
    have "\<exists>b. ManageHotspotUser req isSubscribing w = (Returns (b, 200), w')"
      unfolding ManageHotspotUser_def finish_def manage_run [OF assms(1) old]
      using run by (simp add: andThen_def apply_subscription_def callee_def ret_def)
    moreover have "healthy w'" "zone w' = zone w" "clock w' = clock w"
      using healthy_committed_txn [OF assms(1)] by (simp_all add: w')
    ultimately show ?thesis
      using rows by (auto simp: subscription_checks_def asked_attr_def op_of_def)
  qed
qed

lemma format_expiry_nonempty: "format_expiry z t \<noteq> []"
  by (simp add: format_expiry_def Let_def split: prod.split)

lemma status_after:
  assumes "map attr_view (check_rows d u ''Expiration'') = [(''Expiration'', '':='', format_expiry z t)]"
    and "0 \<le> local_year z t" and "local_year z t \<le> 9999"
  shows "expiry_status z now u d = Some (if now > t div second * second then ''EXPIRED'' else ''NOT_EXPIRED'')"
proof -
  from assms(1) obtain r where r: "check_rows d u ''Expiration'' = [r]" "ra_value r = format_expiry z t"
    by (auto simp: attr_view_def)
  then have "r \<in> set (check_rows d u ''Expiration'')" by simp
  then have "user_exists u d" by (auto simp: check_rows_def user_exists_def sel_attr_def filter_empty_conv)
  with r show ?thesis
    using parse_format_expiry [OF assms(2,3)] by (simp add: expiry_status_def format_expiry_nonempty)
qed

lemma manage_lasts:
  assumes "healthy w" and "visits_all (range_order w)" and "may_subscribe req w"
    and "0 \<le> local_year (zone w) (add_seconds (clock w) (sr_duration req))"
    and "local_year (zone w) (add_seconds (clock w) (sr_duration req)) \<le> 9999"
  shows "\<exists>b w'. ManageHotspotUser req isSubscribing w = (Returns (b, 200), w') \<and>
    (\<forall>now. fst (IsUserExpired (sr_username req) (w'\<lparr>clock := now\<rparr>)) =
       Inr (if now > end_of req (clock w) then ''EXPIRED'' else ''NOT_EXPIRED''))"
proof -
  obtain b w' where run: "ManageHotspotUser req isSubscribing w = (Returns (b, 200), w')"
    and w': "healthy w'" "zone w' = zone w"
    and row: "map attr_view (check_rows (committed w') (sr_username req) ''Expiration'') =
      [(''Expiration'', '':='', format_expiry (zone w) (add_seconds (clock w) (sr_duration req)))]"
    using manage_success [OF assms(1-3), of isSubscribing] by (elim exE conjE) (rule that)
  have "healthy (w'\<lparr>clock := now\<rparr>)" for now using w'(1) by (simp add: healthy_def closed_def)
  then have "fst (IsUserExpired (sr_username req) (w'\<lparr>clock := now\<rparr>)) =
       Inr (if now > end_of req (clock w) then ''EXPIRED'' else ''NOT_EXPIRED'')" for now
    using status_after [OF row assms(4,5), of now] w'(2) by (simp add: IsUserExpired_run end_of_def)
  with run show ?thesis by blast
qed

text \<open>C4.  A subscription lasts as long as it was paid for: when the user has no account or
  an expired one, the request answers 200, and from then on the expiry check, at any later
  reading of the clock, says \<^verbatim>\<open>NOT_EXPIRED\<close> up to the end of the plan (now plus the duration,
  to the second) and \<^verbatim>\<open>EXPIRED\<close> after it: the written date reads back as the moment it was
  written for.\<close>

theorem subscription_lasts:
  assumes "healthy w" and "visits_all (range_order w)" and "may_subscribe req w"
    and "0 \<le> local_year (zone w) (add_seconds (clock w) (sr_duration req))"
    and "local_year (zone w) (add_seconds (clock w) (sr_duration req)) \<le> 9999"
  shows "\<exists>b w'. ManageHotspotUser req isSubscribing w = (Returns (b, 200), w') \<and>
    (\<forall>now. fst (IsUserExpired (sr_username req) (w'\<lparr>clock := now\<rparr>)) =
       Inr (if now > end_of req (clock w) then ''EXPIRED'' else ''NOT_EXPIRED''))"
  using manage_lasts [OF assms] .

lemma demo_may_subscribe: "may_subscribe demo_request (demo_world [])"
  by (simp add: may_subscribe_def expiry_status_def demo_request_def demo_plain)
    (simp add: check_rows_def demo_db_def new_attr_def)

lemma demo_year: "local_year 10800 (add_seconds 0 86400) = 1970"
  by code_simp

theorem subscription_lasts_witness:
  "\<exists>b w'. ManageHotspotUser demo_request True (demo_world []) = (Returns (b, 200), w') \<and>
    (\<forall>now. fst (IsUserExpired ''bob'' (w'\<lparr>clock := now\<rparr>)) =
       Inr (if now > 86400000000000 then ''EXPIRED'' else ''NOT_EXPIRED''))"
proof -
  have "end_of demo_request 0 = 86400000000000" by code_simp
  moreover have "sr_username demo_request = ''bob''" "sr_duration demo_request = 86400"
    by (simp_all add: demo_request_def)
  ultimately show ?thesis
    using subscription_lasts [OF demo_simps(4) _ demo_may_subscribe, of True]
    by (simp only: demo_simps demo_plain demo_year)
qed

text \<open>C25.  While a subscription runs, subscribing again answers 409 and writes nothing: a
  second callback for the same user cannot overwrite the expiry.\<close>

theorem no_double_subscription:
  assumes "healthy w" and "visits_all (range_order w)" and "may_subscribe req w"
    and "0 \<le> local_year (zone w) (add_seconds (clock w) (sr_duration req))"
    and "local_year (zone w) (add_seconds (clock w) (sr_duration req)) \<le> 9999"
    and "ManageHotspotUser req isSubscribing w = (out, w')"
    and "now \<le> end_of req (clock w)" and "sr_username req' = sr_username req"
  shows "ManageHotspotUser req' True (w'\<lparr>clock := now\<rparr>) =
    (Returns (err (''User '' @ sr_username req @ '' already has an active subscription'') 409), w'\<lparr>clock := now\<rparr>)"
proof -
  let ?w = "w'\<lparr>clock := now\<rparr>"
  obtain b v where run: "ManageHotspotUser req isSubscribing w = (Returns (b, 200), v)"
    and v: "healthy v" "zone v = zone w"
    and row: "map attr_view (check_rows (committed v) (sr_username req) ''Expiration'') =
      [(''Expiration'', '':='', format_expiry (zone w) (add_seconds (clock w) (sr_duration req)))]"
    using manage_success [OF assms(1-3), of isSubscribing] by (elim exE conjE) (rule that)
  with assms(6) have eq: "w' = v" by simp
  have h: "healthy ?w" using v(1) eq by (simp add: healthy_def closed_def)
  have "expiry_status (zone ?w) (clock ?w) (sr_username req') (committed ?w) = Some ''NOT_EXPIRED''"
    using status_after [OF row assms(4,5), of now] v(2) assms(7,8) eq by (simp add: end_of_def)
  from manage_active [OF h this] show ?thesis by (simp add: assms(8))
qed

theorem no_double_subscription_witness:
  "fst (ManageHotspotUser demo_request True
     ((snd (ManageHotspotUser demo_request True (demo_world [])))\<lparr>clock := 3600000000000\<rparr>)) =
   Returns (err ''User bob already has an active subscription'' 409)"
proof -
  have "(3600000000000 :: int) \<le> end_of demo_request 0" by code_simp
  moreover have "sr_username demo_request = ''bob''" "sr_duration demo_request = 86400"
    by (simp_all add: demo_request_def)
  ultimately show ?thesis
    using no_double_subscription [OF demo_simps(4) _ demo_may_subscribe _ _ prod.collapse [symmetric], of _ demo_request True]
    by (simp add: demo_simps demo_plain demo_year)
qed

text \<open>Each renewal of an expired user without a password adds one more accept-all row:
  the \<^verbatim>\<open>Auth-Type\<close> rows of a user are never more than added to, though the renewed user
  already has one.\<close>

theorem renewal_adds_auth_row:
  assumes "healthy w" and "visits_all (range_order w)" and "may_subscribe req w"
    and "user_exists (sr_username req) (committed w)" and "kept_password req (committed w) = None"
  shows "\<exists>b w'. ManageHotspotUser req isSubscribing w = (Returns (b, 200), w') \<and>
    check_rows (committed w') (sr_username req) AttrAuthType =
      check_rows (committed w) (sr_username req) AttrAuthType @
        [new_attr (next_check (committed w)) (sr_username req) AttrAuthType defaultOp ''Accept'']"
proof -
  let ?u = "sr_username req" and ?i = "subscription_input req None (clock w) (zone w)"
  have old: "expiry_status (zone w) (clock w) ?u (committed w) = Some ''EXPIRED''"
    using assms(3,4) status_exists(2) by (auto simp: may_subscribe_def)
  have i: "hu_username ?i = ?u" "hu_password ?i = None"
    "hu_checks ?i = Some (subscription_checks req (clock w) (zone w))"
    by (simp_all add: subscription_input_def)
  obtain b w' where run: "UpdateHotspotUser ?i w = (Returns (b, 200), w')"
    and rows: "\<forall>k. k \<notin> ri_attribute ` set (subscription_checks req (clock w) (zone w)) \<longrightarrow>
      check_rows (committed w') ?u k =
        (if k = AttrCleartextPassword then check_rows (committed w) ?u k
         else if k = AttrAuthType then check_rows (committed w) ?u k @
           [new_attr (next_check (committed w)) ?u k defaultOp ''Accept''] else [])"
    using update_checks_spec [OF assms(1,4,2) i(1,3) subscription_plain [OF assms(3)]] i(2)
    by (auto simp: Let_def)
  have "\<exists>b. ManageHotspotUser req isSubscribing w = (Returns (b, 200), w')"
    unfolding ManageHotspotUser_def finish_def manage_run [OF assms(1) old] assms(5)
    using run by (simp add: andThen_def apply_subscription_def callee_def ret_def)
  moreover have "AttrAuthType \<notin> ri_attribute ` set (subscription_checks req (clock w) (zone w))"
    by (simp add: subscription_checks_def)
  ultimately show ?thesis using rows by auto
qed

theorem renewal_adds_auth_row_witness:
  "\<exists>b w'. ManageHotspotUser demo_request True (demo_world []) = (Returns (b, 200), w') \<and>
     length (check_rows (committed w') ''bob'' AttrAuthType) = 2"
proof -
  have "length (check_rows demo_db ''bob'' AttrAuthType) = 1"
    by (simp add: check_rows_def demo_db_def new_attr_def)
  then show ?thesis
    using renewal_adds_auth_row [OF demo_simps(4) _ demo_may_subscribe, of True]
    by (auto simp: demo_plain demo_request_def kept_password_def)
qed

end
