(* ===== verification/Task_Queue.thy ===== *)
theory Task_Queue
  imports WebSocket_Hub Mikrotik_Service Payments Subscription
begin

text \<open>
  Background tasks: the queue client (queue/client.go), the two worker handlers
  (queue/mikrotik\_queue.go, queue/database\_queue.go), the dispatch and the error handler of the
  queue server (queue/server.go).

  The asynq package is outside the repository: the queue is the list of the tasks accepted so
  far, and whether a task is refused is a function in the state.  Payloads travel as JSON
  trees; the JSON form of a decimal is the decimal package's, so the two functions that write
  and read it are the parameters \<open>amount_json\<close> and \<open>json_amount\<close>.  A notification is the
  arguments of the \<^verbatim>\<open>Sprintf\<close> or \<^verbatim>\<open>Marshal\<close> that renders it.
\<close>

section \<open>The state of the system\<close>

datatype notice = Sprintf string "string list" | Marshal json

record queued =
  q_type :: string
  q_payload :: json
  q_queue :: string
  q_retries :: nat
  q_timeout :: nat
  q_retention :: nat

record 'r sys =
  sy_radius :: radius_world
  sy_app :: "app_db db_state"
  sy_hub :: "notice hub"
  sy_net :: "'r net"
  sy_queue :: "queued list"
  sy_refuse :: "queued \<Rightarrow> string option"

type_synonym ('r, 'e, 'a) sysprog = "('r sys, 'e, 'a) prog"

definition notify :: "string \<Rightarrow> notice \<Rightarrow> ('r, 'e, unit) sysprog" where
  "notify ip n = upd_st (\<lambda>s. s\<lparr>sy_hub := SendToIP ip n (sy_hub s)\<rparr>)"

section \<open>Constants and payloads\<close>

abbreviation "TypeMikrotikCommand \<equiv> ''mikrotik:command''"
abbreviation "TypeDatabaseOperation \<equiv> ''database:operation''"
abbreviation "ActionSaveMpesaCallback \<equiv> ''action:save_payment_callback''"
abbreviation "ActionMikrotikLoginUser \<equiv> ''action:mikrotik_login_user''"
abbreviation "QueueCritical \<equiv> ''critical''"
abbreviation "QueueDefault \<equiv> ''default''"
abbreviation "QueueReporting \<equiv> ''reporting''"

record GenericTaskPayload =
  gt_system :: string
  gt_action :: string
  gt_payload :: "json option"
  gt_ip :: string

text \<open>A \<^verbatim>\<open>json.RawMessage\<close> that was never set is written as null and cannot be read.\<close>

definition raw_json :: "json option \<Rightarrow> json" where
  "raw_json r = (case r of Some j \<Rightarrow> j | None \<Rightarrow> JNull)"

definition generic_json :: "GenericTaskPayload \<Rightarrow> json" where
  "generic_json g =
     JObj [(''system'', JStr (gt_system g)), (''action'', JStr (gt_action g)), (''payload'', raw_json (gt_payload g)),
           (''ip'', JStr (gt_ip g))]"

definition dec_generic :: "json \<Rightarrow> GenericTaskPayload option" where
  "dec_generic = dec_struct (\<lambda>k v g.
     if same_name k ''system'' then map_option (\<lambda>s. g\<lparr>gt_system := s\<rparr>) (dec_string (gt_system g) v)
     else if same_name k ''action'' then map_option (\<lambda>s. g\<lparr>gt_action := s\<rparr>) (dec_string (gt_action g) v)
     else if same_name k ''payload'' then Some (g\<lparr>gt_payload := Some v\<rparr>)
     else if same_name k ''ip'' then map_option (\<lambda>s. g\<lparr>gt_ip := s\<rparr>) (dec_string (gt_ip g) v)
     else Some g) \<lparr>gt_system = [], gt_action = [], gt_payload = None, gt_ip = []\<rparr>"

definition login_json :: "MikrotikLogin \<Rightarrow> json" where
  "login_json l =
     JObj [(''Address'', JStr (ml_address l)), (''Username'', JStr (ml_username l)),
           (''Password'', JStr (ml_password l)), (''DeviceID'', JStr (ml_device_id l))]"

definition dec_login :: "json \<Rightarrow> MikrotikLogin option" where
  "dec_login = dec_struct (\<lambda>k v l.
     if same_name k ''Address'' then map_option (\<lambda>s. l\<lparr>ml_address := s\<rparr>) (dec_string (ml_address l) v)
     else if same_name k ''Username'' then map_option (\<lambda>s. l\<lparr>ml_username := s\<rparr>) (dec_string (ml_username l) v)
     else if same_name k ''Password'' then map_option (\<lambda>s. l\<lparr>ml_password := s\<rparr>) (dec_string (ml_password l) v)
     else if same_name k ''DeviceID'' then map_option (\<lambda>s. l\<lparr>ml_device_id := s\<rparr>) (dec_string (ml_device_id l) v)
     else Some l) \<lparr>ml_address = [], ml_username = [], ml_password = [], ml_device_id = []\<rparr>"

definition payload_json :: "(rat \<Rightarrow> json) \<Rightarrow> MpesaCallbackPayload \<Rightarrow> json" where
  "payload_json amount_json p =
     JObj [(''MerchantRequestID'', JStr (pl_merchant p)), (''CheckoutRequestID'', JStr (pl_checkout p)),
           (''ResultCode'', JNum (of_int (pl_result_code p))), (''ResultDesc'', JStr (pl_result_desc p)),
           (''Amount'', amount_json (pl_amount p)), (''MpesaReceiptNumber'', JStr (pl_receipt p)),
           (''TransactionDate'', JStr (pl_date p)), (''PhoneNumber'', JStr (pl_phone p))]"

definition dec_payload :: "(json \<Rightarrow> rat option) \<Rightarrow> json \<Rightarrow> MpesaCallbackPayload option" where
  "dec_payload json_amount = dec_struct (\<lambda>k v p.
     if same_name k ''MerchantRequestID'' then map_option (\<lambda>s. p\<lparr>pl_merchant := s\<rparr>) (dec_string (pl_merchant p) v)
     else if same_name k ''CheckoutRequestID'' then map_option (\<lambda>s. p\<lparr>pl_checkout := s\<rparr>) (dec_string (pl_checkout p) v)
     else if same_name k ''ResultCode'' then map_option (\<lambda>n. p\<lparr>pl_result_code := n\<rparr>) (dec_int (pl_result_code p) v)
     else if same_name k ''ResultDesc'' then map_option (\<lambda>s. p\<lparr>pl_result_desc := s\<rparr>) (dec_string (pl_result_desc p) v)
     else if same_name k ''Amount'' then map_option (\<lambda>q. p\<lparr>pl_amount := q\<rparr>) (json_amount v)
     else if same_name k ''MpesaReceiptNumber'' then map_option (\<lambda>s. p\<lparr>pl_receipt := s\<rparr>) (dec_string (pl_receipt p) v)
     else if same_name k ''TransactionDate'' then map_option (\<lambda>s. p\<lparr>pl_date := s\<rparr>) (dec_string (pl_date p) v)
     else if same_name k ''PhoneNumber'' then map_option (\<lambda>s. p\<lparr>pl_phone := s\<rparr>) (dec_string (pl_phone p) v)
     else Some p)
     \<lparr>pl_merchant = [], pl_checkout = [], pl_result_code = 0, pl_result_desc = [], pl_amount = 0, pl_receipt = [],
      pl_date = [], pl_phone = []\<rparr>"

section \<open>The client\<close>

definition task_options :: "string \<Rightarrow> json \<Rightarrow> string \<Rightarrow> queued" where
  "task_options taskType payload priority =
     (if priority = QueueCritical then
        \<lparr>q_type = taskType, q_payload = payload, q_queue = QueueCritical, q_retries = 5, q_timeout = 30,
         q_retention = 2 * 3600\<rparr>
      else if priority = QueueReporting then
        \<lparr>q_type = taskType, q_payload = payload, q_queue = QueueReporting, q_retries = 3, q_timeout = 2 * 60,
         q_retention = 24 * 3600\<rparr>
      else
        \<lparr>q_type = taskType, q_payload = payload, q_queue = QueueDefault, q_retries = 3, q_timeout = 60,
         q_retention = 6 * 3600\<rparr>)"

definition EnqueueTask :: "string \<Rightarrow> json \<Rightarrow> string \<Rightarrow> ('r, string, queued) sysprog" where
  "EnqueueTask taskType payload priority =
     andThen get_st (\<lambda>s.
     let t = task_options taskType payload priority in
     case sy_refuse s t of
       Some e \<Rightarrow> raise e
     | None \<Rightarrow> andThen (upd_st (\<lambda>s. s\<lparr>sy_queue := sy_queue s @ [t]\<rparr>)) (\<lambda>_. ret t))"

definition EnqueueMikrotikCommand :: "string \<Rightarrow> json \<Rightarrow> string \<Rightarrow> ('r, string, queued) sysprog" where
  "EnqueueMikrotikCommand action raw priority =
     EnqueueTask TypeMikrotikCommand
       (generic_json \<lparr>gt_system = ''mikrotik'', gt_action = action, gt_payload = Some raw, gt_ip = []\<rparr>) priority"

definition EnqueueDatabaseOperation :: "string \<Rightarrow> json \<Rightarrow> string \<Rightarrow> ('r, string, queued) sysprog" where
  "EnqueueDatabaseOperation action raw priority =
     EnqueueTask TypeDatabaseOperation
       (generic_json \<lparr>gt_system = ''mysql'', gt_action = action, gt_payload = Some raw, gt_ip = []\<rparr>) priority"

section \<open>The workers\<close>

datatype task_error = SkipRetry | Failed string

definition error_text :: "task_error \<Rightarrow> string" where
  "error_text e = (case e of SkipRetry \<Rightarrow> ''skip retry for the task'' | Failed m \<Rightarrow> m)"

definition ShouldNotRetryError :: "string \<Rightarrow> bool" where
  "ShouldNotRetryError errMsg = contains errMsg ''is already logged in''"

definition login_failed_fmt :: string where
  "login_failed_fmt = ''{\"type\":\"login\", \"status\": \"failed\", \"message\": \"Could not log you in!\", \"username\": \"%v\"}''"

definition login_ok_fmt :: string where
  "login_ok_fmt = ''{\"type\":\"login\", \"status\": \"success\", \"message\": \"You are now logged in\",  \"username\": \"%v\"}''"

definition login_and_notify :: "'r router_run \<Rightarrow> MikrotikLogin \<Rightarrow> ('r, task_error, unit) sysprog" where
  "login_and_notify run data =
     andThen (attempt (zoom sy_net sy_net_update (LoginHotspotDeviceByAddress run data))) (\<lambda>res.
     case res of
       Inl e \<Rightarrow>
         andThen (notify (ml_address data) (Sprintf login_failed_fmt [ml_username data])) (\<lambda>_.
         if ShouldNotRetryError e then raise SkipRetry
         else raise (Failed (''failed to login user: '' @ e)))
     | Inr _ \<Rightarrow> notify (ml_address data) (Sprintf login_ok_fmt [ml_username data]))"

definition handleLoginUser :: "'r router_run \<Rightarrow> json option \<Rightarrow> ('r, task_error, unit) sysprog" where
  "handleLoginUser run raw =
     (case Option.bind raw dec_login of
        None \<Rightarrow> raise (Failed ''failed to decode payload'')
      | Some data \<Rightarrow> login_and_notify run data)"

definition HandleMikrotikTask :: "'r router_run \<Rightarrow> queued \<Rightarrow> ('r, task_error, unit) sysprog" where
  "HandleMikrotikTask run task =
     (case dec_generic (q_payload task) of
        None \<Rightarrow> raise (Failed ''failed to unmarshal task payload'')
      | Some payload \<Rightarrow>
          if gt_system payload \<noteq> ''mikrotik'' then
            raise (Failed (''invalid system for MikrotikQueueHandler: '' @ gt_system payload))
          else if gt_action payload = ActionMikrotikLoginUser then handleLoginUser run (gt_payload payload)
          else raise (Failed (''unknown mikrotik action: '' @ gt_action payload)))"

definition payment_notice :: "MpesaCallbackPayload \<Rightarrow> save_result \<Rightarrow> notice" where
  "payment_notice data r = Marshal (JObj (
     [(''type'', JStr ''payment''), (''status'', JStr (sr_status r)), (''message'', JStr (sr_message r)),
      (''resultCode'', JNum (of_int (pl_result_code data))), (''transactionID'', JStr (pl_receipt data)),
      (''paymentID'', JNum (of_int (sr_payment r)))] @
     (if pl_result_code data = 0 \<and> pl_receipt data \<noteq> [] then [(''receiptNumber'', JStr (pl_receipt data))] else [])))"

definition save_and_notify :: "MpesaCallbackPayload \<Rightarrow> ('r, task_error, unit) sysprog" where
  "save_and_notify data =
     andThen (onErr (zoom sy_app sy_app_update (SaveMpesaPayment data)) (\<lambda>e.
        raise (Failed (''failed to save payment: '' @ e)))) (\<lambda>resp.
     notify (sr_ip resp) (payment_notice data resp))"

definition handleSaveMpesaPayment :: "(json \<Rightarrow> rat option) \<Rightarrow> json option \<Rightarrow> ('r, task_error, unit) sysprog" where
  "handleSaveMpesaPayment json_amount raw =
     (case Option.bind raw (dec_payload json_amount) of
        None \<Rightarrow> raise (Failed ''failed to decode payload'')
      | Some data \<Rightarrow> save_and_notify data)"

definition HandleDatabaseTask :: "(json \<Rightarrow> rat option) \<Rightarrow> queued \<Rightarrow> ('r, task_error, unit) sysprog" where
  "HandleDatabaseTask json_amount task =
     (case dec_generic (q_payload task) of
        None \<Rightarrow> raise (Failed ''failed to unmarshal task payload'')
      | Some payload \<Rightarrow>
          if gt_system payload \<noteq> ''mysql'' then
            raise (Failed (''invalid system for database handler: '' @ gt_system payload))
          else if gt_action payload = ActionSaveMpesaCallback then
            handleSaveMpesaPayment json_amount (gt_payload payload)
          else raise (Failed (''unknown MySQL action: '' @ gt_action payload)))"

text \<open>The routes of \<^verbatim>\<open>Start\<close>: a task goes to the handler whose pattern is a prefix of its type.\<close>

definition dispatch :: "'r router_run \<Rightarrow> (json \<Rightarrow> rat option) \<Rightarrow> queued \<Rightarrow> ('r, task_error, unit) sysprog" where
  "dispatch run json_amount task =
     (if has_prefix (q_type task) TypeMikrotikCommand then HandleMikrotikTask run task
      else if has_prefix (q_type task) TypeDatabaseOperation then HandleDatabaseTask json_amount task
      else raise (Failed (''handler not found for task'')))"

definition already_msg :: string where
  "already_msg = ''{\"type\":\"login\",\"status\":\"success\",\"message\":\"You are already logged in\"}''"

definition ErrorHandler :: "queued \<Rightarrow> string \<Rightarrow> 'r sys \<Rightarrow> 'r sys" where
  "ErrorHandler task e s =
     (if q_type task = TypeMikrotikCommand then
        (case dec_generic (q_payload task) of
           None \<Rightarrow> s
         | Some payload \<Rightarrow>
             let msg = (if ShouldNotRetryError e then already_msg
                        else ''{\"type\":\"login\",\"status\":\"failed\",\"message\":\"'' @ e @ ''\"}'') in
             s\<lparr>sy_hub := SendToIP (gt_ip payload) (Sprintf msg []) (sy_hub s)\<rparr>)
      else if q_type task = TypeDatabaseOperation then
        (case dec_generic (q_payload task) of
           None \<Rightarrow> s
         | Some payload \<Rightarrow>
             s\<lparr>sy_hub := SendToIP (gt_ip payload)
                (Sprintf ''{\"type\":\"payment\",\"status\":\"failed\",\"message\":%q}'' [e]) (sy_hub s)\<rparr>)
      else s)"

section \<open>Payloads survive the queue\<close>

lemma field_names [simp]:
  "same_name ''action'' ''system'' = False" "same_name ''payload'' ''system'' = False"
  "same_name ''payload'' ''action'' = False" "same_name ''ip'' ''system'' = False" "same_name ''ip'' ''action'' = False"
  "same_name ''ip'' ''payload'' = False" "same_name ''Username'' ''Address'' = False"
  "same_name ''Password'' ''Address'' = False" "same_name ''Password'' ''Username'' = False"
  "same_name ''DeviceID'' ''Address'' = False" "same_name ''DeviceID'' ''Username'' = False"
  "same_name ''DeviceID'' ''Password'' = False"
  "same_name ''Amount'' ''MerchantRequestID'' = False" "same_name ''Amount'' ''CheckoutRequestID'' = False"
  "same_name ''Amount'' ''ResultCode'' = False" "same_name ''Amount'' ''ResultDesc'' = False"
  "same_name ''MpesaReceiptNumber'' ''MerchantRequestID'' = False" "same_name ''MpesaReceiptNumber'' ''CheckoutRequestID'' = False"
  "same_name ''MpesaReceiptNumber'' ''ResultCode'' = False" "same_name ''MpesaReceiptNumber'' ''ResultDesc'' = False"
  "same_name ''MpesaReceiptNumber'' ''Amount'' = False"
  "same_name ''TransactionDate'' ''MerchantRequestID'' = False" "same_name ''TransactionDate'' ''CheckoutRequestID'' = False"
  "same_name ''TransactionDate'' ''ResultCode'' = False" "same_name ''TransactionDate'' ''ResultDesc'' = False"
  "same_name ''TransactionDate'' ''Amount'' = False" "same_name ''TransactionDate'' ''MpesaReceiptNumber'' = False"
  "same_name ''PhoneNumber'' ''MerchantRequestID'' = False" "same_name ''PhoneNumber'' ''CheckoutRequestID'' = False"
  "same_name ''PhoneNumber'' ''ResultCode'' = False" "same_name ''PhoneNumber'' ''ResultDesc'' = False"
  "same_name ''PhoneNumber'' ''Amount'' = False" "same_name ''PhoneNumber'' ''MpesaReceiptNumber'' = False"
  "same_name ''PhoneNumber'' ''TransactionDate'' = False"
  by code_simp+

text \<open>A payload whose result code fits an int and whose amount the decimal package reads back.\<close>

definition payload_ok :: "(rat \<Rightarrow> json) \<Rightarrow> (json \<Rightarrow> rat option) \<Rightarrow> MpesaCallbackPayload \<Rightarrow> bool" where
  "payload_ok amount_json json_amount p \<longleftrightarrow>
     - (2 ^ 63) \<le> pl_result_code p \<and> pl_result_code p < 2 ^ 63 \<and> json_amount (amount_json (pl_amount p)) = Some (pl_amount p)"

interpretation generic: codec generic_json dec_generic "\<lambda>g. gt_payload g \<noteq> None"
  by unfold_locales (auto simp: dec_generic_def generic_json_def raw_json_def dec_struct_def dec_string_def)

interpretation login: codec login_json dec_login "\<lambda>_. True"
  by unfold_locales (simp add: dec_login_def login_json_def dec_struct_def dec_string_def)

interpretation payment: codec "payload_json amount_json" "dec_payload json_amount" "payload_ok amount_json json_amount"
  for amount_json json_amount
  by unfold_locales
    (simp add: dec_payload_def payload_json_def dec_struct_def dec_string_def dec_int_def payload_ok_def)

section \<open>Properties of the queue\<close>

lemma has_prefix_types [simp]:
  "has_prefix TypeMikrotikCommand TypeMikrotikCommand" "\<not> has_prefix TypeDatabaseOperation TypeMikrotikCommand"
  "has_prefix TypeDatabaseOperation TypeDatabaseOperation"
  by code_simp+

lemma EnqueueTask_run:
  "EnqueueTask ty payload priority s =
     (case sy_refuse s (task_options ty payload priority) of
        Some e \<Rightarrow> (Inl (Raise e), s)
      | None \<Rightarrow> (Inr (task_options ty payload priority), s\<lparr>sy_queue := sy_queue s @ [task_options ty payload priority]\<rparr>))"
  by (simp add: EnqueueTask_def andThen_def get_st_def upd_st_def ret_def raise_def Let_def split: option.split)

lemma task_options_simps [simp]:
  "q_type (task_options ty payload priority) = ty" "q_payload (task_options ty payload priority) = payload"
  "q_queue (task_options ty payload priority) = (if priority \<in> {QueueCritical, QueueReporting} then priority else QueueDefault)"
  by (simp_all add: task_options_def)

lemma EnqueueTask_Inr:
  "EnqueueTask ty payload priority s = (Inr t, s') \<Longrightarrow>
   t = task_options ty payload priority \<and> s' = s\<lparr>sy_queue := sy_queue s @ [t]\<rparr>"
  by (auto simp: EnqueueTask_run split: option.splits)

lemma dispatch_login:
  assumes "q_type t = TypeMikrotikCommand"
    and "q_payload t = generic_json \<lparr>gt_system = ''mikrotik'', gt_action = ActionMikrotikLoginUser,
          gt_payload = Some (login_json l), gt_ip = ip\<rparr>"
  shows "dispatch run json_amount t = login_and_notify run l"
  using generic.dec_enc login.through_raw [of l] assms
  by (simp add: dispatch_def HandleMikrotikTask_def handleLoginUser_def)

lemma dispatch_save:
  assumes "q_type t = TypeDatabaseOperation" and "payload_ok amount_json json_amount p"
    and "q_payload t = generic_json \<lparr>gt_system = ''mysql'', gt_action = ActionSaveMpesaCallback,
          gt_payload = Some (payload_json amount_json p), gt_ip = ip\<rparr>"
  shows "dispatch run json_amount t = save_and_notify p"
  using generic.dec_enc payment.through_raw [OF assms(2)] assms
  by (simp add: dispatch_def HandleDatabaseTask_def handleSaveMpesaPayment_def)

text \<open>C30.  A task runs as it was enqueued.  When the queue accepts a login or a payment, the
  task is the last of the queue, in the queue of its priority, nothing else of the system
  changes, and the worker the server routes it to runs the operation on exactly the value
  the producer gave: the login of that user at that address, the recording of that payment.\<close>

theorem task_runs_as_enqueued:
  assumes "EnqueueMikrotikCommand ActionMikrotikLoginUser (login_json l) prio s = (Inr t, s')"
    and "EnqueueDatabaseOperation ActionSaveMpesaCallback (payload_json amount_json p) prio s = (Inr u, s'')"
    and "payload_ok amount_json json_amount p" and "prio \<in> {QueueCritical, QueueReporting}"
  shows "s' = s\<lparr>sy_queue := sy_queue s @ [t]\<rparr> \<and> s'' = s\<lparr>sy_queue := sy_queue s @ [u]\<rparr> \<and>
    q_queue t = prio \<and> q_queue u = prio \<and>
    dispatch run json_amount t = login_and_notify run l \<and> dispatch run json_amount u = save_and_notify p"
proof -
  note t = EnqueueTask_Inr [OF assms(1) [unfolded EnqueueMikrotikCommand_def]]
  note u = EnqueueTask_Inr [OF assms(2) [unfolded EnqueueDatabaseOperation_def]]
  from t u dispatch_login [of t l "[]" run json_amount] dispatch_save [OF _ assms(3), of u "[]" run] assms(4)
  show ?thesis by simp
qed

text \<open>A login task tells the client exactly one thing.  On a device whose pool has an idle
  connection, the outcome is that of the login script with the router: on success the task is
  done and the client reads that it is logged in; on failure the client reads that it is not,
  and the task fails, for good (no retry) exactly when the router says the user
  \<^verbatim>\<open>is already logged in\<close>.  Databases and queue are not touched.\<close>

theorem login_task_reports:
  assumes "map_of (devices (sy_net s)) (ml_device_id l) = Some p" and "ready_pool p (sy_net s)"
  shows "\<exists>net'. login_and_notify run l s =
    (case fst (login_script run l (router (sy_net s))) of
       Inr _ \<Rightarrow> (Inr (), s\<lparr>sy_net := net', sy_hub := SendToIP (ml_address l) (Sprintf login_ok_fmt [ml_username l]) (sy_hub s)\<rparr>)
     | Inl e \<Rightarrow> (Inl (Raise (if contains e ''is already logged in'' then SkipRetry else Failed (''failed to login user: '' @ e))),
         s\<lparr>sy_net := net', sy_hub := SendToIP (ml_address l) (Sprintf login_failed_fmt [ml_username l]) (sy_hub s)\<rparr>)) \<and>
    router net' = snd (login_script run l (router (sy_net s))) \<and> pool_same p (sy_net s) net'"
proof -
  obtain net' where n: "LoginHotspotDeviceByAddress run l (sy_net s) =
      (as_exit (fst (login_script run l (router (sy_net s)))), net')"
    "router net' = snd (login_script run l (router (sy_net s)))" "pool_same p (sy_net s) net'"
    using login_run [OF assms] by blast
  show ?thesis
    by (rule exI [of _ net'])
      (use n in \<open>auto simp: login_and_notify_def andThen_def attempt_def zoom_def notify_def upd_st_def raise_def
          ShouldNotRetryError_def split: sum.split\<close>)
qed

text \<open>The error handler of the queue server reaches nobody: the address it writes to is a
  field of the task that the client never sets, so as long as no connection is registered
  under the empty address, a failed task of either kind produces no message, whatever its
  error.\<close>

theorem error_notices_lost:
  assumes "EnqueueMikrotikCommand action raw prio s = (Inr t, s') \<or> EnqueueDatabaseOperation action raw prio s = (Inr t, s')"
    and "map_of (clients (sy_hub v)) [] = None"
  shows "ErrorHandler t e v = v"
proof -
  obtain sys where t: "q_payload t = generic_json \<lparr>gt_system = sys, gt_action = action, gt_payload = Some raw, gt_ip = []\<rparr>"
    using assms(1) unfolding EnqueueMikrotikCommand_def EnqueueDatabaseOperation_def
    by (auto dest!: EnqueueTask_Inr intro: that)
  have "dec_generic (q_payload t) = Some \<lparr>gt_system = sys, gt_action = action, gt_payload = Some raw, gt_ip = []\<rparr>"
    unfolding t by (rule generic.dec_enc) simp
  moreover have "SendToIP [] n (sy_hub v) = sy_hub v" for n
    using assms(2) by (simp add: SendToIP_def)
  ultimately show ?thesis by (simp add: ErrorHandler_def Let_def)
qed

section \<open>An example system\<close>

text \<open>The databases of the examples, the router of \<^const>\<open>demo_router\<close>, one client connected;
  amounts as the decimal package writes whole numbers by default, in quotes.\<close>

definition one_client_hub :: "notice hub" where
  "one_client_hub = NewHub\<lparr>clients := [(''10.5.0.9'', 0)], next_conn := 1\<rparr>"

definition demo_sys :: "unit sys" where
  "demo_sys = \<lparr>sy_radius = demo_world [],
     sy_app = \<lparr>committed = demo_app, txn = NoTx, faults = [], db_up = True\<rparr>,
     sy_hub = one_client_hub, sy_net = demo_net [0, 1], sy_queue = [], sy_refuse = \<lambda>_. None\<rparr>"

definition quoted_amount :: "rat \<Rightarrow> json" where
  "quoted_amount q = JStr (show_int \<lfloor>q\<rfloor>)"

definition unquoted_amount :: "json \<Rightarrow> rat option" where
  "unquoted_amount j = (if j = JStr ''50'' then Some 50 else None)"

lemma demo_payload_ok: "payload_ok quoted_amount unquoted_amount demo_payload"
  by (simp add: payload_ok_def demo_payload_def quoted_amount_def unquoted_amount_def show_int_def show_eval)

lemma demo_sys_simps [simp]:
  "sy_radius demo_sys = demo_world []" "sy_hub demo_sys = one_client_hub" "sy_net demo_sys = demo_net [0, 1]"
  "sy_queue demo_sys = []" "sy_refuse demo_sys = (\<lambda>_. None)"
  by (simp_all add: demo_sys_def)

theorem task_runs_as_enqueued_witness:
  "\<exists>t u s' s''. EnqueueMikrotikCommand ActionMikrotikLoginUser (login_json demo_login) QueueCritical demo_sys = (Inr t, s') \<and>
     EnqueueDatabaseOperation ActionSaveMpesaCallback (payload_json quoted_amount demo_payload) QueueCritical demo_sys = (Inr u, s'') \<and>
     dispatch demo_router unquoted_amount t = login_and_notify demo_router demo_login \<and>
     dispatch demo_router unquoted_amount u = save_and_notify demo_payload"
proof -
  obtain t s' where t: "EnqueueMikrotikCommand ActionMikrotikLoginUser (login_json demo_login) QueueCritical demo_sys = (Inr t, s')"
    by (simp add: EnqueueMikrotikCommand_def EnqueueTask_run)
  obtain u s'' where u: "EnqueueDatabaseOperation ActionSaveMpesaCallback (payload_json quoted_amount demo_payload) QueueCritical demo_sys = (Inr u, s'')"
    by (simp add: EnqueueDatabaseOperation_def EnqueueTask_run)
  from task_runs_as_enqueued [OF t u demo_payload_ok, of demo_router] t u show ?thesis by blast
qed

theorem login_task_reports_witness:
  "\<exists>s'. login_and_notify demo_router demo_login demo_sys = (Inr (), s') \<and>
     outbox (sy_hub s') 0 = [Sprintf login_ok_fmt [''bob'']]"
proof -
  have "fst (login_script demo_router demo_login ()) = Inr ()" by code_simp
  moreover have "map_of (devices (sy_net demo_sys)) (ml_device_id demo_login) = Some 0" "ready_pool 0 (sy_net demo_sys)"
    "router (sy_net demo_sys) = ()"
    by (simp_all add: demo_net_def demo_login_def ready_pool_def demo_pool_def)
  ultimately show ?thesis
    using login_task_reports [of demo_sys demo_login 0 demo_router]
    by (auto simp: demo_login_def one_client_hub_def SendToIP_def write_message_def NewHub_def)
qed

theorem error_notices_lost_witness:
  "\<exists>t s'. EnqueueMikrotikCommand ActionMikrotikLoginUser (login_json demo_login) QueueCritical demo_sys = (Inr t, s') \<and>
     ErrorHandler t ''failed to login user: timeout'' demo_sys = demo_sys"
proof -
  obtain t s' where t: "EnqueueMikrotikCommand ActionMikrotikLoginUser (login_json demo_login) QueueCritical demo_sys = (Inr t, s')"
    by (simp add: EnqueueMikrotikCommand_def EnqueueTask_run)
  have "map_of (clients (sy_hub demo_sys)) [] = None" by (simp add: one_client_hub_def)
  with error_notices_lost [OF disjI1 [OF t]] t show ?thesis by blast
qed

end
