(* ===== verification/Mpesa_Callback.thy ===== *)
theory Mpesa_Callback
  imports Task_Queue
begin

text \<open>
  The payment callback, server/handler/mpesa_callback.go: Safaricom reports the outcome of a
  payment, the handler finds the order, subscribes the user in RADIUS and hands the login and
  the recording of the payment to the queue.  A request body is its JSON tree, \<open>None\<close> when the
  text is not JSON.  The two goroutines that enqueue run in either order: the parameter
  \<open>login_first\<close> says which of them reaches the queue first.
\<close>

type_synonym http = "nat \<times> json"

definition message :: "string \<Rightarrow> string \<Rightarrow> json" where
  "message k m = JObj [(k, JStr m)]"

definition no_plan :: ServicePlan where
  "no_plan = \<lparr>sp_id = 0, sp_name = [], sp_price = 0, sp_duration = 0\<rparr>"

definition plan_by_id :: "int \<Rightarrow> app_db \<Rightarrow> ServicePlan option" where
  "plan_by_id i d = find (\<lambda>p. sp_id p = i) (plans d)"

text \<open>\<^verbatim>\<open>Preload("ServicePlan")\<close>: a second query for the plan of the order found, none for the key
  0; a plan that is missing leaves the struct empty.\<close>

definition order_with_plan :: "string \<Rightarrow> (Order \<times> ServicePlan) app" where
  "order_with_plan checkout =
     andThen (first_row (order_by_checkout checkout)) (\<lambda>order.
     if or_plan_id order = 0 then ret (order, no_plan)
     else andThen (app_stmt (\<lambda>d. (plan_by_id (or_plan_id order) d, d))) (\<lambda>p.
       ret (order, case p of Some plan \<Rightarrow> plan | None \<Rightarrow> no_plan)))"

definition callback_subscription :: "MpesaCallbackPayload \<Rightarrow> Order \<Rightarrow> ServicePlan \<Rightarrow> HotspotSubscriptionRequest" where
  "callback_subscription payload order plan =
     \<lparr>sr_phone = pl_phone payload, sr_username = or_username order, sr_password = None,
      sr_is_home_user = or_is_home_user order, sr_isp = or_isp order, sr_service_name = sp_name plan,
      sr_duration = sp_duration plan, sr_devices = or_devices order\<rparr>"

text \<open>\<^verbatim>\<open>password, _ := resp["password"].(string)\<close>.\<close>

definition response_password :: "gin_h \<Rightarrow> string" where
  "response_password resp = (case map_of resp ''password'' of Some (VStr s) \<Rightarrow> s | _ \<Rightarrow> [])"

definition payment_failed_fmt :: string where
  "payment_failed_fmt = ''{\"type\":\"payment\", \"status\": \"failed\", \"message\": %q}''"

definition payment_done_fmt :: string where
  "payment_done_fmt = ''{\"type\":\"payment\", \"status\": \"success\", \"message\": %q}''"

definition account_failed_fmt :: string where
  "account_failed_fmt = ''{\"type\":\"create_account\", \"status\": \"failed\", \"message\": %q}''"

definition account_ok_fmt :: string where
  "account_ok_fmt = ''{\"type\":\"create_account\", \"status\": \"success\", \"message\": %q}''"

section \<open>The handler, part by part\<close>

definition bind_callback :: "json option \<Rightarrow> ('r, http, MpesaCallbackPayload) sysprog" where
  "bind_callback body =
     (if \<not> (case body of Some (JObj _) \<Rightarrow> True | Some JNull \<Rightarrow> True | _ \<Rightarrow> False)
      then raise (400, message ''error'' ''Invalid M-Pesa callback payload.'')
      else case ParseCallback (remarshal (the body)) of
        None \<Rightarrow> raise (400, message ''error'' ''Failed to parse M-Pesa callback details.'')
      | Some payload \<Rightarrow> ret payload)"

definition find_order :: "string \<Rightarrow> ('r, http, Order \<times> ServicePlan) sysprog" where
  "find_order checkout =
     onErr (zoom sy_app sy_app_update (order_with_plan checkout)) (\<lambda>e.
       if e = not_found then raise (404, message ''error'' ''Associated order not found for this M-Pesa callback.'')
       else raise (500, JObj [(''error'', JStr ''Failed to fetch order from database.''), (''details'', JStr e)]))"

definition failed_payment :: "(rat \<Rightarrow> json) \<Rightarrow> MpesaCallbackPayload \<Rightarrow> Order \<Rightarrow> ('r, http, http) sysprog" where
  "failed_payment amount_json payload order =
     andThen (attempt (EnqueueDatabaseOperation ActionSaveMpesaCallback (payload_json amount_json payload) QueueReporting)) (\<lambda>_.
     andThen (notify (or_ip order) (Sprintf payment_failed_fmt [pl_result_desc payload])) (\<lambda>_.
     ret (200, JObj [(''status'', JStr ''Failed payment received and processed.''),
                     (''ResultDesc'', JStr (pl_result_desc payload))])))"

definition tell_outcome :: "Order \<Rightarrow> nat \<Rightarrow> ('r, http, unit) sysprog" where
  "tell_outcome order manageStatus =
     (if manageStatus = 500 then
        andThen (notify (or_ip order) (Sprintf account_failed_fmt [''Failed to create Account''])) (\<lambda>_.
        raise (500, message ''error'' ''Failed to create/manage RADIUS user.''))
      else if manageStatus = 409 then
        andThen (notify (or_ip order) (Sprintf account_failed_fmt [''User already subscribed''])) (\<lambda>_.
        notify (or_ip order) (Sprintf payment_done_fmt [''Payment already done'']))
      else notify (or_ip order) (Sprintf account_ok_fmt [''Account created/updated successfully'']))"

definition login_payload :: "Order \<Rightarrow> gin_h \<Rightarrow> MikrotikLogin" where
  "login_payload order resp =
     \<lparr>ml_address = or_ip order, ml_username = or_username order, ml_password = response_password resp,
      ml_device_id = or_device_id order\<rparr>"

definition enqueue_login :: "MikrotikLogin \<Rightarrow> ('r, 'e, string option) sysprog" where
  "enqueue_login l =
     andThen (attempt (EnqueueMikrotikCommand ActionMikrotikLoginUser (login_json l) QueueCritical)) (\<lambda>res.
     ret (case res of Inl e \<Rightarrow> Some (''failed to enqueue Mikrotik login command: '' @ e) | Inr _ \<Rightarrow> None))"

definition enqueue_save :: "(rat \<Rightarrow> json) \<Rightarrow> MpesaCallbackPayload \<Rightarrow> nat \<Rightarrow> ('r, 'e, string option) sysprog" where
  "enqueue_save amount_json payload manageStatus =
     (if manageStatus \<noteq> 409 then
        andThen (attempt (EnqueueDatabaseOperation ActionSaveMpesaCallback (payload_json amount_json payload) QueueCritical)) (\<lambda>res.
        ret (case res of Inl e \<Rightarrow> Some (''failed to enqueue DB save operation for Mpesa callback: '' @ e) | Inr _ \<Rightarrow> None))
      else ret None)"

definition enqueue_both ::
  "bool \<Rightarrow> ('r, 'e, 'a) sysprog \<Rightarrow> ('r, 'e, 'b) sysprog \<Rightarrow> ('r, 'e, 'a \<times> 'b) sysprog" where
  "enqueue_both login_first m n =
     (if login_first then andThen m (\<lambda>a. andThen n (\<lambda>b. ret (a, b)))
      else andThen n (\<lambda>b. andThen m (\<lambda>a. ret (a, b))))"

definition combined_response :: "string option \<times> string option \<Rightarrow> http" where
  "combined_response errors =
     (case errors of
        (None, None) \<Rightarrow> (200, JObj [(''status'', JStr ''success''), (''message'', JStr ''Payment processed successfully.'')])
      | (Some e, None) \<Rightarrow>
          (500, JObj [(''status'', JStr ''partial_failure''),
             (''message'', JStr ''Payment processed, but Mikrotik command failed to enqueue.''),
             (''errors'', JObj [(''mikrotik_queue_error'', JStr e)])])
      | (None, Some f) \<Rightarrow>
          (202, JObj [(''status'', JStr ''partial_failure''),
             (''message'', JStr ''Payment processed, Mikrotik command enqueued, but DB save failed.''),
             (''errors'', JObj [(''db_queue_error'', JStr f)])])
      | (Some e, Some f) \<Rightarrow>
          (500, JObj [(''status'', JStr ''partial_failure''),
             (''message'', JStr ''Payment processed, but Mikrotik command failed to enqueue. Also, DB save failed.''),
             (''errors'', JObj [(''db_queue_error'', JStr f), (''mikrotik_queue_error'', JStr e)])]))"

definition callback_body :: "(rat \<Rightarrow> json) \<Rightarrow> bool \<Rightarrow> json option \<Rightarrow> ('r, http, http) sysprog" where
  "callback_body amount_json login_first body =
     andThen (bind_callback body) (\<lambda>payload.
     andThen (find_order (pl_checkout payload)) (\<lambda>(order, plan).
     if pl_result_code payload \<noteq> 0 then failed_payment amount_json payload order
     else
       andThen (zoom sy_radius sy_radius_update
                  (callee (ManageHotspotUser (callback_subscription payload order plan) True))) (\<lambda>(resp, manageStatus).
       andThen (tell_outcome order manageStatus) (\<lambda>_.
       andThen (enqueue_both login_first (enqueue_login (login_payload order resp))
                  (enqueue_save amount_json payload manageStatus)) (\<lambda>errors.
       ret (combined_response errors))))))"

definition MpesaStkHandlerCallback ::
  "(rat \<Rightarrow> json) \<Rightarrow> bool \<Rightarrow> json option \<Rightarrow> 'r sys \<Rightarrow> http outcome \<times> 'r sys" where
  "MpesaStkHandlerCallback amount_json login_first body = finish (callback_body amount_json login_first body)"

section \<open>Running the handler\<close>

text \<open>The body is an object that parses to the payload.\<close>

definition reports :: "json option \<Rightarrow> MpesaCallbackPayload \<Rightarrow> bool" where
  "reports body p \<longleftrightarrow>
     (case body of Some (JObj fs) \<Rightarrow> ParseCallback (remarshal (JObj fs)) = Some p | _ \<Rightarrow> False)"

definition plan_of :: "Order \<Rightarrow> app_db \<Rightarrow> ServicePlan" where
  "plan_of order d =
     (if or_plan_id order = 0 then no_plan
      else case plan_by_id (or_plan_id order) d of Some plan \<Rightarrow> plan | None \<Rightarrow> no_plan)"

lemma bind_run: "reports body p \<Longrightarrow> bind_callback body s = (Inr p, s)"
  by (auto simp: reports_def bind_callback_def ret_def split: option.splits json.splits)

lemma find_order_run:
  assumes "app_up (sy_app s)"
  shows "find_order c s =
    (case order_by_checkout c (committed (sy_app s)) of
       Some order \<Rightarrow> (Inr (order, plan_of order (committed (sy_app s))), s)
     | None \<Rightarrow> (Inl (Raise (404, message ''error'' ''Associated order not found for this M-Pesa callback.'')), s))"
  using assms
  by (simp add: find_order_def onErr_def zoom_def order_with_plan_def andThen_def first_row_run app_stmt_run ret_def
      raise_def plan_of_def split: option.split)

definition login_task :: "MikrotikLogin \<Rightarrow> queued" where
  "login_task l = task_options TypeMikrotikCommand
     (generic_json \<lparr>gt_system = ''mikrotik'', gt_action = ActionMikrotikLoginUser, gt_payload = Some (login_json l), gt_ip = []\<rparr>)
     QueueCritical"

definition save_task :: "(rat \<Rightarrow> json) \<Rightarrow> MpesaCallbackPayload \<Rightarrow> string \<Rightarrow> queued" where
  "save_task amount_json p prio = task_options TypeDatabaseOperation
     (generic_json \<lparr>gt_system = ''mysql'', gt_action = ActionSaveMpesaCallback, gt_payload = Some (payload_json amount_json p), gt_ip = []\<rparr>)
     prio"

definition queue_if :: "(queued \<Rightarrow> string option) \<Rightarrow> queued \<Rightarrow> queued list" where
  "queue_if refuse t = (if refuse t = None then [t] else [])"

lemma enqueue_login_run:
  "enqueue_login l s = (Inr (map_option ((@) ''failed to enqueue Mikrotik login command: '') (sy_refuse s (login_task l))),
     s\<lparr>sy_queue := sy_queue s @ queue_if (sy_refuse s) (login_task l)\<rparr>)"
  by (simp add: enqueue_login_def andThen_def attempt_def EnqueueMikrotikCommand_def EnqueueTask_run ret_def
      login_task_def queue_if_def split: option.split)

lemma enqueue_save_run:
  "enqueue_save aj p code s =
     (Inr (if code = 409 then None else
        map_option ((@) ''failed to enqueue DB save operation for Mpesa callback: '') (sy_refuse s (save_task aj p QueueCritical))),
      s\<lparr>sy_queue := sy_queue s @ (if code = 409 then [] else queue_if (sy_refuse s) (save_task aj p QueueCritical))\<rparr>)"
  by (simp add: enqueue_save_def andThen_def attempt_def EnqueueDatabaseOperation_def EnqueueTask_run ret_def
      save_task_def queue_if_def split: option.split)

lemma failed_payment_run:
  "failed_payment aj p order s =
     (Inr (200, JObj [(''status'', JStr ''Failed payment received and processed.''), (''ResultDesc'', JStr (pl_result_desc p))]),
      s\<lparr>sy_queue := sy_queue s @ queue_if (sy_refuse s) (save_task aj p QueueReporting),
        sy_hub := SendToIP (or_ip order) (Sprintf payment_failed_fmt [pl_result_desc p]) (sy_hub s)\<rparr>)"
  by (simp add: failed_payment_def andThen_def attempt_def EnqueueDatabaseOperation_def EnqueueTask_run ret_def
      save_task_def queue_if_def notify_def upd_st_def split: option.split)

lemma response_password_none: "no_plain_password b \<Longrightarrow> response_password b = []"
  by (auto simp: no_plain_password_def response_password_def split: option.split gval.split)

text \<open>The part after the order is found, for a payment that succeeded.\<close>

lemma paid_run:
  assumes "reports body p" and "pl_result_code p = 0" and "app_up (sy_app s)"
    and "order_by_checkout (pl_checkout p) (committed (sy_app s)) = Some order"
    and "ManageHotspotUser (callback_subscription p order (plan_of order (committed (sy_app s)))) True (sy_radius s) =
      (Returns (b, code), w')"
    and "code \<noteq> 500"
  shows "\<exists>hub'. MpesaStkHandlerCallback aj lf body s =
    (Returns (combined_response
        (map_option ((@) ''failed to enqueue Mikrotik login command: '') (sy_refuse s (login_task (login_payload order []))),
         if code = 409 then None else
           map_option ((@) ''failed to enqueue DB save operation for Mpesa callback: '') (sy_refuse s (save_task aj p QueueCritical)))),
     s\<lparr>sy_radius := w', sy_hub := hub',
       sy_queue := sy_queue s @
         (let l = queue_if (sy_refuse s) (login_task (login_payload order []));
              d = (if code = 409 then [] else queue_if (sy_refuse s) (save_task aj p QueueCritical))
          in if lf then l @ d else d @ l)\<rparr>) \<and>
    hub' = (if code = 409
      then SendToIP (or_ip order) (Sprintf payment_done_fmt [''Payment already done''])
             (SendToIP (or_ip order) (Sprintf account_failed_fmt [''User already subscribed'']) (sy_hub s))
      else SendToIP (or_ip order) (Sprintf account_ok_fmt [''Account created/updated successfully'']) (sy_hub s))"
proof -
  have pw: "login_payload order b = login_payload order []"
    using response_password_none [OF manage_password [OF assms(5)]] by (simp add: login_payload_def response_password_def)
  have z: "zoom sy_radius sy_radius_update
      (callee (ManageHotspotUser (callback_subscription p order (plan_of order (committed (sy_app s)))) True)) s =
      (Inr (b, code), s\<lparr>sy_radius := w'\<rparr>)"
    by (simp add: zoom_def callee_def assms(5))
  have f: "find_order (pl_checkout p) s = (Inr (order, plan_of order (committed (sy_app s))), s)"
    using find_order_run [OF assms(3)] assms(4) by simp
  show ?thesis
    unfolding MpesaStkHandlerCallback_def callback_body_def finish_def andThen_def [of "bind_callback body"]
      bind_run [OF assms(1)]
    using assms(2,6)
    by (simp add: andThen_def f z tell_outcome_def notify_def upd_st_def enqueue_both_def enqueue_login_run
        enqueue_save_run ret_def pw Let_def)
qed

lemma save_payment_run:
  assumes "app_up w" and "order_by_checkout (pl_checkout p) (committed w) = Some order"
  shows "\<exists>r. SaveMpesaPayment p w = (Inr r, w\<lparr>committed := recorded p order (committed w), txn := NoTx\<rparr>) \<and> sr_ip r = or_ip order"
proof -
  have 1: "first_row (order_by_checkout (pl_checkout p)) w = (Inr order, w)"
    using first_row_run [OF assms(1), of "order_by_checkout (pl_checkout p)"] assms(2) by simp
  show ?thesis
    using assms(1)
    by (simp add: SaveMpesaPayment_def andThen_def 1 app_up_def onErr_def begin_tx_def next_fault_def or_rollback_def
        stmt_def commit_tx_def ret_def recorded_def split: prod.split)
qed

lemma save_and_notify_run:
  assumes "app_up (sy_app s)" and "order_by_checkout (pl_checkout p) (committed (sy_app s)) = Some order"
  shows "\<exists>s'. save_and_notify p s = (Inr (), s') \<and> committed (sy_app s') = recorded p order (committed (sy_app s)) \<and>
    sy_radius s' = sy_radius s"
  using save_payment_run [OF assms]
  by (auto simp: save_and_notify_def andThen_def onErr_def zoom_def notify_def upd_st_def)

lemma task_dispatch:
  "dispatch run ja (login_task l) = login_and_notify run l"
  "payload_ok aj ja p \<Longrightarrow> dispatch run ja (save_task aj p prio) = save_and_notify p"
  by (simp_all add: login_task_def save_task_def dispatch_login dispatch_save)

section \<open>Properties\<close>

text \<open>C1.  Paying gives access, end to end.  For the callback of a successful payment of a known
  order, whose user has no account or an expired one, with the databases and the queue
  answering: the handler answers 200; from then on the expiry check says the user's access
  is valid up to now plus the plan's duration and not longer; the queue has gained exactly
  the login of that user on the order's device and the recording of that payment, in either
  order; and when the worker runs the recording, the payment row and the order's status
  \<^verbatim>\<open>paid\<close> are in the database.\<close>

theorem paid_callback_grants_access:
  assumes "reports body p" and "pl_result_code p = 0" and "app_up (sy_app s)"
    and "order_by_checkout (pl_checkout p) (committed (sy_app s)) = Some order"
    and "req = callback_subscription p order (plan_of order (committed (sy_app s)))"
    and "healthy (sy_radius s)" and "visits_all (range_order (sy_radius s))" and "may_subscribe req (sy_radius s)"
    and "0 \<le> local_year (zone (sy_radius s)) (add_seconds (clock (sy_radius s)) (sr_duration req))"
    and "local_year (zone (sy_radius s)) (add_seconds (clock (sy_radius s)) (sr_duration req)) \<le> 9999"
    and "sy_refuse s = (\<lambda>_. None)" and "payload_ok aj ja p"
  shows "\<exists>s' tl ts. MpesaStkHandlerCallback aj lf body s = (Returns (combined_response (None, None)), s') \<and>
    (\<forall>now. fst (IsUserExpired (or_username order) ((sy_radius s')\<lparr>clock := now\<rparr>)) =
       Inr (if now > end_of req (clock (sy_radius s)) then ''EXPIRED'' else ''NOT_EXPIRED'')) \<and>
    sy_queue s' = sy_queue s @ (if lf then [tl, ts] else [ts, tl]) \<and>
    dispatch run ja tl = login_and_notify run \<lparr>ml_address = or_ip order, ml_username = or_username order, ml_password = [],
      ml_device_id = or_device_id order\<rparr> \<and>
    (\<exists>s2. dispatch run ja ts s' = (Inr (), s2) \<and> sy_radius s2 = sy_radius s' \<and>
      new_payment p order (next_payment (committed (sy_app s))) \<in> set (payments (committed (sy_app s2))) \<and>
      order\<lparr>or_status := ''paid''\<rparr> \<in> set (orders (committed (sy_app s2))))"
proof -
  have u: "sr_username req = or_username order" by (simp add: assms(5) callback_subscription_def)
  obtain b w' where m: "ManageHotspotUser req True (sy_radius s) = (Returns (b, 200), w')"
    and x: "\<forall>now. fst (IsUserExpired (sr_username req) (w'\<lparr>clock := now\<rparr>)) =
       Inr (if now > end_of req (clock (sy_radius s)) then ''EXPIRED'' else ''NOT_EXPIRED'')"
    using manage_lasts [OF assms(6-10), of True] by blast
  from paid_run [OF assms(1-4) m [unfolded assms(5)], of aj lf] assms(11) obtain s' where
    run: "MpesaStkHandlerCallback aj lf body s = (Returns (combined_response (None, None)), s')"
    and s': "sy_radius s' = w'" "sy_app s' = sy_app s"
      "sy_queue s' = sy_queue s @ (if lf then [login_task (login_payload order []), save_task aj p QueueCritical]
         else [save_task aj p QueueCritical, login_task (login_payload order [])])"
    by (auto simp: Let_def queue_if_def)
  obtain s2 where s2: "save_and_notify p s' = (Inr (), s2)" "committed (sy_app s2) = recorded p order (committed (sy_app s))"
    "sy_radius s2 = sy_radius s'"
    using save_and_notify_run [of s' p order] assms(3,4) s'(2) by auto
  have "order \<in> set (orders (committed (sy_app s)))"
    using assms(4) by (auto simp: order_by_checkout_def find_Some_iff)
  then have rec: "new_payment p order (next_payment (committed (sy_app s))) \<in> set (payments (committed (sy_app s2)))"
    "order\<lparr>or_status := ''paid''\<rparr> \<in> set (orders (committed (sy_app s2)))"
    using assms(2) unfolding s2(2)
    by (auto simp: recorded_def insert_payment_def save_order_def paid_status_def)
  have l: "login_payload order [] = \<lparr>ml_address = or_ip order, ml_username = or_username order, ml_password = [],
      ml_device_id = or_device_id order\<rparr>"
    by (simp add: login_payload_def response_password_def)
  show ?thesis
    by (intro exI [of _ s'] exI [of _ "login_task (login_payload order [])"] exI [of _ "save_task aj p QueueCritical"]
          conjI exI [of _ s2])
      (use run x u s' s2 rec l in \<open>simp_all add: task_dispatch assms(12)\<close>)
qed

text \<open>C26.  A payment that failed gives nothing, under every pattern of database failures: no
  RADIUS row changes, no router is contacted and no login is queued; at most the recording
  of the failure joins the reporting queue.  When the order is found, the handler answers
  200 and the client is told the reason.\<close>

theorem failed_payment_grants_nothing:
  assumes "reports body p" and "pl_result_code p \<noteq> 0" and "MpesaStkHandlerCallback aj lf body s = (out, s')"
  shows "sy_radius s' = sy_radius s \<and> sy_net s' = sy_net s \<and>
    sy_queue s' \<in> {sy_queue s, sy_queue s @ [save_task aj p QueueReporting]} \<and>
    (app_up (sy_app s) \<longrightarrow> (\<forall>order. order_by_checkout (pl_checkout p) (committed (sy_app s)) = Some order \<longrightarrow>
       (\<exists>body. out = Returns (200, body)) \<and>
       sy_hub s' = SendToIP (or_ip order) (Sprintf payment_failed_fmt [pl_result_desc p]) (sy_hub s)))"
proof -
  obtain r v where f: "find_order (pl_checkout p) s = (r, v)" by fastforce
  then have v: "sy_radius v = sy_radius s" "sy_net v = sy_net s" "sy_queue v = sy_queue s" "sy_hub v = sy_hub s"
    by (auto simp: find_order_def onErr_def zoom_def raise_def split: prod.splits sum.splits exit.splits if_splits)
  show ?thesis
  proof (cases r)
    case (Inl x)
    with assms f v find_order_run [of s "pl_checkout p"] show ?thesis
      by (auto simp: MpesaStkHandlerCallback_def finish_def callback_body_def andThen_def bind_run split: exit.splits option.splits)
  next
    case (Inr x)
    with assms f v find_order_run [of s "pl_checkout p"] show ?thesis
      by (cases x) (auto simp: MpesaStkHandlerCallback_def finish_def callback_body_def andThen_def bind_run
          failed_payment_run queue_if_def split: option.splits if_splits)
  qed
qed

text \<open>What the handler refuses has no effect: a body that is not a JSON object or does not
  parse answers 400; a callback of an unknown order answers 404; and a subscription that
  RADIUS cannot carry out answers 500, tells the client, and queues neither a login nor a
  payment.\<close>

theorem refused_callbacks:
  "((\<nexists>p. reports body p) \<and> body \<noteq> Some JNull \<longrightarrow> (\<exists>e. MpesaStkHandlerCallback aj lf body s = (Returns (400, e), s))) \<and>
   (reports body p \<and> app_up (sy_app s) \<and> order_by_checkout (pl_checkout p) (committed (sy_app s)) = None \<longrightarrow>
      (\<exists>e. MpesaStkHandlerCallback aj lf body s = (Returns (404, e), s))) \<and>
   (reports body p \<and> app_up (sy_app s) \<and> order_by_checkout (pl_checkout p) (committed (sy_app s)) = Some order \<and>
      pl_result_code p = 0 \<and>
      ManageHotspotUser (callback_subscription p order (plan_of order (committed (sy_app s)))) True (sy_radius s) =
        (Returns (b, 500), w') \<longrightarrow>
      (\<exists>e. MpesaStkHandlerCallback aj lf body s = (Returns (500, e), s\<lparr>sy_radius := w',
        sy_hub := SendToIP (or_ip order) (Sprintf account_failed_fmt [''Failed to create Account'']) (sy_hub s)\<rparr>)))"
proof (intro conjI impI)
  assume "(\<nexists>p. reports body p) \<and> body \<noteq> Some JNull"
  then show "\<exists>e. MpesaStkHandlerCallback aj lf body s = (Returns (400, e), s)"
    by (auto simp: MpesaStkHandlerCallback_def finish_def callback_body_def andThen_def bind_callback_def
        reports_def raise_def split: option.splits json.splits)
next
  assume "reports body p \<and> app_up (sy_app s) \<and> order_by_checkout (pl_checkout p) (committed (sy_app s)) = None"
  then show "\<exists>e. MpesaStkHandlerCallback aj lf body s = (Returns (404, e), s)"
    using find_order_run [of s "pl_checkout p"]
    by (clarsimp simp: MpesaStkHandlerCallback_def finish_def callback_body_def andThen_def bind_run)
next
  assume "reports body p \<and> app_up (sy_app s) \<and> order_by_checkout (pl_checkout p) (committed (sy_app s)) = Some order \<and>
      pl_result_code p = 0 \<and>
      ManageHotspotUser (callback_subscription p order (plan_of order (committed (sy_app s)))) True (sy_radius s) =
        (Returns (b, 500), w')"
  then show "\<exists>e. MpesaStkHandlerCallback aj lf body s = (Returns (500, e), s\<lparr>sy_radius := w',
        sy_hub := SendToIP (or_ip order) (Sprintf account_failed_fmt [''Failed to create Account'']) (sy_hub s)\<rparr>)"
    using find_order_run [of s "pl_checkout p"]
    by (clarsimp simp: MpesaStkHandlerCallback_def finish_def callback_body_def andThen_def bind_run zoom_def callee_def
        tell_outcome_def notify_def upd_st_def raise_def)
qed

text \<open>A payment that arrives while the user's subscription still runs is never recorded:
  the handler answers 200 and queues the login, but no task saves the payment, so the order
  stays as it was and the money is in no table.  (RADIUS is not touched either.)\<close>

theorem payment_during_subscription_lost:
  assumes "reports body p" and "pl_result_code p = 0" and "app_up (sy_app s)"
    and "order_by_checkout (pl_checkout p) (committed (sy_app s)) = Some order"
    and "healthy (sy_radius s)" and "sy_refuse s = (\<lambda>_. None)"
    and "expiry_status (zone (sy_radius s)) (clock (sy_radius s)) (or_username order) (committed (sy_radius s)) = Some ''NOT_EXPIRED''"
  shows "\<exists>s' l. MpesaStkHandlerCallback aj lf body s = (Returns (combined_response (None, None)), s') \<and>
    sy_radius s' = sy_radius s \<and> sy_app s' = sy_app s \<and> sy_queue s' = sy_queue s @ [login_task l]"
proof -
  let ?req = "callback_subscription p order (plan_of order (committed (sy_app s)))"
  have "sr_username ?req = or_username order" by (simp add: callback_subscription_def)
  with manage_active [OF assms(5), of ?req] assms(7)
  have "ManageHotspotUser ?req True (sy_radius s) =
      (Returns ([(''error'', VStr (''User '' @ or_username order @ '' already has an active subscription''))], 409), sy_radius s)"
    by (simp add: err_def)
  from paid_run [OF assms(1-4) this, of aj lf] assms(6) show ?thesis by (auto simp: queue_if_def Let_def)
qed

text \<open>The queue has grown from \<open>q0\<close>, by logins without a password and other tasks.\<close>

definition blank_logins :: "queued list \<Rightarrow> queued list \<Rightarrow> bool" where
  "blank_logins q0 q \<longleftrightarrow> (\<exists>new. q = q0 @ new \<and>
     (\<forall>t \<in> set new. q_type t = TypeMikrotikCommand \<longrightarrow> (\<exists>l. t = login_task l \<and> ml_password l = [])))"

lemma blank_same:
  "(\<And>v r v'. m v = (r, v') \<Longrightarrow> sy_queue v' = sy_queue v) \<Longrightarrow>
   triple (\<lambda>v. blank_logins q0 (sy_queue v)) m (\<lambda>_ v. blank_logins q0 (sy_queue v)) (\<lambda>_ v. blank_logins q0 (sy_queue v))"
  by (auto simp: triple_def split: prod.splits sum.splits)

lemma blank_append:
  assumes "blank_logins q0 q" and "q_type t = TypeMikrotikCommand \<Longrightarrow> \<exists>l. t = login_task l \<and> ml_password l = []"
  shows "blank_logins q0 (q @ queue_if refuse t)"
proof -
  from assms(1) obtain old where "q = q0 @ old"
    "\<forall>t \<in> set old. q_type t = TypeMikrotikCommand \<longrightarrow> (\<exists>l. t = login_task l \<and> ml_password l = [])"
    by (auto simp: blank_logins_def)
  with assms(2) show ?thesis
    by (auto simp: blank_logins_def queue_if_def intro!: exI [of _ "old @ queue_if refuse t"])
qed

lemma blank_save: "blank_logins q0 q \<Longrightarrow> blank_logins q0 (q @ queue_if refuse (save_task aj p prio))"
  by (erule blank_append) (simp add: save_task_def)

lemma blank_login: "blank_logins q0 q \<Longrightarrow> ml_password l = [] \<Longrightarrow> blank_logins q0 (q @ queue_if refuse (login_task l))"
  by (erule blank_append) blast

lemma blank_both:
  assumes "ml_password l = []"
  shows "triple (\<lambda>v. blank_logins q0 (sy_queue v)) (enqueue_both lf (enqueue_login l) (enqueue_save aj p k))
    (\<lambda>_ v. blank_logins q0 (sy_queue v)) E"
  using assms
  by (auto simp: triple_def enqueue_both_def andThen_def enqueue_login_run enqueue_save_run ret_def
      intro!: blank_login blank_save simp flip: append_assoc)

lemma blank_body:
  "triple (\<lambda>v. blank_logins q0 (sy_queue v)) (callback_body aj lf body)
     (\<lambda>_ v. blank_logins q0 (sy_queue v)) (\<lambda>_ v. blank_logins q0 (sy_queue v))"
proof -
  let ?I = "\<lambda>v. blank_logins q0 (sy_queue v)"
  have find: "triple ?I (find_order c) (\<lambda>_. ?I) (\<lambda>_. ?I)" for c
    by (rule blank_same) (auto simp: find_order_def onErr_def zoom_def raise_def split: prod.splits sum.splits exit.splits if_splits)
  have tell: "triple ?I (tell_outcome order k) (\<lambda>_. ?I) (\<lambda>_. ?I)" for order k
    by (rule blank_same) (auto simp: tell_outcome_def notify_def andThen_def upd_st_def raise_def split: if_splits)
  have bnd: "triple ?I (bind_callback body) (\<lambda>_. ?I) (\<lambda>_. ?I)"
    by (rule blank_same) (auto simp: bind_callback_def raise_def ret_def split: option.splits if_splits)
  have failed: "triple ?I (failed_payment aj p order) (\<lambda>_. ?I) (\<lambda>_. ?I)" for p order
    by (simp add: triple_def failed_payment_run blank_save)
  have manage: "triple ?I (zoom sy_radius sy_radius_update (callee (ManageHotspotUser req True)))
      (\<lambda>r v. ?I v \<and> no_plain_password (fst r)) (\<lambda>_. ?I)" for req
    by (auto simp: triple_def zoom_def callee_def blank_logins_def dest: manage_password split: prod.splits outcome.splits)
  have rest: "triple (\<lambda>v. ?I v \<and> no_plain_password (fst r)) (case r of (resp, k) \<Rightarrow>
      andThen (tell_outcome order k) (\<lambda>_.
      andThen (enqueue_both lf (enqueue_login (login_payload order resp)) (enqueue_save aj p k)) (\<lambda>errors.
      ret (combined_response errors)))) (\<lambda>_. ?I) (\<lambda>_. ?I)" for order p r
  proof (cases "no_plain_password (fst r)")
    case True
    then have "ml_password (login_payload order (fst r)) = []"
      by (simp add: login_payload_def response_password_none)
    then show ?thesis
      unfolding case_prod_beta
      by (intro triple_pre [OF triple_andThen [OF tell triple_andThen [OF blank_both triple_ret]]]) auto
  qed (simp add: triple_def)
  show ?thesis
    unfolding callback_body_def
    by (rule triple_andThen [OF bnd], rule triple_andThen [OF find])
      (auto split: prod.split intro!: failed triple_andThen [OF manage rest])
qed

text \<open>No login is ever queued with a password, whatever the callback, the databases and the
  queue do: the password in the response of the subscription is a pointer, and the handler
  reads it as a string.  A home user's stored password is lost on the way to the router.\<close>

theorem logins_carry_no_password:
  assumes "MpesaStkHandlerCallback aj lf body s = (out, s')"
  shows "\<exists>new. sy_queue s' = sy_queue s @ new \<and>
    (\<forall>t \<in> set new. q_type t = TypeMikrotikCommand \<longrightarrow> (\<exists>l. t = login_task l \<and> ml_password l = []))"
proof -
  have "blank_logins (sy_queue s) (sy_queue s)" by (simp add: blank_logins_def)
  note t = tripleD [OF blank_body, where s = s, OF this]
  from assms have "blank_logins (sy_queue s) (sy_queue s')"
    by (cases "callback_body aj lf body s"; cases "fst (callback_body aj lf body s)")
      (auto simp: MpesaStkHandlerCallback_def finish_def dest: t split: exit.splits)
  then show ?thesis by (simp add: blank_logins_def)
qed

section \<open>An example callback\<close>

definition demo_callback :: "int \<Rightarrow> string \<Rightarrow> json" where
  "demo_callback code desc = callback_json ''29115'' ''ws_CO_1'' code desc
      [item_json ''Amount'' (JNum 50), item_json ''MpesaReceiptNumber'' (JStr ''NLJ7RT61SV''),
       item_json ''TransactionDate'' (JStr ''20191219102115''), item_json ''PhoneNumber'' (JNum (of_int 254708374149))]"

lemma demo_reports:
  assumes "code \<in> {0, 1032}"
  shows "reports (Some (demo_callback code desc)) (demo_payload\<lparr>pl_result_code := code, pl_result_desc := desc\<rparr>)"
proof -
  have 1: "restamp ''20191219102115'' = Some ''2019-12-19 10:21:15''" by code_simp
  have 2: "callback_phone (show_int 254708374149) = ''254708374149''"
    by (simp add: show_eval callback_phone_def)
  have "- (2 ^ 63) \<le> code" "code < 2 ^ 63" using assms by auto
  from callback_parses [OF this, of "''29115''" "''ws_CO_1''" desc 50 "''NLJ7RT61SV''" "''20191219102115''" 254708374149] 1 2
  have "ParseCallback (remarshal (demo_callback code desc)) = Some (demo_payload\<lparr>pl_result_code := code, pl_result_desc := desc\<rparr>)"
    by (simp only: demo_callback_def demo_payload_def MpesaCallbackPayload.update_convs option.case)
  moreover have "\<exists>fs. demo_callback code desc = JObj fs" by (simp add: demo_callback_def callback_json_def)
  ultimately show ?thesis by (auto simp: reports_def)
qed

lemma demo_reports_ok: "reports (Some (demo_callback 0 ''ok'')) demo_payload"
  using demo_reports [of 0 "''ok''"] by (simp add: demo_payload_def)

lemma demo_app_simps:
  "app_up (sy_app demo_sys)" "order_by_checkout (pl_checkout demo_payload) (committed (sy_app demo_sys)) = Some demo_order"
  "plan_of demo_order (committed (sy_app demo_sys)) = demo_plan" "pl_result_code demo_payload = 0"
  by (simp_all add: app_up_def no_tx_def demo_sys_def order_by_checkout_def demo_payload_def demo_app_def demo_order_def
      plan_of_def plan_by_id_def demo_plan_def)

lemma demo_subscription: "callback_subscription demo_payload demo_order demo_plan = demo_request\<lparr>sr_phone := ''254708374149''\<rparr>"
  by (simp add: callback_subscription_def demo_payload_def demo_order_def demo_plan_def demo_request_def)

theorem paid_callback_grants_access_witness:
  "\<exists>s' tl ts. MpesaStkHandlerCallback quoted_amount True (Some (demo_callback 0 ''ok'')) demo_sys =
      (Returns (combined_response (None, None)), s') \<and>
     fst (IsUserExpired ''bob'' ((sy_radius s')\<lparr>clock := 86400000000000\<rparr>)) = Inr ''NOT_EXPIRED'' \<and>
     sy_queue s' = [tl, ts] \<and> dispatch demo_router unquoted_amount tl = login_and_notify demo_router demo_login"
proof -
  let ?req = "demo_request\<lparr>sr_phone := ''254708374149''\<rparr>"
  have m: "may_subscribe ?req (demo_world [])"
    using demo_may_subscribe by (simp add: may_subscribe_def)
  have e: "end_of ?req 0 = 86400000000000" by code_simp
  have d: "sr_duration ?req = 86400" by (simp add: demo_request_def)
  have o: "or_username demo_order = ''bob''"
    "\<lparr>ml_address = or_ip demo_order, ml_username = or_username demo_order, ml_password = [],
      ml_device_id = or_device_id demo_order\<rparr> = demo_login"
    by (simp_all add: demo_order_def demo_login_def)
  show ?thesis
    using paid_callback_grants_access [OF demo_reports_ok demo_app_simps(4,1,2), of ?req quoted_amount unquoted_amount True demo_router]
      m e d o demo_payload_ok
    by (auto simp: demo_app_simps demo_subscription demo_simps demo_plain demo_year)
qed

theorem failed_payment_grants_nothing_witness:
  "let s' = snd (MpesaStkHandlerCallback quoted_amount True (Some (demo_callback 1032 ''cancelled'')) demo_sys)
   in sy_radius s' = demo_world [] \<and> outbox (sy_hub s') 0 = [Sprintf payment_failed_fmt [''cancelled'']]"
proof -
  let ?p = "demo_payload\<lparr>pl_result_code := 1032, pl_result_desc := ''cancelled''\<rparr>"
  have "order_by_checkout (pl_checkout ?p) (committed (sy_app demo_sys)) = Some demo_order"
    using demo_app_simps(2) by simp
  with failed_payment_grants_nothing [OF demo_reports [of 1032 "''cancelled''"] _ prod.collapse [symmetric],
      of quoted_amount True demo_sys] demo_app_simps(1)
  show ?thesis
    by (simp add: Let_def) (simp add: demo_order_def one_client_hub_def NewHub_def SendToIP_def write_message_def)
qed

theorem refused_callbacks_witness:
  "\<exists>e. MpesaStkHandlerCallback quoted_amount True None demo_sys = (Returns (400, e), demo_sys)"
  using refused_callbacks [of None quoted_amount True demo_sys] by (simp add: reports_def)

text \<open>The example system after its user has subscribed.\<close>

definition demo_active :: "unit sys" where
  "demo_active = demo_sys\<lparr>sy_radius := snd (ManageHotspotUser demo_request True (demo_world []))\<rparr>"

lemma demo_active_simps:
  "healthy (sy_radius demo_active)"
  "expiry_status (zone (sy_radius demo_active)) (clock (sy_radius demo_active)) ''bob'' (committed (sy_radius demo_active)) =
     Some ''NOT_EXPIRED''"
proof -
  have r: "sr_username demo_request = ''bob''" "sr_duration demo_request = 86400" by (simp_all add: demo_request_def)
  obtain b w' where w': "ManageHotspotUser demo_request True (demo_world []) = (Returns (b, 200), w')"
    "healthy w'" "zone w' = 10800" "clock w' = 0"
    "map attr_view (check_rows (committed w') ''bob'' ''Expiration'') =
      [(''Expiration'', '':='', format_expiry 10800 (add_seconds 0 86400))]"
    using manage_success [OF demo_simps(4) _ demo_may_subscribe, of True] by (auto simp: demo_plain r)
  have "(0 :: int) \<le> add_seconds 0 86400 div second * second" by code_simp
  then have "expiry_status 10800 0 ''bob'' (committed w') = Some ''NOT_EXPIRED''"
    using status_after [OF w'(5), of 0] by (simp add: demo_year)
  with w' show "healthy (sy_radius demo_active)"
    "expiry_status (zone (sy_radius demo_active)) (clock (sy_radius demo_active)) ''bob'' (committed (sy_radius demo_active)) =
     Some ''NOT_EXPIRED''"
    by (simp_all add: demo_active_def)
qed

theorem payment_during_subscription_lost_witness:
  "\<exists>s' l. MpesaStkHandlerCallback quoted_amount True (Some (demo_callback 0 ''ok'')) demo_active =
      (Returns (combined_response (None, None)), s') \<and> sy_queue s' = [login_task l] \<and> payments (committed (sy_app s')) = []"
proof -
  have "sy_app demo_active = sy_app demo_sys" "sy_refuse demo_active = (\<lambda>_. None)" "sy_queue demo_active = []"
    "or_username demo_order = ''bob''" "payments (committed (sy_app demo_sys)) = []"
    by (simp_all add: demo_active_def demo_order_def demo_sys_def demo_app_def)
  with payment_during_subscription_lost [OF demo_reports_ok demo_app_simps(4), of demo_active demo_order quoted_amount True]
    demo_active_simps demo_app_simps
  show ?thesis by auto
qed

theorem logins_carry_no_password_witness:
  "\<exists>new. sy_queue (snd (MpesaStkHandlerCallback quoted_amount True (Some (demo_callback 0 ''ok'')) demo_sys)) = new \<and>
    (\<forall>t \<in> set new. q_type t = TypeMikrotikCommand \<longrightarrow> (\<exists>l. t = login_task l \<and> ml_password l = []))"
  using logins_carry_no_password [OF prod.collapse [symmetric], of quoted_amount True "Some (demo_callback 0 ''ok'')" demo_sys]
  by simp

end
