(* ===== verification/Mpesa_Stk.thy ===== *)
theory Mpesa_Stk
  imports Payments Subscription
begin

text \<open>
  Starting a payment: the access token and the STK push of server/handler/mpesa_stk.go, the
  checkout controller of server/controller/mpesa.go, and the order handlers of
  server/handler/order.go it ends in.

  Safaricom's API is outside the repository: the parameter \<open>api\<close> says what it answers to a
  request, as a function of its own state.  Redis holds one key, the access token, with the
  moment it expires; a script says which of the coming Redis commands fail.  Every reading of
  the clock may be later than the one before it (\<open>sh_ticks\<close>, the nanoseconds that pass).
\<close>

section \<open>Requests, Redis and the clock\<close>

record MpesaConfig =
  mc_shortcode :: string
  mc_passkey :: string
  mc_callback_url :: string
  mc_consumer_key :: string
  mc_consumer_secret :: string
  mc_environment :: string
  mc_till_no :: string
  mc_transaction_type :: string
  mc_account_reference :: string
  mc_transaction_desc :: string

record http_request =
  rq_method :: string
  rq_url :: string
  rq_auth :: string
  rq_body :: "json option"

text \<open>The answer to a request: the request fails, or there is a response, whose body cannot be
  read to its end, is not JSON, or is a JSON tree.\<close>

datatype body = Unreadable string | NotJson | JsonBody json
datatype answer = NoAnswer string | Answer nat body

type_synonym 'h api = "'h \<Rightarrow> http_request \<Rightarrow> answer \<times> 'h"

record 'h shop =
  sh_radius :: radius_world
  sh_app :: "app_db db_state"
  sh_token :: "(string \<times> int) option"
  sh_redis_faults :: "string option list"
  sh_now :: int
  sh_ticks :: "nat list"
  sh_zone :: int
  sh_sent :: "http_request list"
  sh_peer :: 'h

type_synonym ('h, 'e, 'a) shopprog = "('h shop, 'e, 'a) prog"

definition time_now :: "('h, 'e, int) shopprog" where
  "time_now s =
     (let t = sh_now s + int (case sh_ticks s of [] \<Rightarrow> 0 | n # _ \<Rightarrow> n)
      in (Inr t, s\<lparr>sh_now := t, sh_ticks := drop 1 (sh_ticks s)\<rparr>))"

definition send_request :: "'h api \<Rightarrow> http_request \<Rightarrow> ('h, 'e, answer) shopprog" where
  "send_request api r s =
     (case api (sh_peer s) r of (a, h) \<Rightarrow> (Inr a, s\<lparr>sh_peer := h, sh_sent := sh_sent s @ [r]\<rparr>))"

definition redis :: "('h shop \<Rightarrow> 'a \<times> 'h shop) \<Rightarrow> ('h, string, 'a) shopprog" where
  "redis f s =
     (case sh_redis_faults s of
        Some e # fs \<Rightarrow> (Inl (Raise e), s\<lparr>sh_redis_faults := fs\<rparr>)
      | None # fs \<Rightarrow> (case f (s\<lparr>sh_redis_faults := fs\<rparr>) of (a, s') \<Rightarrow> (Inr a, s'))
      | [] \<Rightarrow> (case f s of (a, s') \<Rightarrow> (Inr a, s')))"

text \<open>The three commands on the key \<^verbatim>\<open>mpesa:access_token\<close>.  A missing or expired key reads as the
  empty string.\<close>

definition redis_get :: "'h shop \<Rightarrow> string \<times> 'h shop" where
  "redis_get s = (case sh_token s of Some (t, e) \<Rightarrow> if sh_now s < e then t else [] | None \<Rightarrow> [], s)"

definition redis_setex :: "int \<Rightarrow> string \<Rightarrow> 'h shop \<Rightarrow> unit \<times> 'h shop" where
  "redis_setex secs t s = ((), s\<lparr>sh_token := Some (t, sh_now s + secs * second)\<rparr>)"

definition redis_del :: "'h shop \<Rightarrow> unit \<times> 'h shop" where
  "redis_del s = ((), s\<lparr>sh_token := None\<rparr>)"

section \<open>The access token\<close>

definition token_url :: string where
  "token_url = ''https://api.safaricom.co.ke/oauth/v1/generate?grant_type=client_credentials''"

definition push_url :: string where
  "push_url = ''https://api.safaricom.co.ke/mpesa/stkpush/v1/processrequest''"

definition dec_token :: "json \<Rightarrow> (string \<times> string) option" where
  "dec_token = dec_struct (\<lambda>k v (t, e).
     if same_name k ''access_token'' then map_option (\<lambda>s. (s, e)) (dec_string t v)
     else if same_name k ''expires_in'' then map_option (\<lambda>s. (t, s)) (dec_string e v)
     else Some (t, e)) ([], [])"

definition token_request :: "MpesaConfig \<Rightarrow> http_request" where
  "token_request cfg =
     \<lparr>rq_method = ''GET'', rq_url = token_url,
      rq_auth = ''Basic '' @ base64 (mc_consumer_key cfg @ '':'' @ mc_consumer_secret cfg), rq_body = None\<rparr>"

definition fetch_token :: "'h api \<Rightarrow> MpesaConfig \<Rightarrow> ('h, string, string) shopprog" where
  "fetch_token api cfg =
     andThen (send_request api (token_request cfg)) (\<lambda>resp.
     case resp of
       NoAnswer e \<Rightarrow> raise (''failed to fetch new M-Pesa access token: '' @ e)
     | Answer _ b \<Rightarrow>
         (case Option.bind (case b of JsonBody j \<Rightarrow> Some j | _ \<Rightarrow> None) dec_token of
            None \<Rightarrow> raise ''failed to decode M-Pesa access token response''
          | Some (token, _) \<Rightarrow>
              andThen (onErr (redis (redis_setex (55 * 60) token)) (\<lambda>e.
                raise (''failed to save M-Pesa access token to Redis with TTL: '' @ e))) (\<lambda>_.
              ret token)))"

definition GetAccessToken :: "'h api \<Rightarrow> MpesaConfig \<Rightarrow> ('h, string, string) shopprog" where
  "GetAccessToken api cfg =
     andThen (attempt (redis redis_get)) (\<lambda>res.
     case res of
       Inr token \<Rightarrow> if token \<noteq> [] then ret token else fetch_token api cfg
     | Inl _ \<Rightarrow> fetch_token api cfg)"

definition forceAccessTokenRefresh :: "('h, string, unit) shopprog" where
  "forceAccessTokenRefresh = redis redis_del"

section \<open>The STK push\<close>

text \<open>\<^verbatim>\<open>time.Now().Format("20060102150405")\<close>.\<close>

definition stamp :: "int \<Rightarrow> int \<Rightarrow> string" where
  "stamp z t =
     (case civil (local_day z t) of
        (y, m, d) \<Rightarrow>
          (let s = local_second z t in
           format_year y @ pad2 (m + 1) @ pad2 (d + 1) @ pad2 (s div 3600) @ pad2 (s div 60 mod 60) @ pad2 (s mod 60)))"

definition push_json :: "MpesaConfig \<Rightarrow> string \<Rightarrow> string \<Rightarrow> string \<Rightarrow> string \<Rightarrow> json" where
  "push_json cfg phone amount t1 t2 =
     JObj [(''AccountReference'', JStr (mc_account_reference cfg)), (''Amount'', JStr amount),
           (''BusinessShortCode'', JStr (mc_shortcode cfg)), (''CallBackURL'', JStr (mc_callback_url cfg)),
           (''PartyA'', JStr phone), (''PartyB'', JStr (mc_till_no cfg)),
           (''Password'', JStr (generatePassword (mc_shortcode cfg) (mc_passkey cfg) t1)),
           (''PhoneNumber'', JStr (formatPhoneNumber phone)), (''Timestamp'', JStr t2),
           (''TransactionDesc'', JStr (mc_transaction_desc cfg)), (''TransactionType'', JStr (mc_transaction_type cfg))]"

definition push_request :: "string \<Rightarrow> json option \<Rightarrow> http_request" where
  "push_request token b = \<lparr>rq_method = ''POST'', rq_url = push_url, rq_auth = ''Bearer '' @ token, rq_body = b\<rparr>"

text \<open>A value of a \<^verbatim>\<open>map[string]interface{}\<close>; nil when the key is missing (or the map is nil).\<close>

definition go_map :: "(string \<times> json) list \<Rightarrow> (string \<times> json) list" where
  "go_map fs = sort_key fst (fold (\<lambda>(k, v). AList.update k v) fs [])"

definition lookup_key :: "json \<Rightarrow> string \<Rightarrow> json option" where
  "lookup_key res k = (case res of JObj fs \<Rightarrow> map_of (go_map fs) k | _ \<Rightarrow> None)"

definition is_null :: "json option \<Rightarrow> bool" where
  "is_null v \<longleftrightarrow> (case v of None \<Rightarrow> True | Some j \<Rightarrow> j = JNull)"

text \<open>\<^verbatim>\<open>stkResponse["errorCode"] != nil && stkResponse["errorCode"].(string) == "invalid_access_token"\<close>,
  which panics when the code is not a string.\<close>

definition token_rejected :: "nat \<Rightarrow> json \<Rightarrow> ('h, 'e, bool) shopprog" where
  "token_rejected status res =
     (if status = 401 then ret True
      else if is_null (lookup_key res ''errorCode'') then ret False
      else case lookup_key res ''errorCode'' of
        Some (JStr c) \<Rightarrow> ret (c = ''invalid_access_token'')
      | _ \<Rightarrow> go_panic)"

text \<open>The second attempt: a new token, and the same request again, whose body has been read to
  its end by the first attempt.  Its answer is not looked at.\<close>

definition retry_push :: "'h api \<Rightarrow> MpesaConfig \<Rightarrow> ('h, string, unit) shopprog" where
  "retry_push api cfg =
     andThen (onErr forceAccessTokenRefresh (\<lambda>e.
        raise (''authentication error and failed to refresh token: '' @ e))) (\<lambda>_.
     andThen (onErr (GetAccessToken api cfg) (\<lambda>e.
        raise (''failed to get new access token after refresh: '' @ e))) (\<lambda>newAccessToken.
     andThen (send_request api (push_request newAccessToken None)) (\<lambda>_. ret ())))"

definition push_answer :: "'h api \<Rightarrow> MpesaConfig \<Rightarrow> answer \<Rightarrow> ('h, string, json) shopprog" where
  "push_answer api cfg resp =
     (case resp of
        NoAnswer e \<Rightarrow> raise (''failed to send STK push request: '' @ e)
      | Answer status b \<Rightarrow>
          (case b of
             Unreadable e \<Rightarrow> raise (''failed to read STK push response body: '' @ e)
           | NotJson \<Rightarrow> raise ''failed to unmarshal STK push response''
           | JsonBody stkResponse \<Rightarrow>
               if \<not> (case stkResponse of JObj _ \<Rightarrow> True | JNull \<Rightarrow> True | _ \<Rightarrow> False)
               then raise ''failed to unmarshal STK push response''
               else
                 andThen (token_rejected status stkResponse) (\<lambda>rejected.
                 andThen (if rejected then retry_push api cfg else ret ()) (\<lambda>_.
                 ret stkResponse))))"

definition SendStkPush :: "'h api \<Rightarrow> MpesaConfig \<Rightarrow> string \<Rightarrow> string \<Rightarrow> ('h, string, json) shopprog" where
  "SendStkPush api cfg phone amount =
     andThen (onErr (GetAccessToken api cfg) (\<lambda>e. raise (''failed to get access token: '' @ e))) (\<lambda>accessToken.
     andThen time_now (\<lambda>t1.
     andThen time_now (\<lambda>t2.
     andThen get_st (\<lambda>s.
     andThen (send_request api (push_request accessToken
                (Some (push_json cfg phone amount (stamp (sh_zone s) t1) (stamp (sh_zone s) t2))))) (\<lambda>resp.
     push_answer api cfg resp)))))"

end
