(* ===== verification/Go_Floats.thy ===== *)
theory Go_Floats
  imports Prelude
begin

text \<open>
  Whole numbers as float64 values: a float of the code is an integer with a scale, and every
  operation of the code that rounds is followed by a rounding to 53 significant bits.
\<close>

text \<open>The number of bits of a non-negative integer.\<close>

fun bit_len :: "nat \<Rightarrow> nat" where
  "bit_len n = (if n = 0 then 0 else Suc (bit_len (n div 2)))"

declare bit_len.simps [simp del]

text \<open>To 53 significant bits, ties to even; scaling by a power of two commutes with it, so it
  also rounds a float product given as an integer with a scale.\<close>

definition round53 :: "nat \<Rightarrow> nat" where
  "round53 m =
     (let k = bit_len m - 53; q = m div 2 ^ k; r = m mod 2 ^ k in
      if 2 * r < 2 ^ k \<or> 2 * r = 2 ^ k \<and> even q then q * 2 ^ k else (q + 1) * 2 ^ k)"

section \<open>How far a rounding moves\<close>

lemma bit_len_less: "m < 2 ^ bit_len m"
proof (induction m rule: bit_len.induct)
  case (1 n)
  show ?case
  proof (cases "n = 0")
    case False
    then have "n div 2 < 2 ^ bit_len (n div 2)" by (rule 1)
    then have "n < 2 * 2 ^ bit_len (n div 2)" by auto
    with False show ?thesis by (subst bit_len.simps) simp
  qed simp
qed

lemma bit_len_least: "m < 2 ^ n \<Longrightarrow> bit_len m \<le> n"
proof (induction m arbitrary: n rule: bit_len.induct)
  case (1 m)
  show ?case
  proof (cases "m = 0")
    case True
    then show ?thesis by (subst bit_len.simps) simp
  next
    case False
    with 1(2) obtain k where k: "n = Suc k" by (cases n) auto
    with 1(2) have "m div 2 < 2 ^ k" by (simp add: less_mult_imp_div_less)
    from 1(1) [OF False this] show ?thesis by (subst bit_len.simps) (simp add: False k)
  qed
qed

text \<open>Integers of 53 bits are floats, and the error of a rounding is at most half a unit in the
  last place.\<close>

lemma round53_exact: "m < 2 ^ 53 \<Longrightarrow> round53 m = m"
  using bit_len_least [of m 53] by (simp add: round53_def Let_def)

lemma round53_error:
  assumes "m < 2 ^ (53 + n)"
  shows "2 * \<bar>int (round53 m) - int m\<bar> \<le> 2 ^ n"
proof -
  let ?k = "bit_len m - 53"
  have k: "?k \<le> n" using bit_len_least [OF assms] by simp
  then have "(2 :: int) ^ ?k \<le> 2 ^ n" by simp
  moreover have "2 * \<bar>int (round53 m) - int m\<bar> \<le> 2 ^ ?k"
  proof -
    define q r where "q = m div 2 ^ ?k" and "r = m mod 2 ^ ?k"
    have m: "m = q * 2 ^ ?k + r" unfolding q_def r_def by (rule div_mult_mod_eq [symmetric])
    have r: "r < 2 ^ ?k" by (simp add: r_def)
    have "round53 m = q * 2 ^ ?k \<and> 2 * r \<le> 2 ^ ?k \<or> round53 m = q * 2 ^ ?k + 2 ^ ?k \<and> 2 ^ ?k \<le> 2 * r"
      by (auto simp: round53_def Let_def q_def r_def algebra_simps)
    with m r have "2 * (round53 m - m) \<le> 2 ^ ?k \<and> 2 * (m - round53 m) \<le> 2 ^ ?k" by linarith
    then have "int (2 * (round53 m - m)) \<le> int (2 ^ ?k)" "int (2 * (m - round53 m)) \<le> int (2 ^ ?k)"
      by (simp_all only: of_nat_le_iff)
    then show ?thesis by (cases "m \<le> round53 m") (simp_all add: of_nat_diff)
  qed
  ultimately show ?thesis by linarith
qed

end
