(* ===== verification/Checkout.thy ===== *)
theory Checkout
  imports Mpesa_Stk Go_Floats
begin

text \<open>
  The checkout: server/controller/mpesa.go and the order handlers of server/handler/order.go.
  A request body is bound to a struct before the handler looks at it; \<open>None\<close> is a body that
  does not bind.  The price with the discount for several devices is computed in float64; here
  floats are written out as integers with a scale, rounded to 53 significant bits.
\<close>

section \<open>The price\<close>

text \<open>The float64 nearest to 0.7, times 2 to the power 52.\<close>

definition seven_tenths :: nat where
  "seven_tenths = 3152519739159347"

text \<open>\<^verbatim>\<open>int(math.Round(float64(price) * float64(devices) * 0.7))\<close> for a price that is not negative:
  \<^verbatim>\<open>math.Round\<close> takes halves away from zero.\<close>

definition discounted :: "nat \<Rightarrow> nat \<Rightarrow> nat" where
  "discounted price devices = (2 * round53 (round53 (round53 price * round53 devices) * seven_tenths) + 2 ^ 52) div 2 ^ 53"

definition checkout_amount :: "int \<Rightarrow> int \<Rightarrow> int" where
  "checkout_amount price devices =
     (if devices > 1 then sgn price * int (discounted (nat \<bar>price\<bar>) (nat devices)) else price)"

section \<open>Orders\<close>

type_synonym ('e, 'a) order_handler = "(app_db db_state, 'e, 'a) prog"

datatype order_reply =
    ErrorMsg nat string
  | StkError string string string
  | FullOrder Order
  | OrderView Order
  | OrderPage "Order list" int int int
  | OrderDeleted

definition order_by_number :: "string \<Rightarrow> app_db \<Rightarrow> Order option" where
  "order_by_number n d = find (\<lambda>r. or_number r = n) (orders d)"

definition order_by_id :: "int \<Rightarrow> app_db \<Rightarrow> Order option" where
  "order_by_id i d = find (\<lambda>r. or_id r = i) (orders d)"

text \<open>\<^verbatim>\<open>Create\<close>: the order number is unique; an id of 0 is the next one, a number of devices of 0 is
  the column's default 1.\<close>

definition insert_order :: "Order \<Rightarrow> app_db \<Rightarrow> (string + Order) \<times> app_db" where
  "insert_order r d =
     (if order_by_number (or_number r) d \<noteq> None then (Inl ''Duplicate entry'', d)
      else
        let r' = r\<lparr>or_id := next_order d, or_devices := (if or_devices r = 0 then 1 else or_devices r)\<rparr>
        in (Inr r', d\<lparr>orders := orders d @ [r'], next_order := next_order d + 1\<rparr>))"

definition CreateOrder :: "Order \<Rightarrow> ('e, order_reply) order_handler" where
  "CreateOrder orderInput =
     andThen (attempt (app_stmt (insert_order orderInput))) (\<lambda>res.
     ret (case res of Inr (Inr r) \<Rightarrow> FullOrder r | _ \<Rightarrow> ErrorMsg 500 ''Failed to create order''))"

definition GetOrder :: "string \<Rightarrow> ('e, order_reply) order_handler" where
  "GetOrder orderNumber =
     andThen (attempt (first_row (order_by_number orderNumber))) (\<lambda>res.
     ret (case res of Inr r \<Rightarrow> OrderView r | Inl e \<Rightarrow> ErrorMsg 404 e))"

definition GetOrders :: "int \<Rightarrow> int \<Rightarrow> ('e, order_reply) order_handler" where
  "GetOrders page limit =
     andThen (attempt (app_stmt (\<lambda>d. (int (length (orders d)), d)))) (\<lambda>count.
     andThen (attempt (app_stmt (\<lambda>d. (paginate limit (wrap64 ((page - 1) * limit)) (orders d), d)))) (\<lambda>res.
     ret (case res of
        Inr rs \<Rightarrow> OrderPage rs (case count of Inr n \<Rightarrow> n | Inl _ \<Rightarrow> 0) page limit
      | Inl _ \<Rightarrow> ErrorMsg 500 ''Failed to retrieve orders'')))"

text \<open>\<^verbatim>\<open>Updates\<close> from a struct: its non-zero fields.\<close>

definition merge_order :: "Order \<Rightarrow> Order \<Rightarrow> Order" where
  "merge_order u r =
     (let str = (\<lambda>a b. if a = [] then b else a); num = (\<lambda>a b. if a = 0 then b else a) in
      \<lparr>or_id = or_id r, or_number = str (or_number u) (or_number r), or_status = str (or_status u) (or_status r),
       or_amount = num (or_amount u) (or_amount r), or_username = str (or_username u) (or_username r),
       or_ip = str (or_ip u) (or_ip r), or_dns = str (or_dns u) (or_dns r), or_mac = str (or_mac u) (or_mac r),
       or_phone = str (or_phone u) (or_phone r), or_checkout = str (or_checkout u) (or_checkout r),
       or_merchant = str (or_merchant u) (or_merchant r), or_response_code = str (or_response_code u) (or_response_code r),
       or_result_desc = str (or_result_desc u) (or_result_desc r), or_isp = str (or_isp u) (or_isp r),
       or_zone = str (or_zone u) (or_zone r), or_device_id = str (or_device_id u) (or_device_id r),
       or_is_home_user = (or_is_home_user u \<or> or_is_home_user r), or_devices = num (or_devices u) (or_devices r),
       or_plan_id = num (or_plan_id u) (or_plan_id r)\<rparr>)"

definition update_order :: "Order \<Rightarrow> Order \<Rightarrow> app_db \<Rightarrow> (string + unit) \<times> app_db" where
  "update_order u r d =
     (if or_number u \<noteq> [] \<and> (\<exists>x \<in> set (orders d). or_number x = or_number u \<and> or_id x \<noteq> or_id r)
      then (Inl ''Duplicate entry'', d)
      else (Inr (), d\<lparr>orders := map (\<lambda>x. if or_id x = or_id r then merge_order u x else x) (orders d)\<rparr>))"

definition UpdateOrder :: "Order option \<Rightarrow> ('e, order_reply) order_handler" where
  "UpdateOrder body =
     (case body of
        None \<Rightarrow> ret (ErrorMsg 400 ''bind error'')
      | Some orderInput \<Rightarrow>
          andThen (attempt (first_row (order_by_id (or_id orderInput)))) (\<lambda>found.
          case found of
            Inl _ \<Rightarrow> ret (ErrorMsg 404 ''Order not found'')
          | Inr existing \<Rightarrow>
              andThen (attempt (app_stmt (update_order orderInput existing))) (\<lambda>res.
              case res of
                Inr (Inr _) \<Rightarrow>
                  andThen (attempt (first_row (order_by_id (or_id orderInput)))) (\<lambda>again.
                  ret (case again of Inr r \<Rightarrow> FullOrder r | Inl _ \<Rightarrow> ErrorMsg 500 ''Failed to retrieve updated order''))
              | _ \<Rightarrow> ret (ErrorMsg 500 ''Failed to update order''))))"

definition DeleteOrder :: "int \<Rightarrow> ('e, order_reply) order_handler" where
  "DeleteOrder i =
     andThen (attempt (first_row (order_by_id i))) (\<lambda>found.
     case found of
       Inl _ \<Rightarrow> ret (ErrorMsg 404 ''Order not found'')
     | Inr r \<Rightarrow>
         andThen (attempt (app_stmt (\<lambda>d. ((), d\<lparr>orders := filter (\<lambda>x. or_id x \<noteq> or_id r) (orders d)\<rparr>)))) (\<lambda>res.
         ret (case res of Inr _ \<Rightarrow> OrderDeleted | Inl _ \<Rightarrow> ErrorMsg 500 ''Failed to delete order'')))"

section \<open>The checkout controller\<close>

record STKPushRequest =
  st_isp_id :: string
  st_phone :: string
  st_username :: string
  st_plan_id :: int
  st_device_id :: string
  st_zone :: string
  st_devices :: int
  st_mac :: string
  st_ip :: string

text \<open>\<^verbatim>\<open>fmt.Sprint\<close> of a decoded JSON value.  Whole numbers below 10 to the power 21 are written
  with all digits; the text of other floats is the parameter \<open>float_text\<close>.\<close>

fun sprint :: "(rat \<Rightarrow> string) \<Rightarrow> json \<Rightarrow> string" where
  "sprint ft JNull = ''<nil>''"
| "sprint ft (JBool b) = (if b then ''true'' else ''false'')"
| "sprint ft (JNum q) = (if of_int \<lfloor>q\<rfloor> = q \<and> \<bar>\<lfloor>q\<rfloor>\<bar> < 10 ^ 21 then show_int \<lfloor>q\<rfloor> else ft q)"
| "sprint ft (JStr s) = s"
| "sprint ft (JArr xs) = ''['' @ join_with CHR '' '' (map (sprint ft) xs) @ '']''"
| "sprint ft (JObj fs) =
     ''map['' @ join_with CHR '' '' (map (\<lambda>(k, v). k @ '':'' @ v)
        (sort_key fst (fold (\<lambda>(k, v). AList.update k v) (map (\<lambda>(k, v). (k, sprint ft v)) fs) []))) @ '']''"

definition sprint_key :: "(rat \<Rightarrow> string) \<Rightarrow> json \<Rightarrow> string \<Rightarrow> string" where
  "sprint_key ft res k = sprint ft (case lookup_key res k of Some v \<Rightarrow> v | None \<Rightarrow> JNull)"

definition GetServicePlan :: "int \<Rightarrow> ServicePlan app" where
  "GetServicePlan planId = first_row (\<lambda>d. find (\<lambda>p. sp_id p = planId) (plans d))"

definition realm :: string where
  "realm = ''Tecsurf''"

definition new_order :: "(rat \<Rightarrow> string) \<Rightarrow> STKPushRequest \<Rightarrow> ServicePlan \<Rightarrow> string \<Rightarrow> int \<Rightarrow> int \<Rightarrow> json \<Rightarrow> Order" where
  "new_order ft req plan username amount now res =
     \<lparr>or_id = 0, or_number = ''ORD-'' @ show_int now, or_status = ''PENDING'', or_amount = amount, or_username = username,
      or_ip = st_ip req, or_dns = [], or_mac = st_mac req, or_phone = st_phone req,
      or_checkout = sprint_key ft res ''CheckoutRequestID'', or_merchant = sprint_key ft res ''MerchantRequestID'',
      or_response_code = sprint_key ft res ''ResponseCode'', or_result_desc = sprint_key ft res ''ResponseDescription'',
      or_isp = st_isp_id req, or_zone = st_zone req, or_device_id = st_device_id req, or_is_home_user = False,
      or_devices = st_devices req, or_plan_id = sp_id plan\<rparr>"

text \<open>The username is read from the request before the body is bound to it, so it is always
  built from the phone number.\<close>

definition express_body ::
  "'h api \<Rightarrow> MpesaConfig \<Rightarrow> (rat \<Rightarrow> string) \<Rightarrow> STKPushRequest option \<Rightarrow> ('h, order_reply, order_reply) shopprog" where
  "express_body api cfg ft body =
     (case body of
        None \<Rightarrow> raise (ErrorMsg 400 ''Invalid request'')
      | Some req \<Rightarrow>
          let username = st_phone req @ ''@'' @ realm in
          andThen (attempt (zoom sh_radius sh_radius_update (IsUserExpired username))) (\<lambda>expirationStatus.
          if expirationStatus = Inr ''NOT_EXPIRED'' then raise (ErrorMsg 409 ''Active subscription already exists'')
          else
            andThen (onErr (zoom sh_app sh_app_update (GetServicePlan (st_plan_id req))) (\<lambda>e.
               raise (ErrorMsg 404 ''Invalid plan''))) (\<lambda>plan.
            let amount = checkout_amount (sp_price plan) (st_devices req) in
            andThen (onErr (SendStkPush api cfg (st_phone req) (show_int amount)) (\<lambda>e.
               raise (ErrorMsg 500 (''STK Push failed: '' @ e)))) (\<lambda>res.
            if lookup_key res ''errorCode'' \<noteq> None then
              raise (StkError (sprint_key ft res ''errorCode'') (sprint_key ft res ''errorMessage'') (sprint_key ft res ''requestId''))
            else
              andThen time_now (\<lambda>now.
              zoom sh_app sh_app_update (CreateOrder (new_order ft req plan username amount now res)))))))"

definition ExpressStkHandler ::
  "'h api \<Rightarrow> MpesaConfig \<Rightarrow> (rat \<Rightarrow> string) \<Rightarrow> STKPushRequest option \<Rightarrow> 'h shop \<Rightarrow> order_reply outcome \<times> 'h shop" where
  "ExpressStkHandler api cfg ft body = finish (express_body api cfg ft body)"

definition GetTransactionStatus :: "string \<Rightarrow> (order_reply, order_reply) order_handler" where
  "GetTransactionStatus orderNumber =
     (if orderNumber = [] then raise (ErrorMsg 400 ''orderNumber is required'')
      else GetOrder orderNumber)"

section \<open>Rounding\<close>

lemma discounted_near:
  assumes "price * devices < 2 ^ 40" and "0 < price" and "0 < devices"
  shows "\<bar>10 * int (discounted price devices) - 7 * (int price * int devices)\<bar> \<le> 5"
proof -
  let ?x = "price * devices"
  have "price \<le> ?x" "devices \<le> ?x" using assms(2,3) by simp_all
  then have "price < 2 ^ 40" "devices < 2 ^ 40" using assms(1) by linarith+
  then have "price < 2 ^ 53" "devices < 2 ^ 53" "?x < 2 ^ 53" using assms(1) by simp_all
  then have d: "discounted price devices = (2 * round53 (?x * seven_tenths) + 2 ^ 52) div 2 ^ 53"
    by (simp add: discounted_def round53_exact)
  let ?v = "round53 (?x * seven_tenths)"
  have "?x * seven_tenths < 2 ^ 40 * 2 ^ 52"
    using assms(1) by (intro mult_strict_mono) (simp_all add: seven_tenths_def)
  then have "?x * seven_tenths < 2 ^ (53 + 39)" by simp
  from round53_error [OF this] have e: "2 * \<bar>int ?v - int ?x * 3152519739159347\<bar> \<le> 2 ^ 39"
    by (simp add: seven_tenths_def)
  have "int (discounted price devices) = (2 * int ?v + 2 ^ 52) div 2 ^ 53"
    unfolding d by (simp add: zdiv_int)
  moreover have "int ?x < 2 ^ 40" using assms(1) by (metis of_nat_less_iff of_nat_numeral of_nat_power)
  ultimately show ?thesis using e by simp
qed

text \<open>C31.  The price for several devices is 70 percent of the full price, to the nearest whole
  unit: the roundings of float64 and the float that stands for 0.7 never move it away from
  the nearest integer (and at most pick the other one of two equally near), for totals below
  2 to the power 40.  One device, or none, costs the plan's price.\<close>

theorem discount_is_nearest:
  assumes "0 < price" and "price * devices < 2 ^ 40"
  shows "(1 < devices \<longrightarrow> \<bar>10 * checkout_amount price devices - 7 * (price * devices)\<bar> \<le> 5) \<and>
    (devices \<le> 1 \<longrightarrow> checkout_amount price devices = price)"
proof (intro conjI impI)
  assume d: "1 < devices"
  have "int (nat price * nat devices) = price * devices" using assms(1) d by simp
  then have "nat price * nat devices < 2 ^ 40"
    using assms(2) by (metis of_nat_less_iff of_nat_numeral of_nat_power)
  from discounted_near [OF this] assms(1) d
  show "\<bar>10 * checkout_amount price devices - 7 * (price * devices)\<bar> \<le> 5"
    by (simp add: checkout_amount_def)
qed (simp add: checkout_amount_def)

theorem discount_is_nearest_witness:
  "checkout_amount 50 3 \<in> {105} \<and> \<bar>10 * checkout_amount 999 7 - 48951\<bar> \<le> 5"
proof -
  have "\<bar>10 * checkout_amount 50 3 - 7 * (50 * 3)\<bar> \<le> 5" "\<bar>10 * checkout_amount 999 7 - 7 * (999 * 7)\<bar> \<le> 5"
    using discount_is_nearest [of 50 3] discount_is_nearest [of 999 7] by simp_all
  then show ?thesis by auto
qed

section \<open>Running the checkout\<close>

text \<open>What the token and the push keep follows from what the clock, the API and Redis keep.\<close>

definition kept :: "('s \<Rightarrow> bool) \<Rightarrow> ('s, 'e, 'a) prog \<Rightarrow> bool" where
  "kept I m \<longleftrightarrow> triple I m (\<lambda>_. I) (\<lambda>_. I)"

locale push_frame =
  fixes I :: "'h shop \<Rightarrow> bool" and api :: "'h api"
  assumes tick: "kept I (time_now :: ('h, string, int) shopprog)"
    and send: "kept I (send_request api r :: ('h, string, answer) shopprog)"
    and getk: "kept I (redis redis_get)"
    and delk: "kept I (redis redis_del)"
    and setex: "kept I (redis (redis_setex n t))"
begin

lemmas prims = tick [unfolded kept_def] send [unfolded kept_def] getk [unfolded kept_def] delk [unfolded kept_def]
  setex [unfolded kept_def]

lemma fetch: "triple I (fetch_token api cfg) (\<lambda>_. I) (\<lambda>_. I)"
  unfolding fetch_token_def
  by (rule triple_any_andThen [OF prims(2)])
    (auto split: answer.split option.split intro!: triple_any_andThen triple_any_onErr prims triple_any)

lemma token: "triple I (GetAccessToken api cfg) (\<lambda>_. I) (\<lambda>_. I)"
  unfolding GetAccessToken_def
  by (rule triple_any_andThen [OF triple_any_attempt [OF prims(3)]]) (auto split: sum.split intro!: fetch triple_any)

lemma retry: "triple I (retry_push api cfg) (\<lambda>_. I) (\<lambda>_. I)"
  unfolding retry_push_def forceAccessTokenRefresh_def
  by (intro triple_any_andThen triple_any_onErr prims token triple_any)

lemma rejected: "triple I (token_rejected k res) (\<lambda>_. I) (\<lambda>_. I)"
  unfolding token_rejected_def by (auto split: option.split json.split intro!: triple_any)

lemma answered: "triple I (push_answer api cfg resp) (\<lambda>_. I) (\<lambda>_. I)"
  unfolding push_answer_def
  by (auto split: answer.split body.split json.split
      intro!: triple_any triple_any_andThen [OF rejected] triple_any_andThen [OF retry])

lemma push: "triple I (SendStkPush api cfg phone amount) (\<lambda>_. I) (\<lambda>_. I)"
  unfolding SendStkPush_def
  by (rule triple_any_andThen [OF triple_any_onErr [OF token triple_any(2)]], rule triple_any_andThen [OF prims(1)],
      rule triple_any_andThen [OF prims(1)], rule triple_any_andThen [OF triple_any(4)], rule triple_any_andThen [OF prims(2)],
      rule answered)

end

text \<open>Both databases are left alone, and no request that was sent is forgotten.\<close>

interpretation tables: push_frame "\<lambda>v. sh_radius v = w \<and> sh_app v = d" api for w d api
  by unfold_locales
    (auto simp: kept_def triple_def time_now_def send_request_def redis_def redis_get_def redis_del_def redis_setex_def Let_def
      split: prod.splits list.splits option.splits)

interpretation sent: push_frame "\<lambda>v. x \<in> set (sh_sent v)" api for x api
  by unfold_locales
    (auto simp: kept_def triple_def time_now_def send_request_def redis_def redis_get_def redis_del_def redis_setex_def Let_def
      split: prod.splits list.splits option.splits)

text \<open>A push that returns a response has been sent.\<close>

lemma push_sent:
  "triple (\<lambda>_. True) (SendStkPush api cfg phone amount)
     (\<lambda>_ v. \<exists>tok t1 t2. push_request tok (Some (push_json cfg phone amount t1 t2)) \<in> set (sh_sent v)) (\<lambda>_ _. True)"
proof -
  have send: "triple (\<lambda>_. True) (send_request api r) (\<lambda>_ v. r \<in> set (sh_sent v)) (\<lambda>_ _. True)" for r
    by (auto simp: triple_def send_request_def split: prod.splits)
  have rest: "triple (\<lambda>v. push_request tok (Some (push_json cfg phone amount t1 t2)) \<in> set (sh_sent v)) (push_answer api cfg resp)
      (\<lambda>_ v. \<exists>tok t1 t2. push_request tok (Some (push_json cfg phone amount t1 t2)) \<in> set (sh_sent v)) (\<lambda>_ _. True)"
    for tok t1 t2 resp
    by (rule triple_weaken [OF sent.answered]) auto
  show ?thesis
    unfolding SendStkPush_def
    by (rule triple_andThen [OF triple_True], rule triple_andThen [OF triple_True], rule triple_andThen [OF triple_True],
        rule triple_andThen [OF triple_True],
        rule triple_andThen [OF send], rule rest)
qed

text \<open>The statements of the checkout: nothing but a successful insert changes the tables.\<close>

fun no_order :: "app_db \<Rightarrow> order_reply exit \<Rightarrow> 'h shop \<Rightarrow> bool" where
  "no_order c (Raise rep) v = (committed (sh_app v) = c \<and> (\<forall>r. rep \<noteq> FullOrder r))"
| "no_order c GoPanic v = (committed (sh_app v) = c)"

lemma plan_step:
  "triple (\<lambda>v. committed (sh_app v) = c) (onErr (zoom sh_app sh_app_update (GetServicePlan i)) (\<lambda>e. raise (ErrorMsg 404 m)))
     (\<lambda>plan v. committed (sh_app v) = c \<and> find (\<lambda>p. sp_id p = i) (plans c) = Some plan) (no_order c)"
  by (auto simp: triple_def onErr_def zoom_def GetServicePlan_def first_row_def app_stmt_def andThen_def get_st_def GetDB_def
      deref_def ret_def go_panic_def raise_def stmt_def next_fault_same split: prod.splits option.splits)

lemma insert_step:
  "triple (\<lambda>v. committed (sh_app v) = c) (zoom sh_app sh_app_update (CreateOrder r))
     (\<lambda>rep v. case rep of
        FullOrder r' \<Rightarrow> r' = r\<lparr>or_id := next_order c, or_devices := (if or_devices r = 0 then 1 else or_devices r)\<rparr> \<and>
          committed (sh_app v) = c\<lparr>orders := orders c @ [r'], next_order := next_order c + 1\<rparr>
      | _ \<Rightarrow> committed (sh_app v) = c) (no_order c)"
  by (auto simp: triple_def zoom_def CreateOrder_def attempt_def app_stmt_def andThen_def get_st_def GetDB_def
      deref_def ret_def go_panic_def stmt_def next_fault_same insert_order_def Let_def split: prod.splits option.splits)

lemma expiry_step:
  "triple (\<lambda>v. committed (sh_app v) = c) (attempt (zoom sh_radius sh_radius_update m)) (\<lambda>_ v. committed (sh_app v) = c) (no_order c)"
  by (auto simp: triple_def attempt_def zoom_def split: prod.splits sum.splits exit.splits)

definition push_seen :: "MpesaConfig \<Rightarrow> string \<Rightarrow> string \<Rightarrow> 'h shop \<Rightarrow> bool" where
  "push_seen cfg phone amount v \<longleftrightarrow>
     (\<exists>tok t1 t2. push_request tok (Some (push_json cfg phone amount t1 t2)) \<in> set (sh_sent v))"

lemma push_step:
  "triple (\<lambda>v. committed (sh_app v) = c) (onErr (SendStkPush api cfg phone amount) (\<lambda>e. raise (ErrorMsg 500 (m e))))
     (\<lambda>_ v. committed (sh_app v) = c \<and> push_seen cfg phone amount v) (no_order c)"
proof -
  have 1: "triple (\<lambda>v. committed (sh_app v) = c) (SendStkPush api cfg phone amount)
      (\<lambda>_ v. committed (sh_app v) = c) (\<lambda>_ v. committed (sh_app v) = c)"
    by (rule triple_state, rule triple_weaken [OF tables.push]) auto
  show ?thesis
    by (rule triple_onErr [where R = "\<lambda>_ v. committed (sh_app v) = c"],
        rule triple_weaken [OF triple_both [OF 1 triple_pre [OF push_sent]]])
      (auto simp: push_seen_def triple_def raise_def split: exit.splits)
qed

text \<open>The reply of a checkout of \<open>req\<close> on the tables \<open>c\<close>: an order that was inserted with the
  data of the request and the plan and whose push was sent, or no order.\<close>

definition checked_out :: "MpesaConfig \<Rightarrow> STKPushRequest \<Rightarrow> app_db \<Rightarrow> order_reply \<Rightarrow> 'h shop \<Rightarrow> bool" where
  "checked_out cfg req c rep v \<longleftrightarrow>
     (case rep of
        FullOrder r \<Rightarrow>
          (\<exists>plan. find (\<lambda>p. sp_id p = st_plan_id req) (plans c) = Some plan \<and>
            or_amount r = checkout_amount (sp_price plan) (st_devices req) \<and>
            push_seen cfg (st_phone req) (show_int (or_amount r)) v) \<and>
          or_username r = st_phone req @ ''@Tecsurf'' \<and> or_plan_id r = st_plan_id req \<and> or_ip r = st_ip req \<and>
          or_device_id r = st_device_id req \<and> or_isp r = st_isp_id req \<and> or_status r = ''PENDING'' \<and> \<not> or_is_home_user r \<and>
          or_devices r = (if st_devices req = 0 then 1 else st_devices req) \<and> or_id r = next_order c \<and>
          committed (sh_app v) = c\<lparr>orders := orders c @ [r], next_order := next_order c + 1\<rparr>
      | _ \<Rightarrow> committed (sh_app v) = c)"

lemma order_step:
  assumes "find (\<lambda>p. sp_id p = st_plan_id req) (plans c) = Some plan"
    and "amount = checkout_amount (sp_price plan) (st_devices req)"
  shows "triple (\<lambda>v. committed (sh_app v) = c \<and> push_seen cfg (st_phone req) (show_int amount) v)
    (andThen time_now (\<lambda>now. zoom sh_app sh_app_update
       (CreateOrder (new_order ft req plan (st_phone req @ ''@'' @ realm) amount now res))))
    (checked_out cfg req c) (no_order c)"
proof -
  have t: "triple (\<lambda>v. committed (sh_app v) = c \<and> push_seen cfg (st_phone req) (show_int amount) v) time_now
      (\<lambda>_ v. committed (sh_app v) = c \<and> push_seen cfg (st_phone req) (show_int amount) v) (no_order c)"
    by (simp add: triple_def time_now_def Let_def push_seen_def)
  have z: "triple (push_seen cfg (st_phone req) (show_int amount)) (zoom sh_app sh_app_update m)
      (\<lambda>_. push_seen cfg (st_phone req) (show_int amount)) (\<lambda>_ _. True)" for m :: "(order_reply, order_reply) order_handler"
    by (auto simp: triple_def zoom_def push_seen_def split: prod.splits sum.splits)
  let ?P = "\<lambda>v. committed (sh_app v) = c \<and> push_seen cfg (st_phone req) (show_int amount) v"
  note i = triple_both [where P = ?P, OF triple_pre [OF insert_step [of c]] triple_pre [OF z]]
  have "sp_id plan = st_plan_id req" using assms(1) by (auto simp: find_Some_iff)
  then show ?thesis
    by (intro triple_andThen [OF t] triple_weaken [OF i])
      (auto simp: checked_out_def new_order_def realm_def assms split: order_reply.splits)
qed

lemma express_triple:
  "triple (\<lambda>v. committed (sh_app v) = c) (express_body api cfg ft (Some req)) (checked_out cfg req c) (no_order c)"
proof -
  have plan: "triple (\<lambda>v. committed (sh_app v) = c \<and> find (\<lambda>p. sp_id p = st_plan_id req) (plans c) = Some plan)
    (let amount = checkout_amount (sp_price plan) (st_devices req) in
            andThen (onErr (SendStkPush api cfg (st_phone req) (show_int amount)) (\<lambda>e.
               raise (ErrorMsg 500 (''STK Push failed: '' @ e)))) (\<lambda>res.
            if lookup_key res ''errorCode'' \<noteq> None then
              raise (StkError (sprint_key ft res ''errorCode'') (sprint_key ft res ''errorMessage'') (sprint_key ft res ''requestId''))
            else
              andThen time_now (\<lambda>now.
              zoom sh_app sh_app_update (CreateOrder (new_order ft req plan (st_phone req @ ''@'' @ realm) amount now res)))))
    (checked_out cfg req c) (no_order c)" for plan
  proof (cases "find (\<lambda>p. sp_id p = st_plan_id req) (plans c) = Some plan")
    case True
    show ?thesis
      unfolding Let_def
      by (rule triple_andThen [OF triple_pre [OF push_step [where c = c]]], simp, rule triple_if)
        (simp add: triple_def raise_def, rule order_step [OF True refl])
  qed (simp add: triple_def)
  show ?thesis
    unfolding express_body_def option.case Let_def [of "st_phone req @ ''@'' @ realm"]
    by (rule triple_andThen [OF expiry_step], rule triple_if, simp add: triple_def raise_def,
        rule triple_andThen [OF plan_step plan])
qed


text \<open>A checkout that is refused charges nobody: a body that does not bind answers 400; a
  user whose subscription still runs is told 409; a plan that does not exist answers 404.  In
  each case no request leaves the server and no state changes.\<close>

theorem checkout_refused_without_charge:
  "ExpressStkHandler api cfg ft None s = (Returns (ErrorMsg 400 ''Invalid request''), s) \<and>
   (healthy (sh_radius s) \<and>
    expiry_status (zone (sh_radius s)) (clock (sh_radius s)) (st_phone req @ ''@Tecsurf'') (committed (sh_radius s)) = Some status \<longrightarrow>
      (status = ''NOT_EXPIRED'' \<longrightarrow>
         ExpressStkHandler api cfg ft (Some req) s = (Returns (ErrorMsg 409 ''Active subscription already exists''), s)) \<and>
      (status \<noteq> ''NOT_EXPIRED'' \<and> app_up (sh_app s) \<and> (\<forall>p \<in> set (plans (committed (sh_app s))). sp_id p \<noteq> st_plan_id req) \<longrightarrow>
         ExpressStkHandler api cfg ft (Some req) s = (Returns (ErrorMsg 404 ''Invalid plan''), s)))"
proof (intro conjI impI; (elim conjE)?)
  show "ExpressStkHandler api cfg ft None s = (Returns (ErrorMsg 400 ''Invalid request''), s)"
    by (simp add: ExpressStkHandler_def express_body_def finish_def raise_def)
next
  assume h: "healthy (sh_radius s)" and "status = ''NOT_EXPIRED''"
    "expiry_status (zone (sh_radius s)) (clock (sh_radius s)) (st_phone req @ ''@Tecsurf'') (committed (sh_radius s)) = Some status"
  with IsUserExpired_run [OF h]
  show "ExpressStkHandler api cfg ft (Some req) s = (Returns (ErrorMsg 409 ''Active subscription already exists''), s)"
    by (simp add: ExpressStkHandler_def express_body_def finish_def andThen_def attempt_def zoom_def raise_def realm_def
        Let_def)
next
  assume h: "healthy (sh_radius s)" and st: "status \<noteq> ''NOT_EXPIRED''"
    "expiry_status (zone (sh_radius s)) (clock (sh_radius s)) (st_phone req @ ''@Tecsurf'') (committed (sh_radius s)) = Some status"
    and a: "app_up (sh_app s)" and "\<forall>p \<in> set (plans (committed (sh_app s))). sp_id p \<noteq> st_plan_id req"
  then have "find (\<lambda>p. sp_id p = st_plan_id req) (plans (committed (sh_app s))) = None" by (auto simp: find_None_iff)
  with IsUserExpired_run [OF h] st first_row_run [OF a, of "\<lambda>d. find (\<lambda>p. sp_id p = st_plan_id req) (plans d)"]
  show "ExpressStkHandler api cfg ft (Some req) s = (Returns (ErrorMsg 404 ''Invalid plan''), s)"
    by (simp add: ExpressStkHandler_def express_body_def finish_def andThen_def attempt_def zoom_def raise_def realm_def
        onErr_def GetServicePlan_def Let_def)
qed

text \<open>A plan, a phone, and an API that accepts everything.\<close>

definition demo_config :: MpesaConfig where
  "demo_config = \<lparr>mc_shortcode = ''174379'', mc_passkey = ''key'', mc_callback_url = [], mc_consumer_key = ''ck'',
     mc_consumer_secret = ''cs'', mc_environment = [], mc_till_no = ''174379'', mc_transaction_type = [],
     mc_account_reference = [], mc_transaction_desc = []\<rparr>"

definition demo_api :: "unit api" where
  "demo_api h r =
     (if rq_url r = token_url then (Answer 200 (JsonBody (JObj [(''access_token'', JStr ''tok''), (''expires_in'', JStr ''3599'')])), h)
      else (Answer 200 (JsonBody (JObj [(''CheckoutRequestID'', JStr ''ws_CO_2''), (''MerchantRequestID'', JStr ''m2''),
        (''ResponseCode'', JStr ''0''), (''ResponseDescription'', JStr ''ok'')])), h))"

definition demo_shop :: "unit shop" where
  "demo_shop = \<lparr>sh_radius = demo_world [], sh_app = \<lparr>committed = demo_app, txn = NoTx, faults = [], db_up = True\<rparr>,
     sh_token = Some (''tok'', 3600000000000), sh_redis_faults = [], sh_now = 0, sh_ticks = [], sh_zone = 0, sh_sent = [], sh_peer = ()\<rparr>"

definition demo_push :: STKPushRequest where
  "demo_push = \<lparr>st_isp_id = ''demo'', st_phone = ''0708374149'', st_username = [], st_plan_id = 1, st_device_id = ''r1'',
     st_zone = ''Z'', st_devices = 1, st_mac = [], st_ip = ''10.5.0.9''\<rparr>"

lemma push_run:
  assumes "GetAccessToken api cfg s = (Inr tok, s1)" and "sh_ticks s1 = []"
    and "r = push_request tok (Some (push_json cfg phone amount (stamp (sh_zone s1) (sh_now s1)) (stamp (sh_zone s1) (sh_now s1))))"
    and "api (sh_peer s1) r = (Answer 200 (JsonBody (JObj fs)), h)" and "lookup_key (JObj fs) ''errorCode'' = None"
  shows "SendStkPush api cfg phone amount s = (Inr (JObj fs), s1\<lparr>sh_peer := h, sh_sent := sh_sent s1 @ [r]\<rparr>)"
proof -
  have t: "time_now s1 = (Inr (sh_now s1), s1)" for e using assms(2) by (simp add: time_now_def)
  have q: "send_request api r s1 = (Inr (Answer 200 (JsonBody (JObj fs))), s1\<lparr>sh_peer := h, sh_sent := sh_sent s1 @ [r]\<rparr>)"
    by (simp add: send_request_def assms(4))
  show ?thesis
    unfolding SendStkPush_def
    by (rule run_step, rule onErr_Inr, rule assms(1), rule run_step, rule t, rule run_step, rule t, rule run_step, rule get_st_run,
        rule run_step, rule q [unfolded assms(3)])
      (simp add: assms(3) push_answer_def andThen_def token_rejected_def is_null_def assms(5) ret_def)
qed

lemma demo_checkout:
  "\<exists>r s'. ExpressStkHandler demo_api demo_config ft (Some demo_push) demo_shop = (Returns (FullOrder r), s') \<and> or_checkout r = ''ws_CO_2''"
proof -
  have x: "IsUserExpired ''0708374149@Tecsurf'' (demo_world []) = (Inr ''NO_EXIST'', demo_world [])"
    using IsUserExpired_run [OF demo_simps(4)]
    by (simp add: expiry_status_def user_exists_def sel_attr_def demo_db_def new_attr_def)
  have p: "first_row (\<lambda>d. find (\<lambda>p. sp_id p = 1) (plans d)) \<lparr>committed = demo_app, txn = NoTx, faults = [], db_up = True\<rparr> =
      (Inr demo_plan, \<lparr>committed = demo_app, txn = NoTx, faults = [], db_up = True\<rparr>)"
    by (subst first_row_run) (simp_all add: app_up_def no_tx_def demo_app_def demo_plan_def)
  have t: "GetAccessToken demo_api demo_config demo_shop = (Inr ''tok'', demo_shop)"
    by (simp add: GetAccessToken_def andThen_def attempt_def redis_def redis_get_def demo_shop_def ret_def)
  let ?res = "JObj [(''CheckoutRequestID'', JStr ''ws_CO_2''), (''MerchantRequestID'', JStr ''m2''),
        (''ResponseCode'', JStr ''0''), (''ResponseDescription'', JStr ''ok'')]"
  have k: "lookup_key ?res ''errorCode'' = None" "lookup_key ?res ''CheckoutRequestID'' = Some (JStr ''ws_CO_2'')"
    by code_simp+
  have url: "rq_url (push_request tk b) \<noteq> token_url" for tk b by (simp add: push_request_def push_url_def token_url_def)
  from push_run [OF t _ refl, of "''0708374149''" "''50''"] url k(1)
  obtain r1 where push: "SendStkPush demo_api demo_config ''0708374149'' ''50'' demo_shop =
      (Inr ?res, demo_shop\<lparr>sh_sent := [r1]\<rparr>)"
    by (auto simp: demo_api_def demo_shop_def)
  have f: "checkout_amount (sp_price demo_plan) 1 = 50" "show_int 50 = ''50''"
    by (simp_all add: checkout_amount_def demo_plan_def show_eval)
  have o: "order_by_number (''ORD-'' @ show_int 0) demo_app = None"
    by (simp add: order_by_number_def demo_app_def demo_order_def show_eval)
  let ?o = "new_order ft demo_push demo_plan (st_phone demo_push @ ''@'' @ realm) 50 0 ?res"
  have "\<exists>r v. zoom sh_app sh_app_update (CreateOrder ?o :: (order_reply, order_reply) order_handler) (demo_shop\<lparr>sh_sent := [r1]\<rparr>) = (Inr (FullOrder r), v) \<and>
      or_checkout r = ''ws_CO_2''"
    using o by (simp add: zoom_def demo_shop_def CreateOrder_def andThen_def attempt_def app_stmt_def get_st_def GetDB_def
        deref_def ret_def stmt_def next_fault_def insert_order_def new_order_def sprint_key_def k Let_def)
  then obtain r v where c: "zoom sh_app sh_app_update (CreateOrder ?o :: (order_reply, order_reply) order_handler) (demo_shop\<lparr>sh_sent := [r1]\<rparr>) = (Inr (FullOrder r), v)"
    "or_checkout r = ''ws_CO_2''" by blast
  have 1: "attempt (zoom sh_radius sh_radius_update (IsUserExpired (st_phone demo_push @ ''@'' @ realm))) demo_shop =
      (Inr (Inr ''NO_EXIST''), demo_shop)"
    using x by (simp add: attempt_def zoom_def demo_push_def realm_def demo_shop_def)
  have 2: "onErr (zoom sh_app sh_app_update (GetServicePlan (st_plan_id demo_push))) h demo_shop = (Inr demo_plan, demo_shop)" for h
    using p by (simp add: onErr_def zoom_def demo_push_def GetServicePlan_def demo_shop_def)
  have 3: "onErr (SendStkPush demo_api demo_config (st_phone demo_push)
        (show_int (checkout_amount (sp_price demo_plan) (st_devices demo_push)))) h demo_shop = (Inr ?res, demo_shop\<lparr>sh_sent := [r1]\<rparr>)" for h
    using push f by (simp add: onErr_def demo_push_def)
  have 4: "time_now (demo_shop\<lparr>sh_sent := [r1]\<rparr>) = (Inr 0, demo_shop\<lparr>sh_sent := [r1]\<rparr>)"
    by (simp add: time_now_def demo_shop_def)
  have "express_body demo_api demo_config ft (Some demo_push) demo_shop = (Inr (FullOrder r), v)"
    unfolding express_body_def option.case Let_def
    by (rule run_step, rule 1, simp, rule run_step, rule 2, rule run_step, rule 3, simp add: k, rule run_step, rule 4)
      (use c f in \<open>simp add: demo_push_def\<close>)
  then show ?thesis using c(2) by (simp add: ExpressStkHandler_def finish_def)
qed


theorem checkout_refused_without_charge_witness:
  "ExpressStkHandler demo_api demo_config (\<lambda>_. []) (Some (demo_push\<lparr>st_plan_id := 9\<rparr>)) demo_shop =
     (Returns (ErrorMsg 404 ''Invalid plan''), demo_shop)"
proof -
  have "expiry_status 10800 0 ''0708374149@Tecsurf'' demo_db = Some ''NO_EXIST''"
    by (simp add: expiry_status_def user_exists_def sel_attr_def demo_db_def new_attr_def)
  moreover have "sh_radius demo_shop = demo_world []" "app_up (sh_app demo_shop)" "plans (committed (sh_app demo_shop)) = [demo_plan]"
    by (simp_all add: demo_shop_def app_up_def no_tx_def demo_app_def)
  ultimately show ?thesis
    using checkout_refused_without_charge [of demo_api demo_config "\<lambda>_. []" demo_shop "demo_push\<lparr>st_plan_id := 9\<rparr>" "''NO_EXIST''"]
    by (simp add: demo_push_def demo_plan_def)
qed

section \<open>The access token\<close>

text \<open>A fetched token serves every request of the next 55 minutes without another one to the
  API.\<close>

lemma token_reused:
  assumes "fetch_token api cfg s = (Inr tok, s1)" and "tok \<noteq> []" and "sh_redis_faults s = []" and "t < sh_now s + 3300 * second"
  shows "GetAccessToken api cfg (s1\<lparr>sh_now := t\<rparr>) = (Inr tok, s1\<lparr>sh_now := t\<rparr>)"
  using assms
  by (auto simp: fetch_token_def GetAccessToken_def andThen_def attempt_def onErr_def send_request_def redis_def redis_setex_def
      redis_get_def raise_def ret_def split: prod.splits answer.splits option.splits)

text \<open>When the API rejects the token, the push is repeated with an empty body and the answer is
  still that of the first attempt.\<close>

lemma rejected_push_not_repaired:
  assumes "push_answer api cfg (Answer 401 (JsonBody (JObj fs))) s = (Inr j, s')"
  shows "j = JObj fs \<and> sh_sent s' \<noteq> [] \<and> rq_body (last (sh_sent s')) = None"
  using assms
  by (auto simp: push_answer_def token_rejected_def retry_push_def andThen_def send_request_def push_request_def ret_def
      split: prod.splits sum.splits)

end
