(* ===== verification/Hotspot_Controller.thy ===== *)
theory Hotspot_Controller
  imports Mpesa_Payload Subscription
begin

text \<open>
  The HTTP side of the hotspot user handlers, server/controller/hotspot_user.go: path parameters
  are trimmed and must not be empty, bodies are bound to the request structs.

  The struct of create and update is a variable of the package, so a body is decoded \<^emph>\<open>into
  what the previous request left there\<close>.  The model follows \<^verbatim>\<open>encoding/json\<close>: a key that is
  absent keeps the old value, a null keeps it or makes a pointer or slice nil, a value of the
  wrong type is skipped and reported in the end, an array is decoded over the elements of the
  old slice, those beyond its length included.
\<close>

section \<open>Decoding over old values\<close>

text \<open>A decoder gives whether everything fitted, and the new value.\<close>

type_synonym 'a into = "'a \<Rightarrow> json \<Rightarrow> bool \<times> 'a"

definition into_string :: "string into" where
  "into_string old j = (case j of JStr s \<Rightarrow> (True, s) | JNull \<Rightarrow> (True, old) | _ \<Rightarrow> (False, old))"

definition into_int :: "int into" where
  "into_int old j =
     (case j of
        JNum q \<Rightarrow> if of_int \<lfloor>q\<rfloor> = q \<and> - (2 ^ 63) \<le> \<lfloor>q\<rfloor> \<and> \<lfloor>q\<rfloor> < 2 ^ 63 then (True, \<lfloor>q\<rfloor>) else (False, old)
      | JNull \<Rightarrow> (True, old)
      | _ \<Rightarrow> (False, old))"

text \<open>A pointer is made nil by null and allocated by anything else.\<close>

definition into_ptr :: "'a \<Rightarrow> 'a into \<Rightarrow> 'a option into" where
  "into_ptr zero f old j =
     (if j = JNull then (True, None)
      else case f (case old of Some x \<Rightarrow> x | None \<Rightarrow> zero) j of (ok, x) \<Rightarrow> (ok, Some x))"

primrec into_fields :: "(string \<Rightarrow> json \<Rightarrow> 'a \<Rightarrow> bool \<times> 'a) \<Rightarrow> (string \<times> json) list \<Rightarrow> 'a \<Rightarrow> bool \<times> 'a" where
  "into_fields f [] x = (True, x)"
| "into_fields f (kv # fs) x =
     (case f (fst kv) (snd kv) x of (ok, y) \<Rightarrow> (case into_fields f fs y of (ok', z) \<Rightarrow> (ok \<and> ok', z)))"

definition into_struct :: "(string \<Rightarrow> json \<Rightarrow> 'a \<Rightarrow> bool \<times> 'a) \<Rightarrow> 'a into" where
  "into_struct f old j = (case j of JObj fs \<Rightarrow> into_fields f fs old | JNull \<Rightarrow> (True, old) | _ \<Rightarrow> (False, old))"

text \<open>A slice: the elements its array is known to hold, and its length.\<close>

record 'a go_slice =
  sl_array :: "'a list"
  sl_len :: nat

definition slice_elems :: "'a go_slice option \<Rightarrow> 'a list option" where
  "slice_elems = map_option (\<lambda>s. take (sl_len s) (sl_array s))"

fun into_elems :: "'a \<Rightarrow> 'a into \<Rightarrow> 'a list \<Rightarrow> json list \<Rightarrow> bool \<times> 'a list" where
  "into_elems zero f old [] = (True, old)"
| "into_elems zero f old (j # js) =
     (case f (case old of x # _ \<Rightarrow> x | [] \<Rightarrow> zero) j of (ok, y) \<Rightarrow>
      (case into_elems zero f (drop 1 old) js of (ok', ys) \<Rightarrow> (ok \<and> ok', y # ys)))"

definition into_slice :: "'a \<Rightarrow> 'a into \<Rightarrow> 'a go_slice option into" where
  "into_slice zero f old j =
     (case j of
        JArr [] \<Rightarrow> (True, Some \<lparr>sl_array = [], sl_len = 0\<rparr>)
      | JArr js \<Rightarrow>
          (case into_elems zero f (case old of Some s \<Rightarrow> sl_array s | None \<Rightarrow> []) js of
             (ok, ys) \<Rightarrow> (ok, Some \<lparr>sl_array = ys, sl_len = length js\<rparr>))
      | JNull \<Rightarrow> (True, None)
      | _ \<Rightarrow> (False, old))"

definition into_field :: "('a \<Rightarrow> 'b) \<Rightarrow> (('b \<Rightarrow> 'b) \<Rightarrow> 'a \<Rightarrow> 'a) \<Rightarrow> 'b into \<Rightarrow> json \<Rightarrow> 'a \<Rightarrow> bool \<times> 'a" where
  "into_field get upd f j x = (case f (get x) j of (ok, y) \<Rightarrow> (ok, upd (\<lambda>_. y) x))"

section \<open>The request structs\<close>

definition no_attr :: rad_input where
  "no_attr = \<lparr>ri_attribute = [], ri_op = [], ri_value = []\<rparr>"

definition no_group :: group_input where
  "no_group = \<lparr>gi_groupname = [], gi_priority = None\<rparr>"

definition into_attr :: "rad_input into" where
  "into_attr = into_struct (\<lambda>k j.
     if same_name k ''attribute'' then into_field ri_attribute ri_attribute_update into_string j
     else if same_name k ''op'' then into_field ri_op ri_op_update into_string j
     else if same_name k ''value'' then into_field ri_value ri_value_update into_string j
     else (\<lambda>x. (True, x)))"

definition into_group :: "group_input into" where
  "into_group = into_struct (\<lambda>k j.
     if same_name k ''groupname'' then into_field gi_groupname gi_groupname_update into_string j
     else if same_name k ''priority'' then into_field gi_priority gi_priority_update (into_ptr 0 into_int) j
     else (\<lambda>x. (True, x)))"

text \<open>The package variable \<^verbatim>\<open>input\<close>.\<close>

record user_form =
  uf_username :: string
  uf_password :: "string option"
  uf_checks :: "rad_input go_slice option"
  uf_replies :: "rad_input go_slice option"
  uf_groups :: "group_input go_slice option"

definition no_form :: user_form where
  "no_form = \<lparr>uf_username = [], uf_password = None, uf_checks = None, uf_replies = None, uf_groups = None\<rparr>"

definition form_input :: "user_form \<Rightarrow> HotspotUserInput" where
  "form_input f =
     \<lparr>hu_username = uf_username f, hu_password = uf_password f, hu_checks = slice_elems (uf_checks f),
      hu_replies = slice_elems (uf_replies f), hu_groups = slice_elems (uf_groups f)\<rparr>"

definition into_form :: "user_form into" where
  "into_form = into_struct (\<lambda>k j.
     if same_name k ''username'' then into_field uf_username uf_username_update into_string j
     else if same_name k ''password'' then into_field uf_password uf_password_update (into_ptr [] into_string) j
     else if same_name k ''checkAttributes'' then into_field uf_checks uf_checks_update (into_slice no_attr into_attr) j
     else if same_name k ''replyAttributes'' then into_field uf_replies uf_replies_update (into_slice no_attr into_attr) j
     else if same_name k ''groups'' then into_field uf_groups uf_groups_update (into_slice no_group into_group) j
     else (\<lambda>x. (True, x)))"

text \<open>\<^verbatim>\<open>ShouldBindJSON\<close>: decode, then check the fields that are required.\<close>

definition bind_form :: "json option \<Rightarrow> user_form \<Rightarrow> bool \<times> user_form" where
  "bind_form body f =
     (case body of
        None \<Rightarrow> (False, f)
      | Some j \<Rightarrow> (case into_form f j of (ok, f') \<Rightarrow> (ok \<and> uf_username f' \<noteq> [], f')))"

definition bind_attr :: "json option \<Rightarrow> rad_input option" where
  "bind_attr body =
     (case body of
        None \<Rightarrow> None
      | Some j \<Rightarrow> (case into_attr no_attr j of (ok, a) \<Rightarrow>
          if ok \<and> ri_attribute a \<noteq> [] \<and> ri_value a \<noteq> [] then Some a else None))"

definition bind_group :: "json option \<Rightarrow> group_input option" where
  "bind_group body =
     (case body of
        None \<Rightarrow> None
      | Some j \<Rightarrow> (case into_group no_group j of (ok, g) \<Rightarrow> if ok \<and> gi_groupname g \<noteq> [] then Some g else None))"

section \<open>The controllers\<close>

record ctl =
  ct_form :: user_form
  ct_world :: radius_world

type_synonym controller = "ctl \<Rightarrow> reply outcome \<times> ctl"

definition bad_request :: "string \<Rightarrow> reply" where
  "bad_request m = ([(''message'', VStr m)], 400)"

definition answer_400 :: "string \<Rightarrow> controller" where
  "answer_400 m s = (Returns (bad_request m), s)"

definition run_handler :: "(radius_world \<Rightarrow> reply outcome \<times> radius_world) \<Rightarrow> controller" where
  "run_handler h s = (case h (ct_world s) of (out, w) \<Rightarrow> (out, s\<lparr>ct_world := w\<rparr>))"

definition CreateHotspotUser_controller :: "json option \<Rightarrow> controller" where
  "CreateHotspotUser_controller body s =
     (case bind_form body (ct_form s) of
        (False, f) \<Rightarrow> answer_400 ''bind error'' (s\<lparr>ct_form := f\<rparr>)
      | (True, f) \<Rightarrow> run_handler (CreateHotspotUser (form_input f)) (s\<lparr>ct_form := f\<rparr>))"

definition GetHotspotUser_controller :: "string \<Rightarrow> controller" where
  "GetHotspotUser_controller param =
     (let username = trim_space param in
      if username = [] then answer_400 ''Username is required'' else run_handler (GetHotspotUser username))"

definition UpdateHotspotUser_controller :: "string \<Rightarrow> json option \<Rightarrow> controller" where
  "UpdateHotspotUser_controller param body s =
     (let username = trim_space param in
      if username = [] then answer_400 ''Username is required'' s
      else case bind_form body (ct_form s) of
        (False, f) \<Rightarrow> answer_400 ''bind error'' (s\<lparr>ct_form := f\<rparr>)
      | (True, f) \<Rightarrow>
          if uf_username f \<noteq> [] \<and> uf_username f \<noteq> username
          then answer_400 ''Username mismatch in path and body'' (s\<lparr>ct_form := f\<rparr>)
          else
            let g = f\<lparr>uf_username := username\<rparr>
            in run_handler (UpdateHotspotUser (form_input g)) (s\<lparr>ct_form := g\<rparr>))"

definition DeleteHotspotUser_controller :: "string \<Rightarrow> controller" where
  "DeleteHotspotUser_controller param =
     (let username = trim_space param in
      if username = [] then answer_400 ''Username is required'' else run_handler (DeleteHotspotUser username))"

definition AddOrUpdateRadCheckAttribute_controller :: "string \<Rightarrow> json option \<Rightarrow> controller" where
  "AddOrUpdateRadCheckAttribute_controller param body =
     (let username = trim_space param in
      if username = [] then answer_400 ''Username is required''
      else case bind_attr body of
        None \<Rightarrow> answer_400 ''bind error''
      | Some input \<Rightarrow> run_handler (AddOrUpdateRadCheckAttribute username input))"

definition DeleteRadCheckAttribute_controller :: "string \<Rightarrow> string \<Rightarrow> controller" where
  "DeleteRadCheckAttribute_controller param aparam =
     (let username = trim_space param; attribute = trim_space aparam in
      if username = [] \<or> attribute = [] then answer_400 ''Username and attribute are required''
      else run_handler (DeleteRadCheckAttribute username attribute))"

definition AddOrUpdateRadReplyAttribute_controller :: "string \<Rightarrow> json option \<Rightarrow> controller" where
  "AddOrUpdateRadReplyAttribute_controller param body =
     (let username = trim_space param in
      if username = [] then answer_400 ''Username is required''
      else case bind_attr body of
        None \<Rightarrow> answer_400 ''bind error''
      | Some input \<Rightarrow> run_handler (AddOrUpdateRadReplyAttribute username input))"

definition DeleteRadReplyAttribute_controller :: "string \<Rightarrow> string \<Rightarrow> controller" where
  "DeleteRadReplyAttribute_controller param aparam =
     (let username = trim_space param; attribute = trim_space aparam in
      if username = [] \<or> attribute = [] then answer_400 ''Username and attribute are required''
      else run_handler (DeleteRadReplyAttribute username attribute))"

definition AddRadUserGroup_controller :: "string \<Rightarrow> json option \<Rightarrow> controller" where
  "AddRadUserGroup_controller param body =
     (let username = trim_space param in
      if username = [] then answer_400 ''Username is required''
      else case bind_group body of
        None \<Rightarrow> answer_400 ''bind error''
      | Some input \<Rightarrow> run_handler (AddRadUserGroup username input))"

definition DeleteRadUserGroup_controller :: "string \<Rightarrow> string \<Rightarrow> controller" where
  "DeleteRadUserGroup_controller param gparam =
     (let username = trim_space param; groupname = trim_space gparam in
      if username = [] \<or> groupname = [] then answer_400 ''Username and groupname are required''
      else run_handler (DeleteRadUserGroup username groupname))"

section \<open>Complete requests\<close>

text \<open>The body that states every field of the input, nil as null.\<close>

definition attr_json :: "rad_input \<Rightarrow> json" where
  "attr_json a = JObj [(''attribute'', JStr (ri_attribute a)), (''op'', JStr (ri_op a)), (''value'', JStr (ri_value a))]"

definition group_json :: "group_input \<Rightarrow> json" where
  "group_json g = JObj [(''groupname'', JStr (gi_groupname g)),
     (''priority'', case gi_priority g of Some n \<Rightarrow> JNum (of_int n) | None \<Rightarrow> JNull)]"

definition list_json :: "('a \<Rightarrow> json) \<Rightarrow> 'a list option \<Rightarrow> json" where
  "list_json enc xs = (case xs of Some ys \<Rightarrow> JArr (map enc ys) | None \<Rightarrow> JNull)"

definition user_json :: "HotspotUserInput \<Rightarrow> json" where
  "user_json u = JObj
     [(''username'', JStr (hu_username u)), (''password'', case hu_password u of Some p \<Rightarrow> JStr p | None \<Rightarrow> JNull),
      (''checkAttributes'', list_json attr_json (hu_checks u)), (''replyAttributes'', list_json attr_json (hu_replies u)),
      (''groups'', list_json group_json (hu_groups u))]"

definition int_priorities :: "HotspotUserInput \<Rightarrow> bool" where
  "int_priorities u \<longleftrightarrow> (\<forall>g \<in> set (slice (hu_groups u)). \<forall>n. gi_priority g = Some n \<longrightarrow> - (2 ^ 63) \<le> n \<and> n < 2 ^ 63)"

lemma form_names [simp]:
  "same_name ''op'' ''attribute'' = False" "same_name ''value'' ''attribute'' = False" "same_name ''value'' ''op'' = False"
  "same_name ''priority'' ''groupname'' = False" "same_name ''password'' ''username'' = False"
  "same_name ''checkAttributes'' ''username'' = False" "same_name ''checkAttributes'' ''password'' = False"
  "same_name ''replyAttributes'' ''username'' = False" "same_name ''replyAttributes'' ''password'' = False"
  "same_name ''replyAttributes'' ''checkAttributes'' = False" "same_name ''groups'' ''username'' = False"
  "same_name ''groups'' ''password'' = False" "same_name ''groups'' ''checkAttributes'' = False"
  "same_name ''groups'' ''replyAttributes'' = False"
  by code_simp+

lemma into_attr_json: "into_attr old (attr_json a) = (True, a)"
  by (simp add: into_attr_def into_struct_def attr_json_def into_field_def into_string_def)

lemma into_group_json:
  assumes "\<forall>n. gi_priority g = Some n \<longrightarrow> - (2 ^ 63) \<le> n \<and> n < 2 ^ 63"
  shows "into_group old (group_json g) = (True, g)"
  using assms
  by (cases "gi_priority g")
    (auto simp: into_group_def into_struct_def group_json_def into_field_def into_string_def into_ptr_def into_int_def)

lemma into_elems_map:
  assumes "\<And>y old. y \<in> set ys \<Longrightarrow> f old (enc y) = (True, y)"
  shows "into_elems zero f old (map enc ys) = (True, ys @ drop (length ys) old)"
  using assms by (induction ys arbitrary: old) (auto simp: drop_Suc drop_tl split: list.split)

lemma into_slice_map:
  assumes "\<And>y old. y \<in> set (slice xs) \<Longrightarrow> f old (enc y) = (True, y)"
  shows "\<exists>s. into_slice zero f old (list_json enc xs) = (True, s) \<and> slice_elems s = xs"
proof (cases xs)
  case None
  then show ?thesis by (simp add: into_slice_def list_json_def slice_elems_def)
next
  case (Some ys)
  with assms have *: "into_elems zero f a (map enc ys) = (True, ys @ drop (length ys) a)" for a
    by (intro into_elems_map) (simp add: slice_def)
  show ?thesis
  proof (cases ys)
    case Nil
    with Some show ?thesis by (simp add: into_slice_def list_json_def slice_elems_def)
  next
    case (Cons y zs)
    with * [unfolded Cons] Some show ?thesis by (auto simp: into_slice_def list_json_def slice_elems_def split: option.split)
  qed
qed

lemma bind_complete:
  assumes "hu_username u \<noteq> []" and "int_priorities u"
  shows "\<exists>f'. bind_form (Some (user_json u)) f = (True, f') \<and> form_input f' = u"
proof -
  obtain cs where cs: "into_slice no_attr into_attr (uf_checks f) (list_json attr_json (hu_checks u)) = (True, cs)"
    "slice_elems cs = hu_checks u"
    using into_slice_map [of "hu_checks u" into_attr attr_json] into_attr_json by blast
  obtain rs where rs: "into_slice no_attr into_attr (uf_replies f) (list_json attr_json (hu_replies u)) = (True, rs)"
    "slice_elems rs = hu_replies u"
    using into_slice_map [of "hu_replies u" into_attr attr_json] into_attr_json by blast
  have "into_group old (group_json g) = (True, g)" if "g \<in> set (slice (hu_groups u))" for g old
    using assms(2) that by (intro into_group_json) (auto simp: int_priorities_def)
  with into_slice_map [of "hu_groups u" into_group group_json no_group "uf_groups f"] obtain gs where
    gs: "into_slice no_group into_group (uf_groups f) (list_json group_json (hu_groups u)) = (True, gs)"
      "slice_elems gs = hu_groups u"
    by blast
  have pw: "into_ptr [] into_string (uf_password f) (case hu_password u of Some p \<Rightarrow> JStr p | None \<Rightarrow> JNull) = (True, hu_password u)"
    by (cases "hu_password u") (simp_all add: into_ptr_def into_string_def)
  show ?thesis
    using assms(1) cs rs gs pw
    by (simp add: bind_form_def into_form_def into_struct_def user_json_def into_field_def into_string_def form_input_def)
qed

section \<open>Properties\<close>

text \<open>A request that states every field is carried out as sent, whatever earlier requests
  left behind: the controllers pass exactly that input to the handlers.\<close>

theorem complete_request_as_sent:
  assumes "hu_username u \<noteq> []" and "int_priorities u"
  shows "\<exists>f'. form_input f' = u \<and>
    CreateHotspotUser_controller (Some (user_json u)) s = run_handler (CreateHotspotUser u) (s\<lparr>ct_form := f'\<rparr>) \<and>
    (trim_space param = hu_username u \<longrightarrow>
      UpdateHotspotUser_controller param (Some (user_json u)) s = run_handler (UpdateHotspotUser u) (s\<lparr>ct_form := f'\<rparr>))"
proof -
  obtain f' where f: "bind_form (Some (user_json u)) (ct_form s) = (True, f')" "form_input f' = u"
    using bind_complete [OF assms] by blast
  then have n: "uf_username f' = hu_username u" by (auto simp: form_input_def)
  then have same: "f'\<lparr>uf_username := hu_username u\<rparr> = f'" by (cases f') simp
  from f n assms(1) show ?thesis
    by (intro exI [of _ f']) (simp add: CreateHotspotUser_controller_def UpdateHotspotUser_controller_def Let_def same)
qed

text \<open>A request that leaves fields out is completed from the request before it: the body
  \<^verbatim>\<open>{"username": n}\<close>, sent after the creation of user \<open>u\<close>, creates \<open>n\<close> with the password, the
  attributes and the groups of \<open>u\<close>.\<close>

theorem omitted_fields_leak:
  assumes "hu_username u \<noteq> []" and "int_priorities u" and "n \<noteq> []"
    and "CreateHotspotUser_controller (Some (user_json u)) s = (out, s')"
  shows "\<exists>f'. CreateHotspotUser_controller (Some (JObj [(''username'', JStr n)])) s' =
    run_handler (CreateHotspotUser (u\<lparr>hu_username := n\<rparr>)) (s'\<lparr>ct_form := f'\<rparr>)"
proof -
  obtain f where f: "bind_form (Some (user_json u)) (ct_form s) = (True, f)" "form_input f = u"
    using bind_complete [OF assms(1,2)] by blast
  with assms(4) have "ct_form s' = f"
    by (auto simp: CreateHotspotUser_controller_def run_handler_def split: prod.splits)
  moreover have "form_input (f\<lparr>uf_username := n\<rparr>) = u\<lparr>hu_username := n\<rparr>"
    using f(2) by (auto simp: form_input_def)
  ultimately show ?thesis
    using assms(3)
    by (intro exI [of _ "f\<lparr>uf_username := n\<rparr>"])
      (simp add: CreateHotspotUser_controller_def bind_form_def into_form_def into_struct_def into_field_def into_string_def)
qed

text \<open>A request that is refused with 400 has not touched the database.\<close>

lemma bad_requests_write_nothing:
  "CreateHotspotUser_controller None s = (out, s') \<Longrightarrow> ct_world s' = ct_world s"
  "trim_space param = [] \<Longrightarrow> UpdateHotspotUser_controller param body s = (out, s') \<Longrightarrow> ct_world s' = ct_world s"
  "trim_space param = [] \<Longrightarrow> DeleteHotspotUser_controller param s = (out, s') \<Longrightarrow> ct_world s' = ct_world s"
  "bind_attr body = None \<Longrightarrow> AddOrUpdateRadCheckAttribute_controller param body s = (out, s') \<Longrightarrow> ct_world s' = ct_world s"
  by (auto simp: CreateHotspotUser_controller_def bind_form_def answer_400_def UpdateHotspotUser_controller_def
      DeleteHotspotUser_controller_def AddOrUpdateRadCheckAttribute_controller_def Let_def split: if_splits)

definition demo_ctl :: ctl where
  "demo_ctl = \<lparr>ct_form = no_form, ct_world = demo_world []\<rparr>"

theorem complete_request_as_sent_witness:
  "\<exists>f'. CreateHotspotUser_controller (Some (user_json (demo_input ''carol'' (Some ''pw'')))) demo_ctl =
     run_handler (CreateHotspotUser (demo_input ''carol'' (Some ''pw''))) (demo_ctl\<lparr>ct_form := f'\<rparr>)"
proof -
  have "hu_username (demo_input ''carol'' (Some ''pw'')) \<noteq> []" "int_priorities (demo_input ''carol'' (Some ''pw''))"
    by (simp_all add: demo_input_def int_priorities_def slice_def)
  from complete_request_as_sent [OF this, of demo_ctl "[]"] show ?thesis by blast
qed

theorem omitted_fields_leak_witness:
  "let u = demo_input ''carol'' (Some ''pw''); s' = snd (CreateHotspotUser_controller (Some (user_json u)) demo_ctl)
   in \<exists>f'. CreateHotspotUser_controller (Some (JObj [(''username'', JStr ''dave'')])) s' =
     run_handler (CreateHotspotUser (demo_input ''dave'' (Some ''pw''))) (s'\<lparr>ct_form := f'\<rparr>)"
proof -
  have "hu_username (demo_input ''carol'' (Some ''pw'')) \<noteq> []" "int_priorities (demo_input ''carol'' (Some ''pw''))"
    "(demo_input ''carol'' (Some ''pw''))\<lparr>hu_username := ''dave''\<rparr> = demo_input ''dave'' (Some ''pw'')"
    by (simp_all add: demo_input_def int_priorities_def slice_def)
  with omitted_fields_leak [OF this(1,2) _ prod.collapse [symmetric], of "''dave''" demo_ctl] show ?thesis
    by (simp add: Let_def)
qed

end
