(* ===== verification/Device_Handlers.thy ===== *)
theory Device_Handlers
  imports Mikrotik_Service Go_Time
begin

text \<open>
  The HTTP handlers of the device table, server/handler/mikrotik.go (each called as it is by
  the controller of server/controller/mikrotik.go).  They work on the table alone: the
  connection manager learns of a device when the service loads it.  A body is the struct it
  binds to, \<open>None\<close> when it does not bind.  Times of creation and update are left out.
\<close>

type_synonym ('e, 'a) devprog = "(device_table db_state, 'e, 'a) prog"

definition dev_stmt :: "(device_table \<Rightarrow> 'a \<times> device_table) \<Rightarrow> (string, 'a) devprog" where
  "dev_stmt f = andThen get_st (\<lambda>w. andThen (deref (GetDB w)) (\<lambda>c. stmt c f))"

text \<open>\<^verbatim>\<open>First\<close> with its error kept: \<open>None\<close> for any error, a missing row included.\<close>

definition first_device :: "string \<Rightarrow> ('e, MikroTikDevice option) devprog" where
  "first_device i =
     andThen (attempt (dev_stmt (\<lambda>rows. (find_device i rows, rows)))) (\<lambda>res.
     ret (case res of Inr found \<Rightarrow> found | Inl _ \<Rightarrow> None))"

record device_view =
  dv_id :: string
  dv_name :: string
  dv_address :: string
  dv_username :: string
  dv_pool_size :: int
  dv_status :: string

definition view_of :: "MikroTikDevice \<Rightarrow> device_view" where
  "view_of d =
     \<lparr>dv_id = md_id d, dv_name = GetName d, dv_address = md_address d, dv_username = md_username d,
      dv_pool_size = md_pool_size d, dv_status = md_status d\<rparr>"

datatype device_reply =
    DevError nat string
  | DevView nat device_view
  | DevPage "MikroTikDevice list" int int int
  | DevList "MikroTikDevice list" string nat
  | DevStatus string string
  | DevStats int int int int
  | DevTested string
  | DevDeleted

text \<open>The columns of the two list queries: neither password nor port.\<close>

definition public_columns :: "MikroTikDevice \<Rightarrow> MikroTikDevice" where
  "public_columns d = d\<lparr>md_password := [], md_port := []\<rparr>"

section \<open>The handlers\<close>

definition GetMikroTikDevice :: "string \<Rightarrow> ('e, device_reply) devprog" where
  "GetMikroTikDevice deviceID =
     andThen (first_device deviceID) (\<lambda>found.
     ret (case found of None \<Rightarrow> DevError 404 ''Device not found'' | Some d \<Rightarrow> DevView 200 (view_of d)))"

definition GetMikroTikDevices :: "int \<Rightarrow> int \<Rightarrow> string \<Rightarrow> ('e, device_reply) devprog" where
  "GetMikroTikDevices page limit status =
     (let chosen = (\<lambda>d. status = [] \<or> md_status d = status) in
      andThen (attempt (dev_stmt (\<lambda>rows. (int (length (filter chosen rows)), rows)))) (\<lambda>count.
      andThen (attempt (dev_stmt (\<lambda>rows.
         (map public_columns (paginate limit (wrap64 ((page - 1) * limit)) (filter chosen rows)), rows)))) (\<lambda>res.
      ret (case res of
         Inr ds \<Rightarrow> DevPage ds (case count of Inr n \<Rightarrow> n | Inl _ \<Rightarrow> 0) page limit
       | Inl _ \<Rightarrow> DevError 500 ''Failed to retrieve devices''))))"

definition CreateMikroTikDevice :: "MikroTikDevice option \<Rightarrow> ('e, device_reply) devprog" where
  "CreateMikroTikDevice body =
     (case body of
        None \<Rightarrow> ret (DevError 400 ''bind error'')
      | Some deviceInput \<Rightarrow>
          andThen (first_device (md_id deviceInput)) (\<lambda>existing.
          case existing of
            Some _ \<Rightarrow> ret (DevError 409 ''Device with this ID already exists'')
          | None \<Rightarrow>
              let d = with_defaults deviceInput in
              andThen (attempt (dev_stmt (\<lambda>rows.
                 if find_device (md_id d) rows = None then (True, rows @ [d]) else (False, rows)))) (\<lambda>res.
              ret (if res = Inr True then DevView 201 (view_of d) else DevError 500 ''Failed to create device''))))"

definition UpdateMikroTikDevice :: "string \<Rightarrow> MikroTikDevice option \<Rightarrow> ('e, device_reply) devprog" where
  "UpdateMikroTikDevice deviceID body =
     (if deviceID = [] then ret (DevError 400 ''Device ID is required'')
      else case body of
        None \<Rightarrow> ret (DevError 400 ''bind error'')
      | Some input \<Rightarrow>
          andThen (first_device deviceID) (\<lambda>found.
          case found of
            None \<Rightarrow> ret (DevError 404 ''Device not found'')
          | Some existing \<Rightarrow>
              let deviceInput = input\<lparr>md_id := deviceID\<rparr> in
              andThen (attempt (dev_stmt (\<lambda>rows. ((), put_device deviceID (apply_updates deviceInput existing) rows)))) (\<lambda>res.
              case res of
                Inl _ \<Rightarrow> ret (DevError 500 ''Failed to update device'')
              | Inr _ \<Rightarrow>
                  andThen (first_device deviceID) (\<lambda>again.
                  ret (case again of
                     Some d \<Rightarrow> DevView 200 (view_of d)
                   | None \<Rightarrow> DevError 500 ''Failed to retrieve updated device'')))))"

definition DeleteMikroTikDevice :: "string \<Rightarrow> ('e, device_reply) devprog" where
  "DeleteMikroTikDevice deviceID =
     andThen (first_device deviceID) (\<lambda>found.
     case found of
       None \<Rightarrow> ret (DevError 404 ''Device not found'')
     | Some d \<Rightarrow>
         andThen (attempt (dev_stmt (\<lambda>rows. ((), drop_device (md_id d) rows)))) (\<lambda>res.
         ret (case res of Inr _ \<Rightarrow> DevDeleted | Inl _ \<Rightarrow> DevError 500 ''Failed to delete device'')))"

definition UpdateMikroTikDeviceStatus :: "string \<Rightarrow> string option \<Rightarrow> ('e, device_reply) devprog" where
  "UpdateMikroTikDeviceStatus deviceID body =
     (case body of
        None \<Rightarrow> ret (DevError 400 ''bind error'')
      | Some status \<Rightarrow>
          andThen (first_device deviceID) (\<lambda>found.
          case found of
            None \<Rightarrow> ret (DevError 404 ''Device not found'')
          | Some device \<Rightarrow>
              andThen (attempt (dev_stmt (\<lambda>rows.
                 ((), map (\<lambda>d. if md_id d = md_id device then d\<lparr>md_status := status\<rparr> else d) rows)))) (\<lambda>res.
              ret (case res of Inr _ \<Rightarrow> DevStatus deviceID status | Inl _ \<Rightarrow> DevError 500 ''Failed to update device status''))))"

definition GetMikroTikDevicesByStatus :: "string \<Rightarrow> ('e, device_reply) devprog" where
  "GetMikroTikDevicesByStatus status =
     andThen (attempt (dev_stmt (\<lambda>rows. (map public_columns (filter (\<lambda>d. md_status d = status) rows), rows)))) (\<lambda>res.
     ret (case res of Inr ds \<Rightarrow> DevList ds status (length ds) | Inl _ \<Rightarrow> DevError 500 ''Failed to retrieve devices''))"

definition count_devices :: "(MikroTikDevice \<Rightarrow> bool) \<Rightarrow> ('e, int) devprog" where
  "count_devices P =
     andThen (attempt (dev_stmt (\<lambda>rows. (int (length (filter P rows)), rows)))) (\<lambda>res.
     ret (case res of Inr n \<Rightarrow> n | Inl _ \<Rightarrow> 0))"

definition GetMikroTikDeviceStats :: "('e, device_reply) devprog" where
  "GetMikroTikDeviceStats =
     andThen (count_devices (\<lambda>_. True)) (\<lambda>total.
     andThen (count_devices (\<lambda>d. md_status d = StatusActive)) (\<lambda>active.
     andThen (count_devices (\<lambda>d. md_status d = StatusInactive)) (\<lambda>inactive.
     andThen (count_devices (\<lambda>d. md_status d = StatusMaintenance)) (\<lambda>maintenance.
     ret (DevStats total active inactive maintenance)))))"

definition TestMikroTikDeviceConnection :: "string \<Rightarrow> ('e, device_reply) devprog" where
  "TestMikroTikDeviceConnection deviceID =
     andThen (first_device deviceID) (\<lambda>found.
     ret (case found of None \<Rightarrow> DevError 404 ''Device not found'' | Some d \<Rightarrow> DevTested (md_id d)))"

section \<open>Running the handlers\<close>

definition dev_up :: "device_table db_state \<Rightarrow> bool" where
  "dev_up w \<longleftrightarrow> faults w = [] \<and> db_up w"

lemma dev_stmt_run:
  "dev_up w \<Longrightarrow> dev_stmt f w = (Inr (fst (f (committed w))), w\<lparr>committed := snd (f (committed w))\<rparr>)"
  by (simp add: dev_up_def dev_stmt_def andThen_def get_st_def GetDB_def deref_def ret_def stmt_def next_fault_def)

lemma dev_stmt_any:
  assumes "\<And>rows. I rows \<Longrightarrow> I (snd (f rows))"
  shows "triple (\<lambda>w. I (committed w)) (dev_stmt f) (\<lambda>_ w. I (committed w)) (\<lambda>_ w. I (committed w))"
  using assms
  by (auto simp: triple_def dev_stmt_def andThen_def get_st_def GetDB_def deref_def ret_def go_panic_def stmt_def next_fault_def
      split: list.splits option.splits)

lemma first_device_run: "dev_up w \<Longrightarrow> first_device i w = (Inr (find_device i (committed w)), w)"
  by (simp add: first_device_def andThen_def attempt_def dev_stmt_run ret_def)

lemma dev_up_committed: "dev_up w \<Longrightarrow> dev_up (w\<lparr>committed := d\<rparr>)"
  by (simp add: dev_up_def)

lemma find_drop: "find_device i (drop_device j rows) = (if i = j then None else find_device i rows)"
  by (induction rows) (auto simp: find_device_def drop_device_def)

lemma find_put_other: "i \<noteq> j \<Longrightarrow> md_id d = j \<Longrightarrow> find_device i (put_device j d rows) = find_device i rows"
  by (induction rows) (auto simp: find_device_def put_device_def)

section \<open>The table as a map\<close>

text \<open>What the handlers promise: a map from ids to devices, with an answer for each request.\<close>

type_synonym device_map = "string \<Rightarrow> MikroTikDevice option"

definition device_map :: "device_table \<Rightarrow> device_map" where
  "device_map rows i = find_device i rows"

definition spec_create :: "MikroTikDevice \<Rightarrow> device_map \<Rightarrow> device_reply \<times> device_map" where
  "spec_create d m =
     (if m (md_id d) \<noteq> None then (DevError 409 ''Device with this ID already exists'', m)
      else (DevView 201 (view_of (with_defaults d)), m(md_id d \<mapsto> with_defaults d)))"

definition spec_get :: "string \<Rightarrow> device_map \<Rightarrow> device_reply \<times> device_map" where
  "spec_get i m = (case m i of None \<Rightarrow> DevError 404 ''Device not found'' | Some d \<Rightarrow> DevView 200 (view_of d), m)"

definition spec_update :: "string \<Rightarrow> MikroTikDevice \<Rightarrow> device_map \<Rightarrow> device_reply \<times> device_map" where
  "spec_update i u m =
     (case m i of
        None \<Rightarrow> (DevError 404 ''Device not found'', m)
      | Some d \<Rightarrow> let d' = apply_updates (u\<lparr>md_id := i\<rparr>) d in (DevView 200 (view_of d'), m(i \<mapsto> d')))"

definition spec_status :: "string \<Rightarrow> string \<Rightarrow> device_map \<Rightarrow> device_reply \<times> device_map" where
  "spec_status i st m =
     (case m i of
        None \<Rightarrow> (DevError 404 ''Device not found'', m)
      | Some d \<Rightarrow> (DevStatus i st, m(i \<mapsto> d\<lparr>md_status := st\<rparr>)))"

definition spec_delete :: "string \<Rightarrow> device_map \<Rightarrow> device_reply \<times> device_map" where
  "spec_delete i m = (case m i of None \<Rightarrow> (DevError 404 ''Device not found'', m) | Some _ \<Rightarrow> (DevDeleted, m(i := None)))"

definition refines :: "('e, device_reply) devprog \<Rightarrow> (device_map \<Rightarrow> device_reply \<times> device_map) \<Rightarrow> bool" where
  "refines h g \<longleftrightarrow>
     (\<forall>w. dev_up w \<longrightarrow> (\<exists>rep w'. h w = (Inr rep, w') \<and> dev_up w' \<and>
        g (device_map (committed w)) = (rep, device_map (committed w'))))"

lemma refinesI:
  "(\<And>w. dev_up w \<Longrightarrow> \<exists>rep w'. h w = (Inr rep, w') \<and> dev_up w' \<and> g (device_map (committed w)) = (rep, device_map (committed w'))) \<Longrightarrow>
   refines h g"
  by (simp add: refines_def)

lemma find_device_id: "find_device i rows = Some d \<Longrightarrow> md_id d = i"
  by (auto simp: find_device_def find_Some_iff)

lemma map_append: "find_device (md_id d) rows = None \<Longrightarrow> device_map (rows @ [d]) = (device_map rows)(md_id d \<mapsto> d)"
  by (rule ext) (auto simp: device_map_def find_device_def find_append split: option.split)

lemma map_put: "find_device i rows \<noteq> None \<Longrightarrow> md_id d = i \<Longrightarrow> device_map (put_device i d rows) = (device_map rows)(i \<mapsto> d)"
  by (rule ext) (auto simp: device_map_def find_put find_put_other)

lemma map_drop: "device_map (drop_device i rows) = (device_map rows)(i := None)"
  by (rule ext) (simp add: device_map_def find_drop)

lemma find_status:
  "find_device j (map (\<lambda>d. if md_id d = i then d\<lparr>md_status := st\<rparr> else d) rows) =
     map_option (\<lambda>d. if j = i then d\<lparr>md_status := st\<rparr> else d) (find_device j rows)"
  by (induction rows) (auto simp: find_device_def)

lemma map_status:
  "find_device i rows = Some d \<Longrightarrow>
   device_map (map (\<lambda>d. if md_id d = i then d\<lparr>md_status := st\<rparr> else d) rows) = (device_map rows)(i \<mapsto> d\<lparr>md_status := st\<rparr>)"
  by (rule ext) (simp add: device_map_def find_status option.map_id [unfolded id_def])

lemma with_defaults_id [simp]: "md_id (with_defaults d) = md_id d"
  by (simp add: with_defaults_def)

lemma apply_updates_id: "md_id u = i \<Longrightarrow> i \<noteq> [] \<Longrightarrow> md_id (apply_updates u d) = i"
  by (simp add: apply_updates_def)

text \<open>C24.  The device handlers implement a map from ids to devices: with the database
  answering, create, read, update, status change and delete give exactly the answers of the
  map's operations and leave the table as their result; an id can be created once, an update
  changes the fields it states and never the id, what is deleted is gone.\<close>

theorem device_handlers_refine_map:
  "refines (CreateMikroTikDevice (Some d)) (spec_create d) \<and> refines (GetMikroTikDevice i) (spec_get i) \<and>
   (i \<noteq> [] \<longrightarrow> refines (UpdateMikroTikDevice i (Some u)) (spec_update i u)) \<and>
   refines (UpdateMikroTikDeviceStatus i (Some st)) (spec_status i st) \<and>
   refines (DeleteMikroTikDevice i) (spec_delete i)"
proof (intro conjI impI)
  show "refines (CreateMikroTikDevice (Some d)) (spec_create d)"
    by (rule refinesI)
      (auto simp: CreateMikroTikDevice_def spec_create_def andThen_def first_device_run dev_stmt_run attempt_def ret_def
        dev_up_committed Let_def device_map_def [of _ "md_id d"] map_append split: option.split)
  show "refines (GetMikroTikDevice i) (spec_get i)"
    by (rule refinesI) (simp add: GetMikroTikDevice_def spec_get_def andThen_def first_device_run ret_def device_map_def)
  show "refines (UpdateMikroTikDeviceStatus i (Some st)) (spec_status i st)"
    by (rule refinesI)
      (auto simp: UpdateMikroTikDeviceStatus_def spec_status_def andThen_def first_device_run dev_stmt_run attempt_def ret_def
        dev_up_committed device_map_def [of _ i] map_status find_device_id dest: find_device_id split: option.split)
  show "refines (DeleteMikroTikDevice i) (spec_delete i)"
    by (rule refinesI)
      (auto simp: DeleteMikroTikDevice_def spec_delete_def andThen_def first_device_run dev_stmt_run attempt_def ret_def
        dev_up_committed device_map_def [of _ i] map_drop dest: find_device_id split: option.split)
  show "refines (UpdateMikroTikDevice i (Some u)) (spec_update i u)" if i: "i \<noteq> []"
  proof (rule refinesI)
    fix w :: "device_table db_state" assume w: "dev_up w"
    show "\<exists>rep w'. UpdateMikroTikDevice i (Some u) w = (Inr rep, w') \<and> dev_up w' \<and>
      spec_update i u (device_map (committed w)) = (rep, device_map (committed w'))"
    proof (cases "find_device i (committed w)")
      case None
      with w i show ?thesis
        by (simp add: UpdateMikroTikDevice_def spec_update_def andThen_def first_device_run ret_def device_map_def)
    next
      case (Some d)
      let ?d = "apply_updates (u\<lparr>md_id := i\<rparr>) d"
      have "md_id ?d = i" using i by (intro apply_updates_id) simp_all
      with Some have "find_device i (put_device i ?d (committed w)) = Some ?d"
        "device_map (put_device i ?d (committed w)) = (device_map (committed w))(i \<mapsto> ?d)"
        by (simp_all add: find_put map_put)
      with w i Some show ?thesis
        by (simp add: UpdateMikroTikDevice_def spec_update_def andThen_def first_device_run dev_stmt_run attempt_def ret_def
            dev_up_committed Let_def device_map_def [of "committed w" i])
    qed
  qed
qed

theorem device_handlers_refine_map_witness:
  "refines (UpdateMikroTikDevice ''r1'' (Some demo_device) :: (unit, device_reply) devprog) (spec_update ''r1'' demo_device)"
  by (rule device_handlers_refine_map [where i = "''r1''" and u = demo_device, THEN conjunct2, THEN conjunct2, THEN conjunct1,
        THEN mp]) simp

section \<open>Every failure of the database\<close>

lemma distinct_put: "md_id d = i \<Longrightarrow> map md_id (put_device i d rows) = map md_id rows"
  by (induction rows) (auto simp: put_device_def)

lemma distinct_drop: "distinct (map md_id rows) \<Longrightarrow> distinct (map md_id (drop_device i rows))"
  by (auto simp: drop_device_def distinct_map intro: inj_on_subset)

lemma find_device_None: "find_device i rows = None \<longleftrightarrow> i \<notin> md_id ` set rows"
  by (auto simp: find_device_def find_None_iff)

lemma distinct_add: "distinct (map md_id rows) \<Longrightarrow> find_device (md_id d) rows = None \<Longrightarrow> distinct (map md_id (rows @ [d]))"
  by (auto simp: find_device_def find_None_iff)

lemma map_id_status: "map md_id (map (\<lambda>d. if md_id d = i then d\<lparr>md_status := st\<rparr> else d) rows) = map md_id rows"
  by (induction rows) auto

lemma first_device_any:
  "triple (\<lambda>w. I (committed w)) (first_device i) (\<lambda>found w. I (committed w) \<and> (\<forall>d. found = Some d \<longrightarrow> md_id d = i)) (\<lambda>_ w. I (committed w))"
  by (auto simp: triple_def first_device_def andThen_def attempt_def dev_stmt_def get_st_def GetDB_def deref_def ret_def go_panic_def
      stmt_def next_fault_def dest: find_device_id split: list.splits option.splits)

abbreviation unique_ids :: "device_table db_state \<Rightarrow> bool" where
  "unique_ids w \<equiv> distinct (map md_id (committed w))"

lemmas dev_rules = triple_any_andThen triple_any_attempt triple_any

lemma unique_stmt:
  "(\<And>rows. distinct (map md_id rows) \<Longrightarrow> distinct (map md_id (snd (f rows)))) \<Longrightarrow>
   triple unique_ids (dev_stmt f) (\<lambda>_. unique_ids) (\<lambda>_. unique_ids)"
  by (rule dev_stmt_any [where I = "\<lambda>rows. distinct (map md_id rows)"])

lemma unique_first:
  assumes "\<And>found. (\<And>d. found = Some d \<Longrightarrow> md_id d = i) \<Longrightarrow> triple unique_ids (f found) (\<lambda>_. unique_ids) (\<lambda>_. unique_ids)"
  shows "triple unique_ids (andThen (first_device i) f) (\<lambda>_. unique_ids) (\<lambda>_. unique_ids)"
  by (rule triple_andThen [OF first_device_any [where I = "\<lambda>rows. distinct (map md_id rows)"]])
    (use assms in \<open>auto simp: triple_def\<close>)

text \<open>No request makes two devices share an id, whatever the database answers: every
  handler keeps the ids of the table distinct, also when one of its statements fails.\<close>

theorem device_ids_stay_unique:
  fixes h :: "(unit, device_reply) devprog"
  assumes "h \<in> {CreateMikroTikDevice body, UpdateMikroTikDevice i body, DeleteMikroTikDevice i,
      UpdateMikroTikDeviceStatus i st, GetMikroTikDevice i, TestMikroTikDeviceConnection i}"
    and "distinct (map md_id (committed w))"
  shows "distinct (map md_id (committed (snd (h w))))"
proof -
  have "triple unique_ids h (\<lambda>_. unique_ids) (\<lambda>_. unique_ids)"
    using assms(1)
  proof (elim insertE emptyE)
    show "h = CreateMikroTikDevice body \<Longrightarrow> ?thesis"
      by (auto simp: CreateMikroTikDevice_def Let_def find_device_None split: option.split
          intro!: unique_first dev_rules unique_stmt distinct_add)
    show "h = UpdateMikroTikDevice i body \<Longrightarrow> ?thesis"
      by (auto simp: UpdateMikroTikDevice_def Let_def distinct_put apply_updates_id split: option.split sum.split
          intro!: unique_first dev_rules unique_stmt)
    show "h = DeleteMikroTikDevice i \<Longrightarrow> ?thesis"
      by (auto simp: DeleteMikroTikDevice_def split: option.split intro!: unique_first dev_rules unique_stmt distinct_drop)
    show "h = UpdateMikroTikDeviceStatus i st \<Longrightarrow> ?thesis"
      by (auto simp: UpdateMikroTikDeviceStatus_def map_id_status simp del: map_map split: option.split
          intro!: unique_first dev_rules unique_stmt)
    show "h = GetMikroTikDevice i \<Longrightarrow> ?thesis"
      by (auto simp: GetMikroTikDevice_def intro!: unique_first dev_rules)
    show "h = TestMikroTikDeviceConnection i \<Longrightarrow> ?thesis"
      by (auto simp: TestMikroTikDeviceConnection_def intro!: unique_first dev_rules)
  qed
  from tripleD [OF this assms(2)] show ?thesis
    by (cases "h w"; cases "fst (h w)") auto
qed

theorem device_ids_stay_unique_witness:
  "distinct (map md_id (committed (snd ((CreateMikroTikDevice (Some demo_device) :: (unit, device_reply) devprog)
     \<lparr>committed = [demo_device], txn = NoTx, faults = [Some ''timeout''], db_up = True\<rparr>))))"
  by (rule device_ids_stay_unique [where body = "Some demo_device"]) simp_all

end
