(* ===== verification/Config_Store.thy ===== *)
theory Config_Store
  imports Mpesa_Payload Device_Pool
begin

text \<open>
  The embedded key-value store of configurations and session values, badger/badger.go.  The
  badger package is outside the repository: the store is a map from keys to values with the
  second they expire at, and a script says which of the coming transactions fail.  A value is
  the JSON tree or the bytes that were written.
\<close>

section \<open>Configurations\<close>

record MpesaConfigWrapper =
  mw_id :: string
  mw_ispid :: string
  mw_name :: string

record RadiusConfigWrapper =
  rw_id :: string
  rw_ispid :: string
  rw_server :: string
  rw_port :: int
  rw_secret :: string
  rw_description :: string

record DatabaseConfigWrapper =
  bw_id :: string
  bw_ispid :: string
  bw_host :: string
  bw_port :: int
  bw_username :: string
  bw_password :: string
  bw_database :: string
  bw_description :: string

text \<open>The types that implement \<^verbatim>\<open>StorableConfig\<close>.\<close>

datatype StorableConfig =
    DeviceCfg (the_device: DeviceConfig)
  | MpesaCfg (the_mpesa: MpesaConfigWrapper)
  | RadiusCfg (the_radius: RadiusConfigWrapper)
  | DatabaseCfg (the_database: DatabaseConfigWrapper)

datatype ConfigType = DeviceConfigType | MpesaConfigType | RadiusConfigType | DatabaseConfigType

fun type_name :: "ConfigType \<Rightarrow> string" where
  "type_name DeviceConfigType = ''device''"
| "type_name MpesaConfigType = ''mpesa''"
| "type_name RadiusConfigType = ''radius''"
| "type_name DatabaseConfigType = ''database''"

fun GetID :: "StorableConfig \<Rightarrow> string" where
  "GetID (DeviceCfg c) = dc_id c"
| "GetID (MpesaCfg c) = mw_id c"
| "GetID (RadiusCfg c) = rw_id c"
| "GetID (DatabaseCfg c) = bw_id c"

fun GetISPID :: "StorableConfig \<Rightarrow> string" where
  "GetISPID (DeviceCfg c) = dc_ispid c"
| "GetISPID (MpesaCfg c) = mw_ispid c"
| "GetISPID (RadiusCfg c) = rw_ispid c"
| "GetISPID (DatabaseCfg c) = bw_ispid c"

fun GetType :: "StorableConfig \<Rightarrow> ConfigType" where
  "GetType (DeviceCfg c) = DeviceConfigType"
| "GetType (MpesaCfg c) = MpesaConfigType"
| "GetType (RadiusCfg c) = RadiusConfigType"
| "GetType (DatabaseCfg c) = DatabaseConfigType"

text \<open>The JSON of the structs: by tag for the device, by field name for the others; an empty
  description of a device is left out.\<close>

fun config_json :: "StorableConfig \<Rightarrow> json" where
  "config_json (DeviceCfg c) = JObj ([(''id'', JStr (dc_id c)), (''name'', JStr (dc_name c)), (''address'', JStr (dc_address c)),
     (''port'', JStr (dc_port c)), (''username'', JStr (dc_username c)), (''password'', JStr (dc_password c)),
     (''poolSize'', JNum (of_int (dc_pool_size c))), (''ispId'', JStr (dc_ispid c))] @
     (if dc_description c = [] then [] else [(''description'', JStr (dc_description c))]))"
| "config_json (MpesaCfg c) = JObj [(''ID'', JStr (mw_id c)), (''ISPID'', JStr (mw_ispid c)), (''Name'', JStr (mw_name c))]"
| "config_json (RadiusCfg c) = JObj [(''ID'', JStr (rw_id c)), (''ISPID'', JStr (rw_ispid c)), (''Server'', JStr (rw_server c)),
     (''Port'', JNum (of_int (rw_port c))), (''Secret'', JStr (rw_secret c)), (''Description'', JStr (rw_description c))]"
| "config_json (DatabaseCfg c) = JObj [(''ID'', JStr (bw_id c)), (''ISPID'', JStr (bw_ispid c)), (''Host'', JStr (bw_host c)),
     (''Port'', JNum (of_int (bw_port c))), (''Username'', JStr (bw_username c)), (''Password'', JStr (bw_password c)),
     (''Database'', JStr (bw_database c)), (''Description'', JStr (bw_description c))]"

definition dec_device :: "json \<Rightarrow> DeviceConfig option" where
  "dec_device = dec_struct (\<lambda>k v.
     if same_name k ''id'' then str_field dc_id dc_id_update v
     else if same_name k ''name'' then str_field dc_name dc_name_update v
     else if same_name k ''address'' then str_field dc_address dc_address_update v
     else if same_name k ''port'' then str_field dc_port dc_port_update v
     else if same_name k ''username'' then str_field dc_username dc_username_update v
     else if same_name k ''password'' then str_field dc_password dc_password_update v
     else if same_name k ''poolSize'' then int_field dc_pool_size dc_pool_size_update v
     else if same_name k ''ispId'' then str_field dc_ispid dc_ispid_update v
     else if same_name k ''description'' then str_field dc_description dc_description_update v
     else Some) \<lparr>dc_id = [], dc_name = [], dc_address = [], dc_port = [], dc_username = [], dc_password = [], dc_pool_size = 0,
       dc_ispid = [], dc_description = []\<rparr>"

definition dec_mpesa :: "json \<Rightarrow> MpesaConfigWrapper option" where
  "dec_mpesa = dec_struct (\<lambda>k v.
     if same_name k ''ID'' then str_field mw_id mw_id_update v
     else if same_name k ''ISPID'' then str_field mw_ispid mw_ispid_update v
     else if same_name k ''Name'' then str_field mw_name mw_name_update v
     else Some) \<lparr>mw_id = [], mw_ispid = [], mw_name = []\<rparr>"

definition dec_radius :: "json \<Rightarrow> RadiusConfigWrapper option" where
  "dec_radius = dec_struct (\<lambda>k v.
     if same_name k ''ID'' then str_field rw_id rw_id_update v
     else if same_name k ''ISPID'' then str_field rw_ispid rw_ispid_update v
     else if same_name k ''Server'' then str_field rw_server rw_server_update v
     else if same_name k ''Port'' then int_field rw_port rw_port_update v
     else if same_name k ''Secret'' then str_field rw_secret rw_secret_update v
     else if same_name k ''Description'' then str_field rw_description rw_description_update v
     else Some) \<lparr>rw_id = [], rw_ispid = [], rw_server = [], rw_port = 0, rw_secret = [], rw_description = []\<rparr>"

definition dec_database :: "json \<Rightarrow> DatabaseConfigWrapper option" where
  "dec_database = dec_struct (\<lambda>k v.
     if same_name k ''ID'' then str_field bw_id bw_id_update v
     else if same_name k ''ISPID'' then str_field bw_ispid bw_ispid_update v
     else if same_name k ''Host'' then str_field bw_host bw_host_update v
     else if same_name k ''Port'' then int_field bw_port bw_port_update v
     else if same_name k ''Username'' then str_field bw_username bw_username_update v
     else if same_name k ''Password'' then str_field bw_password bw_password_update v
     else if same_name k ''Database'' then str_field bw_database bw_database_update v
     else if same_name k ''Description'' then str_field bw_description bw_description_update v
     else Some) \<lparr>bw_id = [], bw_ispid = [], bw_host = [], bw_port = 0, bw_username = [], bw_password = [], bw_database = [],
       bw_description = []\<rparr>"

fun dec_config :: "ConfigType \<Rightarrow> json \<Rightarrow> StorableConfig option" where
  "dec_config DeviceConfigType j = map_option DeviceCfg (dec_device j)"
| "dec_config MpesaConfigType j = map_option MpesaCfg (dec_mpesa j)"
| "dec_config RadiusConfigType j = map_option RadiusCfg (dec_radius j)"
| "dec_config DatabaseConfigType j = map_option DatabaseCfg (dec_database j)"

section \<open>The store\<close>

datatype stored = Doc json | Bytes string

record store =
  kv :: "(string \<times> stored \<times> int option) list"
  kv_now :: int
  kv_faults :: "string option list"

type_synonym 'a storeprog = "(store, string, 'a) prog"

definition transaction :: "(store \<Rightarrow> 'a \<times> store) \<Rightarrow> 'a storeprog" where
  "transaction f s =
     (case kv_faults s of
        Some e # fs \<Rightarrow> (Inl (Raise e), s\<lparr>kv_faults := fs\<rparr>)
      | None # fs \<Rightarrow> (case f (s\<lparr>kv_faults := fs\<rparr>) of (a, s') \<Rightarrow> (Inr a, s'))
      | [] \<Rightarrow> (case f s of (a, s') \<Rightarrow> (Inr a, s')))"

definition set_key :: "string \<Rightarrow> stored \<Rightarrow> int option \<Rightarrow> store \<Rightarrow> store" where
  "set_key k v e s = s\<lparr>kv := AList.update k (v, e) (kv s)\<rparr>"

definition del_key :: "string \<Rightarrow> store \<Rightarrow> store" where
  "del_key k s = s\<lparr>kv := AList.delete k (kv s)\<rparr>"

definition get_key :: "string \<Rightarrow> store \<Rightarrow> stored option" where
  "get_key k s =
     (case map_of (kv s) k of
        Some (v, Some e) \<Rightarrow> if e \<le> kv_now s then None else Some v
      | Some (v, None) \<Rightarrow> Some v
      | None \<Rightarrow> None)"

definition config_key :: "ConfigType \<Rightarrow> string \<Rightarrow> string" where
  "config_key t i = type_name t @ '':'' @ i"

definition isp_prefix :: "string \<Rightarrow> ConfigType \<Rightarrow> string" where
  "isp_prefix isp t = ''isp:'' @ isp @ '':'' @ type_name t @ '':''"

definition isp_key :: "string \<Rightarrow> ConfigType \<Rightarrow> string \<Rightarrow> string" where
  "isp_key isp t i = isp_prefix isp t @ i"

definition session_key :: "string \<Rightarrow> string \<Rightarrow> string" where
  "session_key sid k = ''session:'' @ sid @ '':'' @ k"

definition SaveConfig :: "StorableConfig \<Rightarrow> unit storeprog" where
  "SaveConfig c =
     andThen (onErr (transaction (\<lambda>s. ((), set_key (config_key (GetType c) (GetID c)) (Doc (config_json c)) None s))) (\<lambda>e.
        raise (''failed to save config of type '' @ type_name (GetType c) @ '': '' @ e))) (\<lambda>_.
     if GetISPID c \<noteq> [] then
       transaction (\<lambda>s. ((), set_key (isp_key (GetISPID c) (GetType c) (GetID c)) (Bytes (GetID c)) None s))
     else ret ())"

text \<open>A configuration is read into a fresh variable of its type.\<close>

definition GetConfig :: "ConfigType \<Rightarrow> string \<Rightarrow> StorableConfig storeprog" where
  "GetConfig t i =
     andThen (onErr (transaction (\<lambda>s. (get_key (config_key t i) s, s))) (\<lambda>e.
        raise (''failed to get '' @ type_name t @ '' config: '' @ e))) (\<lambda>found.
     case found of
       None \<Rightarrow> raise (type_name t @ '' config not found: '' @ i)
     | Some v \<Rightarrow>
         (case (case v of Doc j \<Rightarrow> dec_config t j | Bytes _ \<Rightarrow> None) of
            Some c \<Rightarrow> ret c
          | None \<Rightarrow> raise (''failed to get '' @ type_name t @ '' config: unmarshal'')))"

text \<open>The keys with a prefix, in the order of the iterator.\<close>

definition keys_with :: "string \<Rightarrow> store \<Rightarrow> string list" where
  "keys_with p s = sort (filter (\<lambda>k. prefix p k \<and> get_key k s \<noteq> None) (map fst (kv s)))"

definition stored_bytes :: "stored option \<Rightarrow> string" where
  "stored_bytes v = (case v of Some (Bytes b) \<Rightarrow> b | _ \<Rightarrow> [])"

text \<open>The loop of \<^verbatim>\<open>ListConfigsByISP\<close>: a reference whose configuration is missing is skipped, one
  that does not decode ends the listing with an error.\<close>

primrec list_refs :: "ConfigType \<Rightarrow> store \<Rightarrow> string list \<Rightarrow> string + StorableConfig list" where
  "list_refs t s [] = Inr []"
| "list_refs t s (k # ks) =
     (case get_key (config_key t (stored_bytes (get_key k s))) s of
        None \<Rightarrow> list_refs t s ks
      | Some v \<Rightarrow>
          (case (case v of Doc j \<Rightarrow> dec_config t j | Bytes _ \<Rightarrow> None) of
             None \<Rightarrow> Inl ''unmarshal''
           | Some c \<Rightarrow> (case list_refs t s ks of Inl e \<Rightarrow> Inl e | Inr cs \<Rightarrow> Inr (c # cs))))"

definition ListConfigsByISP :: "string \<Rightarrow> ConfigType \<Rightarrow> StorableConfig list storeprog" where
  "ListConfigsByISP isp t =
     onErr (andThen (transaction (\<lambda>s. (list_refs t s (keys_with (isp_prefix isp t) s), s))) (\<lambda>res.
        case res of Inl e \<Rightarrow> raise e | Inr cs \<Rightarrow> ret cs)) (\<lambda>e.
        raise (''failed to list '' @ type_name t @ '' configs for ISP '' @ isp @ '': '' @ e))"

text \<open>The error of a delete has one argument more than its format has verbs, so the id is
  formatted as the error and the error is appended as an extra argument.\<close>

definition DeleteConfig :: "ConfigType \<Rightarrow> string \<Rightarrow> unit storeprog" where
  "DeleteConfig t i =
     onErr (transaction (\<lambda>s. ((), del_key (config_key t i) s))) (\<lambda>e.
       raise (''failed to delete '' @ type_name t @ '' config: %!w(string='' @ i @ '')%!(EXTRA *errors.errorString='' @ e @ '')''))"

definition SaveSessionValue :: "string \<Rightarrow> string \<Rightarrow> string \<Rightarrow> int \<Rightarrow> unit storeprog" where
  "SaveSessionValue sid k v ttl =
     transaction (\<lambda>s. ((), set_key (session_key sid k) (Bytes v) (Some (kv_now s + ttl)) s))"

definition GetSessionValue :: "string \<Rightarrow> string \<Rightarrow> string storeprog" where
  "GetSessionValue sid k =
     andThen (onErr (transaction (\<lambda>s. (get_key (session_key sid k) s, s))) (\<lambda>e.
        raise (''failed to get value for session '' @ sid @ '' and key '' @ k @ '': '' @ e))) (\<lambda>found.
     case found of
       None \<Rightarrow> raise (''no value found for session '' @ sid @ '' and key '' @ k)
     | Some v \<Rightarrow> ret (stored_bytes (Some v)))"

definition DeleteSessionValue :: "string \<Rightarrow> string \<Rightarrow> unit storeprog" where
  "DeleteSessionValue sid k = transaction (\<lambda>s. ((), del_key (session_key sid k) s))"

definition ListDeviceConfigsByISP :: "string \<Rightarrow> DeviceConfig list storeprog" where
  "ListDeviceConfigsByISP isp = andThen (ListConfigsByISP isp DeviceConfigType) (\<lambda>cs. ret (map the_device cs))"

definition ListMpesaConfigsByISP :: "string \<Rightarrow> MpesaConfigWrapper list storeprog" where
  "ListMpesaConfigsByISP isp = andThen (ListConfigsByISP isp MpesaConfigType) (\<lambda>cs. ret (map the_mpesa cs))"

definition ListRadiusConfigsByISP :: "string \<Rightarrow> RadiusConfigWrapper list storeprog" where
  "ListRadiusConfigsByISP isp = andThen (ListConfigsByISP isp RadiusConfigType) (\<lambda>cs. ret (map the_radius cs))"

definition ListDatabaseConfigsByISP :: "string \<Rightarrow> DatabaseConfigWrapper list storeprog" where
  "ListDatabaseConfigsByISP isp = andThen (ListConfigsByISP isp DatabaseConfigType) (\<lambda>cs. ret (map the_database cs))"

section \<open>What is written is read\<close>

lemma config_names [simp]:
  "same_name ''name'' ''id'' = False" "same_name ''address'' ''id'' = False" "same_name ''address'' ''name'' = False"
  "same_name ''port'' ''id'' = False" "same_name ''port'' ''name'' = False" "same_name ''port'' ''address'' = False"
  "same_name ''username'' ''id'' = False" "same_name ''username'' ''name'' = False" "same_name ''username'' ''address'' = False"
  "same_name ''username'' ''port'' = False" "same_name ''password'' ''id'' = False" "same_name ''password'' ''name'' = False"
  "same_name ''password'' ''address'' = False" "same_name ''password'' ''port'' = False"
  "same_name ''password'' ''username'' = False" "same_name ''poolSize'' ''id'' = False" "same_name ''poolSize'' ''name'' = False"
  "same_name ''poolSize'' ''address'' = False" "same_name ''poolSize'' ''port'' = False"
  "same_name ''poolSize'' ''username'' = False" "same_name ''poolSize'' ''password'' = False"
  "same_name ''ispId'' ''id'' = False" "same_name ''ispId'' ''name'' = False" "same_name ''ispId'' ''address'' = False"
  "same_name ''ispId'' ''port'' = False" "same_name ''ispId'' ''username'' = False" "same_name ''ispId'' ''password'' = False"
  "same_name ''ispId'' ''poolSize'' = False" "same_name ''description'' ''id'' = False" "same_name ''description'' ''name'' = False"
  "same_name ''description'' ''address'' = False" "same_name ''description'' ''port'' = False"
  "same_name ''description'' ''username'' = False" "same_name ''description'' ''password'' = False"
  "same_name ''description'' ''poolSize'' = False" "same_name ''description'' ''ispId'' = False"
  "same_name ''ISPID'' ''ID'' = False" "same_name ''Name'' ''ID'' = False" "same_name ''Name'' ''ISPID'' = False"
  "same_name ''Server'' ''ID'' = False" "same_name ''Server'' ''ISPID'' = False"
  "same_name ''Port'' ''ID'' = False" "same_name ''Port'' ''ISPID'' = False" "same_name ''Port'' ''Server'' = False"
  "same_name ''Secret'' ''ID'' = False" "same_name ''Secret'' ''ISPID'' = False" "same_name ''Secret'' ''Server'' = False"
  "same_name ''Secret'' ''Port'' = False" "same_name ''Description'' ''ID'' = False" "same_name ''Description'' ''ISPID'' = False"
  "same_name ''Description'' ''Server'' = False" "same_name ''Description'' ''Port'' = False"
  "same_name ''Description'' ''Secret'' = False" "same_name ''Host'' ''ID'' = False" "same_name ''Host'' ''ISPID'' = False"
  "same_name ''Port'' ''Host'' = False" "same_name ''Username'' ''ID'' = False" "same_name ''Username'' ''ISPID'' = False"
  "same_name ''Username'' ''Host'' = False" "same_name ''Username'' ''Port'' = False"
  "same_name ''Password'' ''ID'' = False" "same_name ''Password'' ''ISPID'' = False" "same_name ''Password'' ''Host'' = False"
  "same_name ''Password'' ''Port'' = False" "same_name ''Password'' ''Username'' = False"
  "same_name ''Database'' ''ID'' = False" "same_name ''Database'' ''ISPID'' = False" "same_name ''Database'' ''Host'' = False"
  "same_name ''Database'' ''Port'' = False" "same_name ''Database'' ''Username'' = False" "same_name ''Database'' ''Password'' = False"
  "same_name ''Description'' ''Host'' = False" "same_name ''Description'' ''Username'' = False"
  "same_name ''Description'' ''Password'' = False" "same_name ''Description'' ''Database'' = False"
  by code_simp+

text \<open>The numbers of a configuration fit an int.\<close>

fun int_numbers :: "StorableConfig \<Rightarrow> bool" where
  "int_numbers (DeviceCfg c) = (- (2 ^ 63) \<le> dc_pool_size c \<and> dc_pool_size c < 2 ^ 63)"
| "int_numbers (MpesaCfg c) = True"
| "int_numbers (RadiusCfg c) = (- (2 ^ 63) \<le> rw_port c \<and> rw_port c < 2 ^ 63)"
| "int_numbers (DatabaseCfg c) = (- (2 ^ 63) \<le> bw_port c \<and> bw_port c < 2 ^ 63)"

interpretation config: codec config_json "dec_config t" "\<lambda>c. GetType c = t \<and> int_numbers c" for t
proof unfold_locales
  fix c assume "GetType c = t \<and> int_numbers c"
  then show "dec_config t (config_json c) = Some c"
    by (cases c)
      (auto simp: dec_struct_def str_field_def int_field_def dec_string_def dec_int_def dec_device_def dec_mpesa_def dec_radius_def
        dec_database_def)
qed

text \<open>Keys: the type of a configuration has no colon, so its key tells type and id apart, and the
  first part tells the three kinds of keys apart.\<close>

lemma type_names:
  "type_name t = type_name t' \<longleftrightarrow> t = t'" "CHR '':'' \<notin> set (type_name t)" "type_name t \<noteq> []"
  by (cases t; cases t'; simp)+

lemma colon_split: "CHR '':'' \<notin> set a \<Longrightarrow> CHR '':'' \<notin> set b \<Longrightarrow> a @ '':'' @ x = b @ '':'' @ y \<longleftrightarrow> a = b \<and> x = y"
proof (induction a arbitrary: b)
  case Nil
  then show ?case by (cases b) auto
next
  case (Cons c a)
  then show ?case by (cases b) auto
qed

lemma config_key_inj [simp]: "config_key t i = config_key t' i' \<longleftrightarrow> t = t' \<and> i = i'"
  unfolding config_key_def using colon_split [OF type_names(2) type_names(2)] type_names(1) by blast

lemma keys_apart [simp]:
  "config_key t i \<noteq> isp_key isp t' j" "isp_key isp t' j \<noteq> config_key t i"
  "config_key t i \<noteq> session_key sid k" "session_key sid k \<noteq> config_key t i"
  "isp_key isp t j \<noteq> session_key sid k" "session_key sid k \<noteq> isp_key isp t j"
  by (cases t; cases t'; simp add: config_key_def isp_key_def isp_prefix_def session_key_def)+

lemma get_set [simp]:
  "get_key k (set_key k' v e s) =
     (if k = k' then (case e of None \<Rightarrow> Some v | Some x \<Rightarrow> if x \<le> kv_now s then None else Some v) else get_key k s)"
  by (auto simp: get_key_def set_key_def update_conv' split: option.split)

lemma get_del [simp]: "get_key k (del_key k' s) = (if k = k' then None else get_key k s)"
  by (auto simp: get_key_def del_key_def delete_conv' split: option.split)

lemma set_key_faults [simp]: "kv_faults (set_key k v e s) = kv_faults s" "kv_faults (del_key k s) = kv_faults s"
  by (simp_all add: set_key_def del_key_def)

lemma transaction_run: "kv_faults s = [] \<Longrightarrow> transaction f s = (Inr (fst (f s)), snd (f s))"
  by (simp add: transaction_def split: prod.split)

definition saved :: "StorableConfig \<Rightarrow> store \<Rightarrow> store" where
  "saved c s =
     (let s1 = set_key (config_key (GetType c) (GetID c)) (Doc (config_json c)) None s in
      if GetISPID c \<noteq> [] then set_key (isp_key (GetISPID c) (GetType c) (GetID c)) (Bytes (GetID c)) None s1 else s1)"

lemma SaveConfig_run: "kv_faults s = [] \<Longrightarrow> SaveConfig c s = (Inr (), saved c s)"
  by (simp add: SaveConfig_def andThen_def onErr_def transaction_run saved_def Let_def ret_def)

lemma GetConfig_run:
  "kv_faults s = [] \<Longrightarrow> GetConfig t i s =
     (case get_key (config_key t i) s of
        None \<Rightarrow> (Inl (Raise (type_name t @ '' config not found: '' @ i)), s)
      | Some v \<Rightarrow>
         (case (case v of Doc j \<Rightarrow> dec_config t j | Bytes _ \<Rightarrow> None) of
            Some c \<Rightarrow> (Inr c, s)
          | None \<Rightarrow> (Inl (Raise (''failed to get '' @ type_name t @ '' config: unmarshal'')), s)))"
  by (simp add: GetConfig_def andThen_def onErr_def transaction_run ret_def raise_def split: option.split)

lemma get_saved:
  "get_key (config_key t i) (saved c s) =
     (if t = GetType c \<and> i = GetID c then Some (Doc (config_json c)) else get_key (config_key t i) s)"
  by (simp add: saved_def Let_def)

lemma saved_faults [simp]: "kv_faults (saved c s) = kv_faults s"
  by (simp add: saved_def Let_def)

lemma now_kept [simp]: "kv_now (set_key k v e s) = kv_now s" "kv_now (del_key k s) = kv_now s"
  by (simp_all add: set_key_def del_key_def)

text \<open>The keys a save leaves: those before it and those of the configuration.\<close>

lemma kv_set_keys: "set (map fst (kv (set_key k v e s))) = insert k (set (map fst (kv s)))"
  by (simp add: set_key_def dom_update)

lemma keys_with_set: "set (keys_with p s) = {k. prefix p k \<and> get_key k s \<noteq> None}"
proof -
  have "k \<in> fst ` set (kv s)" if "get_key k s \<noteq> None" for k
    using that by (auto simp: get_key_def dom_map_of_conv_image_fst [symmetric] split: option.splits)
  then show ?thesis by (auto simp: keys_with_def)
qed

lemma list_refs_mem:
  assumes "list_refs t s ks = Inr cs" and "k \<in> set ks"
    and "get_key (config_key t (stored_bytes (get_key k s))) s = Some (Doc j)" and "dec_config t j = Some c"
  shows "c \<in> set cs"
  using assms by (induction ks arbitrary: cs) (auto split: option.splits stored.splits sum.splits)

text \<open>The references by ISP are only ever added: a configuration saved again under another ISP is
  listed for both.\<close>

lemma moved_config_listed_twice:
  assumes "kv_faults s = []" and "int_numbers c'" and "GetType c' = GetType c" and "GetID c' = GetID c"
    and "GetISPID c \<noteq> []"
    and "ListConfigsByISP (GetISPID c) (GetType c) (saved c' (saved c s)) = (Inr cs, s')"
  shows "c' \<in> set cs"
proof -
  let ?s = "saved c' (saved c s)" and ?k = "isp_key (GetISPID c) (GetType c) (GetID c)"
  have ref: "get_key ?k ?s = Some (Bytes (GetID c))" using assms(3,4,5) by (auto simp: saved_def Let_def)
  have "?k \<in> set (keys_with (isp_prefix (GetISPID c) (GetType c)) ?s)"
    using ref by (simp add: keys_with_set isp_key_def)
  moreover have "get_key (config_key (GetType c) (GetID c)) ?s = Some (Doc (config_json c'))"
    using assms(3,4) by (simp add: get_saved)
  moreover have "dec_config (GetType c) (config_json c') = Some c'"
    using assms(2,3) by (simp add: config.dec_enc)
  moreover have "list_refs (GetType c) ?s (keys_with (isp_prefix (GetISPID c) (GetType c)) ?s) = Inr cs"
    using assms(1,6)
    by (simp add: ListConfigsByISP_def onErr_def andThen_def transaction_run raise_def ret_def split: sum.splits)
  ultimately show ?thesis using ref by (auto intro: list_refs_mem simp: stored_bytes_def)
qed

text \<open>A session value is read back until its time has run out.\<close>

lemma session_value_lives:
  assumes "kv_faults s = []" and "SaveSessionValue sid k v ttl s = (Inr (), s1)"
  shows "fst (GetSessionValue sid k (s1\<lparr>kv_now := t\<rparr>)) =
    (if kv_now s + ttl \<le> t then Inl (Raise (''no value found for session '' @ sid @ '' and key '' @ k)) else Inr v)"
proof -
  have s1: "s1 = set_key (session_key sid k) (Bytes v) (Some (kv_now s + ttl)) s"
    using assms by (simp add: SaveSessionValue_def transaction_run)
  have "map_of (kv s1) (session_key sid k) = Some (Bytes v, Some (kv_now s + ttl))"
    by (simp add: s1 set_key_def update_conv')
  moreover have "kv_faults (s1\<lparr>kv_now := t\<rparr>) = []" using assms(1) by (simp add: s1)
  ultimately show ?thesis
    by (simp add: GetSessionValue_def onErr_def andThen_def transaction_run get_key_def stored_bytes_def raise_def ret_def)
qed

text \<open>The parts of a session key are joined by a character they may contain: two sessions can name
  the same value.\<close>

lemma session_keys_collide: "session_key ''a'' ''b:c'' = session_key ''a:b'' ''c''"
  by (simp add: session_key_def)

section \<open>Properties\<close>

text \<open>C34.  A configuration that was saved is read back as it was, under its type and id, and no
  other configuration changes, whatever characters the ids have; after a delete it is gone.\<close>

theorem config_roundtrip:
  assumes "kv_faults s = []" and "int_numbers c" and "SaveConfig c s = (Inr (), s1)"
    and "DeleteConfig (GetType c) (GetID c) s1 = (Inr (), s2)"
  shows "GetConfig (GetType c) (GetID c) s1 = (Inr c, s1) \<and>
    (\<forall>t i. (t, i) \<noteq> (GetType c, GetID c) \<longrightarrow>
       fst (GetConfig t i s1) = fst (GetConfig t i s) \<and> fst (GetConfig t i s2) = fst (GetConfig t i s)) \<and>
    fst (GetConfig (GetType c) (GetID c) s2) = Inl (Raise (type_name (GetType c) @ '' config not found: '' @ GetID c))"
proof -
  have s1: "s1 = saved c s" using SaveConfig_run [OF assms(1), of c] assms(3) by simp
  have f: "kv_faults s1 = []" using assms(1) by (simp add: s1)
  have s2: "s2 = del_key (config_key (GetType c) (GetID c)) s1"
    using assms(4) f by (simp add: DeleteConfig_def onErr_def transaction_run)
  have "dec_config (GetType c) (config_json c) = Some c" using assms(2) by (simp add: config.dec_enc)
  then show ?thesis
    using assms(1) f
    by (auto simp: GetConfig_run s1 s2 get_saved split: option.split)
qed

definition demo_store :: store where
  "demo_store = \<lparr>kv = [], kv_now = 0, kv_faults = []\<rparr>"

definition demo_radius :: StorableConfig where
  "demo_radius = RadiusCfg \<lparr>rw_id = ''r:1'', rw_ispid = ''isp'', rw_server = ''10.0.0.1'', rw_port = 1812, rw_secret = ''s'',
     rw_description = []\<rparr>"

theorem config_roundtrip_witness:
  "GetConfig RadiusConfigType ''r:1'' (saved demo_radius demo_store) = (Inr demo_radius, saved demo_radius demo_store)"
proof -
  have f: "kv_faults demo_store = []" by (simp add: demo_store_def)
  have d: "DeleteConfig (GetType demo_radius) (GetID demo_radius) (saved demo_radius demo_store) =
    (Inr (), del_key (config_key (GetType demo_radius) (GetID demo_radius)) (saved demo_radius demo_store))"
    using f by (simp add: DeleteConfig_def onErr_def transaction_run)
  have "int_numbers demo_radius" by (simp add: demo_radius_def)
  from config_roundtrip [OF f this SaveConfig_run [OF f] d] show ?thesis by (simp add: demo_radius_def)
qed

end
