(* ===== verification/App_Config.thy ===== *)
theory App_Config
  imports Go_Time
begin

text \<open>
  The configuration of the application, field by field: the structs of config/config.go,
  config/database.go, config/email.go, config/logger.go, config/security.go, config/server.go,
  config/view.go, lib/hashing.go and lib/middleware/jwt.go, their zero values, and the questions of
  config/getConfig.go.  The fields \<^verbatim>\<open>Auth\<close> and \<^verbatim>\<open>Badger\<close> of \<^verbatim>\<open>Configuration\<close> are left
  out: nothing sets or reads them.
\<close>

section \<open>Structs\<close>

record Status2FA =
  s2_verified :: string
  s2_on :: string
  s2_off :: string
  s2_invalid :: string

record HashPassConfig =
  hp_memory :: nat
  hp_iterations :: nat
  hp_parallelism :: nat
  hp_salt_length :: nat
  hp_key_length :: nat

datatype jwt_key = NoKey | KeyBytes string | PrivECDSA string | PubECDSA string | PrivRSA string | PubRSA string

record JWTParameters =
  jp_algorithm :: string
  jp_access_key :: string
  jp_access_ttl :: int
  jp_refresh_key :: string
  jp_refresh_ttl :: int
  jp_priv_ecdsa :: string
  jp_pub_ecdsa :: string
  jp_priv_rsa :: string
  jp_pub_rsa :: string
  jp_audience :: string
  jp_issuer :: string
  jp_acc_nbf :: int
  jp_ref_nbf :: int
  jp_subject :: string

text \<open>The numbers of the hash and of the \<^verbatim>\<open>SameSite\<close> mode are those of the packages
  \<^verbatim>\<open>crypto\<close> and \<^verbatim>\<open>net/http\<close>.\<close>

record SecurityConfig =
  sc_user_pass_min_length :: int
  sc_must_basic_auth :: string
  sc_basic_username :: string
  sc_basic_password :: string
  sc_must_jwt :: string
  sc_jwt :: JWTParameters
  sc_invalidate_jwt :: string
  sc_auth_cookie_activate :: bool
  sc_auth_cookie_path :: string
  sc_auth_cookie_domain :: string
  sc_auth_cookie_secure :: bool
  sc_auth_cookie_http_only :: bool
  sc_auth_cookie_same_site :: nat
  sc_serve_jwt_as_res_body :: bool
  sc_must_hash :: string
  sc_hash_pass :: HashPassConfig
  sc_hash_sec :: string
  sc_must_cipher :: bool
  sc_cipher_key :: string
  sc_blake2b_sec :: string
  sc_verify_email :: bool
  sc_recover_pass :: bool
  sc_must_fw :: string
  sc_fw_list_type :: string
  sc_fw_ip :: string
  sc_must_cors :: string
  sc_cors :: "(string \<times> string) list"
  sc_check_origin :: string
  sc_rate_limit :: string
  sc_trusted_platform :: string
  sc_must_2fa :: string
  sc_2fa_issuer :: string
  sc_2fa_crypto :: nat
  sc_2fa_digits :: int
  sc_2fa_status :: Status2FA
  sc_2fa_path_qr :: string
  sc_2fa_double_hash :: bool

record EmailConfig =
  ec_activate :: string
  ec_provider :: string
  ec_api_token :: string
  ec_addr_from :: string
  ec_track_opens :: bool
  ec_track_links :: string
  ec_delivery_type :: string
  ec_verification_template :: int
  ec_recover_template :: int
  ec_update_template :: int
  ec_verification_uuid :: bool
  ec_verification_length :: nat
  ec_recover_uuid :: bool
  ec_recover_length :: nat
  ec_verification_tag :: string
  ec_recover_tag :: string
  ec_html_model :: string
  ec_verify_period :: nat
  ec_recover_period :: nat

record RDBMSConfig =
  rd_activate :: string
  rd_driver :: string
  rd_host :: string
  rd_port :: string
  rd_time_zone :: string
  rd_db_name :: string
  rd_user :: string
  rd_pass :: string
  rd_sslmode :: string
  rd_min_tls :: string
  rd_root_ca :: string
  rd_server_cert :: string
  rd_client_cert :: string
  rd_client_key :: string
  rd_max_idle_conns :: int
  rd_max_open_conns :: int
  rd_conn_max_lifetime :: int
  rd_log_level :: int

record RedisConfig =
  re_activate :: string
  re_host :: string
  re_port :: string
  re_pool_size :: int
  re_conn_ttl :: int

record MongoConfig =
  mo_activate :: string
  mo_app_name :: string
  mo_uri :: string
  mo_pool_size :: nat
  mo_pool_mon :: string
  mo_conn_ttl :: int

record BadgerDb =
  bd_activate :: string
  bd_data_dir :: string

record DatabaseConfig =
  db_rdbms :: "string \<Rightarrow> RDBMSConfig option"
  db_redis :: RedisConfig
  db_mongo :: MongoConfig
  db_badger :: BadgerDb

record LoggerConfig =
  lg_activate :: string
  lg_sentry_dsn :: string
  lg_performance_tracing :: string
  lg_traces_sample_rate :: string

record ServerConfig =
  sv_host :: string
  sv_port :: string
  sv_env :: string

record ViewConfig =
  vw_activate :: string
  vw_directory :: string

record Configuration =
  cf_version :: string
  cf_database :: DatabaseConfig
  cf_email :: EmailConfig
  cf_logger :: LoggerConfig
  cf_server :: ServerConfig
  cf_security :: SecurityConfig
  cf_view :: ViewConfig

subsection \<open>Zero values\<close>

definition no_jwt_parameters :: JWTParameters where
  "no_jwt_parameters =
     \<lparr>jp_algorithm = [], jp_access_key = [], jp_access_ttl = 0, jp_refresh_key = [], jp_refresh_ttl = 0, jp_priv_ecdsa = [],
      jp_pub_ecdsa = [], jp_priv_rsa = [], jp_pub_rsa = [], jp_audience = [], jp_issuer = [], jp_acc_nbf = 0, jp_ref_nbf = 0,
      jp_subject = []\<rparr>"

definition no_hash_pass :: HashPassConfig where
  "no_hash_pass = \<lparr>hp_memory = 0, hp_iterations = 0, hp_parallelism = 0, hp_salt_length = 0, hp_key_length = 0\<rparr>"

definition no_status :: Status2FA where
  "no_status = \<lparr>s2_verified = [], s2_on = [], s2_off = [], s2_invalid = []\<rparr>"

definition no_security :: SecurityConfig where
  "no_security =
     \<lparr>sc_user_pass_min_length = 0, sc_must_basic_auth = [], sc_basic_username = [], sc_basic_password = [], sc_must_jwt = [],
      sc_jwt = no_jwt_parameters, sc_invalidate_jwt = [], sc_auth_cookie_activate = False, sc_auth_cookie_path = [],
      sc_auth_cookie_domain = [], sc_auth_cookie_secure = False, sc_auth_cookie_http_only = False, sc_auth_cookie_same_site = 0,
      sc_serve_jwt_as_res_body = False, sc_must_hash = [], sc_hash_pass = no_hash_pass, sc_hash_sec = [], sc_must_cipher = False,
      sc_cipher_key = [], sc_blake2b_sec = [], sc_verify_email = False, sc_recover_pass = False, sc_must_fw = [],
      sc_fw_list_type = [], sc_fw_ip = [], sc_must_cors = [], sc_cors = [], sc_check_origin = [], sc_rate_limit = [],
      sc_trusted_platform = [], sc_must_2fa = [], sc_2fa_issuer = [], sc_2fa_crypto = 0, sc_2fa_digits = 0,
      sc_2fa_status = no_status, sc_2fa_path_qr = [], sc_2fa_double_hash = False\<rparr>"

definition no_email :: EmailConfig where
  "no_email =
     \<lparr>ec_activate = [], ec_provider = [], ec_api_token = [], ec_addr_from = [], ec_track_opens = False, ec_track_links = [],
      ec_delivery_type = [], ec_verification_template = 0, ec_recover_template = 0, ec_update_template = 0,
      ec_verification_uuid = False, ec_verification_length = 0, ec_recover_uuid = False, ec_recover_length = 0,
      ec_verification_tag = [], ec_recover_tag = [], ec_html_model = [], ec_verify_period = 0, ec_recover_period = 0\<rparr>"

definition no_rdbms :: RDBMSConfig where
  "no_rdbms =
     \<lparr>rd_activate = [], rd_driver = [], rd_host = [], rd_port = [], rd_time_zone = [], rd_db_name = [], rd_user = [], rd_pass = [],
      rd_sslmode = [], rd_min_tls = [], rd_root_ca = [], rd_server_cert = [], rd_client_cert = [], rd_client_key = [],
      rd_max_idle_conns = 0, rd_max_open_conns = 0, rd_conn_max_lifetime = 0, rd_log_level = 0\<rparr>"

definition no_redis :: RedisConfig where
  "no_redis = \<lparr>re_activate = [], re_host = [], re_port = [], re_pool_size = 0, re_conn_ttl = 0\<rparr>"

definition no_mongo :: MongoConfig where
  "no_mongo = \<lparr>mo_activate = [], mo_app_name = [], mo_uri = [], mo_pool_size = 0, mo_pool_mon = [], mo_conn_ttl = 0\<rparr>"

definition no_database :: DatabaseConfig where
  "no_database = \<lparr>db_rdbms = Map.empty, db_redis = no_redis, db_mongo = no_mongo, db_badger = \<lparr>bd_activate = [], bd_data_dir = []\<rparr>\<rparr>"

definition no_logger :: LoggerConfig where
  "no_logger = \<lparr>lg_activate = [], lg_sentry_dsn = [], lg_performance_tracing = [], lg_traces_sample_rate = []\<rparr>"

definition no_server :: ServerConfig where
  "no_server = \<lparr>sv_host = [], sv_port = [], sv_env = []\<rparr>"

definition no_view :: ViewConfig where
  "no_view = \<lparr>vw_activate = [], vw_directory = []\<rparr>"

section \<open>Questions\<close>

definition AppDB :: string where "AppDB = ''wifigo''"

definition RadiusDB :: string where "RadiusDB = ''radius''"

definition Activated :: string where "Activated = ''yes''"

definition IsJWT :: "Configuration \<Rightarrow> bool" where
  "IsJWT cfg \<longleftrightarrow> sc_must_jwt (cf_security cfg) = Activated"

definition InvalidateJWT :: "Configuration \<Rightarrow> bool" where
  "InvalidateJWT cfg \<longleftrightarrow> sc_invalidate_jwt (cf_security cfg) = Activated"

definition IsAuthCookie :: "Configuration \<Rightarrow> bool" where
  "IsAuthCookie cfg \<longleftrightarrow> sc_auth_cookie_activate (cf_security cfg)"

definition IsCipher :: "Configuration \<Rightarrow> bool" where
  "IsCipher cfg \<longleftrightarrow> sc_must_cipher (cf_security cfg)"

definition Is2FA :: "Configuration \<Rightarrow> bool" where
  "Is2FA cfg \<longleftrightarrow> sc_must_2fa (cf_security cfg) = Activated"

definition Is2FADoubleHash :: "Configuration \<Rightarrow> bool" where
  "Is2FADoubleHash cfg \<longleftrightarrow> sc_2fa_double_hash (cf_security cfg)"

definition IsRDBMS :: "Configuration \<Rightarrow> bool" where
  "IsRDBMS cfg \<longleftrightarrow> rd_activate (case db_rdbms (cf_database cfg) AppDB of Some r \<Rightarrow> r | None \<Rightarrow> no_rdbms) = Activated"

definition IsRedis :: "Configuration \<Rightarrow> bool" where
  "IsRedis cfg \<longleftrightarrow> re_activate (db_redis (cf_database cfg)) = Activated"

definition IsEmailService :: "Configuration \<Rightarrow> bool" where
  "IsEmailService cfg \<longleftrightarrow> ec_activate (cf_email cfg) = Activated"

definition IsEmailVerificationService :: "Configuration \<Rightarrow> bool" where
  "IsEmailVerificationService cfg \<longleftrightarrow> sc_verify_email (cf_security cfg)"

definition IsPassRecoveryService :: "Configuration \<Rightarrow> bool" where
  "IsPassRecoveryService cfg \<longleftrightarrow> sc_recover_pass (cf_security cfg)"

definition IsEmailVerificationCodeUUIDv4 :: "Configuration \<Rightarrow> bool" where
  "IsEmailVerificationCodeUUIDv4 cfg \<longleftrightarrow> ec_verification_uuid (cf_email cfg)"

definition IsPasswordRecoverCodeUUIDv4 :: "Configuration \<Rightarrow> bool" where
  "IsPasswordRecoverCodeUUIDv4 cfg \<longleftrightarrow> ec_recover_uuid (cf_email cfg)"

definition IsProd :: "Configuration \<Rightarrow> bool" where
  "IsProd cfg \<longleftrightarrow> sv_env (cf_server cfg) = ''production''"

definition IsSentry :: "Configuration \<Rightarrow> bool" where
  "IsSentry cfg \<longleftrightarrow> lg_activate (cf_logger cfg) = Activated"

definition IsBasicAuth :: "Configuration \<Rightarrow> bool" where
  "IsBasicAuth cfg \<longleftrightarrow> sc_must_basic_auth (cf_security cfg) = Activated"

definition IsHashPass :: "Configuration \<Rightarrow> bool" where
  "IsHashPass cfg \<longleftrightarrow> sc_must_hash (cf_security cfg) = Activated"

definition IsWAF :: "Configuration \<Rightarrow> bool" where
  "IsWAF cfg \<longleftrightarrow> sc_must_fw (cf_security cfg) = Activated"

definition IsCORS :: "Configuration \<Rightarrow> bool" where
  "IsCORS cfg \<longleftrightarrow> sc_must_cors (cf_security cfg) = Activated"

definition IsOriginCheck :: "Configuration \<Rightarrow> bool" where
  "IsOriginCheck cfg \<longleftrightarrow> sc_check_origin (cf_security cfg) = Activated"

definition IsRateLimit :: "Configuration \<Rightarrow> bool" where
  "IsRateLimit cfg \<longleftrightarrow> sc_rate_limit (cf_security cfg) \<noteq> []"

definition IsTemplatingEngine :: "Configuration \<Rightarrow> bool" where
  "IsTemplatingEngine cfg \<longleftrightarrow> vw_activate (cf_view cfg) = Activated"

definition IsMongo :: "Configuration \<Rightarrow> bool" where
  "IsMongo cfg \<longleftrightarrow> mo_activate (db_mongo (cf_database cfg)) = Activated"

definition IsBadger :: "Configuration \<Rightarrow> bool" where
  "IsBadger cfg \<longleftrightarrow> bd_activate (db_badger (cf_database cfg)) = Activated"

abbreviation "tfa_status cfg \<equiv> sc_2fa_status (cf_security cfg)"
abbreviation "tfa_digits cfg \<equiv> sc_2fa_digits (cf_security cfg)"
abbreviation "jwt_params cfg \<equiv> sc_jwt (cf_security cfg)"

end
