(* ===== verification/Go_Bytes.thy ===== *)
theory Go_Bytes
  imports Mpesa_Payload
begin

text \<open>
  Encodings of bytes that the account handlers use: \<^verbatim>\<open>encoding/hex\<close>, the decoder of
  \<^verbatim>\<open>base64.StdEncoding\<close> (its encoder is in Mpesa\_Payload), and the syntax of an email address
  that lib/validateEmail.go checks with a regular expression.
\<close>

section \<open>Hexadecimal\<close>

definition hex_char :: "nat \<Rightarrow> char" where
  "hex_char n = ''0123456789abcdef'' ! n"

definition hex_val :: "char \<Rightarrow> nat option" where
  "hex_val c =
     (let n = (of_char c :: nat) in
      if 48 \<le> n \<and> n \<le> 57 then Some (n - 48)
      else if 97 \<le> n \<and> n \<le> 102 then Some (n - 87)
      else if 65 \<le> n \<and> n \<le> 70 then Some (n - 55)
      else None)"

text \<open>\<^verbatim>\<open>hex.EncodeToString\<close> and \<^verbatim>\<open>hex.DecodeString\<close>.\<close>

fun hex_encode :: "string \<Rightarrow> string" where
  "hex_encode [] = []"
| "hex_encode (c # s) = hex_char ((of_char c :: nat) div 16) # hex_char ((of_char c :: nat) mod 16) # hex_encode s"

fun hex_decode :: "string \<Rightarrow> string option" where
  "hex_decode [] = Some []"
| "hex_decode [c] = None"
| "hex_decode (a # b # s) =
     (case (hex_val a, hex_val b, hex_decode s) of
        (Some x, Some y, Some t) \<Rightarrow> Some (char_of (16 * x + y) # t)
      | _ \<Rightarrow> None)"

lemma hex_val_char: "n < 16 \<Longrightarrow> hex_val (hex_char n) = Some n"
proof -
  have "\<forall>n \<in> set [0..<16]. hex_val (hex_char n) = Some n" by code_simp
  then show "n < 16 \<Longrightarrow> hex_val (hex_char n) = Some n" by simp
qed

lemma of_char_less: "(of_char c :: nat) < 256"
  by (metis of_char_mod_256 mod_less_divisor zero_less_numeral)

lemma high_digit: "(of_char c :: nat) div 16 < 16"
  using of_char_less [of c] by (simp add: less_mult_imp_div_less)

lemma hex_roundtrip [simp]: "hex_decode (hex_encode s) = Some s"
  by (induction s) (simp_all add: hex_val_char high_digit)

lemma hex_encode_inject: "hex_encode s = hex_encode t \<longleftrightarrow> s = t"
  by (metis hex_roundtrip option.inject)

section \<open>Decoding base64\<close>

text \<open>The decoder skips carriage returns and newlines, wants full groups of four characters
  with their padding, and ignores the unused bits of the last group.\<close>

definition base64_val :: "char \<Rightarrow> int option" where
  "base64_val c =
     (let n = (of_char c :: int) in
      if 65 \<le> n \<and> n \<le> 90 then Some (n - 65)
      else if 97 \<le> n \<and> n \<le> 122 then Some (n - 71)
      else if 48 \<le> n \<and> n \<le> 57 then Some (n + 4)
      else if n = 43 then Some 62
      else if n = 47 then Some 63
      else None)"

fun decode_groups :: "string \<Rightarrow> string option" where
  "decode_groups [] = Some []"
| "decode_groups (a # b # c # d # s) =
     (case (base64_val a, base64_val b) of
        (Some p, Some q) \<Rightarrow>
          (case base64_val c of
             None \<Rightarrow>
               if c = CHR ''='' \<and> d = CHR ''='' \<and> s = [] then Some [char_of ((p * 64 + q) div 16)] else None
           | Some r \<Rightarrow>
               (case base64_val d of
                  None \<Rightarrow>
                    if d = CHR ''='' \<and> s = []
                    then (let n = ((p * 64 + q) * 64 + r) div 4 in Some [char_of (n div 256), char_of (n mod 256)])
                    else None
                | Some t \<Rightarrow>
                    (let n = ((p * 64 + q) * 64 + r) * 64 + t in
                     map_option (\<lambda>u. char_of (n div 65536) # char_of (n div 256 mod 256) # char_of (n mod 256) # u)
                       (decode_groups s))))
      | _ \<Rightarrow> None)"
| "decode_groups _ = None"

definition base64_decode :: "string \<Rightarrow> string option" where
  "base64_decode s = decode_groups (filter (\<lambda>c. c \<noteq> CHR 0x0A \<and> c \<noteq> CHR 0x0D) s)"

lemma base64_val_char: "0 \<le> n \<Longrightarrow> n < 64 \<Longrightarrow> base64_val (base64_char n) = Some n"
proof -
  have "\<forall>n \<in> set [0..63]. base64_val (base64_char n) = Some n" by code_simp
  then show "0 \<le> n \<Longrightarrow> n < 64 \<Longrightarrow> base64_val (base64_char n) = Some n" by simp
qed

lemma base64_char_plain: "0 \<le> n \<Longrightarrow> n < 64 \<Longrightarrow> base64_char n \<noteq> CHR 0x0A \<and> base64_char n \<noteq> CHR 0x0D"
proof -
  have "base64_val (CHR 0x0A) = None" "base64_val (CHR 0x0D) = None" by code_simp+
  then show "0 \<le> n \<Longrightarrow> n < 64 \<Longrightarrow> base64_char n \<noteq> CHR 0x0A \<and> base64_char n \<noteq> CHR 0x0D"
    by (metis base64_val_char option.distinct(1))
qed

lemma of_char_int: "0 \<le> (of_char c :: int) \<and> (of_char c :: int) < 256"
  by (metis of_char_mod_256 pos_mod_bound pos_mod_sign zero_less_numeral)

lemma equals_no_digit [simp]: "base64_val CHR ''='' = None"
  by code_simp

lemma quotient: "0 \<le> r \<Longrightarrow> r < m \<Longrightarrow> (x * m + r) div m = x" "0 \<le> r \<Longrightarrow> r < m \<Longrightarrow> (x * m + r) mod m = r" for m :: int
  by simp_all

lemma sextet: "0 \<le> n mod 64" "n mod 64 < (64::int)"
  by simp_all

lemma join_sextet: "0 < m \<Longrightarrow> n div (m * 64) * 64 + n div m mod 64 = n div m" for n m :: int
  by (metis div_mult_mod_eq mult.commute zdiv_zmult2_eq zero_le_numeral)

lemma first_sextet:
  assumes "0 \<le> n" and "n < 64 * m" and "0 < m"
  shows "0 \<le> n div m" "n div m < (64::int)"
proof -
  show "0 \<le> n div m" using assms by (simp add: pos_imp_zdiv_nonneg_iff)
  have "n div m * m \<le> n" using assms(3) by (simp add: minus_mod_eq_div_mult [symmetric])
  with assms(2) have "n div m * m < 64 * m" by linarith
  with assms(3) show "n div m < 64" by (simp add: mult_less_cancel_right)
qed

lemma byte_bound: "0 \<le> (of_char c :: int)" "(of_char c :: int) < 256"
  using of_char_int [of c] by simp_all

lemma char_of_byte: "n mod 256 = (of_char c :: int) \<Longrightarrow> char_of n = c"
  by (metis char_of_mod_256 char_of_char)

lemma three_bytes:
  obtains n :: int where "(of_char a * 256 + of_char b) * 256 + of_char c = n" "0 \<le> n" "n < 64 * 262144"
    "char_of (n div 65536) = a" "char_of (n div 256) = b" "char_of n = c"
proof
  let ?n = "(of_char a * 256 + of_char b) * 256 + of_char c :: int"
  note bytes = byte_bound [of a] byte_bound [of b] byte_bound [of c]
  have eq: "?n = of_char a * 65536 + (of_char b * 256 + of_char c)" by simp
  have low: "0 \<le> of_char b * 256 + (of_char c :: int)" "of_char b * 256 + (of_char c :: int) < 65536" using bytes by simp_all
  show "0 \<le> ?n" "?n < 64 * 262144" using bytes by simp_all
  show "char_of (?n div 65536) = a" using quotient(1) [OF low] eq by (metis char_of_char)
  show "char_of ?n = c" using quotient(2) bytes by (intro char_of_byte) blast
  have "?n div 256 = of_char a * 256 + of_char b" using quotient(1) bytes by blast
  then show "char_of (?n div 256) = b" using quotient(2) bytes by (intro char_of_byte) presburger
qed simp

lemma two_bytes:
  obtains n :: int where "of_char a * 256 + of_char b = n" "0 \<le> n" "n < 65536" "char_of (n div 256) = a" "char_of n = b"
proof
  let ?n = "of_char a * 256 + of_char b :: int"
  note bytes = byte_bound [of a] byte_bound [of b]
  show "0 \<le> ?n" "?n < 65536" using bytes by simp_all
  show "char_of ?n = b" using quotient(2) bytes by (intro char_of_byte) blast
  show "char_of (?n div 256) = a" using quotient(1) bytes by (metis char_of_char)
qed simp

lemma group3:
  obtains p q r t where "base64 (a # b # c # s) = base64_char p # base64_char q # base64_char r # base64_char t # base64 s"
    "{p, q, r, t} \<subseteq> {0..<64}" "((p * 64 + q) * 64 + r) * 64 + t = (of_char a * 256 + of_char b) * 256 + of_char c"
proof -
  define n :: int where n: "n = (of_char a * 256 + of_char b) * 256 + of_char c"
  have b: "0 \<le> n" "n < 64 * 262144" using byte_bound [of a] byte_bound [of b] byte_bound [of c] by (simp_all add: n)
  show ?thesis
  proof (rule that)
    show "base64 (a # b # c # s) = base64_char (n div 262144) # base64_char (n div 4096 mod 64) # base64_char (n div 64 mod 64) #
      base64_char (n mod 64) # base64 s"
      by (simp only: base64.simps Let_def n [symmetric] append.simps)
    show "{n div 262144, n div 4096 mod 64, n div 64 mod 64, n mod 64} \<subseteq> {0..<64}"
      using first_sextet [OF b] by simp
    show "((n div 262144 * 64 + n div 4096 mod 64) * 64 + n div 64 mod 64) * 64 + n mod 64 =
      (of_char a * 256 + of_char b) * 256 + of_char c"
      using join_sextet [of 4096 n] join_sextet [of 64 n] join_sextet [of 1 n] unfolding n [symmetric] by simp
  qed
qed

lemma group2:
  obtains p q r where "base64 [a, b] = [base64_char p, base64_char q, base64_char r, CHR ''='']"
    "{p, q, r} \<subseteq> {0..<64}" "(p * 64 + q) * 64 + r = (of_char a * 256 + of_char b) * 4"
proof -
  define n :: int where n: "n = (of_char a * 256 + of_char b) * 4"
  have b: "0 \<le> n" "n < 64 * 4096" using byte_bound [of a] byte_bound [of b] by (simp_all add: n)
  have "(n div 4096 * 64 + n div 64 mod 64) * 64 + n mod 64 = n"
    using join_sextet [of 64 n] join_sextet [of 1 n] by simp
  then show ?thesis
    using first_sextet [OF b] sextet
    by (intro that [of "n div 4096" "n div 64 mod 64" "n mod 64"]) (simp_all only: base64.simps Let_def n [symmetric], simp_all)
qed

lemma group1:
  obtains p q where "base64 [a] = [base64_char p, base64_char q, CHR ''='', CHR ''='']"
    "{p, q} \<subseteq> {0..<64}" "p * 64 + q = of_char a * 16"
proof -
  define n :: int where n: "n = of_char a * 16"
  have b: "0 \<le> n" "n < 64 * 64" using byte_bound [of a] by (simp_all add: n)
  have "n div 64 * 64 + n mod 64 = n" by simp
  then show ?thesis
    using first_sextet [OF b] sextet
    by (intro that [of "n div 64" "n mod 64"]) (simp_all only: base64.simps Let_def n [symmetric], simp_all)
qed

lemma groups_base64: "decode_groups (base64 s) = Some s \<and> list_all (\<lambda>c. c \<noteq> CHR 0x0A \<and> c \<noteq> CHR 0x0D) (base64 s)"
proof (induction s rule: base64.induct)
  case (1 a b c s)
  obtain p q r t where g: "base64 (a # b # c # s) = base64_char p # base64_char q # base64_char r # base64_char t # base64 s"
    "{p, q, r, t} \<subseteq> {0..<64}" "((p * 64 + q) * 64 + r) * 64 + t = (of_char a * 256 + of_char b) * 256 + of_char c"
    by (rule group3)
  obtain n :: int where n: "(of_char a * 256 + of_char b) * 256 + of_char c = n"
    "char_of (n div 65536) = a" "char_of (n div 256) = b" "char_of n = c"
    by (rule three_bytes)
  have "((p * 64 + q) * 64 + r) * 64 + t = n" using g(3) n(1) by simp
  with 1 g(2) n(2-) show ?case
    unfolding g(1) by (simp add: Let_def base64_val_char base64_char_plain)
next
  case (2 a b)
  obtain p q r where g: "base64 [a, b] = [base64_char p, base64_char q, base64_char r, CHR ''='']"
    "{p, q, r} \<subseteq> {0..<64}" "(p * 64 + q) * 64 + r = (of_char a * 256 + of_char b) * 4"
    by (rule group2)
  obtain n :: int where n: "of_char a * 256 + of_char b = n" "char_of (n div 256) = a" "char_of n = b"
    by (rule two_bytes)
  have "((p * 64 + q) * 64 + r) div 4 = n" using g(3) n(1) by simp
  with g(2) n(2-) show ?case
    unfolding g(1) by (simp add: Let_def base64_val_char base64_char_plain)
next
  case (3 a)
  obtain p q where g: "base64 [a] = [base64_char p, base64_char q, CHR ''='', CHR ''='']"
    "{p, q} \<subseteq> {0..<64}" "p * 64 + q = of_char a * 16"
    by (rule group1)
  have "(p * 64 + q) div 16 = of_char a" using g(3) by simp
  with g(2) show ?case
    unfolding g(1) by (simp add: Let_def base64_val_char base64_char_plain)
qed simp

lemma base64_roundtrip [simp]: "base64_decode (base64 s) = Some s"
  using groups_base64 [of s] by (simp add: base64_decode_def list_all_iff)

section \<open>Email addresses\<close>

text \<open>The regular expression of lib/validateEmail.go: a local part, an at sign that neither part
  can contain, and labels of at most 63 letters, digits and inner hyphens, separated by dots.\<close>

definition is_letter :: "char \<Rightarrow> bool" where
  "is_letter c \<longleftrightarrow> (let n = (of_char c :: nat) in 65 \<le> n \<and> n \<le> 90 \<or> 97 \<le> n \<and> n \<le> 122)"

definition is_alnum :: "char \<Rightarrow> bool" where
  "is_alnum c \<longleftrightarrow> is_letter c \<or> is_digit c"

definition local_char :: "char \<Rightarrow> bool" where
  "local_char c \<longleftrightarrow> is_alnum c \<or> c \<in> set ''.!#$%&*+/=?^_`{|}~-'' \<or> c = CHR 0x27"

definition domain_label :: "string \<Rightarrow> bool" where
  "domain_label l \<longleftrightarrow>
     l \<noteq> [] \<and> length l \<le> 63 \<and> is_alnum (hd l) \<and> is_alnum (last l) \<and> list_all (\<lambda>c. is_alnum c \<or> c = CHR ''-'') l"

definition email_syntax :: "string \<Rightarrow> bool" where
  "email_syntax e =
     (case split_on CHR ''@'' e of
        [user, domain] \<Rightarrow> user \<noteq> [] \<and> list_all local_char user \<and> list_all domain_label (split_on CHR ''.'' domain)
      | _ \<Rightarrow> False)"

definition email_domain :: "string \<Rightarrow> string" where
  "email_domain e = split_on CHR ''@'' e ! 1"

text \<open>A hash in hexadecimal is never taken for an address.\<close>

lemma hex_chars: "list_all (\<lambda>c. c \<noteq> CHR ''@'') (hex_encode s)"
proof (induction s)
  case (Cons c s)
  have "\<forall>n \<in> set [0..<16]. hex_char n \<noteq> CHR ''@''" by code_simp
  then have "n < 16 \<Longrightarrow> hex_char n \<noteq> CHR ''@''" for n by simp
  with Cons show ?case by (simp add: high_digit)
qed simp

lemma hex_not_email: "\<not> email_syntax (hex_encode s)"
proof -
  have "CHR ''@'' \<notin> set (hex_encode s)" using hex_chars [of s] by (auto simp: list_all_iff)
  then show ?thesis by (simp add: email_syntax_def split_on_no_sep)
qed

end
