(* ===== verification/Auth_World.thy ===== *)
theory Auth_World
  imports App_Config Go_Bytes Go_Floats Transactions
begin

text \<open>
  What the account handlers share: the tables of database/model, the state they work on, and the
  packages outside the repository.

  The packages are the argument \<open>K\<close>, a record of functions: argon2, BLAKE2b, SHA-256, AES-GCM,
  ChaCha20-Poly1305, the JWT and one-time-password packages, the mail service, name lookup and
  randomness.  What a call of them draws (a nonce, a salt, a UUID, the answer of a server) may
  differ from call to call, so such functions take the number of the draw, which the state
  counts.  Creation and update times of rows are not kept, and no code of the repository
  deletes an account, so soft deletion does not show.
\<close>

section \<open>Models\<close>

datatype verify_status = EmailNotVerified | EmailVerifyNotRequired | EmailVerified

record Auth =
  au_id :: nat
  au_email :: string
  au_email_cipher :: string
  au_email_nonce :: string
  au_email_hash :: string
  au_password :: string
  au_verify :: verify_status

definition no_auth :: Auth where
  "no_auth = \<lparr>au_id = 0, au_email = [], au_email_cipher = [], au_email_nonce = [], au_email_hash = [], au_password = [],
     au_verify = EmailVerifyNotRequired\<rparr>"

record AuthPayload =
  ap_email :: string
  ap_password :: string
  ap_verification_code :: string
  ap_otp :: string
  ap_secret_code :: string
  ap_recovery_key :: string
  ap_pass_new :: string
  ap_pass_repeat :: string

record TempEmail =
  te_id :: nat
  te_email :: string
  te_password :: string
  te_email_cipher :: string
  te_email_nonce :: string
  te_email_hash :: string
  te_id_auth :: nat

record TwoFA =
  tf_id :: nat
  tf_key_main :: string
  tf_key_backup :: string
  tf_uuid_sha :: string
  tf_uuid_enc :: string
  tf_status :: string
  tf_id_auth :: nat

definition no_twofa :: TwoFA where
  "no_twofa = \<lparr>tf_id = 0, tf_key_main = [], tf_key_backup = [], tf_uuid_sha = [], tf_uuid_enc = [], tf_status = [], tf_id_auth = 0\<rparr>"

record TwoFABackup =
  tb_id :: nat
  tb_code_hash :: string
  tb_id_auth :: nat

record Secret2FA =
  s2_pass_sha :: string
  s2_secret :: string
  s2_image :: string

record MyCustomClaims =
  cl_auth_id :: nat
  cl_email :: string
  cl_role :: string
  cl_scope :: string
  cl_twofa :: string
  cl_site_lan :: string
  cl_custom1 :: string
  cl_custom2 :: string

definition no_claims :: MyCustomClaims where
  "no_claims = \<lparr>cl_auth_id = 0, cl_email = [], cl_role = [], cl_scope = [], cl_twofa = [], cl_site_lan = [], cl_custom1 = [],
     cl_custom2 = []\<rparr>"

text \<open>Times in a token are seconds since 1970.\<close>

record JWTClaims =
  jc_custom :: MyCustomClaims
  jc_expires :: "int option"
  jc_id :: string
  jc_issued :: "int option"
  jc_not_before :: "int option"
  jc_issuer :: string
  jc_subject :: string
  jc_audience :: "string list"

record JWTPayload =
  jl_access :: string
  jl_refresh :: string
  jl_twofa :: string
  jl_recovery_key :: string

text \<open>The message of a response; \<open>MRaw\<close> is a bare string that a middleware answers with.\<close>

datatype message =
    MStr string
  | MRaw string
  | MAuth Auth
  | MTokens JWTPayload
  | MRecovered string string
  | MCodes "string list"
  | MTemp TempEmail

type_synonym auth_reply = "message \<times> nat"

record PostmarkParams =
  pk_server_token :: string
  pk_template :: int
  pk_from :: string
  pk_to :: string
  pk_tag :: string
  pk_track_opens :: bool
  pk_track_links :: string
  pk_stream :: string
  pk_html_model :: "(string \<times> (nat + string)) list"

section \<open>Packages\<close>

record 'o packages =
  p_argon_hash :: "nat \<Rightarrow> HashPassConfig \<Rightarrow> string \<Rightarrow> string \<Rightarrow> string + string"
  p_argon_compare :: "string \<Rightarrow> string \<Rightarrow> string \<Rightarrow> string + bool"
  p_blake2b :: "string \<Rightarrow> string \<Rightarrow> string"
  p_sha256 :: "string \<Rightarrow> string"
  p_gcm_seal :: "string \<Rightarrow> string \<Rightarrow> string \<Rightarrow> string"
  p_gcm_open :: "string \<Rightarrow> string \<Rightarrow> string \<Rightarrow> string option"
  p_chacha_encrypt :: "nat \<Rightarrow> string \<Rightarrow> string \<Rightarrow> string + (string \<times> string)"
  p_chacha_decrypt :: "string \<Rightarrow> string \<Rightarrow> string \<Rightarrow> string + string"
  p_lookup_mx :: "nat \<Rightarrow> string \<Rightarrow> bool"
  p_uuid :: "nat \<Rightarrow> string"
  p_nonce :: "nat \<Rightarrow> string option"
  p_random :: "nat \<Rightarrow> nat \<Rightarrow> nat option"
  p_jwt_sign :: "string \<Rightarrow> jwt_key \<Rightarrow> JWTClaims \<Rightarrow> string + string"
  p_jwt_parse :: "(string \<Rightarrow> string + jwt_key) \<Rightarrow> int \<Rightarrow> string \<Rightarrow> string + JWTClaims"
  p_totp_new :: "nat \<Rightarrow> string \<Rightarrow> string \<Rightarrow> nat \<Rightarrow> int \<Rightarrow> string + 'o"
  p_totp_from_bytes :: "string \<Rightarrow> string \<Rightarrow> string + 'o"
  p_totp_to_bytes :: "'o \<Rightarrow> string + string"
  p_totp_validate :: "int \<Rightarrow> 'o \<Rightarrow> string \<Rightarrow> bool \<times> 'o"
  p_totp_qr :: "'o \<Rightarrow> string + string"
  p_png :: "nat \<Rightarrow> string \<Rightarrow> string option"
  p_postmark :: "nat \<Rightarrow> PostmarkParams \<Rightarrow> string + string"
  p_hour_minute_second :: "nat \<Rightarrow> string"

section \<open>State\<close>

record auth_db =
  auths :: "Auth list"
  temp_emails :: "TempEmail list"
  two_fas :: "TwoFA list"
  backups :: "TwoFABackup list"
  next_auth :: nat
  next_temp :: nat
  next_twofa :: nat
  next_backup :: nat

text \<open>Redis maps a key to its value and the second it expires at; \<open>aw_mem\<close> is
  \<^verbatim>\<open>model.InMemorySecret2FA\<close>, \<open>aw_files\<close> the images on disk.\<close>

record auth_world =
  aw_db :: "auth_db db_state"
  aw_redis :: "string \<Rightarrow> (string \<times> int option) option"
  aw_redis_faults :: "string option list"
  aw_mem :: "nat \<Rightarrow> Secret2FA option"
  aw_now :: int
  aw_ticks :: "nat list"
  aw_draws :: nat
  aw_mails :: "PostmarkParams list"
  aw_files :: "string list"

type_synonym ('e, 'a) aprog = "(auth_world, 'e, 'a) prog"

definition auth_time_now :: "('e, int) aprog" where
  "auth_time_now s =
     (let t = aw_now s + int (case aw_ticks s of [] \<Rightarrow> 0 | n # _ \<Rightarrow> n)
      in (Inr t, s\<lparr>aw_now := t, aw_ticks := drop 1 (aw_ticks s)\<rparr>))"

definition draw :: "(nat \<Rightarrow> 'a) \<Rightarrow> ('e, 'a) aprog" where
  "draw f s = (Inr (f (aw_draws s)), s\<lparr>aw_draws := Suc (aw_draws s)\<rparr>)"

definition of_result :: "string + 'a \<Rightarrow> ('s, string, 'a) prog" where
  "of_result r = (case r of Inl e \<Rightarrow> raise e | Inr a \<Rightarrow> ret a)"

subsection \<open>Tables\<close>

definition auth_sql :: "(auth_db \<Rightarrow> 'a \<times> auth_db) \<Rightarrow> (string, 'a) aprog" where
  "auth_sql f = zoom aw_db aw_db_update (andThen get_st (\<lambda>w. andThen (deref (GetDB w)) (\<lambda>c. stmt c f)))"

text \<open>\<^verbatim>\<open>db.Where(...).First(&row).Error\<close>.\<close>

definition first_of :: "(auth_db \<Rightarrow> 'r list) \<Rightarrow> ('r \<Rightarrow> bool) \<Rightarrow> (string, 'r) aprog" where
  "first_of rows P =
     andThen (auth_sql (\<lambda>d. (find P (rows d), d))) (\<lambda>r. case r of Some x \<Rightarrow> ret x | None \<Rightarrow> raise ''record not found'')"

definition find_all :: "(auth_db \<Rightarrow> 'r list) \<Rightarrow> ('r \<Rightarrow> bool) \<Rightarrow> (string, 'r list) aprog" where
  "find_all rows P = auth_sql (\<lambda>d. (filter P (rows d), d))"

text \<open>The way every handler writes: \<^verbatim>\<open>tx := db.Begin()\<close>, one statement, \<^verbatim>\<open>Rollback\<close> when it fails,
  \<^verbatim>\<open>Commit\<close> otherwise.  The errors of \<^verbatim>\<open>Begin\<close> and \<^verbatim>\<open>Commit\<close> are not looked at.\<close>

definition in_tx :: "(auth_db \<Rightarrow> 'a \<times> auth_db) \<Rightarrow> (string, 'a) aprog" where
  "in_tx f = zoom aw_db aw_db_update
     (andThen get_st (\<lambda>w. andThen (deref (GetDB w)) (\<lambda>_.
      andThen (onErr begin_tx (\<lambda>e. ret ())) (\<lambda>_.
      andThen (onErr (stmt Tx f) (\<lambda>e. andThen rollback (\<lambda>_. raise e))) (\<lambda>a.
      andThen (onErr commit_tx (\<lambda>e. ret ())) (\<lambda>_.
      ret a))))))"

text \<open>\<^verbatim>\<open>Create\<close> gives a row the next id; \<^verbatim>\<open>Save\<close> overwrites the row with its id, or creates it.\<close>

definition create_auth :: "Auth \<Rightarrow> auth_db \<Rightarrow> Auth \<times> auth_db" where
  "create_auth a d =
     (let a' = a\<lparr>au_id := next_auth d\<rparr> in (a', d\<lparr>auths := auths d @ [a'], next_auth := Suc (next_auth d)\<rparr>))"

definition save_auth :: "Auth \<Rightarrow> auth_db \<Rightarrow> unit \<times> auth_db" where
  "save_auth a d =
     ((), if au_id a \<in> au_id ` set (auths d) then d\<lparr>auths := map (\<lambda>r. if au_id r = au_id a then a else r) (auths d)\<rparr>
          else d\<lparr>auths := auths d @ [a]\<rparr>)"

definition save_temp :: "TempEmail \<Rightarrow> auth_db \<Rightarrow> unit \<times> auth_db" where
  "save_temp t d =
     ((), if te_id t = 0 then d\<lparr>temp_emails := temp_emails d @ [t\<lparr>te_id := next_temp d\<rparr>], next_temp := Suc (next_temp d)\<rparr>
          else if te_id t \<in> te_id ` set (temp_emails d)
          then d\<lparr>temp_emails := map (\<lambda>r. if te_id r = te_id t then t else r) (temp_emails d)\<rparr>
          else d\<lparr>temp_emails := temp_emails d @ [t]\<rparr>)"

definition delete_temp :: "TempEmail \<Rightarrow> auth_db \<Rightarrow> unit \<times> auth_db" where
  "delete_temp t d = ((), d\<lparr>temp_emails := filter (\<lambda>r. te_id r \<noteq> te_id t) (temp_emails d)\<rparr>)"

definition create_twofa :: "TwoFA \<Rightarrow> auth_db \<Rightarrow> unit \<times> auth_db" where
  "create_twofa t d = ((), d\<lparr>two_fas := two_fas d @ [t\<lparr>tf_id := next_twofa d\<rparr>], next_twofa := Suc (next_twofa d)\<rparr>)"

definition save_twofa :: "TwoFA \<Rightarrow> auth_db \<Rightarrow> unit \<times> auth_db" where
  "save_twofa t d =
     ((), if tf_id t \<in> tf_id ` set (two_fas d) then d\<lparr>two_fas := map (\<lambda>r. if tf_id r = tf_id t then t else r) (two_fas d)\<rparr>
          else d\<lparr>two_fas := two_fas d @ [t]\<rparr>)"

definition create_backups :: "nat \<Rightarrow> string list \<Rightarrow> auth_db \<Rightarrow> unit \<times> auth_db" where
  "create_backups owner hashes d =
     ((), d\<lparr>backups := backups d @ map2 (\<lambda>i h. \<lparr>tb_id = i, tb_code_hash = h, tb_id_auth = owner\<rparr>)
              [next_backup d..<next_backup d + length hashes] hashes,
            next_backup := next_backup d + length hashes\<rparr>)"

definition delete_backups :: "nat set \<Rightarrow> auth_db \<Rightarrow> unit \<times> auth_db" where
  "delete_backups ids d = ((), d\<lparr>backups := filter (\<lambda>r. tb_id r \<notin> ids) (backups d)\<rparr>)"

subsection \<open>Redis\<close>

definition auth_redis :: "(auth_world \<Rightarrow> 'a \<times> auth_world) \<Rightarrow> (string, 'a) aprog" where
  "auth_redis f s =
     (case aw_redis_faults s of
        Some e # fs \<Rightarrow> (Inl (Raise e), s\<lparr>aw_redis_faults := fs\<rparr>)
      | None # fs \<Rightarrow> (case f (s\<lparr>aw_redis_faults := fs\<rparr>) of (a, s') \<Rightarrow> (Inr a, s'))
      | [] \<Rightarrow> (case f s of (a, s') \<Rightarrow> (Inr a, s')))"

definition redis_lookup :: "string \<Rightarrow> auth_world \<Rightarrow> string option" where
  "redis_lookup k s =
     (case aw_redis s k of
        Some (v, None) \<Rightarrow> Some v
      | Some (v, Some e) \<Rightarrow> if aw_now s div second < e then Some v else None
      | None \<Rightarrow> None)"

definition cmd_exists :: "string \<Rightarrow> auth_world \<Rightarrow> bool \<times> auth_world" where
  "cmd_exists k s = (redis_lookup k s \<noteq> None, s)"

text \<open>A \<^verbatim>\<open>GET\<close> into a string: the empty string when there is no such key.\<close>

definition cmd_get :: "string \<Rightarrow> auth_world \<Rightarrow> string \<times> auth_world" where
  "cmd_get k s = (case redis_lookup k s of Some v \<Rightarrow> v | None \<Rightarrow> [], s)"

definition cmd_set :: "string \<Rightarrow> string \<Rightarrow> auth_world \<Rightarrow> unit \<times> auth_world" where
  "cmd_set k v s = ((), s\<lparr>aw_redis := (aw_redis s)(k \<mapsto> (v, None))\<rparr>)"

definition cmd_del :: "string \<Rightarrow> auth_world \<Rightarrow> unit \<times> auth_world" where
  "cmd_del k s = ((), s\<lparr>aw_redis := (aw_redis s)(k := None)\<rparr>)"

definition cmd_expireat :: "string \<Rightarrow> int \<Rightarrow> auth_world \<Rightarrow> unit \<times> auth_world" where
  "cmd_expireat k t s =
     ((), case redis_lookup k s of
            Some v \<Rightarrow> s\<lparr>aw_redis := (aw_redis s)(k \<mapsto> (v, Some t))\<rparr>
          | None \<Rightarrow> s)"

definition cmd_expire :: "string \<Rightarrow> int \<Rightarrow> auth_world \<Rightarrow> unit \<times> auth_world" where
  "cmd_expire k secs s = cmd_expireat k (aw_now s div second + secs) s"

end
