(* ===== verification/Auth_Service.thy ===== *)
theory Auth_Service
  imports Auth_World
begin

text \<open>
  The helpers of lib and the services of service/auth.go, service/common.go, service/twoFA.go
  and service/postmark.go that the account handlers call.
\<close>

section \<open>Helpers\<close>

text \<open>lib/validateEmail.go: length, syntax, and a lookup of the mail servers of the domain.\<close>

definition ValidateEmail :: "'o packages \<Rightarrow> string \<Rightarrow> ('e, bool) aprog" where
  "ValidateEmail K e =
     (if length e < 3 \<or> length e > 254 then ret False
      else if \<not> email_syntax e then ret False
      else draw (\<lambda>n. p_lookup_mx K n (email_domain e)))"

text \<open>lib/removeAllSpace.go.\<close>

definition RemoveAllSpace :: "string \<Rightarrow> string" where
  "RemoveAllSpace s = delete_all CHR '' '' s"

text \<open>lib/hashing.go: memory is given in MiB and passed on in KiB, as a 32-bit number.\<close>

definition HashPass :: "'o packages \<Rightarrow> HashPassConfig \<Rightarrow> string \<Rightarrow> string \<Rightarrow> (string, string) aprog" where
  "HashPass K hc pass secret =
     andThen (draw (\<lambda>n. p_argon_hash K n (hc\<lparr>hp_memory := hp_memory hc * 1024 mod 2 ^ 32\<rparr>) pass secret)) of_result"

text \<open>lib/encryption.go: AES-GCM with a random nonce of 12 bytes in front of the ciphertext.\<close>

definition aes_key :: "string \<Rightarrow> bool" where
  "aes_key key \<longleftrightarrow> length key = 16 \<or> length key = 24 \<or> length key = 32"

definition bad_key :: "string \<Rightarrow> string" where
  "bad_key key = ''crypto/aes: invalid key size '' @ show_nat (length key)"

definition Encrypt :: "'o packages \<Rightarrow> string \<Rightarrow> string \<Rightarrow> (string, string) aprog" where
  "Encrypt K plaintext key =
     (if \<not> aes_key key then raise (bad_key key)
      else andThen (draw (p_nonce K)) (\<lambda>nonce.
        case nonce of
          None \<Rightarrow> raise ''random source failed''
        | Some n \<Rightarrow> ret (n @ p_gcm_seal K key n plaintext)))"

definition Decrypt :: "'o packages \<Rightarrow> string \<Rightarrow> string \<Rightarrow> string + string" where
  "Decrypt K ciphertext key =
     (if \<not> aes_key key then Inl (bad_key key)
      else if length ciphertext < 12 then Inl ''ciphertext too short''
      else case p_gcm_open K key (take 12 ciphertext) (drop 12 ciphertext) of
             None \<Rightarrow> Inl ''cipher: message authentication failed''
           | Some p \<Rightarrow> Inr p)"

text \<open>lib/randomNumber.go: numbers below the bound are drawn until one is above the least number
  with so many digits.  \<open>None\<close>: the loop never ends.\<close>

partial_function (option) draw_until :: "(nat \<Rightarrow> nat \<Rightarrow> nat option) \<Rightarrow> nat \<Rightarrow> nat \<Rightarrow> nat \<Rightarrow> (nat \<times> nat) option" where
  "draw_until rnd lo hi n =
     (case rnd n hi of
        None \<Rightarrow> draw_until rnd lo hi (Suc n)
      | Some x \<Rightarrow> if lo < x then Some (x, Suc n) else draw_until rnd lo hi (Suc n))"

text \<open>The bounds are powers of ten computed in float64; from 19 digits on the upper one does not
  fit an int64 and \<^verbatim>\<open>rand.Int\<close> panics.  A request that never leaves the loop is never answered:
  it counts as one that leaves without an answer, as a panic does.\<close>

definition SecureRandomNumber :: "'o packages \<Rightarrow> nat \<Rightarrow> ('e, nat) aprog" where
  "SecureRandomNumber K d s =
     (if d = 0 then (Inr 0, s)
      else if 19 \<le> d then (Inl GoPanic, s)
      else case draw_until (p_random K) (10 ^ (d - 1)) (round53 (10 ^ d - 1)) (aw_draws s) of
             Some (x, n) \<Rightarrow> (Inr x, s\<lparr>aw_draws := n\<rparr>)
           | None \<Rightarrow> (Inl GoPanic, s))"

text \<open>lib/twoFA.go.  A failed validation still gives the bytes of the object, which counts the
  failures.\<close>

definition NewTOTP :: "'o packages \<Rightarrow> string \<Rightarrow> string \<Rightarrow> nat \<Rightarrow> int \<Rightarrow> (string, string) aprog" where
  "NewTOTP K account issuer hash len =
     andThen (draw (\<lambda>n. p_totp_new K n account issuer hash len)) (\<lambda>r.
     andThen (of_result r) (\<lambda>otp. of_result (p_totp_to_bytes K otp)))"

definition NewQR :: "'o packages \<Rightarrow> string \<Rightarrow> string \<Rightarrow> string + string" where
  "NewQR K msg issuer =
     (case p_totp_from_bytes K msg issuer of Inl e \<Rightarrow> Inl e | Inr otp \<Rightarrow> p_totp_qr K otp)"

definition ValidateTOTP :: "'o packages \<Rightarrow> int \<Rightarrow> string \<Rightarrow> string \<Rightarrow> string \<Rightarrow> string \<times> string option" where
  "ValidateTOTP K now msg issuer input =
     (case p_totp_from_bytes K msg issuer of
        Inl e \<Rightarrow> ([], Some e)
      | Inr otp \<Rightarrow>
          (case p_totp_validate K now otp input of
             (ok, otp') \<Rightarrow>
               (case p_totp_to_bytes K otp' of
                  Inl e \<Rightarrow> ([], Some e)
                | Inr b \<Rightarrow> (b, if ok then None else Some ''invalid token''))))"

text \<open>lib/htmlEmailModel.go: \<^verbatim>\<open>key:value;key:value\<close> to a map.\<close>

definition html_entry :: "string \<Rightarrow> string list" where
  "html_entry s =
     (case split_on CHR '':'' (trim_space s) of [k, v] \<Rightarrow> [trim_space k, trim_space v] | _ \<Rightarrow> [])"

definition StrArrHTMLModel :: "string \<Rightarrow> string list" where
  "StrArrHTMLModel s = concat (map html_entry (split_on CHR '';'' s))"

fun HTMLModel :: "string list \<Rightarrow> (string \<times> (nat + string)) list \<Rightarrow> (string \<times> (nat + string)) list option" where
  "HTMLModel [] m = Some m"
| "HTMLModel [k] m = None"
| "HTMLModel (k # v # s) m = HTMLModel s (AList.update k (Inr v) m)"

section \<open>Hashes and accounts\<close>

text \<open>service/auth.go.  A BLAKE2b key of more than 64 bytes is refused.\<close>

definition CalcHash :: "'o packages \<Rightarrow> string \<Rightarrow> string \<Rightarrow> string + string" where
  "CalcHash K plaintext key = (if length key > 64 then Inl ''blake2b: invalid key size'' else Inr (p_blake2b K key plaintext))"

definition email_hash :: "'o packages \<Rightarrow> Configuration \<Rightarrow> string \<Rightarrow> string + string" where
  "email_hash K cfg email = map_sum id hex_encode (CalcHash K email (sc_blake2b_sec (cf_security cfg)))"

definition GetHash :: "'o packages \<Rightarrow> Configuration \<Rightarrow> string \<Rightarrow> string + string" where
  "GetHash K cfg dataIn =
     (if \<not> Is2FADoubleHash cfg then Inr (p_sha256 K dataIn)
      else CalcHash K (p_sha256 K dataIn) (sc_blake2b_sec (cf_security cfg)))"

definition DecryptEmail :: "'o packages \<Rightarrow> Configuration \<Rightarrow> string \<Rightarrow> string \<Rightarrow> string + string" where
  "DecryptEmail K cfg emailNonce emailCipher =
     (case hex_decode emailNonce of
        None \<Rightarrow> Inl ''encoding/hex''
      | Some nonce \<Rightarrow>
          (case hex_decode emailCipher of
             None \<Rightarrow> Inl ''encoding/hex''
           | Some c \<Rightarrow> p_chacha_decrypt K (sc_cipher_key (cf_security cfg)) nonce c))"

definition GetUserByEmail :: "'o packages \<Rightarrow> Configuration \<Rightarrow> string \<Rightarrow> bool \<Rightarrow> (string, Auth) aprog" where
  "GetUserByEmail K cfg email decryptEmail =
     onErr (first_of auths (\<lambda>a. au_email a = email)) (\<lambda>err.
       if IsCipher cfg then
         andThen (of_result (email_hash K cfg email)) (\<lambda>emailHash.
         andThen (attempt (first_of auths (\<lambda>a. au_email_hash a = emailHash))) (\<lambda>res.
         case res of
           Inr auth \<Rightarrow>
             if decryptEmail then
               andThen (of_result (DecryptEmail K cfg (au_email_nonce auth) (au_email_cipher auth))) (\<lambda>m.
               ret (auth\<lparr>au_email := m\<rparr>))
             else ret auth
         | Inl _ \<Rightarrow> raise err))
       else raise err)"

definition GetEmailByAuthID :: "'o packages \<Rightarrow> Configuration \<Rightarrow> nat \<Rightarrow> (string, string) aprog" where
  "GetEmailByAuthID K cfg authID =
     andThen (first_of auths (\<lambda>a. au_id a = authID)) (\<lambda>auth.
     if trim_space (au_email auth) \<noteq> [] then ret (trim_space (au_email auth))
     else of_result (DecryptEmail K cfg (au_email_nonce auth) (au_email_cipher auth)))"

definition IsAuthIDValid :: "nat \<Rightarrow> ('e, bool) aprog" where
  "IsAuthIDValid authID =
     andThen (attempt (first_of auths (\<lambda>a. au_id a = authID))) (\<lambda>r. ret (case r of Inr _ \<Rightarrow> True | Inl _ \<Rightarrow> False))"

definition ValidateAuthID :: "nat \<Rightarrow> ('e, bool) aprog" where
  "ValidateAuthID authID = (if authID = 0 then ret False else IsAuthIDValid authID)"

definition ValidateUserID :: "nat \<Rightarrow> string \<Rightarrow> bool" where
  "ValidateUserID authID email \<longleftrightarrow> authID \<noteq> 0 \<and> trim_space email \<noteq> []"

text \<open>service/common.go.  The status says whether a failed validation was a wrong password.\<close>

definition Validate2FA_service ::
  "'o packages \<Rightarrow> Configuration \<Rightarrow> int \<Rightarrow> string \<Rightarrow> string \<Rightarrow> string \<times> string \<times> string option" where
  "Validate2FA_service K cfg now msg userInput =
     (case ValidateTOTP K now msg (sc_2fa_issuer (cf_security cfg)) userInput of
        (otpByte, Some e) \<Rightarrow>
          if length otpByte > 0 then (otpByte, s2_invalid (tfa_status cfg), Some e) else ([], [], Some e)
      | (otpByte, None) \<Rightarrow> (otpByte, s2_verified (tfa_status cfg), None))"

definition DelMem2FA :: "nat \<Rightarrow> ('e, unit) aprog" where
  "DelMem2FA authID = upd_st (\<lambda>s. s\<lparr>aw_mem := (aw_mem s)(authID := None)\<rparr>)"

text \<open>service/twoFA.go: a code of letters and digits.  A draw that fails ends the attempt.\<close>

definition code_chars :: string where
  "code_chars = ''ABCDEFGHIJKLMNOPQRSTUVWXYZabcdefghijklmnopqrstuvwxyz0123456789''"

fun generate_from :: "(nat \<Rightarrow> nat \<Rightarrow> nat option) \<Rightarrow> nat \<Rightarrow> nat \<Rightarrow> string option \<times> nat" where
  "generate_from rnd 0 n = (Some [], n)"
| "generate_from rnd (Suc k) n =
     (case rnd n 62 of
        None \<Rightarrow> (None, Suc n)
      | Some i \<Rightarrow> (case generate_from rnd k (Suc n) of (r, n') \<Rightarrow> (map_option (\<lambda>s. code_chars ! i # s) r, n')))"

definition GenerateCode :: "'o packages \<Rightarrow> nat \<Rightarrow> nat \<Rightarrow> string option \<times> nat" where
  "GenerateCode K k n = generate_from (p_random K) k n"

section \<open>Mail\<close>

datatype email_type = VerifyEmailNewAcc | PassRecovery | VerifyUpdatedEmail_type

definition EmailVerificationKeyPrefix :: string where "EmailVerificationKeyPrefix = ''gorest-email-verification-''"
definition EmailUpdateKeyPrefix :: string where "EmailUpdateKeyPrefix = ''gorest-email-update-''"
definition PasswordRecoveryKeyPrefix :: string where "PasswordRecoveryKeyPrefix = ''gorest-pass-recover-''"

fun key_prefix :: "email_type \<Rightarrow> string" where
  "key_prefix VerifyEmailNewAcc = EmailVerificationKeyPrefix"
| "key_prefix VerifyUpdatedEmail_type = EmailUpdateKeyPrefix"
| "key_prefix PassRecovery = PasswordRecoveryKeyPrefix"

definition email_required :: "Configuration \<Rightarrow> email_type \<Rightarrow> bool" where
  "email_required cfg t \<longleftrightarrow>
     sc_verify_email (cf_security cfg) \<and> t \<noteq> PassRecovery \<or> sc_recover_pass (cf_security cfg) \<and> t = PassRecovery"

text \<open>The secret code: a UUID or a number, as configured.\<close>

definition secret_code :: "'o packages \<Rightarrow> Configuration \<Rightarrow> email_type \<Rightarrow> ('e, nat + string) aprog" where
  "secret_code K cfg t =
     (let uuid = (if t = PassRecovery then IsPasswordRecoverCodeUUIDv4 cfg else IsEmailVerificationCodeUUIDv4 cfg);
          len = (if t = PassRecovery then ec_recover_length (cf_email cfg) else ec_verification_length (cf_email cfg))
      in if uuid then andThen (draw (p_uuid K)) (\<lambda>u. ret (Inr u))
         else andThen (SecureRandomNumber K len) (\<lambda>n. ret (Inl n)))"

definition code_text :: "nat + string \<Rightarrow> string" where
  "code_text c = (case c of Inl n \<Rightarrow> show_nat n | Inr u \<Rightarrow> u)"

text \<open>A numeric code of 0 is not told to the user: the mail then carries the empty UUID.\<close>

definition mailed_code :: "nat + string \<Rightarrow> nat + string" where
  "mailed_code c = (case c of Inl 0 \<Rightarrow> Inr [] | _ \<Rightarrow> c)"

definition with_options :: "string list \<Rightarrow> (string \<times> (nat + string)) list \<Rightarrow> (string \<times> (nat + string)) list" where
  "with_options opts m =
     fold (\<lambda>(i, o') m. AList.update (''additional_info_'' @ show_nat i) (Inr o') m) (enumerate 0 opts) m"

definition mail_params ::
  "'o packages \<Rightarrow> Configuration \<Rightarrow> string \<Rightarrow> email_type \<Rightarrow> nat + string \<Rightarrow> nat \<Rightarrow> string list \<Rightarrow>
   (string \<times> (nat + string)) list \<Rightarrow> PostmarkParams" where
  "mail_params K cfg email t code ttl opts m =
     (let ec = cf_email cfg in
      \<lparr>pk_server_token = ec_api_token ec,
       pk_template = (case t of VerifyEmailNewAcc \<Rightarrow> ec_verification_template ec | PassRecovery \<Rightarrow> ec_recover_template ec
                              | VerifyUpdatedEmail_type \<Rightarrow> ec_update_template ec),
       pk_from = ec_addr_from ec, pk_to = email,
       pk_tag = (if t = PassRecovery then ec_recover_tag ec else ec_verification_tag ec),
       pk_track_opens = ec_track_opens ec, pk_track_links = ec_track_links ec, pk_stream = ec_delivery_type ec,
       pk_html_model = with_options opts
         (AList.update ''email_validity_period'' (Inr (p_hour_minute_second K ttl))
           (AList.update ''secret_code'' (mailed_code code) m))\<rparr>)"

text \<open>service/postmark.go: the mail is sent; what comes back is the message of the response.\<close>

definition Postmark :: "'o packages \<Rightarrow> PostmarkParams \<Rightarrow> (string, string) aprog" where
  "Postmark K params =
     andThen (upd_st (\<lambda>s. s\<lparr>aw_mails := aw_mails s @ [params]\<rparr>)) (\<lambda>_.
     andThen (draw (\<lambda>n. p_postmark K n params)) of_result)"

definition deliver ::
  "'o packages \<Rightarrow> Configuration \<Rightarrow> string \<Rightarrow> email_type \<Rightarrow> nat + string \<Rightarrow> nat \<Rightarrow> string list \<Rightarrow> (string, bool) aprog" where
  "deliver K cfg email t code ttl opts =
     (if ec_provider (cf_email cfg) = ''postmark'' then
        (case HTMLModel (StrArrHTMLModel (ec_html_model (cf_email cfg))) [] of
           None \<Rightarrow> go_panic
         | Some m \<Rightarrow>
             andThen (Postmark K (mail_params K cfg email t code ttl opts m)) (\<lambda>msg.
             if msg \<noteq> ''OK'' then raise ''email delivery failed'' else ret True))
      else raise (''email delivery service provider: '' @ [CHR 0x27] @ ec_provider (cf_email cfg) @ [CHR 0x27] @ '' is unknown''))"

text \<open>The value stored under the code: the address, or its hash with encryption at rest.  A code
  whose expiry cannot be set is kept for good.\<close>

definition SendEmail :: "'o packages \<Rightarrow> Configuration \<Rightarrow> string \<Rightarrow> email_type \<Rightarrow> string list \<Rightarrow> (string, bool) aprog" where
  "SendEmail K cfg email t opts =
     (if \<not> IsEmailService cfg then ret False
      else if \<not> email_required cfg t then ret False
      else if \<not> IsRedis cfg then ret False
      else
        andThen (secret_code K cfg t) (\<lambda>code.
        let key = key_prefix t @ code_text code;
            ttl = (if t = PassRecovery then ec_recover_period (cf_email cfg) else ec_verify_period (cf_email cfg)) in
        andThen (if IsCipher cfg then of_result (email_hash K cfg email) else ret email) (\<lambda>value.
        andThen (auth_redis (cmd_set key value)) (\<lambda>_.
        andThen (onErr (auth_redis (cmd_expire key (int ttl))) (\<lambda>e. ret ())) (\<lambda>_.
        deliver K cfg email t code ttl opts)))))"

end
