(* ===== verification/Jwt.thy ===== *)
theory Jwt
  imports Auth_Service
begin

text \<open>
  JSON web tokens: lib/middleware/jwt.go issues and checks them, service/security.go keeps the
  list of revoked tokens, lib/middleware/twoFA.go looks at the second factor, and
  server/router/router.go chains the three in front of the handlers.
\<close>

section \<open>Issuing tokens\<close>

definition hmac_alg :: "string \<Rightarrow> bool" where
  "hmac_alg a \<longleftrightarrow> a \<in> {''HS256'', ''HS384'', ''HS512''}"

definition ecdsa_alg :: "string \<Rightarrow> bool" where
  "ecdsa_alg a \<longleftrightarrow> a \<in> {''ES256'', ''ES384'', ''ES512''}"

definition rsa_alg :: "string \<Rightarrow> bool" where
  "rsa_alg a \<longleftrightarrow> a \<in> {''RS256'', ''RS384'', ''RS512''}"

datatype token_type = AccessToken | RefreshToken | OtherToken

fun token_settings :: "JWTParameters \<Rightarrow> token_type \<Rightarrow> (string \<times> int \<times> int) option" where
  "token_settings p AccessToken = Some (jp_access_key p, jp_access_ttl p, jp_acc_nbf p)"
| "token_settings p RefreshToken = Some (jp_refresh_key p, jp_refresh_ttl p, jp_ref_nbf p)"
| "token_settings p OtherToken = None"

text \<open>The algorithm and the key a token is signed with; an algorithm that is not known is replaced
  by HS256 without a key.\<close>

definition signing_key :: "JWTParameters \<Rightarrow> string \<Rightarrow> string \<times> jwt_key" where
  "signing_key p key =
     (let alg = jp_algorithm p in
      if hmac_alg alg then (alg, KeyBytes key)
      else if ecdsa_alg alg then (alg, PrivECDSA (jp_priv_ecdsa p))
      else if rsa_alg alg then (alg, PrivRSA (jp_priv_rsa p))
      else (''HS256'', NoKey))"

text \<open>\<^verbatim>\<open>time.Now().Add(unit * time.Duration(n))\<close> in seconds.\<close>

definition later :: "int \<Rightarrow> int \<Rightarrow> int \<Rightarrow> int" where
  "later now unit n = (now + wrap64 (unit * n)) div second"

definition issue_claims :: "JWTParameters \<Rightarrow> MyCustomClaims \<Rightarrow> int \<Rightarrow> string \<Rightarrow> int \<Rightarrow> int option \<Rightarrow> JWTClaims" where
  "issue_claims p c expires jti issued nbf =
     \<lparr>jc_custom = c, jc_expires = Some expires, jc_id = jti, jc_issued = Some issued, jc_not_before = nbf,
      jc_issuer = jp_issuer p, jc_subject = jp_subject p,
      jc_audience = (if jp_audience p \<noteq> [] then [jp_audience p] else [])\<rparr>"

definition GetJWT :: "'o packages \<Rightarrow> Configuration \<Rightarrow> MyCustomClaims \<Rightarrow> token_type \<Rightarrow> (string, string \<times> string) aprog" where
  "GetJWT K cfg customClaims tokenType =
     (let p = jwt_params cfg in
      case token_settings p tokenType of
        None \<Rightarrow> raise ''invalid token type''
      | Some (key, ttl, nbf) \<Rightarrow>
          andThen auth_time_now (\<lambda>t1.
          andThen (draw (p_uuid K)) (\<lambda>jti.
          andThen auth_time_now (\<lambda>t2.
          andThen (if nbf > 0 then andThen auth_time_now (\<lambda>t3. ret (Some (later t3 second nbf))) else ret None) (\<lambda>notBefore.
          case signing_key p key of
            (alg, privKey) \<Rightarrow>
              andThen (of_result (p_jwt_sign K alg privKey
                (issue_claims p customClaims (later t1 (60 * second) ttl) jti (t2 div second) notBefore))) (\<lambda>jwtValue.
              ret (jwtValue, jti)))))))"

section \<open>Checking tokens\<close>

definition unexpected :: "string \<Rightarrow> string" where
  "unexpected alg = ''unexpected signing method: '' @ alg"

definition ValidateHMACAccess :: "JWTParameters \<Rightarrow> string \<Rightarrow> string + jwt_key" where
  "ValidateHMACAccess p alg = (if hmac_alg alg then Inr (KeyBytes (jp_access_key p)) else Inl (unexpected alg))"

definition ValidateHMACRefresh :: "JWTParameters \<Rightarrow> string \<Rightarrow> string + jwt_key" where
  "ValidateHMACRefresh p alg = (if hmac_alg alg then Inr (KeyBytes (jp_refresh_key p)) else Inl (unexpected alg))"

definition ValidateECDSA :: "JWTParameters \<Rightarrow> string \<Rightarrow> string + jwt_key" where
  "ValidateECDSA p alg = (if ecdsa_alg alg then Inr (PubECDSA (jp_pub_ecdsa p)) else Inl (unexpected alg))"

definition ValidateRSA :: "JWTParameters \<Rightarrow> string \<Rightarrow> string + jwt_key" where
  "ValidateRSA p alg = (if rsa_alg alg then Inr (PubRSA (jp_pub_rsa p)) else Inl (unexpected alg))"

definition ValidateAccessJWT :: "JWTParameters \<Rightarrow> string \<Rightarrow> string + jwt_key" where
  "ValidateAccessJWT p alg =
     (if hmac_alg (jp_algorithm p) then ValidateHMACAccess p alg
      else if ecdsa_alg (jp_algorithm p) then ValidateECDSA p alg
      else if rsa_alg (jp_algorithm p) then ValidateRSA p alg
      else Inl (unexpected alg))"

definition ValidateRefreshJWT :: "JWTParameters \<Rightarrow> string \<Rightarrow> string + jwt_key" where
  "ValidateRefreshJWT p alg =
     (if hmac_alg (jp_algorithm p) then ValidateHMACRefresh p alg
      else if ecdsa_alg (jp_algorithm p) then ValidateECDSA p alg
      else if rsa_alg (jp_algorithm p) then ValidateRSA p alg
      else Inl (unexpected alg))"

text \<open>What the middleware reads of a request, and what it leaves in the context of the handlers.
  A value that was never set reads as the zero value.\<close>

record http_in =
  in_cookie_access :: "string option"
  in_cookie_refresh :: "string option"
  in_authorization :: string
  in_body :: "json option"

record context_values =
  cx_claims :: MyCustomClaims
  cx_exp_access :: int
  cx_iat_access :: int
  cx_jti_access :: string
  cx_exp_refresh :: int
  cx_iat_refresh :: int
  cx_jti_refresh :: string
  cx_iss :: string
  cx_sub :: string
  cx_aud :: "string list"

definition no_context :: context_values where
  "no_context = \<lparr>cx_claims = no_claims, cx_exp_access = 0, cx_iat_access = 0, cx_jti_access = [], cx_exp_refresh = 0,
     cx_iat_refresh = 0, cx_jti_refresh = [], cx_iss = [], cx_sub = [], cx_aud = []\<rparr>"

definition unauthorized :: "string \<Rightarrow> (auth_reply, 'a) aprog" where
  "unauthorized msg = raise (MRaw msg, 401)"

text \<open>\<^verbatim>\<open>jwt.ParseWithClaims\<close> reads the clock; the times it gives back are pointers that the
  middleware follows without a test.\<close>

definition parse_token ::
  "'o packages \<Rightarrow> (string \<Rightarrow> string + jwt_key) \<Rightarrow> string \<Rightarrow> (auth_reply, JWTClaims \<times> int \<times> int) aprog" where
  "parse_token K keyfunc t =
     andThen auth_time_now (\<lambda>now.
     case p_jwt_parse K keyfunc now t of
       Inl e \<Rightarrow> unauthorized e
     | Inr c \<Rightarrow>
         (case (jc_expires c, jc_issued c) of
            (Some e, Some i) \<Rightarrow> ret (c, e, i)
          | _ \<Rightarrow> go_panic))"

definition access_from_header :: "string \<Rightarrow> string option" where
  "access_from_header v =
     (if v = [] \<or> \<not> contains v ''Bearer'' then None
      else case split_on CHR '' '' v of _ # t # _ \<Rightarrow> Some t | _ \<Rightarrow> None)"

definition JWT :: "'o packages \<Rightarrow> Configuration \<Rightarrow> http_in \<Rightarrow> context_values \<Rightarrow> (auth_reply, context_values) aprog" where
  "JWT K cfg rq cx =
     (case (case in_cookie_access rq of Some t \<Rightarrow> Some t | None \<Rightarrow> access_from_header (in_authorization rq)) of
        None \<Rightarrow> unauthorized ''token missing''
      | Some t \<Rightarrow>
          andThen (parse_token K (ValidateAccessJWT (jwt_params cfg)) t) (\<lambda>(c, e, i).
          ret (cx\<lparr>cx_claims := jc_custom c, cx_exp_access := e, cx_iat_access := i, cx_jti_access := jc_id c,
                  cx_iss := jc_issuer c, cx_sub := jc_subject c, cx_aud := jc_audience c\<rparr>)))"

definition dec_jwt_payload :: "json \<Rightarrow> JWTPayload option" where
  "dec_jwt_payload = dec_struct (\<lambda>k v.
     if same_name k ''accessJWT'' then str_field jl_access jl_access_update v
     else if same_name k ''refreshJWT'' then str_field jl_refresh jl_refresh_update v
     else if same_name k ''twoFA'' then str_field jl_twofa jl_twofa_update v
     else if same_name k ''recoveryKey'' then str_field jl_recovery_key jl_recovery_key_update v
     else Some) \<lparr>jl_access = [], jl_refresh = [], jl_twofa = [], jl_recovery_key = []\<rparr>"

text \<open>The refresh token: cookie, header (the third word when there are three), or body.\<close>

definition refresh_token :: "http_in \<Rightarrow> string + string" where
  "refresh_token rq =
     (case in_cookie_refresh rq of
        Some t \<Rightarrow> Inr t
      | None \<Rightarrow>
          if in_authorization rq = [] \<or> \<not> contains (in_authorization rq) ''Bearer'' then
            (case Option.bind (in_body rq) dec_jwt_payload of
               None \<Rightarrow> Inl ''bind error''
             | Some p \<Rightarrow> Inr (trim_space (jl_refresh p)))
          else
            (case split_on CHR '' '' (in_authorization rq) of
               [_, _, t] \<Rightarrow> Inr t
             | _ # t # _ \<Rightarrow> Inr t
             | _ \<Rightarrow> Inl ''token missing''))"

definition RefreshJWT :: "'o packages \<Rightarrow> Configuration \<Rightarrow> http_in \<Rightarrow> context_values \<Rightarrow> (auth_reply, context_values) aprog" where
  "RefreshJWT K cfg rq cx =
     (case refresh_token rq of
        Inl e \<Rightarrow> unauthorized e
      | Inr t \<Rightarrow>
          andThen (parse_token K (ValidateRefreshJWT (jwt_params cfg)) t) (\<lambda>(c, e, i).
          ret (cx\<lparr>cx_claims := jc_custom c, cx_exp_refresh := e, cx_iat_refresh := i, cx_jti_refresh := jc_id c,
                  cx_iss := jc_issuer c, cx_sub := jc_subject c, cx_aud := jc_audience c\<rparr>)))"

text \<open>service/common.go.\<close>

definition GetClaims :: "context_values \<Rightarrow> MyCustomClaims" where
  "GetClaims cx = cx_claims cx"

section \<open>Revoked tokens\<close>

definition PrefixJtiBlacklist :: string where "PrefixJtiBlacklist = ''gorest-blacklist-jti:''"

definition IsTokenAllowed :: "Configuration \<Rightarrow> string \<Rightarrow> ('e, bool) aprog" where
  "IsTokenAllowed cfg jti =
     (if \<not> IsJWT cfg then ret True
      else if \<not> IsRedis cfg then ret True
      else if \<not> InvalidateJWT cfg then ret True
      else
        andThen (attempt (auth_redis (cmd_exists (PrefixJtiBlacklist @ jti)))) (\<lambda>r.
        ret (case r of Inl _ \<Rightarrow> False | Inr found \<Rightarrow> \<not> found)))"

text \<open>Only one of the two tokens of a request is looked up: the refresh token only when there is no
  access token.\<close>

definition JWTBlacklistChecker :: "Configuration \<Rightarrow> context_values \<Rightarrow> (auth_reply, unit) aprog" where
  "JWTBlacklistChecker cfg cx =
     (let jtiAccess = trim_space (cx_jti_access cx);
          jti = (if jtiAccess \<noteq> [] then jtiAccess else trim_space (cx_jti_refresh cx)) in
      andThen (IsTokenAllowed cfg jti) (\<lambda>ok. if \<not> ok then unauthorized ''invalid token'' else ret ()))"

text \<open>handler/logout.go.\<close>

definition internal_error :: "('e, auth_reply) aprog" where
  "internal_error = ret (MStr ''internal server error'', 500)"

definition server_error :: "(auth_reply, 'a) aprog" where
  "server_error = raise (MStr ''internal server error'', 500)"

definition refuse :: "nat \<Rightarrow> string \<Rightarrow> (auth_reply, 'a) aprog" where
  "refuse code msg = raise (MStr msg, code)"

definition blacklist :: "string \<Rightarrow> int \<Rightarrow> (auth_reply, unit) aprog" where
  "blacklist jti e =
     andThen (onErr (auth_redis (cmd_set (PrefixJtiBlacklist @ jti) (show_int e))) (\<lambda>_. server_error)) (\<lambda>_.
     onErr (auth_redis (cmd_expireat (PrefixJtiBlacklist @ jti) e)) (\<lambda>_. server_error))"

definition Logout :: "Configuration \<Rightarrow> string \<Rightarrow> string \<Rightarrow> int \<Rightarrow> int \<Rightarrow> (auth_reply, auth_reply) aprog" where
  "Logout cfg jtiAccess jtiRefresh expAccess expRefresh =
     (if \<not> IsRedis cfg then ret (MStr ''logout successful'', 200)
      else
        andThen (if jtiAccess \<noteq> [] then blacklist jtiAccess expAccess else ret ()) (\<lambda>_.
        andThen (if jtiRefresh \<noteq> [] then blacklist jtiRefresh expRefresh else ret ()) (\<lambda>_.
        ret (MStr ''logout successful'', 200))))"

section \<open>The second factor and the chains\<close>

definition TwoFA_middleware :: "string \<Rightarrow> string \<Rightarrow> string \<Rightarrow> string \<Rightarrow> (auth_reply, unit) aprog" where
  "TwoFA_middleware keywordOn keywordOff keywordVerified status =
     (if status = [] then ret ()
      else if status = keywordOff then ret ()
      else if status = keywordOn then unauthorized ''2-fa: required valid OTP''
      else if status = keywordVerified then ret ()
      else unauthorized ''2-fa: status unknown'')"

text \<open>\<^verbatim>\<open>createAuthMiddleware\<close>, and the chain of the routes \<^verbatim>\<open>logout\<close> and \<^verbatim>\<open>refresh\<close>.\<close>

definition createAuthMiddleware :: "'o packages \<Rightarrow> Configuration \<Rightarrow> http_in \<Rightarrow> (auth_reply, context_values) aprog" where
  "createAuthMiddleware K cfg rq =
     andThen (JWT K cfg rq no_context) (\<lambda>cx.
     andThen (JWTBlacklistChecker cfg cx) (\<lambda>_.
     andThen (if Is2FA cfg then TwoFA_middleware (s2_on (tfa_status cfg)) (s2_off (tfa_status cfg)) (s2_verified (tfa_status cfg))
                (cl_twofa (cx_claims cx)) else ret ()) (\<lambda>_.
     ret cx)))"

definition refresh_chain :: "'o packages \<Rightarrow> Configuration \<Rightarrow> http_in \<Rightarrow> (auth_reply, context_values) aprog" where
  "refresh_chain K cfg rq =
     andThen (JWT K cfg rq no_context) (\<lambda>cx.
     andThen (RefreshJWT K cfg rq cx) (\<lambda>cx'.
     andThen (JWTBlacklistChecker cfg cx') (\<lambda>_.
     ret cx')))"

end
