(* ===== verification/Accounts.thy ===== *)
theory Accounts
  imports Jwt
begin

text \<open>
  Sign-up, change of the email address, login and refresh: handler/auth.go, handler/login.go and
  the JSON of an account, database/model/auth.go.
\<close>

section \<open>Sign-up\<close>

text \<open>\<^verbatim>\<open>Auth.UnmarshalJSON\<close>: the client may also send the id of the account.\<close>

definition dec_uint64 :: "nat \<Rightarrow> json \<Rightarrow> nat option" where
  "dec_uint64 old j =
     (case j of
        JNull \<Rightarrow> Some old
      | JNum q \<Rightarrow> if of_int \<lfloor>q\<rfloor> = q \<and> 0 \<le> q \<and> q < 2 ^ 64 then Some (nat \<lfloor>q\<rfloor>) else None
      | _ \<Rightarrow> None)"

definition dec_auth :: "json \<Rightarrow> (nat \<times> string \<times> string) option" where
  "dec_auth = dec_struct (\<lambda>k v (i, e, p).
     if same_name k ''authID'' then map_option (\<lambda>x. (x, e, p)) (dec_uint64 i v)
     else if same_name k ''email'' then map_option (\<lambda>x. (i, x, p)) (dec_string e v)
     else if same_name k ''password'' then map_option (\<lambda>x. (i, e, x)) (dec_string p v)
     else Some (i, e, p)) (0, [], [])"

definition unmarshal_auth :: "'o packages \<Rightarrow> Configuration \<Rightarrow> json \<Rightarrow> (string, Auth) aprog" where
  "unmarshal_auth K cfg j =
     (case dec_auth j of
        None \<Rightarrow> raise ''unmarshal error''
      | Some (i, e, p) \<Rightarrow>
          if int (length p) < sc_user_pass_min_length (cf_security cfg) then raise ''short password''
          else andThen (HashPass K (sc_hash_pass (cf_security cfg)) p (sc_hash_sec (cf_security cfg))) (\<lambda>pass.
            ret (no_auth\<lparr>au_id := i, au_email := trim_space e, au_password := pass\<rparr>)))"

text \<open>\<^verbatim>\<open>First(&auth)\<close> into a struct whose primary key is already set: gorm adds the key to the
  condition.\<close>

definition with_key :: "nat \<Rightarrow> (Auth \<Rightarrow> bool) \<Rightarrow> Auth \<Rightarrow> bool" where
  "with_key i P a \<longleftrightarrow> P a \<and> (i = 0 \<or> au_id a = i)"

text \<open>The outcome of a lookup that should find nothing.\<close>

definition must_be_free :: "(string, Auth) aprog \<Rightarrow> (auth_reply, unit) aprog \<Rightarrow> (auth_reply, unit) aprog" where
  "must_be_free q taken =
     andThen (attempt q) (\<lambda>r.
     case r of
       Inl e \<Rightarrow> if e \<noteq> ''record not found'' then server_error else ret ()
     | Inr _ \<Rightarrow> taken)"

definition or_server_error :: "(string, 'a) aprog \<Rightarrow> (auth_reply, 'a) aprog" where
  "or_server_error m = onErr m (\<lambda>_. server_error)"

text \<open>The uniqueness checks: by address, against a downgrade of the encryption mode, by hash.\<close>

definition check_new_email :: "'o packages \<Rightarrow> Configuration \<Rightarrow> Auth \<Rightarrow> (auth_reply, string) aprog" where
  "check_new_email K cfg auth =
     andThen (must_be_free (first_of auths (with_key (au_id auth) (\<lambda>a. au_email a = au_email auth)))
       (refuse 400 ''email already registered'')) (\<lambda>_.
     if \<not> IsCipher cfg then
       andThen (must_be_free (first_of auths (with_key (au_id auth) (\<lambda>a. au_email_hash a \<noteq> []))) server_error) (\<lambda>_.
       ret [])
     else
       andThen (or_server_error (of_result (email_hash K cfg (au_email auth)))) (\<lambda>emailHash.
       andThen (must_be_free (first_of auths (with_key (au_id auth) (\<lambda>a. au_email_hash a = emailHash)))
         (refuse 400 ''email already registered'')) (\<lambda>_.
       ret emailHash)))"

definition encrypt_email :: "'o packages \<Rightarrow> Configuration \<Rightarrow> string \<Rightarrow> (auth_reply, string \<times> string) aprog" where
  "encrypt_email K cfg email =
     or_server_error (andThen (draw (\<lambda>n. p_chacha_encrypt K n (sc_cipher_key (cf_security cfg)) email)) of_result)"

definition send_or_fail :: "'o packages \<Rightarrow> Configuration \<Rightarrow> string \<Rightarrow> email_type \<Rightarrow> (auth_reply, bool) aprog" where
  "send_or_fail K cfg email t = onErr (SendEmail K cfg email t []) (\<lambda>_. refuse 500 ''email delivery service failed'')"

definition CreateUserAuth :: "'o packages \<Rightarrow> Configuration \<Rightarrow> Auth \<Rightarrow> (auth_reply, auth_reply) aprog" where
  "CreateUserAuth K cfg auth =
     andThen (ValidateEmail K (au_email auth)) (\<lambda>ok.
     if \<not> ok then refuse 400 ''wrong email address''
     else
       andThen (check_new_email K cfg auth) (\<lambda>emailHash.
       andThen (send_or_fail K cfg (au_email auth) VerifyEmailNewAcc) (\<lambda>emailDelivered.
       let authFinal = no_auth\<lparr>au_email := au_email auth, au_password := au_password auth, au_email_hash := emailHash,
             au_verify := (if emailDelivered then EmailNotVerified else EmailVerifyNotRequired)\<rparr> in
       andThen (if IsCipher cfg then
                  andThen (encrypt_email K cfg (au_email auth)) (\<lambda>(c, nonce).
                  ret (authFinal\<lparr>au_email := [], au_email_cipher := hex_encode c, au_email_nonce := hex_encode nonce\<rparr>))
                else ret authFinal) (\<lambda>authFinal.
       andThen (or_server_error (in_tx (create_auth authFinal))) (\<lambda>created.
       ret (MAuth created, 201))))))"

section \<open>Change of the email address\<close>

definition require_auth_id :: "MyCustomClaims \<Rightarrow> (auth_reply, unit) aprog" where
  "require_auth_id claims =
     andThen (ValidateAuthID (cl_auth_id claims)) (\<lambda>ok. if ok then ret () else refuse 401 ''access denied'')"

definition check_password :: "'o packages \<Rightarrow> Configuration \<Rightarrow> string \<Rightarrow> string \<Rightarrow> nat \<Rightarrow> string \<Rightarrow> (auth_reply, unit) aprog" where
  "check_password K cfg given stored code msg =
     (case p_argon_compare K given (sc_hash_sec (cf_security cfg)) stored of
        Inl _ \<Rightarrow> server_error
      | Inr True \<Rightarrow> ret ()
      | Inr False \<Rightarrow> refuse code msg)"

text \<open>A lookup that may find nothing; other errors end the request.\<close>

definition lookup_opt :: "(string, 'r) aprog \<Rightarrow> (auth_reply, 'r option) aprog" where
  "lookup_opt q =
     andThen (attempt q) (\<lambda>r.
     case r of
       Inl e \<Rightarrow> if e \<noteq> ''record not found'' then server_error else ret None
     | Inr x \<Rightarrow> ret (Some x))"

definition no_temp :: TempEmail where
  "no_temp = \<lparr>te_id = 0, te_email = [], te_password = [], te_email_cipher = [], te_email_nonce = [], te_email_hash = [], te_id_auth = 0\<rparr>"

definition repeated_request :: "TempEmail \<Rightarrow> string \<Rightarrow> string \<Rightarrow> bool" where
  "repeated_request t email emailHash \<longleftrightarrow>
     te_email t \<noteq> [] \<and> te_email t = email \<or> te_email t = [] \<and> te_email_hash t = emailHash"

definition fill_temp :: "'o packages \<Rightarrow> Configuration \<Rightarrow> TempEmail \<Rightarrow> string \<Rightarrow> string \<Rightarrow> (auth_reply, TempEmail) aprog" where
  "fill_temp K cfg t email emailHash =
     (if \<not> IsCipher cfg then
        ret (t\<lparr>te_email := email, te_email_cipher := [], te_email_nonce := [], te_email_hash := []\<rparr>)
      else
        andThen (encrypt_email K cfg email) (\<lambda>(c, nonce).
        ret (t\<lparr>te_email := [], te_email_cipher := hex_encode c, te_email_nonce := hex_encode nonce, te_email_hash := emailHash\<rparr>)))"

definition move_email :: "TempEmail \<Rightarrow> Auth \<Rightarrow> Auth" where
  "move_email t a = a\<lparr>au_email := te_email t, au_email_cipher := te_email_cipher t, au_email_nonce := te_email_nonce t,
     au_email_hash := te_email_hash t\<rparr>"

definition UpdateEmail :: "'o packages \<Rightarrow> Configuration \<Rightarrow> MyCustomClaims \<Rightarrow> TempEmail \<Rightarrow> (auth_reply, auth_reply) aprog" where
  "UpdateEmail K cfg claims req =
     andThen (require_auth_id claims) (\<lambda>_.
     let email = trim_space (te_email req) in
     andThen (ValidateEmail K email) (\<lambda>ok.
     if \<not> ok then refuse 400 ''wrong email address''
     else
       andThen (must_be_free (GetUserByEmail K cfg email False) (refuse 400 ''email already registered'')) (\<lambda>_.
       andThen (or_server_error (first_of auths (\<lambda>a. au_id a = cl_auth_id claims))) (\<lambda>auth.
       andThen (check_password K cfg (te_password req) (au_password auth) 400 ''wrong password'') (\<lambda>_.
       andThen (or_server_error (of_result (email_hash K cfg email))) (\<lambda>emailHash.
       andThen (lookup_opt (first_of temp_emails (\<lambda>t. te_id_auth t = cl_auth_id claims))) (\<lambda>pending.
       if (case pending of Some t \<Rightarrow> repeated_request t email emailHash | None \<Rightarrow> False)
       then refuse 400 ''please verify the new email''
       else
         let t0 = (case pending of Some t \<Rightarrow> t | None \<Rightarrow> no_temp);
             t1 = (if te_id t0 = 0 then t0\<lparr>te_id_auth := cl_auth_id claims\<rparr> else t0) in
         andThen (fill_temp K cfg t1 email emailHash) (\<lambda>t2.
         andThen (send_or_fail K cfg email VerifyUpdatedEmail_type) (\<lambda>emailDelivered.
         if emailDelivered then
           andThen (or_server_error (in_tx (save_temp t2))) (\<lambda>_.
           ret (MStr ''verification email delivered'', 200))
         else
           andThen (or_server_error (in_tx (save_auth (move_email t2 auth)))) (\<lambda>_.
           ret (MStr ''email updated'', 200)))))))))))"

section \<open>Login and refresh\<close>

definition issue_tokens :: "'o packages \<Rightarrow> Configuration \<Rightarrow> MyCustomClaims \<Rightarrow> string \<Rightarrow> (auth_reply, auth_reply) aprog" where
  "issue_tokens K cfg claims recoveryKey =
     andThen (or_server_error (GetJWT K cfg claims AccessToken)) (\<lambda>(accessJWT, _).
     andThen (or_server_error (GetJWT K cfg claims RefreshToken)) (\<lambda>(refreshJWT, _).
     ret (MTokens \<lparr>jl_access = accessJWT, jl_refresh = refreshJWT, jl_twofa = cl_twofa claims, jl_recovery_key = recoveryKey\<rparr>, 200)))"

text \<open>With the second factor on, the hash of the password is kept in memory for the validation of
  the one-time password.\<close>

definition login_twofa :: "'o packages \<Rightarrow> Configuration \<Rightarrow> Auth \<Rightarrow> string \<Rightarrow> (auth_reply, string) aprog" where
  "login_twofa K cfg v password =
     (if \<not> Is2FA cfg then ret []
      else
        andThen (lookup_opt (first_of two_fas (\<lambda>t. tf_id_auth t = au_id v))) (\<lambda>r.
        case r of
          None \<Rightarrow> ret []
        | Some twoFA \<Rightarrow>
            andThen (if tf_status twoFA = s2_on (tfa_status cfg) then
                       andThen (or_server_error (of_result (GetHash K cfg password))) (\<lambda>hashPass.
                       upd_st (\<lambda>s. s\<lparr>aw_mem := (aw_mem s)(au_id v \<mapsto> \<lparr>s2_pass_sha = hashPass, s2_secret = [], s2_image = []\<rparr>)\<rparr>))
                     else ret ()) (\<lambda>_.
            ret (tf_status twoFA))))"

definition Login :: "'o packages \<Rightarrow> Configuration \<Rightarrow> AuthPayload \<Rightarrow> (auth_reply, auth_reply) aprog" where
  "Login K cfg payload =
     (let email = trim_space (ap_email payload) in
      andThen (ValidateEmail K email) (\<lambda>ok.
      if \<not> ok then refuse 400 ''wrong email address''
      else
        andThen (lookup_opt (GetUserByEmail K cfg email False)) (\<lambda>r.
        case r of
          None \<Rightarrow> refuse 404 ''email not found''
        | Some v \<Rightarrow>
            if sc_verify_email (cf_security cfg) \<and> au_verify v \<noteq> EmailVerified then refuse 401 ''email verification required''
            else
              andThen (check_password K cfg (ap_password payload) (au_password v) 401 ''wrong credentials'') (\<lambda>_.
              andThen (login_twofa K cfg v (ap_password payload)) (\<lambda>status.
              issue_tokens K cfg (no_claims\<lparr>cl_auth_id := au_id v, cl_twofa := status\<rparr>) [])))))"

definition Refresh :: "'o packages \<Rightarrow> Configuration \<Rightarrow> MyCustomClaims \<Rightarrow> (auth_reply, auth_reply) aprog" where
  "Refresh K cfg claims = andThen (require_auth_id claims) (\<lambda>_. issue_tokens K cfg claims [])"

end
