(* ===== verification/Email_Verification.thy ===== *)
theory Email_Verification
  imports Accounts
begin

text \<open>
  Codes sent by mail: handler/verification.go.  A code is a key in Redis whose value is the
  address (or its hash), and it is deleted before its effect is attempted.
\<close>

section \<open>Taking a code\<close>

text \<open>The common start of the two handlers that take a code.  The error of the delete is only
  logged.  Time passes between the two questions to Redis, so a code may be there for the first and
  gone for the second, which then yields the empty string.\<close>

definition take_code :: "string \<Rightarrow> string \<Rightarrow> (auth_reply, string) aprog" where
  "take_code pre code =
     (let c = trim_space code; key = pre @ c in
      if c = [] then refuse 400 ''required a valid email verification code''
      else
        andThen (or_server_error (auth_redis (cmd_exists key))) (\<lambda>found.
        if \<not> found then refuse 400 ''wrong/expired verification code''
        else
          andThen auth_time_now (\<lambda>_.
          andThen (or_server_error (auth_redis (cmd_get key))) (\<lambda>value.
          andThen (onErr (auth_redis (cmd_del key)) (\<lambda>_. ret ())) (\<lambda>_.
          ret value)))))"

text \<open>Whether the value is an address or a hash is decided by \<^verbatim>\<open>ValidateEmail\<close>, with its lookup of the
  mail servers.\<close>

definition owner_cond :: "bool \<Rightarrow> string \<Rightarrow> Auth \<Rightarrow> bool" where
  "owner_cond isEmail v a \<longleftrightarrow> (if isEmail then au_email a = v else au_email_hash a = v)"

definition temp_cond :: "bool \<Rightarrow> string \<Rightarrow> TempEmail \<Rightarrow> bool" where
  "temp_cond isEmail v t \<longleftrightarrow> (if isEmail then te_email t = v else te_email_hash t = v)"

definition VerifyEmail :: "'o packages \<Rightarrow> Configuration \<Rightarrow> AuthPayload \<Rightarrow> (auth_reply, auth_reply) aprog" where
  "VerifyEmail K cfg payload =
     andThen (take_code EmailVerificationKeyPrefix (ap_verification_code payload)) (\<lambda>value.
     andThen (ValidateEmail K value) (\<lambda>isEmail.
     andThen (or_server_error (first_of auths (owner_cond isEmail value))) (\<lambda>auth.
     if au_verify auth = EmailVerified then ret (MStr ''email already verified'', 200)
     else
       andThen (or_server_error (in_tx (save_auth (auth\<lparr>au_verify := EmailVerified\<rparr>)))) (\<lambda>_.
       ret (MStr ''email successfully verified'', 200)))))"

definition CreateVerificationEmail :: "'o packages \<Rightarrow> Configuration \<Rightarrow> AuthPayload \<Rightarrow> (auth_reply, auth_reply) aprog" where
  "CreateVerificationEmail K cfg payload =
     (let email = trim_space (ap_email payload) in
      andThen (ValidateEmail K email) (\<lambda>ok.
      if \<not> ok then refuse 400 ''wrong email address''
      else
        andThen (lookup_opt (GetUserByEmail K cfg email True)) (\<lambda>r.
        case r of
          None \<Rightarrow> refuse 404 ''user not found''
        | Some v \<Rightarrow>
            if au_verify v = EmailVerified then ret (MStr ''email already verified'', 200)
            else
              andThen (check_password K cfg (ap_password payload) (au_password v) 400 ''wrong credentials'') (\<lambda>_.
              andThen (send_or_fail K cfg (au_email v) VerifyEmailNewAcc) (\<lambda>emailDelivered.
              if \<not> emailDelivered then refuse 503 ''failed to send verification email''
              else ret (MStr ''sent verification email'', 200))))))"

text \<open>The pending row is deleted and the account saved in two transactions; a failure of the first
  is only logged.\<close>

definition VerifyUpdatedEmail :: "'o packages \<Rightarrow> Configuration \<Rightarrow> AuthPayload \<Rightarrow> (auth_reply, auth_reply) aprog" where
  "VerifyUpdatedEmail K cfg payload =
     andThen (take_code EmailUpdateKeyPrefix (ap_verification_code payload)) (\<lambda>value.
     andThen (ValidateEmail K value) (\<lambda>isEmail.
     andThen (lookup_opt (first_of temp_emails (temp_cond isEmail value))) (\<lambda>r.
     case r of
       None \<Rightarrow> refuse 400 ''wrong/expired verification code''
     | Some tempEmail \<Rightarrow>
         andThen (must_be_free (first_of auths (owner_cond isEmail (if isEmail then te_email tempEmail else te_email_hash tempEmail)))
           (refuse 400 ''email already in use'')) (\<lambda>_.
         andThen (lookup_opt (first_of auths (\<lambda>a. au_id a = te_id_auth tempEmail))) (\<lambda>r.
         case r of
           None \<Rightarrow> refuse 400 ''wrong/expired verification code''
         | Some auth \<Rightarrow>
             andThen (onErr (in_tx (delete_temp tempEmail)) (\<lambda>_. ret ())) (\<lambda>_.
             andThen (or_server_error (in_tx (save_auth (move_email tempEmail auth)))) (\<lambda>_.
             ret (MStr ''email address updated'', 200))))))))"

section \<open>The pending change\<close>

definition pending_address :: "'o packages \<Rightarrow> Configuration \<Rightarrow> TempEmail \<Rightarrow> (auth_reply, string) aprog" where
  "pending_address K cfg t =
     (if te_email t = [] then
        if \<not> IsCipher cfg then server_error
        else or_server_error (of_result (DecryptEmail K cfg (te_email_nonce t) (te_email_cipher t)))
      else ret (te_email t))"

definition GetUnverifiedEmail :: "'o packages \<Rightarrow> Configuration \<Rightarrow> MyCustomClaims \<Rightarrow> (auth_reply, auth_reply) aprog" where
  "GetUnverifiedEmail K cfg claims =
     andThen (require_auth_id claims) (\<lambda>_.
     andThen (lookup_opt (first_of temp_emails (\<lambda>t. te_id_auth t = cl_auth_id claims))) (\<lambda>r.
     case r of
       None \<Rightarrow> ret (MStr ''no pending request'', 200)
     | Some t \<Rightarrow>
         andThen (pending_address K cfg t) (\<lambda>email.
         ret (MTemp (t\<lparr>te_email := email, te_email_cipher := [], te_email_nonce := [], te_email_hash := []\<rparr>), 200))))"

definition ResendVerificationCodeToModifyActiveEmail ::
  "'o packages \<Rightarrow> Configuration \<Rightarrow> MyCustomClaims \<Rightarrow> (auth_reply, auth_reply) aprog" where
  "ResendVerificationCodeToModifyActiveEmail K cfg claims =
     andThen (require_auth_id claims) (\<lambda>_.
     andThen (lookup_opt (first_of temp_emails (\<lambda>t. te_id_auth t = cl_auth_id claims))) (\<lambda>r.
     case r of
       None \<Rightarrow> refuse 400 ''no pending request''
     | Some t \<Rightarrow>
         andThen (pending_address K cfg t) (\<lambda>email.
         andThen (send_or_fail K cfg email VerifyUpdatedEmail_type) (\<lambda>emailDelivered.
         if \<not> emailDelivered then refuse 503 ''failed to send verification email''
         else ret (MStr ''sent verification email'', 200)))))"

end
