(* ===== verification/Password_Reset.thy ===== *)
theory Password_Reset
  imports Email_Verification
begin

text \<open>
  Forgotten and changed passwords: handler/passwordReset.go.  The secret of the second factor is
  stored encrypted under a hash of the password and under a hash of a recovery key, so a new
  password has to re-encrypt it.
\<close>

section \<open>Forgotten passwords\<close>

definition PasswordForgot :: "'o packages \<Rightarrow> Configuration \<Rightarrow> AuthPayload \<Rightarrow> (auth_reply, auth_reply) aprog" where
  "PasswordForgot K cfg payload =
     (let email = trim_space (ap_email payload) in
      andThen (ValidateEmail K email) (\<lambda>ok.
      if \<not> ok then refuse 400 ''wrong email address''
      else
        andThen (lookup_opt (GetUserByEmail K cfg email True)) (\<lambda>r.
        case r of
          None \<Rightarrow> refuse 404 ''user not found''
        | Some v \<Rightarrow>
            if au_verify v \<noteq> EmailVerified then refuse 400 ''email not verified yet''
            else
              andThen (send_or_fail K cfg (au_email v) PassRecovery) (\<lambda>emailDelivered.
              if \<not> emailDelivered then refuse 503 ''sending password recovery email not possible''
              else ret (MStr ''sent password recovery email'', 200)))))"

definition check_new_password :: "Configuration \<Rightarrow> AuthPayload \<Rightarrow> (auth_reply, unit) aprog" where
  "check_new_password cfg p =
     (let n = sc_user_pass_min_length (cf_security cfg) in
      if int (length (ap_pass_new p)) < n then refuse 400 (''password length must be greater than or equal to '' @ show_int n)
      else if ap_pass_new p \<noteq> ap_pass_repeat p then refuse 400 ''password mismatch''
      else ret ())"

definition hash_new_password :: "'o packages \<Rightarrow> Configuration \<Rightarrow> string \<Rightarrow> (auth_reply, string) aprog" where
  "hash_new_password K cfg pass =
     or_server_error (HashPass K (sc_hash_pass (cf_security cfg)) pass (sc_hash_sec (cf_security cfg)))"

text \<open>A new recovery key: the last characters of a UUID without its hyphens.  Slicing panics when the
  configured length is larger than the string.\<close>

definition new_recovery_key :: "'o packages \<Rightarrow> Configuration \<Rightarrow> (auth_reply, string) aprog" where
  "new_recovery_key K cfg =
     andThen (draw (p_uuid K)) (\<lambda>u.
     let k = delete_all CHR ''-'' u in
     if 0 \<le> tfa_digits cfg \<and> tfa_digits cfg \<le> int (length k) then ret (drop (length k - nat (tfa_digits cfg)) k) else go_panic)"

definition hash_500 :: "'o packages \<Rightarrow> Configuration \<Rightarrow> string \<Rightarrow> (auth_reply, string) aprog" where
  "hash_500 K cfg d = or_server_error (of_result (GetHash K cfg d))"

definition decode_500 :: "string \<Rightarrow> (auth_reply, string) aprog" where
  "decode_500 s = (case base64_decode s of None \<Rightarrow> server_error | Some b \<Rightarrow> ret b)"

text \<open>The part that the activation of the second factor and a recovery share: the secret under the
  hash of a new recovery key and of the password, and a random UUID, hashed and encrypted, that
  tells a right recovery key from a wrong one.\<close>

definition protect_secret ::
  "'o packages \<Rightarrow> Configuration \<Rightarrow> string \<Rightarrow> string \<Rightarrow> string \<Rightarrow> TwoFA \<Rightarrow> (auth_reply, TwoFA) aprog" where
  "protect_secret K cfg keyMainCipher keyBackupCipher keyRecoveryHash twoFA =
     andThen (draw (p_uuid K)) (\<lambda>uuid.
     andThen (hash_500 K cfg uuid) (\<lambda>uuidSHA.
     andThen (or_server_error (Encrypt K uuid keyRecoveryHash)) (\<lambda>uuidEnc.
     ret (twoFA\<lparr>tf_key_main := base64 keyMainCipher, tf_key_backup := base64 keyBackupCipher, tf_uuid_enc := base64 uuidEnc,
            tf_uuid_sha := base64 uuidSHA\<rparr>))))"

definition check_recovery_key :: "'o packages \<Rightarrow> Configuration \<Rightarrow> TwoFA \<Rightarrow> string \<Rightarrow> (auth_reply, string) aprog" where
  "check_recovery_key K cfg twoFA recoveryKey =
     (if int (length recoveryKey) \<noteq> tfa_digits cfg then refuse 401 ''valid 2-fa recovery key required''
      else
        andThen (hash_500 K cfg recoveryKey) (\<lambda>hashRecoveryKey.
        andThen (decode_500 (tf_uuid_enc twoFA)) (\<lambda>uuidCipher.
        case Decrypt K uuidCipher hashRecoveryKey of
          Inl _ \<Rightarrow> refuse 401 ''invalid recovery key''
        | Inr uuidPlain \<Rightarrow>
            andThen (hash_500 K cfg uuidPlain) (\<lambda>uuidSHA.
            if base64 uuidSHA \<noteq> tf_uuid_sha twoFA then refuse 401 ''invalid recovery key''
            else ret hashRecoveryKey))))"

definition recover_twofa :: "'o packages \<Rightarrow> Configuration \<Rightarrow> TwoFA \<Rightarrow> AuthPayload \<Rightarrow> (auth_reply, string) aprog" where
  "recover_twofa K cfg twoFA p =
     andThen (check_recovery_key K cfg twoFA (RemoveAllSpace (ap_recovery_key p))) (\<lambda>hashRecoveryKey.
     andThen (decode_500 (tf_key_backup twoFA)) (\<lambda>keyBackupCipher.
     andThen (or_server_error (of_result (Decrypt K keyBackupCipher hashRecoveryKey))) (\<lambda>secret.
     andThen (new_recovery_key K cfg) (\<lambda>keyRecovery.
     andThen (hash_500 K cfg keyRecovery) (\<lambda>keyRecoveryHash.
     andThen (or_server_error (Encrypt K secret keyRecoveryHash)) (\<lambda>keyBackupCipher.
     andThen (hash_500 K cfg (ap_pass_new p)) (\<lambda>passSHA.
     andThen (or_server_error (Encrypt K secret passSHA)) (\<lambda>keyMainCipher.
     andThen (protect_secret K cfg keyMainCipher keyBackupCipher keyRecoveryHash twoFA) (\<lambda>twoFA'.
     andThen (or_server_error (in_tx (save_twofa twoFA'))) (\<lambda>_.
     ret keyRecovery))))))))))"

definition recovery_step :: "'o packages \<Rightarrow> Configuration \<Rightarrow> Auth \<Rightarrow> AuthPayload \<Rightarrow> (auth_reply, string) aprog" where
  "recovery_step K cfg auth p =
     (if \<not> Is2FA cfg then ret []
      else
        andThen (lookup_opt (first_of two_fas (\<lambda>t. tf_id_auth t = au_id auth))) (\<lambda>r.
        case r of
          None \<Rightarrow> ret []
        | Some twoFA \<Rightarrow> if tf_status twoFA = s2_on (tfa_status cfg) then recover_twofa K cfg twoFA p else ret []))"

definition PasswordRecover :: "'o packages \<Rightarrow> Configuration \<Rightarrow> AuthPayload \<Rightarrow> (auth_reply, auth_reply) aprog" where
  "PasswordRecover K cfg p =
     andThen (check_new_password cfg p) (\<lambda>_.
     let key = PasswordRecoveryKeyPrefix @ ap_secret_code p in
     andThen (or_server_error (auth_redis (cmd_exists key))) (\<lambda>found.
     if \<not> found then refuse 401 ''wrong/expired secret code''
     else
       andThen auth_time_now (\<lambda>_.
       andThen (or_server_error (auth_redis (cmd_get key))) (\<lambda>value.
       andThen (hash_new_password K cfg (ap_pass_new p)) (\<lambda>pass.
       andThen (ValidateEmail K value) (\<lambda>isEmail.
       andThen (lookup_opt (first_of auths (owner_cond isEmail value))) (\<lambda>r.
       case r of
         None \<Rightarrow> refuse 400 ''unknown user''
       | Some auth \<Rightarrow>
           andThen (recovery_step K cfg auth p) (\<lambda>recoveryKey.
           andThen (or_server_error (in_tx (save_auth (auth\<lparr>au_password := pass\<rparr>)))) (\<lambda>_.
           andThen (onErr (auth_redis (cmd_del key)) (\<lambda>_. ret ())) (\<lambda>_.
           ret (MRecovered ''password updated'' recoveryKey, 200)))))))))))"

section \<open>Changed passwords\<close>

definition reencrypt_main :: "'o packages \<Rightarrow> Configuration \<Rightarrow> TwoFA \<Rightarrow> AuthPayload \<Rightarrow> (auth_reply, unit) aprog" where
  "reencrypt_main K cfg twoFA p =
     andThen (hash_500 K cfg (ap_password p)) (\<lambda>hashPassCurrent.
     andThen (hash_500 K cfg (ap_pass_new p)) (\<lambda>hashPassNew.
     andThen (decode_500 (tf_key_main twoFA)) (\<lambda>keyMainCipher.
     andThen (or_server_error (of_result (Decrypt K keyMainCipher hashPassCurrent))) (\<lambda>secret.
     andThen (or_server_error (Encrypt K secret hashPassNew)) (\<lambda>keyMainCipher.
     or_server_error (in_tx (save_twofa (twoFA\<lparr>tf_key_main := base64 keyMainCipher\<rparr>))))))))"

text \<open>The row of the second factor and the account are saved in two transactions.\<close>

definition PasswordUpdate :: "'o packages \<Rightarrow> Configuration \<Rightarrow> MyCustomClaims \<Rightarrow> AuthPayload \<Rightarrow> (auth_reply, auth_reply) aprog" where
  "PasswordUpdate K cfg claims p =
     andThen (require_auth_id claims) (\<lambda>_.
     andThen (check_new_password cfg p) (\<lambda>_.
     andThen (or_server_error (first_of auths (\<lambda>a. au_id a = cl_auth_id claims))) (\<lambda>auth.
     andThen (check_password K cfg (ap_password p) (au_password auth) 400 ''wrong credentials'') (\<lambda>_.
     andThen (if Is2FA cfg then lookup_opt (first_of two_fas (\<lambda>t. tf_id_auth t = cl_auth_id claims)) else ret None) (\<lambda>twoFA.
     andThen (hash_new_password K cfg (ap_pass_new p)) (\<lambda>pass.
     andThen (case twoFA of
                Some t \<Rightarrow> if tf_status t = s2_on (tfa_status cfg) then reencrypt_main K cfg t p else ret ()
              | None \<Rightarrow> ret ()) (\<lambda>_.
     andThen (or_server_error (in_tx (save_auth (auth\<lparr>au_password := pass\<rparr>)))) (\<lambda>_.
     ret (MStr ''password updated'', 200)))))))))"

end
