(* ===== verification/Two_Factor.thy ===== *)
theory Two_Factor
  imports Password_Reset
begin

text \<open>
  The second factor: handler/twoFA.go.  An account goes from no second factor through a secret in
  memory (setup) to an encrypted secret in the table (activation); a login then yields tokens
  marked \<open>on\<close>, which a one-time password or a backup code turns into tokens marked
  \<open>verified\<close>.
\<close>

section \<open>Setup and activation\<close>

definition status_reply :: "string \<Rightarrow> nat \<Rightarrow> auth_reply" where
  "status_reply st code = (MStr (''twoFA: '' @ st), code)"

definition put_secret :: "nat \<Rightarrow> Secret2FA \<Rightarrow> ('e, unit) aprog" where
  "put_secret i d = upd_st (\<lambda>s. s\<lparr>aw_mem := (aw_mem s)(i \<mapsto> d)\<rparr>)"

definition get_secret :: "nat \<Rightarrow> ('e, Secret2FA option) aprog" where
  "get_secret i = andThen get_st (\<lambda>s. ret (aw_mem s i))"

text \<open>An image is deleted if it is there; a failure is only logged.\<close>

definition qr_path :: "Configuration \<Rightarrow> string \<Rightarrow> string" where
  "qr_path cfg img = sc_2fa_path_qr (cf_security cfg) @ ''/'' @ img"

definition remove_image :: "Configuration \<Rightarrow> string \<Rightarrow> ('e, unit) aprog" where
  "remove_image cfg img = upd_st (\<lambda>s. s\<lparr>aw_files := removeAll (qr_path cfg img) (aw_files s)\<rparr>)"

text \<open>lib/img.go: the QR code becomes a file with a random name.\<close>

definition ByteToPNG :: "'o packages \<Rightarrow> Configuration \<Rightarrow> string \<Rightarrow> (string, string) aprog" where
  "ByteToPNG K cfg qr =
     andThen (draw (\<lambda>n. p_png K n qr)) (\<lambda>r.
     case r of
       None \<Rightarrow> raise ''image error''
     | Some img \<Rightarrow>
         andThen (upd_st (\<lambda>s. s\<lparr>aw_files := qr_path cfg img # aw_files s\<rparr>)) (\<lambda>_.
         ret img))"

definition user_email :: "'o packages \<Rightarrow> Configuration \<Rightarrow> Auth \<Rightarrow> (auth_reply, string) aprog" where
  "user_email K cfg v =
     andThen (ValidateEmail K (au_email v)) (\<lambda>ok.
     if ok then ret (au_email v)
     else or_server_error (of_result (DecryptEmail K cfg (au_email_nonce v) (au_email_cipher v))))"

definition Setup2FA :: "'o packages \<Rightarrow> Configuration \<Rightarrow> MyCustomClaims \<Rightarrow> AuthPayload \<Rightarrow> (auth_reply, auth_reply) aprog" where
  "Setup2FA K cfg claims p =
     (let st = tfa_status cfg; sec = cf_security cfg in
      andThen (require_auth_id claims) (\<lambda>_.
      if cl_twofa claims = s2_verified st then ret (status_reply (s2_verified st) 200)
      else if cl_twofa claims = s2_on st then raise (status_reply (s2_on st) 400)
      else
        andThen (lookup_opt (first_of two_fas (\<lambda>t. tf_id_auth t = cl_auth_id claims))) (\<lambda>r.
        if (case r of Some t \<Rightarrow> tf_status t = s2_on st | None \<Rightarrow> False) then raise (status_reply (s2_on st) 400)
        else
          andThen (lookup_opt (first_of auths (\<lambda>a. au_id a = cl_auth_id claims))) (\<lambda>r.
          case r of
            None \<Rightarrow> refuse 401 ''user not found''
          | Some v \<Rightarrow>
              andThen (check_password K cfg (ap_password p) (au_password v) 400 ''wrong credentials'') (\<lambda>_.
              andThen (user_email K cfg v) (\<lambda>email.
              andThen (or_server_error (NewTOTP K email (sc_2fa_issuer sec) (sc_2fa_crypto sec) (sc_2fa_digits sec))) (\<lambda>otpByte.
              andThen (or_server_error (of_result (NewQR K otpByte (sc_2fa_issuer sec)))) (\<lambda>qrByte.
              andThen (or_server_error (ByteToPNG K cfg qrByte)) (\<lambda>img.
              andThen (hash_500 K cfg (ap_password p)) (\<lambda>hashPass.
              andThen (get_secret (cl_auth_id claims)) (\<lambda>old.
              andThen (case old of Some d \<Rightarrow> remove_image cfg (s2_image d) | None \<Rightarrow> ret ()) (\<lambda>_.
              andThen (put_secret (cl_auth_id claims) \<lparr>s2_pass_sha = hashPass, s2_secret = otpByte, s2_image = img\<rparr>) (\<lambda>_.
              ret (MStr (qr_path cfg img), 201)))))))))))))) "

text \<open>The one-time password is validated against the secret in memory, at the time of the call.\<close>

definition validate_otp :: "'o packages \<Rightarrow> Configuration \<Rightarrow> string \<Rightarrow> string \<Rightarrow> ('e, string \<times> string \<times> string option) aprog" where
  "validate_otp K cfg secret otp = andThen auth_time_now (\<lambda>now. ret (Validate2FA_service K cfg now secret otp))"

definition activate_row ::
  "'o packages \<Rightarrow> Configuration \<Rightarrow> MyCustomClaims \<Rightarrow> Secret2FA \<Rightarrow> string \<Rightarrow> TwoFA option \<Rightarrow> (auth_reply, string) aprog" where
  "activate_row K cfg claims data2FA otpByte found =
     andThen (or_server_error (Encrypt K otpByte (s2_pass_sha data2FA))) (\<lambda>keyMainCipher.
     andThen (new_recovery_key K cfg) (\<lambda>keyRecovery.
     andThen (hash_500 K cfg keyRecovery) (\<lambda>keyRecoveryHash.
     andThen (or_server_error (Encrypt K otpByte keyRecoveryHash)) (\<lambda>keyBackupCipher.
     andThen (protect_secret K cfg keyMainCipher keyBackupCipher keyRecoveryHash
       (case found of Some t \<Rightarrow> t | None \<Rightarrow> no_twofa)) (\<lambda>twoFA.
     let twoFA = twoFA\<lparr>tf_status := s2_on (tfa_status cfg), tf_id_auth := cl_auth_id claims\<rparr> in
     andThen (or_server_error (in_tx (if found = None then create_twofa twoFA else save_twofa twoFA))) (\<lambda>_.
     ret keyRecovery))))))"

definition Activate2FA :: "'o packages \<Rightarrow> Configuration \<Rightarrow> MyCustomClaims \<Rightarrow> AuthPayload \<Rightarrow> (auth_reply, auth_reply) aprog" where
  "Activate2FA K cfg claims p =
     (let st = tfa_status cfg; otp = RemoveAllSpace (ap_otp p) in
      andThen (require_auth_id claims) (\<lambda>_.
      if cl_twofa claims = s2_verified st then raise (status_reply (s2_verified st) 400)
      else if cl_twofa claims = s2_on st then raise (status_reply (s2_on st) 400)
      else
        andThen (get_secret (cl_auth_id claims)) (\<lambda>r.
        case r of
          None \<Rightarrow> refuse 400 ''request for a new 2-fa secret''
        | Some data2FA \<Rightarrow>
            if int (length otp) \<noteq> tfa_digits cfg then refuse 400 ''wrong one-time password''
            else
              andThen (validate_otp K cfg (s2_secret data2FA) otp) (\<lambda>res.
              case res of
                (otpByte, status, Some _) \<Rightarrow>
                  if status = s2_invalid st then
                    andThen (put_secret (cl_auth_id claims) (data2FA\<lparr>s2_secret := otpByte\<rparr>)) (\<lambda>_.
                    refuse 400 ''wrong one-time password'')
                  else server_error
              | (otpByte, _, None) \<Rightarrow>
                  andThen (lookup_opt (first_of two_fas (\<lambda>t. tf_id_auth t = cl_auth_id claims))) (\<lambda>found.
                  if (case found of Some t \<Rightarrow> tf_status t = s2_on st | None \<Rightarrow> False) then
                    andThen (remove_image cfg (s2_image data2FA)) (\<lambda>_.
                    andThen (DelMem2FA (cl_auth_id claims)) (\<lambda>_.
                    raise (status_reply (s2_on st) 400)))
                  else
                    andThen (activate_row K cfg claims data2FA otpByte found) (\<lambda>keyRecovery.
                    andThen (remove_image cfg (s2_image data2FA)) (\<lambda>_.
                    andThen (DelMem2FA (cl_auth_id claims)) (\<lambda>_.
                    issue_tokens K cfg (claims\<lparr>cl_twofa := s2_verified st\<rparr>) keyRecovery))))))))"

section \<open>Validation\<close>

text \<open>Where the secret comes from: memory on a second attempt, the table, decrypted with the hash of
  the password from the login, on the first.\<close>

definition current_secret :: "'o packages \<Rightarrow> Secret2FA \<Rightarrow> TwoFA \<Rightarrow> (auth_reply, string) aprog" where
  "current_secret K data2FA twoFA =
     (if length (s2_secret data2FA) > 0 then ret (s2_secret data2FA)
      else
        andThen (decode_500 (tf_key_main twoFA)) (\<lambda>c.
        or_server_error (of_result (Decrypt K c (s2_pass_sha data2FA)))))"

text \<open>A failed attempt is written back, too; its errors are only logged, and a secret that could not
  be encrypted is replaced by the empty string.\<close>

definition failed_attempt ::
  "'o packages \<Rightarrow> MyCustomClaims \<Rightarrow> Secret2FA \<Rightarrow> TwoFA \<Rightarrow> string \<Rightarrow> (auth_reply, auth_reply) aprog" where
  "failed_attempt K claims data2FA twoFA otpByte =
     andThen (put_secret (cl_auth_id claims) (data2FA\<lparr>s2_secret := otpByte\<rparr>)) (\<lambda>_.
     andThen (onErr (Encrypt K otpByte (s2_pass_sha data2FA)) (\<lambda>_. ret [])) (\<lambda>keyMainCipher.
     andThen (onErr (in_tx (save_twofa (twoFA\<lparr>tf_key_main := base64 keyMainCipher\<rparr>))) (\<lambda>_. ret ())) (\<lambda>_.
     refuse 400 ''wrong one-time password'')))"

definition validated ::
  "'o packages \<Rightarrow> Configuration \<Rightarrow> MyCustomClaims \<Rightarrow> Secret2FA \<Rightarrow> TwoFA \<Rightarrow> string \<Rightarrow> (auth_reply, auth_reply) aprog" where
  "validated K cfg claims data2FA twoFA otpByte =
     andThen (or_server_error (Encrypt K otpByte (s2_pass_sha data2FA))) (\<lambda>keyMainCipher.
     andThen (onErr (in_tx (save_twofa (twoFA\<lparr>tf_key_main := base64 keyMainCipher\<rparr>))) (\<lambda>_. ret ())) (\<lambda>_.
     andThen (DelMem2FA (cl_auth_id claims)) (\<lambda>_.
     issue_tokens K cfg (claims\<lparr>cl_twofa := s2_verified (tfa_status cfg)\<rparr>) [])))"

definition Validate2FA :: "'o packages \<Rightarrow> Configuration \<Rightarrow> MyCustomClaims \<Rightarrow> AuthPayload \<Rightarrow> (auth_reply, auth_reply) aprog" where
  "Validate2FA K cfg claims p =
     (let st = tfa_status cfg; otp = RemoveAllSpace (ap_otp p) in
      andThen (require_auth_id claims) (\<lambda>_.
      if cl_twofa claims = s2_verified st then ret (status_reply (s2_verified st) 200)
      else if cl_twofa claims \<noteq> s2_on st then refuse 400 ''unexpected request (1): 2-fa is OFF / log in again''
      else
        andThen (get_secret (cl_auth_id claims)) (\<lambda>r.
        case r of
          None \<Rightarrow> refuse 400 ''log in again''
        | Some data2FA \<Rightarrow>
            if int (length otp) \<noteq> tfa_digits cfg then refuse 400 ''wrong one-time password''
            else
              andThen (lookup_opt (first_of two_fas (\<lambda>t. tf_id_auth t = cl_auth_id claims))) (\<lambda>r.
              case r of
                None \<Rightarrow> refuse 400 ''unexpected request (2): 2-fa is OFF / log in again''
              | Some twoFA \<Rightarrow>
                  if tf_status twoFA \<noteq> s2_on st then refuse 400 ''unexpected request (3): 2-fa is OFF / log in again''
                  else
                    andThen (current_secret K data2FA twoFA) (\<lambda>secret.
                    andThen (validate_otp K cfg secret otp) (\<lambda>res.
                    case res of
                      (otpByte, status, Some _) \<Rightarrow>
                        if status = s2_invalid st then failed_attempt K claims data2FA twoFA otpByte else server_error
                    | (otpByte, _, None) \<Rightarrow> validated K cfg claims data2FA twoFA otpByte))))))"

section \<open>Deactivation\<close>

definition deactivate_row :: "Configuration \<Rightarrow> TwoFA option \<Rightarrow> string \<Rightarrow> (auth_reply, string) aprog" where
  "deactivate_row cfg r old =
     (let st = tfa_status cfg in
      case r of
        None \<Rightarrow> ret []
      | Some t \<Rightarrow>
          let c1 = (if tf_status t = [] \<or> tf_status t = s2_off st then tf_status t else old) in
          if tf_status t = s2_on st then
            andThen (or_server_error (in_tx (save_twofa (t\<lparr>tf_key_main := [], tf_key_backup := [], tf_uuid_sha := [],
              tf_uuid_enc := [], tf_status := s2_off st\<rparr>)))) (\<lambda>_.
            ret (s2_off st))
          else ret c1)"

text \<open>The backup codes of the account; errors are only logged.\<close>

definition drop_backups :: "nat \<Rightarrow> (auth_reply, unit) aprog" where
  "drop_backups i =
     andThen (attempt (find_all backups (\<lambda>b. tb_id_auth b = i))) (\<lambda>r.
     case r of
       Inl _ \<Rightarrow> ret ()
     | Inr [] \<Rightarrow> ret ()
     | Inr bs \<Rightarrow> onErr (in_tx (delete_backups (tb_id ` set bs))) (\<lambda>_. ret ()))"

definition Deactivate2FA :: "'o packages \<Rightarrow> Configuration \<Rightarrow> MyCustomClaims \<Rightarrow> AuthPayload \<Rightarrow> (auth_reply, auth_reply) aprog" where
  "Deactivate2FA K cfg claims p =
     (let st = tfa_status cfg in
      if cl_twofa claims = [] \<or> cl_twofa claims = s2_off st then ret (status_reply (s2_off st) 200)
      else
        andThen (lookup_opt (first_of auths (\<lambda>a. au_id a = cl_auth_id claims))) (\<lambda>r.
        case r of
          None \<Rightarrow> refuse 401 ''user not found''
        | Some v \<Rightarrow>
            andThen (check_password K cfg (ap_password p) (au_password v) 400 ''wrong credentials'') (\<lambda>_.
            andThen (lookup_opt (first_of two_fas (\<lambda>t. tf_id_auth t = au_id v))) (\<lambda>r.
            andThen (deactivate_row cfg r (cl_twofa claims)) (\<lambda>status.
            andThen (drop_backups (au_id v)) (\<lambda>_.
            issue_tokens K cfg (claims\<lparr>cl_twofa := status\<rparr>) []))))))"

section \<open>Backup codes\<close>

text \<open>Each code is drawn again until it succeeds; \<open>None\<close>: this never happens.\<close>

partial_function (option) code_loop :: "(nat \<Rightarrow> string option \<times> nat) \<Rightarrow> nat \<Rightarrow> (string \<times> nat) option" where
  "code_loop gen n =
     (case gen n of
        (Some c, n') \<Rightarrow> Some (c, n')
      | (None, n') \<Rightarrow> code_loop gen n')"

text \<open>The loop returns as soon as one of the coming draws succeeds.\<close>

lemma code_loop_returns:
  "fst (gen (((\<lambda>i. snd (gen i)) ^^ k) n)) \<noteq> None \<Longrightarrow> code_loop gen n \<noteq> None"
proof (induction k arbitrary: n)
  case 0
  then show ?case by (subst code_loop.simps) (auto split: prod.splits option.splits)
next
  case (Suc k)
  then have "code_loop gen (snd (gen n)) \<noteq> None" by (simp only: funpow_Suc_right comp_apply)
  then show ?case by (subst code_loop.simps) (auto split: prod.splits option.splits)
qed

primrec code_list :: "(nat \<Rightarrow> string option \<times> nat) \<Rightarrow> nat \<Rightarrow> nat \<Rightarrow> (string list \<times> nat) option" where
  "code_list gen 0 n = Some ([], n)"
| "code_list gen (Suc k) n =
     (case code_loop gen n of
        None \<Rightarrow> None
      | Some (c, n') \<Rightarrow> (case code_list gen k n' of None \<Rightarrow> None | Some (cs, n'') \<Rightarrow> Some (c # cs, n'')))"

definition draw_codes :: "'o packages \<Rightarrow> ('e, string list) aprog" where
  "draw_codes K s =
     (case code_list (GenerateCode K 16) 10 (aw_draws s) of
        None \<Rightarrow> (Inl GoPanic, s)
      | Some (cs, n) \<Rightarrow> (Inr cs, s\<lparr>aw_draws := n\<rparr>))"

primrec hash_codes :: "'o packages \<Rightarrow> Configuration \<Rightarrow> string list \<Rightarrow> (auth_reply, string list) aprog" where
  "hash_codes K cfg [] = ret []"
| "hash_codes K cfg (c # cs) =
     andThen (or_server_error (of_result (CalcHash K c (sc_blake2b_sec (cf_security cfg))))) (\<lambda>h.
     andThen (hash_codes K cfg cs) (\<lambda>hs. ret (hex_encode h # hs)))"

definition CreateBackup2FA :: "'o packages \<Rightarrow> Configuration \<Rightarrow> MyCustomClaims \<Rightarrow> AuthPayload \<Rightarrow> (auth_reply, auth_reply) aprog" where
  "CreateBackup2FA K cfg claims p =
     andThen (require_auth_id claims) (\<lambda>_.
     if cl_twofa claims \<noteq> s2_verified (tfa_status cfg) then refuse 401 ''access denied''
     else
       andThen (lookup_opt (first_of auths (\<lambda>a. au_id a = cl_auth_id claims))) (\<lambda>r.
       case r of
         None \<Rightarrow> refuse 401 ''user not found''
       | Some v \<Rightarrow>
           andThen (check_password K cfg (ap_password p) (au_password v) 400 ''wrong credentials'') (\<lambda>_.
           andThen (draw_codes K) (\<lambda>codes.
           andThen (hash_codes K cfg codes) (\<lambda>hashes.
           andThen (or_server_error (find_all backups (\<lambda>b. tb_id_auth b = cl_auth_id claims))) (\<lambda>old.
           andThen (if old \<noteq> [] then or_server_error (in_tx (delete_backups (tb_id ` set old))) else ret ()) (\<lambda>_.
           andThen (or_server_error (in_tx (create_backups (cl_auth_id claims) hashes))) (\<lambda>_.
           ret (MCodes codes, 200)))))))))"

definition ValidateBackup2FA :: "'o packages \<Rightarrow> Configuration \<Rightarrow> MyCustomClaims \<Rightarrow> AuthPayload \<Rightarrow> (auth_reply, auth_reply) aprog" where
  "ValidateBackup2FA K cfg claims p =
     (let st = tfa_status cfg; otp = trim_space (ap_otp p) in
      andThen (require_auth_id claims) (\<lambda>_.
      if cl_twofa claims = s2_verified st then ret (status_reply (s2_verified st) 200)
      else if cl_twofa claims \<noteq> s2_on st then refuse 400 ''unexpected request (1): 2-fa is OFF / log in again''
      else if otp = [] then refuse 400 ''required 2-fa backup code''
      else
        andThen (or_server_error (find_all backups (\<lambda>b. tb_id_auth b = cl_auth_id claims))) (\<lambda>codes.
        if codes = [] then refuse 400 ''user has no unused valid backup code''
        else
          andThen (or_server_error (of_result (CalcHash K otp (sc_blake2b_sec (cf_security cfg))))) (\<lambda>h.
          case find (\<lambda>b. tb_code_hash b = hex_encode h) codes of
            None \<Rightarrow> refuse 400 ''invalid 2-fa backup code''
          | Some b \<Rightarrow>
              andThen (or_server_error (in_tx (delete_backups {tb_id b}))) (\<lambda>_.
              issue_tokens K cfg (claims\<lparr>cl_twofa := s2_verified st\<rparr>) [])))))"

end
