(* ===== verification/Auth_Runs.thy ===== *)
theory Auth_Runs
  imports Two_Factor
begin

text \<open>
  Running the account handlers: the equations of each step when database and Redis answer
  (collection \<open>auth_run\<close>), and triples for the steps whatever they answer (collection
  \<open>auth_rules\<close>).
\<close>

named_theorems auth_run \<open>steps of the account handlers with every server answering\<close>
named_theorems auth_rules \<open>triples for the steps of the account handlers\<close>

section \<open>Every server answers\<close>

abbreviation db_of :: "auth_world \<Rightarrow> auth_db" where
  "db_of s \<equiv> committed (aw_db s)"

definition set_db :: "auth_db \<Rightarrow> auth_world \<Rightarrow> auth_world" where
  "set_db d s = s\<lparr>aw_db := (aw_db s)\<lparr>committed := d\<rparr>\<rparr>"

definition auth_up :: "auth_world \<Rightarrow> bool" where
  "auth_up s \<longleftrightarrow> db_up (aw_db s) \<and> faults (aw_db s) = [] \<and> txn (aw_db s) = NoTx"

definition redis_up :: "auth_world \<Rightarrow> bool" where
  "redis_up s \<longleftrightarrow> aw_redis_faults s = []"

lemma set_db_simps [simp]:
  "db_of (set_db d s) = d" "set_db (db_of s) s = s" "set_db d (set_db d' s) = set_db d s"
  "aw_redis (set_db d s) = aw_redis s" "aw_redis_faults (set_db d s) = aw_redis_faults s" "aw_mem (set_db d s) = aw_mem s"
  "aw_now (set_db d s) = aw_now s" "aw_ticks (set_db d s) = aw_ticks s" "aw_draws (set_db d s) = aw_draws s"
  "aw_mails (set_db d s) = aw_mails s" "aw_files (set_db d s) = aw_files s"
  "auth_up (set_db d s) = auth_up s" "redis_up (set_db d s) = redis_up s"
  by (simp_all add: set_db_def auth_up_def redis_up_def)

lemma up_updates [simp]:
  "auth_up (s\<lparr>aw_redis := r\<rparr>) = auth_up s" "auth_up (s\<lparr>aw_mem := m\<rparr>) = auth_up s" "auth_up (s\<lparr>aw_draws := n\<rparr>) = auth_up s"
  "auth_up (s\<lparr>aw_now := t\<rparr>) = auth_up s" "auth_up (s\<lparr>aw_ticks := k\<rparr>) = auth_up s" "auth_up (s\<lparr>aw_files := f\<rparr>) = auth_up s"
  "auth_up (s\<lparr>aw_mails := x\<rparr>) = auth_up s"
  "redis_up (s\<lparr>aw_redis := r\<rparr>) = redis_up s" "redis_up (s\<lparr>aw_mem := m\<rparr>) = redis_up s"
  "redis_up (s\<lparr>aw_draws := n\<rparr>) = redis_up s" "redis_up (s\<lparr>aw_now := t\<rparr>) = redis_up s" "redis_up (s\<lparr>aw_ticks := k\<rparr>) = redis_up s"
  "redis_up (s\<lparr>aw_files := f\<rparr>) = redis_up s" "redis_up (s\<lparr>aw_mails := x\<rparr>) = redis_up s"
  by (simp_all add: auth_up_def redis_up_def)

lemma auth_sql_run [auth_run]:
  "auth_up s \<Longrightarrow> auth_sql f s = (Inr (fst (f (db_of s))), set_db (snd (f (db_of s))) s)"
  by (simp add: auth_sql_def zoom_def andThen_def get_st_def GetDB_def deref_def ret_def stmt_def next_fault_def auth_up_def set_db_def)

lemma first_of_run [auth_run]:
  "auth_up s \<Longrightarrow> first_of rows P s =
     (case find P (rows (db_of s)) of Some x \<Rightarrow> (Inr x, s) | None \<Rightarrow> (Inl (Raise ''record not found''), s))"
  by (simp add: first_of_def andThen_def auth_sql_run raise_def ret_def split: option.split)

lemma find_all_run [auth_run]: "auth_up s \<Longrightarrow> find_all rows P s = (Inr (filter P (rows (db_of s))), s)"
  by (simp add: find_all_def auth_sql_run)

lemma in_tx_run [auth_run]:
  "auth_up s \<Longrightarrow> in_tx f s = (Inr (fst (f (db_of s))), set_db (snd (f (db_of s))) s)"
  by (simp add: in_tx_def zoom_def andThen_def get_st_def GetDB_def deref_def ret_def stmt_def next_fault_def auth_up_def set_db_def
      begin_tx_def onErr_def commit_tx_def)

lemma auth_redis_run [auth_run]: "redis_up s \<Longrightarrow> auth_redis f s = (Inr (fst (f s)), snd (f s))"
  by (simp add: auth_redis_def redis_up_def split: prod.split)

lemma lookup_opt_run [auth_run]:
  "auth_up s \<Longrightarrow> lookup_opt (first_of rows P) s = (Inr (find P (rows (db_of s))), s)"
  by (simp add: lookup_opt_def andThen_def attempt_def first_of_run ret_def split: option.split)

lemma must_be_free_run [auth_run]:
  "auth_up s \<Longrightarrow> must_be_free (first_of rows P) taken s =
     (case find P (rows (db_of s)) of None \<Rightarrow> (Inr (), s) | Some _ \<Rightarrow> taken s)"
  by (simp add: must_be_free_def andThen_def attempt_def first_of_run ret_def split: option.split)

definition known :: "nat \<Rightarrow> auth_db \<Rightarrow> bool" where
  "known i d \<longleftrightarrow> i \<noteq> 0 \<and> i \<in> au_id ` set (auths d)"

lemma find_id: "i \<in> au_id ` set xs \<longleftrightarrow> (\<exists>a. find (\<lambda>a. au_id a = i) xs = Some a)"
  using find_None_iff [of "\<lambda>a. au_id a = i" xs] by (cases "find (\<lambda>a. au_id a = i) xs") auto

lemma require_auth_id_run [auth_run]:
  "auth_up s \<Longrightarrow> require_auth_id claims s =
     (if known (cl_auth_id claims) (db_of s) then (Inr (), s) else (Inl (Raise (MStr ''access denied'', 401)), s))"
  by (auto simp: require_auth_id_def ValidateAuthID_def IsAuthIDValid_def andThen_def attempt_def first_of_run ret_def raise_def
      refuse_def known_def find_id split: option.splits)

lemma draw_run [auth_run]: "draw f s = (Inr (f (aw_draws s)), s\<lparr>aw_draws := Suc (aw_draws s)\<rparr>)"
  by (simp add: draw_def)

lemma of_result_run [auth_run]: "of_result r s = (case r of Inl e \<Rightarrow> (Inl (Raise e), s) | Inr a \<Rightarrow> (Inr a, s))"
  by (simp add: of_result_def raise_def ret_def split: sum.split)

lemma or_server_error_run [auth_run]:
  "or_server_error m s =
     (case m s of
        (Inl (Raise _), s') \<Rightarrow> (Inl (Raise (MStr ''internal server error'', 500)), s')
      | (Inl GoPanic, s') \<Rightarrow> (Inl GoPanic, s')
      | (Inr a, s') \<Rightarrow> (Inr a, s'))"
  by (simp add: or_server_error_def onErr_def server_error_def raise_def split: prod.split sum.split exit.split)

lemma check_password_run [auth_run]:
  "check_password K cfg given stored code msg s =
     (case p_argon_compare K given (sc_hash_sec (cf_security cfg)) stored of
        Inl _ \<Rightarrow> (Inl (Raise (MStr ''internal server error'', 500)), s)
      | Inr True \<Rightarrow> (Inr (), s)
      | Inr False \<Rightarrow> (Inl (Raise (MStr msg, code)), s))"
  by (simp add: check_password_def server_error_def refuse_def ret_def raise_def split: sum.split bool.split)

lemma get_secret_run [auth_run]: "get_secret i s = (Inr (aw_mem s i), s)"
  by (simp add: get_secret_def andThen_def get_st_def ret_def)

lemma put_secret_run [auth_run]: "put_secret i d s = (Inr (), s\<lparr>aw_mem := (aw_mem s)(i \<mapsto> d)\<rparr>)"
  by (simp add: put_secret_def upd_st_def)

lemma DelMem2FA_run [auth_run]: "DelMem2FA i s = (Inr (), s\<lparr>aw_mem := (aw_mem s)(i := None)\<rparr>)"
  by (simp add: DelMem2FA_def upd_st_def)

lemma remove_image_run [auth_run]: "remove_image cfg img s = (Inr (), s\<lparr>aw_files := removeAll (qr_path cfg img) (aw_files s)\<rparr>)"
  by (simp add: remove_image_def upd_st_def)

lemma decode_500_base64 [auth_run]: "decode_500 (base64 b) s = (Inr b, s)"
  by (simp add: decode_500_def ret_def)

text \<open>The clock only moves forward.\<close>

definition ticked :: "auth_world \<Rightarrow> auth_world" where
  "ticked s = s\<lparr>aw_now := aw_now s + int (case aw_ticks s of [] \<Rightarrow> 0 | n # _ \<Rightarrow> n), aw_ticks := drop 1 (aw_ticks s)\<rparr>"

lemma auth_time_now_run [auth_run]: "auth_time_now s = (Inr (aw_now (ticked s)), ticked s)"
  by (simp add: auth_time_now_def ticked_def Let_def)

lemma ticked_simps [simp]:
  "aw_db (ticked s) = aw_db s" "aw_redis (ticked s) = aw_redis s" "aw_redis_faults (ticked s) = aw_redis_faults s"
  "aw_mem (ticked s) = aw_mem s" "aw_draws (ticked s) = aw_draws s" "aw_mails (ticked s) = aw_mails s"
  "aw_files (ticked s) = aw_files s" "auth_up (ticked s) = auth_up s" "redis_up (ticked s) = redis_up s"
  "aw_now s \<le> aw_now (ticked s)"
  by (simp_all add: ticked_def auth_up_def redis_up_def split: list.split)

lemmas run_simps = andThen_def onErr_def attempt_def ret_def raise_def refuse_def server_error_def upd_st_def

section \<open>Whatever the servers answer\<close>

text \<open>\<open>on_db P\<close>: an assertion on the committed tables only.\<close>

definition on_db :: "(auth_db \<Rightarrow> bool) \<Rightarrow> auth_world \<Rightarrow> bool" where
  "on_db P s \<longleftrightarrow> P (db_of s)"

lemma on_dbI: "P (db_of s) \<Longrightarrow> on_db P s" and on_dbD: "on_db P s \<Longrightarrow> P (db_of s)"
  by (simp_all add: on_db_def)

lemma stmt_read_db: "(\<And>d. snd (f d) = d) \<Longrightarrow> committed (snd (stmt Db f w)) = committed w"
  by (simp add: stmt_def next_fault_def split: list.split option.split)

lemma first_of_any [auth_rules]:
  "triple (on_db (\<lambda>x. x = d)) (first_of rows P) (\<lambda>r s. db_of s = d \<and> find P (rows d) = Some r) (\<lambda>_. on_db (\<lambda>x. x = d))"
  by (auto simp: triple_def on_db_def first_of_def auth_sql_def zoom_def andThen_def get_st_def GetDB_def deref_def ret_def raise_def
      go_panic_def stmt_def next_fault_def split: list.split option.split)

lemma find_all_any [auth_rules]:
  "triple (on_db (\<lambda>x. x = d)) (find_all rows P) (\<lambda>r s. db_of s = d \<and> r = filter P (rows d)) (\<lambda>_. on_db (\<lambda>x. x = d))"
  by (auto simp: triple_def on_db_def find_all_def auth_sql_def zoom_def andThen_def get_st_def GetDB_def deref_def ret_def raise_def
      go_panic_def stmt_def next_fault_def split: list.split option.split)

text \<open>A write either takes place as a whole or not at all; a failed commit goes unnoticed.\<close>

lemma in_tx_any [auth_rules]:
  "triple (on_db (\<lambda>x. x = d)) (in_tx f) (\<lambda>r s. (db_of s = d \<or> db_of s = snd (f d)) \<and> r = fst (f d)) (\<lambda>_. on_db (\<lambda>x. x = d))"
  by (auto simp: triple_def on_db_def in_tx_def zoom_def andThen_def onErr_def get_st_def GetDB_def deref_def ret_def raise_def
      go_panic_def stmt_def next_fault_def begin_tx_def commit_tx_def rollback_def split: list.split option.split tx_state.split)

end
