(* ===== verification/Auth_Rules.thy ===== *)
theory Auth_Rules
  imports Auth_Runs
begin

text \<open>
  Reasoning about the account handlers whatever the servers answer.  \<open>nodb m\<close>: program \<open>m\<close> leaves the
  committed tables alone; \<open>nosql m\<close>: it does not talk to the database.  \<open>safe W d m\<close>: from tables \<open>d\<close>, \<open>m\<close> ends with tables that satisfy
  \<open>W\<close>, however it ends.  The rules follow the structure of programs, so that a handler is
  proved by unfolding and applying them (collections \<open>nodb_rules\<close> and \<open>safe_rules\<close>).
\<close>

named_theorems nodb_rules \<open>programs that do not change the tables\<close>
named_theorems safe_rules \<open>steps towards tables with a given property\<close>

section \<open>Programs that do not change the tables\<close>

definition same :: "(auth_world \<Rightarrow> 'b) \<Rightarrow> ('e, 'a) aprog \<Rightarrow> bool" where
  "same f m \<longleftrightarrow> (\<forall>s. f (snd (m s)) = f s)"

abbreviation nodb :: "('e, 'a) aprog \<Rightarrow> bool" where
  "nodb \<equiv> same db_of"

abbreviation nosql :: "('e, 'a) aprog \<Rightarrow> bool" where
  "nosql \<equiv> same aw_db"

lemma sameD: "same f m \<Longrightarrow> m s = (r, s') \<Longrightarrow> f s' = f s"
  unfolding same_def by (metis snd_conv)

lemma sameI: "(\<And>s r s'. m s = (r, s') \<Longrightarrow> f s' = f s) \<Longrightarrow> same f m"
  unfolding same_def by (metis prod.collapse)

lemma nosql_nodb: "nosql m \<Longrightarrow> nodb m"
  by (simp add: same_def)

lemma nosql_basic [nodb_rules]:
  "nosql (ret a)" "nosql (raise e)" "nosql go_panic" "nosql get_st" "nosql auth_time_now" "nosql (draw g)" "nosql (of_result r)"
  "nosql (refuse code msg)" "nosql server_error" "nosql (unauthorized msg)" "nosql (SecureRandomNumber K n)" "nosql (get_secret i)"
  "nosql (put_secret i d)" "nosql (DelMem2FA i)" "nosql (remove_image cfg img)" "nosql (draw_codes K)"
  by (simp_all add: same_def ret_def raise_def go_panic_def get_st_def auth_time_now_def Let_def draw_def of_result_def refuse_def
      server_error_def unauthorized_def SecureRandomNumber_def get_secret_run put_secret_run DelMem2FA_run remove_image_run draw_codes_def
      split: sum.split option.split)

lemmas nodb_basic [nodb_rules] = nosql_basic [THEN nosql_nodb]

lemma same_andThen [nodb_rules]: "same p m \<Longrightarrow> (\<And>a. same p (f a)) \<Longrightarrow> same p (andThen m f)"
  by (rule sameI) (auto simp: andThen_def split: prod.splits sum.splits, (metis sameD)+)

lemma same_onErr [nodb_rules]: "same p m \<Longrightarrow> (\<And>e. same p (h e)) \<Longrightarrow> same p (onErr m h)"
  by (rule sameI) (auto simp: onErr_def split: prod.splits sum.splits exit.splits, (metis sameD)+)

lemma same_attempt [nodb_rules]: "same p m \<Longrightarrow> same p (attempt m)"
  by (rule sameI) (auto simp: attempt_def dest: sameD split: prod.splits sum.splits exit.splits)

lemma same_cases [nodb_rules]:
  "same w m \<Longrightarrow> same w m' \<Longrightarrow> same w (if b then m else m')"
  "same w m \<Longrightarrow> (\<And>x. same w (f x)) \<Longrightarrow> same w (case r of None \<Rightarrow> m | Some x \<Rightarrow> f x)"
  "(\<And>e. same w (g e)) \<Longrightarrow> (\<And>x. same w (f' x)) \<Longrightarrow> same w (case q of Inl e \<Rightarrow> g e | Inr x \<Rightarrow> f' x)"
  "(\<And>x y. same w (k x y)) \<Longrightarrow> same w (case p of (x, y) \<Rightarrow> k x y)"
  "same w m \<Longrightarrow> (\<And>x xs. same w (l x xs)) \<Longrightarrow> same w (case ys of [] \<Rightarrow> m | x # xs \<Rightarrow> l x xs)"
  "same w m \<Longrightarrow> same w m' \<Longrightarrow> same w (case b of True \<Rightarrow> m | False \<Rightarrow> m')"
  by (simp_all split: option.split sum.split prod.split list.split bool.split)

lemma nosql_upd [nodb_rules]:
  "(\<And>s. aw_db (g s) = aw_db s) \<Longrightarrow> nosql (upd_st g)" "(\<And>s. aw_db (g s) = aw_db s) \<Longrightarrow> nodb (upd_st g)"
  by (simp_all add: same_def upd_st_def)

lemma nosql_redis [nodb_rules]:
  "(\<And>s. aw_db (snd (g s)) = aw_db s) \<Longrightarrow> nosql (auth_redis g)" "(\<And>s. aw_db (snd (g s)) = aw_db s) \<Longrightarrow> nodb (auth_redis g)"
proof -
  assume g: "\<And>s. aw_db (snd (g s)) = aw_db s"
  have "aw_db s' = aw_db s" if "g s = (a, s')" for s a s' using g [of s] that by simp
  then show "nosql (auth_redis g)" by (auto simp: same_def auth_redis_def split: list.split option.split prod.split)
  then show "nodb (auth_redis g)" by (rule nosql_nodb)
qed

lemma cmds_db [simp]:
  "aw_db (snd (cmd_exists k s)) = aw_db s" "aw_db (snd (cmd_get k s)) = aw_db s" "aw_db (snd (cmd_set k v s)) = aw_db s"
  "aw_db (snd (cmd_del k s)) = aw_db s" "aw_db (snd (cmd_expireat k t s)) = aw_db s" "aw_db (snd (cmd_expire k n s)) = aw_db s"
  by (simp_all add: cmd_exists_def cmd_get_def cmd_set_def cmd_del_def cmd_expireat_def cmd_expire_def split: option.split)

lemma nodb_reads [nodb_rules]: "nodb (first_of rows P)" "nodb (find_all rows P)"
proof -
  have "nodb m" if "\<And>d. triple (on_db (\<lambda>x. x = d)) m (\<lambda>r s. db_of s = d \<and> Q d r) (\<lambda>_. on_db (\<lambda>x. x = d))"
    for m :: "(string, 'b) aprog" and Q
  proof (rule sameI)
    fix s r s' assume "m s = (r, s')"
    with tripleD [OF that [of "db_of s"], of s] show "db_of s' = db_of s" by (cases r) (auto simp: on_db_def)
  qed
  from this [OF first_of_any] this [OF find_all_any] show "nodb (first_of rows P)" "nodb (find_all rows P)" .
qed

lemma nosql_or_server_error [nodb_rules]:
  "nosql m \<Longrightarrow> nosql (or_server_error m)" "nodb m \<Longrightarrow> nodb (or_server_error m)"
  unfolding or_server_error_def by (intro nodb_rules; assumption)+

lemma nodb_helpers [nodb_rules]:
  "nodb q' \<Longrightarrow> nodb (lookup_opt q')" "nodb q \<Longrightarrow> nodb t \<Longrightarrow> nodb (must_be_free q t)"
  "nodb (check_password K cfg given stored code msg)" "nodb (ValidateEmail K e)" "nodb (HashPass K hc pw sec)" "nodb (Encrypt K x key)"
  "nodb (NewTOTP K a i h l)" "nodb (decode_500 b)"
  unfolding lookup_opt_def must_be_free_def check_password_def ValidateEmail_def HashPass_def Encrypt_def NewTOTP_def decode_500_def
  by (intro nodb_rules; assumption?)+

lemma nodb_services [nodb_rules]:
  "nodb (GetUserByEmail K cfg email dec)" "nodb (require_auth_id claims)" "nodb (GetJWT K cfg claims tt)"
  "nodb (encrypt_email K cfg email)" "nodb (hash_new_password K cfg pw)" "nodb (new_recovery_key K cfg)" "nodb (hash_500 K cfg x)"
  unfolding GetUserByEmail_def require_auth_id_def ValidateAuthID_def IsAuthIDValid_def GetJWT_def Let_def encrypt_email_def
    hash_new_password_def new_recovery_key_def hash_500_def
  by (intro nodb_rules)+

lemma nodb_mail [nodb_rules]: "nodb (SendEmail K cfg email t opts)" "nodb (send_or_fail K cfg email t)"
  unfolding send_or_fail_def SendEmail_def secret_code_def deliver_def Postmark_def Let_def
  by ((intro nodb_rules; simp)+)

lemma nodb_tokens [nodb_rules]: "nodb (issue_tokens K cfg claims key)" "nodb (login_twofa K cfg v pw)" "nodb (take_code pre code)"
    "nodb (blacklist jti e)" "nodb (pending_address K cfg t)"
  unfolding issue_tokens_def login_twofa_def take_code_def blacklist_def pending_address_def Let_def by ((intro nodb_rules; simp)+)

lemma nodb_twofa [nodb_rules]:
  "nodb (check_new_email K cfg a)" "nodb (fill_temp K cfg te email h)" "nodb (check_new_password cfg p)" "nodb (protect_secret K cfg m b c t)"
  "nodb (check_recovery_key K cfg t key)" "nodb (ByteToPNG K cfg qr)" "nodb (user_email K cfg v)" "nodb (validate_otp K cfg sec otp)"
  "nodb (current_secret K dt t)" "nodb (hash_codes K cfg cs)"
  unfolding check_new_email_def fill_temp_def check_new_password_def protect_secret_def check_recovery_key_def ByteToPNG_def user_email_def
    validate_otp_def current_secret_def Let_def
  by ((intro nodb_rules; simp)+) (induction cs; simp; intro nodb_rules; assumption)

text \<open>Steps that do not talk to the database at all.\<close>

lemma nosql_services [nodb_rules]:
  "nosql (ValidateEmail K e)" "nosql (SendEmail K cfg email t opts)" "nosql (send_or_fail K cfg email t)" "nosql (encrypt_email K cfg email)"
  "nosql (HashPass K hc pw sec)" "nosql (hash_new_password K cfg pw)" "nosql (hash_500 K cfg x)" "nosql (Encrypt K x key)"
  "nosql (new_recovery_key K cfg)" "nosql (GetJWT K cfg claims tt)" "nosql (issue_tokens K cfg claims key)" "nosql (take_code pre code)"
  unfolding send_or_fail_def SendEmail_def secret_code_def deliver_def Postmark_def Let_def ValidateEmail_def encrypt_email_def HashPass_def
    hash_new_password_def hash_500_def Encrypt_def new_recovery_key_def GetJWT_def issue_tokens_def take_code_def
  by ((intro nodb_rules; simp)+)

lemma nosql_up: "nosql m \<Longrightarrow> m s = (r, s') \<Longrightarrow> auth_up s' = auth_up s \<and> db_of s' = db_of s"
  by (auto simp: auth_up_def dest: sameD)

text \<open>The handlers that only read the tables.\<close>

lemma nodb_handlers [nodb_rules]:
  "nodb (Login K cfg p)" "nodb (Refresh K cfg claims)" "nodb (Logout cfg ja jr ea er)" "nodb (CreateVerificationEmail K cfg p)"
  "nodb (GetUnverifiedEmail K cfg claims)" "nodb (ResendVerificationCodeToModifyActiveEmail K cfg claims)" "nodb (PasswordForgot K cfg p)"
  "nodb (Setup2FA K cfg claims p)"
  unfolding Login_def Refresh_def Logout_def CreateVerificationEmail_def GetUnverifiedEmail_def ResendVerificationCodeToModifyActiveEmail_def
    PasswordForgot_def Setup2FA_def Let_def
  by (intro nodb_rules)+

section \<open>Runs that end well\<close>

lemma ValidateEmail_total: "\<exists>ok s'. ValidateEmail K e s = (Inr ok, s')"
  by (auto simp: ValidateEmail_def ret_def draw_def)

lemma andThen_InrE:
  assumes "andThen m f s = (Inr b, s')"
  obtains a s1 where "m s = (Inr a, s1)" "f a s1 = (Inr b, s')"
  using assms by (auto simp: andThen_def split: prod.splits sum.splits)

lemma refuse_not_Inr [simp]: "refuse code msg s \<noteq> (Inr a, s')" "server_error s \<noteq> (Inr a, s')" "raise e s \<noteq> (Inr a, s')"
  by (simp_all add: refuse_def server_error_def raise_def)

lemma ret_Inr [simp]: "ret a s = (Inr b, s') \<longleftrightarrow> b = a \<and> s' = s"
  by (auto simp: ret_def)

section \<open>Tables with a property\<close>

definition safe :: "(auth_db \<Rightarrow> bool) \<Rightarrow> auth_db \<Rightarrow> ('e, 'a) aprog \<Rightarrow> bool" where
  "safe W d m \<longleftrightarrow> (W d \<longrightarrow> (\<forall>s r s'. db_of s = d \<longrightarrow> m s = (r, s') \<longrightarrow> W (db_of s')))"

lemma safeI: "(\<And>s r s'. W d \<Longrightarrow> db_of s = d \<Longrightarrow> m s = (r, s') \<Longrightarrow> W (db_of s')) \<Longrightarrow> safe W d m"
  by (auto simp: safe_def)

lemma safeD: "safe W d m \<Longrightarrow> W d \<Longrightarrow> db_of s = d \<Longrightarrow> m s = (r, s') \<Longrightarrow> W (db_of s')"
  by (auto simp: safe_def)

lemma safe_nodb: "nodb m \<Longrightarrow> safe W d m"
  by (rule safeI) (auto dest: sameD)

lemma safe_then:
  assumes "\<And>s r s'. db_of s = d \<Longrightarrow> m s = (r, s') \<Longrightarrow> D (db_of s') \<and> (\<forall>a. r = Inr a \<longrightarrow> F a)"
    and "\<And>d'. W d \<Longrightarrow> D d' \<Longrightarrow> W d'" and "\<And>a d'. F a \<Longrightarrow> D d' \<Longrightarrow> safe W d' (f a)"
  shows "safe W d (andThen m f)"
proof (rule safeI)
  fix s r s' assume W: "W d" and s: "db_of s = d" and run: "andThen m f s = (r, s')"
  obtain x s1 where m: "m s = (x, s1)" by (cases "m s")
  note * = assms(1) [OF s m]
  show "W (db_of s')"
  proof (cases x)
    case (Inl e)
    with run m * W assms(2) show ?thesis by (auto simp: andThen_def)
  next
    case (Inr a)
    with run m have "f a s1 = (r, s')" by (simp add: andThen_def)
    with * Inr W assms(2,3) show ?thesis by (blast intro: safeD)
  qed
qed

text \<open>A step that does not write: nothing is known of its value, or what is true of every value.\<close>

lemma safe_fact:
  assumes "nodb m" and "\<And>s a s'. db_of s = d \<Longrightarrow> m s = (Inr a, s') \<Longrightarrow> F a" and "\<And>a. F a \<Longrightarrow> safe W d (f a)"
  shows "safe W d (andThen m f)"
  by (rule safe_then [where D = "\<lambda>d'. d' = d" and F = F]) (use assms in \<open>auto dest: sameD\<close>)

lemma safe_step: "nodb m \<Longrightarrow> (\<And>a. safe W d (f a)) \<Longrightarrow> safe W d (andThen m f)"
  by (rule safe_fact [where F = "\<lambda>_. True"]) simp_all

lemma first_of_Inr: "first_of rows P s = (Inr x, s') \<Longrightarrow> find P (rows (db_of s)) = Some x"
  using tripleD(1) [OF first_of_any [of "db_of s" rows P], of s] by (simp add: on_db_def)

lemma or_server_error_Inr: "or_server_error m s = (Inr a, s') \<Longrightarrow> m s = (Inr a, s')"
  by (auto simp: or_server_error_run split: prod.splits sum.splits exit.splits)

lemma lookup_opt_Inr: "lookup_opt q s = (Inr (Some x), s') \<Longrightarrow> q s = (Inr x, s')"
  by (auto simp: lookup_opt_def run_simps split: prod.splits sum.splits exit.splits if_splits)

lemma safe_first: "(\<And>x. find P (rows d) = Some x \<Longrightarrow> safe W d (f x)) \<Longrightarrow> safe W d (andThen (or_server_error (first_of rows P)) f)"
  by (rule safe_fact [where F = "\<lambda>x. find P (rows d) = Some x"]) (auto intro: nodb_rules dest: or_server_error_Inr first_of_Inr)

lemma safe_lookup:
  "safe W d (f None) \<Longrightarrow> (\<And>x. find P (rows d) = Some x \<Longrightarrow> safe W d (f (Some x))) \<Longrightarrow> safe W d (andThen (lookup_opt (first_of rows P)) f)"
proof (rule safe_fact [where F = "\<lambda>r. r = None \<or> r = find P (rows d)"])
  show "nodb (lookup_opt (first_of rows P))" by (intro nodb_rules)
  show "a = None \<or> a = find P (rows d)" if "db_of s = d" "lookup_opt (first_of rows P) s = (Inr a, s')" for s a s'
    using that by (cases a) (auto dest!: lookup_opt_Inr first_of_Inr)
qed (cases "find P (rows d)"; auto)

lemma safe_auth_id: "(known (cl_auth_id claims) d \<Longrightarrow> safe W d (f ())) \<Longrightarrow> safe W d (andThen (require_auth_id claims) f)"
proof (rule safe_fact [where F = "\<lambda>_. known (cl_auth_id claims) d"])
  show "known (cl_auth_id claims) d" if "db_of s = d" "require_auth_id claims s = (Inr a, s')" for s a s'
    using that by (auto simp: require_auth_id_def ValidateAuthID_def IsAuthIDValid_def run_simps known_def find_id dest!: first_of_Inr
        split: prod.splits sum.splits exit.splits if_splits)
qed (auto intro: nodb_rules)

text \<open>A write: done, or not done, in either case with an answer or without.\<close>

lemma in_tx_db: "in_tx g s = (r, s') \<Longrightarrow> db_of s' = db_of s \<or> db_of s' = snd (g (db_of s))"
  using tripleD [OF in_tx_any [of "db_of s" g], of s] by (cases r) (auto simp: on_db_def)

lemma safe_tx:
  assumes "\<And>s r s'. m s = (r, s') \<Longrightarrow> \<exists>r'. in_tx g s = (r', s')" and "W d \<Longrightarrow> W (snd (g d))"
    and "\<And>a. safe W d (f a)" and "\<And>a. safe W (snd (g d)) (f a)"
  shows "safe W d (andThen m f)"
  by (rule safe_then [where D = "\<lambda>d'. d' = d \<or> d' = snd (g d)" and F = "\<lambda>_. True"]) (use assms in \<open>auto dest: in_tx_db\<close>)

lemma safe_write:
  "(W d \<Longrightarrow> W (snd (g d))) \<Longrightarrow> (\<And>a. safe W d (f a)) \<Longrightarrow> (\<And>a. safe W (snd (g d)) (f a)) \<Longrightarrow>
    safe W d (andThen (or_server_error (in_tx g)) f)"
  by (rule safe_tx) (auto simp: or_server_error_run split: prod.splits sum.splits exit.splits)

lemma safe_logged_write:
  "(W d \<Longrightarrow> W (snd (g d))) \<Longrightarrow> (\<And>a. safe W d (f a)) \<Longrightarrow> (\<And>a. safe W (snd (g d)) (f a)) \<Longrightarrow>
    safe W d (andThen (onErr (in_tx g) (\<lambda>e. ret b)) f)"
  by (rule safe_tx) (auto simp: onErr_def ret_def split: prod.splits sum.splits exit.splits)

text \<open>Structure.\<close>

lemma safe_assoc: "safe W d (andThen m (\<lambda>a. andThen (g a) f)) \<Longrightarrow> safe W d (andThen (andThen m g) f)"
  by (simp add: andThen_assoc)

lemma safe_cases:
  "safe W d (f a) \<Longrightarrow> safe W d (andThen (ret a) f)"
  "(b \<Longrightarrow> safe W d (andThen m f)) \<Longrightarrow> (\<not> b \<Longrightarrow> safe W d (andThen m' f)) \<Longrightarrow> safe W d (andThen (if b then m else m') f)"
  "(b \<Longrightarrow> safe W d h) \<Longrightarrow> (\<not> b \<Longrightarrow> safe W d h') \<Longrightarrow> safe W d (if b then h else h')"
  "(\<And>x y. p = (x, y) \<Longrightarrow> safe W d (k x y)) \<Longrightarrow> safe W d (case p of (x, y) \<Rightarrow> k x y)"
  by (simp_all split: prod.split)

lemma safe_stop:
  "safe W d (andThen (refuse code msg) f)" "safe W d (andThen server_error f)" "safe W d (andThen (raise e) f)"
  by (rule safe_nodb; simp add: refuse_def server_error_def nodb_rules)+

lemma safe_option:
  "(r = None \<Longrightarrow> safe W d h) \<Longrightarrow> (\<And>x. r = Some x \<Longrightarrow> safe W d (g x)) \<Longrightarrow> safe W d (case r of None \<Rightarrow> h | Some x \<Rightarrow> g x)"
  by (simp split: option.split)

lemma safe_sum_list_then:
  "(\<And>e. safe W d (andThen (g e) f)) \<Longrightarrow> (\<And>x. q = Inr x \<Longrightarrow> safe W d (andThen (h x) f)) \<Longrightarrow>
    safe W d (andThen (case q of Inl e \<Rightarrow> g e | Inr x \<Rightarrow> h x) f)"
  "safe W d (andThen m f) \<Longrightarrow> (\<And>x xs. ys = x # xs \<Longrightarrow> safe W d (andThen (l x xs) f)) \<Longrightarrow>
    safe W d (andThen (case ys of [] \<Rightarrow> m | x # xs \<Rightarrow> l x xs) f)"
  "(\<And>x y. p = (x, y) \<Longrightarrow> safe W d (andThen (k x y) f)) \<Longrightarrow> safe W d (andThen (case p of (x, y) \<Rightarrow> k x y) f)"
  by (simp_all split: sum.split list.split prod.split)

text \<open>What is known of the values of steps in the middle of a handler.\<close>

lemma fill_temp_keeps: "fill_temp K cfg t email h s = (Inr t', s') \<Longrightarrow> te_id t' = te_id t \<and> te_id_auth t' = te_id_auth t"
  by (auto simp: fill_temp_def andThen_def ret_def split: if_splits prod.splits sum.splits)

lemma safe_fill_temp:
  "(\<And>t'. te_id t' = te_id t \<Longrightarrow> te_id_auth t' = te_id_auth t \<Longrightarrow> safe W d (f t')) \<Longrightarrow> safe W d (andThen (fill_temp K cfg t email h) f)"
  by (rule safe_fact [where F = "\<lambda>t'. te_id t' = te_id t \<and> te_id_auth t' = te_id_auth t"]) (auto intro: nodb_rules dest: fill_temp_keeps)

lemma protect_secret_keeps: "protect_secret K cfg a b c t s = (Inr t', s') \<Longrightarrow> tf_id t' = tf_id t \<and> tf_id_auth t' = tf_id_auth t"
  by (auto simp: protect_secret_def andThen_def ret_def split: prod.splits sum.splits)

lemma safe_protect_secret:
  "(\<And>t'. tf_id t' = tf_id t \<Longrightarrow> tf_id_auth t' = tf_id_auth t \<Longrightarrow> safe W d (f t')) \<Longrightarrow> safe W d (andThen (protect_secret K cfg a b c t) f)"
  by (rule safe_fact [where F = "\<lambda>t'. tf_id t' = tf_id t \<and> tf_id_auth t' = tf_id_auth t"]) (auto intro: nodb_rules dest: protect_secret_keeps)

text \<open>The rules in the order in which they are to be tried: a step that may write first, then any other.\<close>

lemma safe_option_then:
  "(r = None \<Longrightarrow> safe W d (andThen h f)) \<Longrightarrow> (\<And>x. r = Some x \<Longrightarrow> safe W d (andThen (g x) f)) \<Longrightarrow>
    safe W d (andThen (case r of None \<Rightarrow> h | Some x \<Rightarrow> g x) f)"
  by (simp split: option.split)

lemmas safe_steps = safe_option_then safe_sum_list_then safe_fill_temp safe_protect_secret safe_first safe_lookup safe_auth_id safe_write safe_logged_write safe_assoc safe_cases safe_stop safe_option
  safe_step safe_nodb nodb_rules

end
