(* ===== verification/Jwt_Correct.thy ===== *)
theory Jwt_Correct
  imports Auth_Runs
begin

text \<open>
  What the tokens of lib/middleware/jwt.go are good for.  The JWT package is assumed to do what it
  documents (\<open>jwt_law\<close>): a signed token is accepted, with its claims, exactly by the key that
  belongs to the signing key and between its two times.
\<close>

section \<open>The package\<close>

fun opens :: "jwt_key \<Rightarrow> jwt_key \<Rightarrow> bool" where
  "opens (KeyBytes a) (KeyBytes b) = (a = b)"
| "opens (PrivECDSA a) (PubECDSA b) = (a = b)"
| "opens (PrivRSA a) (PubRSA b) = (a = b)"
| "opens _ _ = False"

definition in_time :: "JWTClaims \<Rightarrow> int \<Rightarrow> bool" where
  "in_time c now \<longleftrightarrow>
     (case jc_expires c of Some e \<Rightarrow> now < e * second | None \<Rightarrow> True) \<and>
     (case jc_not_before c of Some n \<Rightarrow> n * second \<le> now | None \<Rightarrow> True)"

definition jwt_law :: "'o packages \<Rightarrow> bool" where
  "jwt_law K \<longleftrightarrow>
     (\<forall>alg key c t kf now. p_jwt_sign K alg key c = Inr t \<longrightarrow>
        (if \<exists>k. kf alg = Inr k \<and> opens key k \<and> in_time c now then p_jwt_parse K kf now t = Inr c
         else \<exists>e. p_jwt_parse K kf now t = Inl e))"

lemma jwt_lawD:
  assumes "jwt_law K" and "p_jwt_sign K alg key c = Inr t"
  shows "kf alg = Inr k \<Longrightarrow> opens key k \<Longrightarrow> in_time c now \<Longrightarrow> p_jwt_parse K kf now t = Inr c"
    "(\<And>k. kf alg = Inr k \<Longrightarrow> \<not> (opens key k \<and> in_time c now)) \<Longrightarrow> \<exists>e. p_jwt_parse K kf now t = Inl e"
proof -
  let ?b = "\<exists>k. kf alg = Inr k \<and> opens key k \<and> in_time c now"
  have *: "if ?b then p_jwt_parse K kf now t = Inr c else \<exists>e. p_jwt_parse K kf now t = Inl e"
    using assms by (simp add: jwt_law_def)
  show "p_jwt_parse K kf now t = Inr c" if "kf alg = Inr k" "opens key k" "in_time c now"
  proof -
    have ?b using that by blast
    with * show ?thesis by (simp only: if_True)
  qed
  show "\<exists>e. p_jwt_parse K kf now t = Inl e" if "\<And>k. kf alg = Inr k \<Longrightarrow> \<not> (opens key k \<and> in_time c now)"
  proof -
    have "\<not> ?b" using that by blast
    with * show ?thesis by (simp only: if_False)
  qed
qed

section \<open>Issuing\<close>

text \<open>A token of either type, signed at a time during the call.\<close>

lemma GetJWT_signed:
  assumes "GetJWT K cfg claims tt s = (Inr (t, jti), s')" and "token_settings (jwt_params cfg) tt = Some (key, ttl, nbf)" and "nbf \<le> 0"
  obtains t1 i where "aw_now s \<le> t1" "t1 \<le> aw_now s'"
    "case signing_key (jwt_params cfg) key of (alg, k) \<Rightarrow>
       p_jwt_sign K alg k (issue_claims (jwt_params cfg) claims (later t1 (60 * second) ttl) jti i None) = Inr t"
    "jti = p_uuid K (aw_draws s)" "s' = ticked ((ticked s)\<lparr>aw_draws := Suc (aw_draws s)\<rparr>)"
proof -
  let ?s1 = "ticked s" let ?s2 = "?s1\<lparr>aw_draws := Suc (aw_draws s)\<rparr>" let ?s3 = "ticked ?s2"
  obtain alg k where k: "signing_key (jwt_params cfg) key = (alg, k)" by (cases "signing_key (jwt_params cfg) key")
  have "aw_now ?s1 \<le> aw_now ?s3" using ticked_simps(10) [of ?s2] by simp
  then show ?thesis
    using assms that [of "aw_now ?s1" "aw_now ?s3 div second"] ticked_simps(10) [of s]
    by (auto simp: GetJWT_def Let_def run_simps auth_run k split: sum.splits)
qed

text \<open>The keys of the configuration belong together, and the algorithm is one of the accepted
  ones.\<close>

definition keys_match :: "JWTParameters \<Rightarrow> bool" where
  "keys_match p \<longleftrightarrow>
     hmac_alg (jp_algorithm p) \<or> ecdsa_alg (jp_algorithm p) \<and> jp_priv_ecdsa p = jp_pub_ecdsa p \<or>
     rsa_alg (jp_algorithm p) \<and> jp_priv_rsa p = jp_pub_rsa p"

lemma algs_apart: "hmac_alg a \<Longrightarrow> \<not> ecdsa_alg a \<and> \<not> rsa_alg a" "ecdsa_alg a \<Longrightarrow> \<not> hmac_alg a \<and> \<not> rsa_alg a"
  "rsa_alg a \<Longrightarrow> \<not> hmac_alg a \<and> \<not> ecdsa_alg a"
  by (auto simp: hmac_alg_def ecdsa_alg_def rsa_alg_def)

lemma keys_match_cases [consumes 1, case_names hmac ecdsa rsa]:
  assumes "keys_match p"
  obtains "hmac_alg (jp_algorithm p)"
  | "ecdsa_alg (jp_algorithm p)" "\<not> hmac_alg (jp_algorithm p)" "jp_priv_ecdsa p = jp_pub_ecdsa p"
  | "rsa_alg (jp_algorithm p)" "\<not> hmac_alg (jp_algorithm p)" "\<not> ecdsa_alg (jp_algorithm p)" "jp_priv_rsa p = jp_pub_rsa p"
  using assms algs_apart unfolding keys_match_def by blast

text \<open>The key function of one token type opens the tokens signed with \<open>key\<close> exactly when the algorithm
  is asymmetric or the keys are the same.\<close>

lemma access_key_opens:
  assumes "keys_match p" and "signing_key p key = (alg, k)"
  shows "\<exists>k'. ValidateAccessJWT p alg = Inr k' \<and> (opens k k' \<longleftrightarrow> hmac_alg (jp_algorithm p) \<longrightarrow> key = jp_access_key p)"
  using assms
  by (cases rule: keys_match_cases) (auto simp: signing_key_def Let_def ValidateAccessJWT_def ValidateHMACAccess_def ValidateECDSA_def ValidateRSA_def)

lemma refresh_key_opens:
  assumes "keys_match p" and "signing_key p key = (alg, k)"
  shows "\<exists>k'. ValidateRefreshJWT p alg = Inr k' \<and> (opens k k' \<longleftrightarrow> hmac_alg (jp_algorithm p) \<longrightarrow> key = jp_refresh_key p)"
  using assms
  by (cases rule: keys_match_cases) (auto simp: signing_key_def Let_def ValidateRefreshJWT_def ValidateHMACRefresh_def ValidateECDSA_def ValidateRSA_def)

text \<open>A check of an issued token with a key function that opens it, or does not.\<close>

definition issued :: "'o packages \<Rightarrow> JWTParameters \<Rightarrow> string \<Rightarrow> JWTClaims \<Rightarrow> string \<Rightarrow> bool" where
  "issued K p key c t \<longleftrightarrow> (case signing_key p key of (alg, k) \<Rightarrow> p_jwt_sign K alg k c = Inr t)"

lemma parse_issued:
  assumes "jwt_law K" and "issued K p key c t" and "jc_expires c = Some e" and "jc_issued c = Some i" and "jc_not_before c = None"
    and "\<And>alg k. signing_key p key = (alg, k) \<Longrightarrow> \<exists>k'. kf alg = Inr k' \<and> (opens k k' \<longleftrightarrow> good)"
  shows "if good \<and> aw_now (ticked s) < e * second then parse_token K kf t s = (Inr (c, e, i), ticked s)
    else \<exists>msg. parse_token K kf t s = (Inl (Raise (MRaw msg, 401)), ticked s)"
proof -
  obtain alg k where k: "signing_key p key = (alg, k)" by (cases "signing_key p key")
  with assms(2) have sign: "p_jwt_sign K alg k c = Inr t" by (simp add: issued_def)
  obtain k' where k': "kf alg = Inr k'" "opens k k' \<longleftrightarrow> good" using assms(6) [OF k] by blast
  have time: "in_time c now \<longleftrightarrow> now < e * second" for now using assms(3,5) by (simp add: in_time_def)
  show ?thesis
  proof (cases "good \<and> aw_now (ticked s) < e * second")
    case True
    then have "p_jwt_parse K kf (aw_now (ticked s)) t = Inr c"
      using jwt_lawD(1) [OF assms(1) sign, of kf k'] k' time True by blast
    with True show ?thesis by (simp add: parse_token_def run_simps auth_run assms(3,4))
  next
    case False
    then have "\<exists>msg. p_jwt_parse K kf (aw_now (ticked s)) t = Inl msg"
      by (intro jwt_lawD(2) [OF assms(1) sign]) (use k' time in auto)
    with False show ?thesis by (auto simp: parse_token_def run_simps auth_run unauthorized_def)
  qed
qed

lemma issue_claims_simps [simp]:
  "jc_expires (issue_claims p c e j i n) = Some e" "jc_issued (issue_claims p c e j i n) = Some i"
  "jc_not_before (issue_claims p c e j i n) = n" "jc_custom (issue_claims p c e j i n) = c" "jc_id (issue_claims p c e j i n) = j"
  by (simp_all add: issue_claims_def)

text \<open>A request that carries a token, in the cookie or in the header.\<close>

definition carries_access :: "http_in \<Rightarrow> string \<Rightarrow> bool" where
  "carries_access rq t \<longleftrightarrow>
     in_cookie_access rq = Some t \<or>
     in_cookie_access rq = None \<and> CHR '' '' \<notin> set t \<and> in_authorization rq = ''Bearer '' @ t"

lemma bearer_header: "CHR '' '' \<notin> set t \<Longrightarrow> access_from_header (''Bearer '' @ t) = Some t"
proof -
  assume "CHR '' '' \<notin> set t"
  then have "split_on CHR '' '' (''Bearer '' @ t) = [''Bearer'', t]"
    using split_on_append [of "CHR '' ''" "''Bearer''" t] by (simp add: split_on_no_sep)
  moreover have "contains (''Bearer '' @ t) ''Bearer''"
    using contains_append [of "[]" "''Bearer''" "'' '' @ t"] by simp
  ultimately show ?thesis by (simp add: access_from_header_def)
qed

lemma JWT_parses:
  assumes "carries_access rq t"
  shows "JWT K cfg rq cx = andThen (parse_token K (ValidateAccessJWT (jwt_params cfg)) t) (\<lambda>(c, e, i).
    ret (cx\<lparr>cx_claims := jc_custom c, cx_exp_access := e, cx_iat_access := i, cx_jti_access := jc_id c,
      cx_iss := jc_issuer c, cx_sub := jc_subject c, cx_aud := jc_audience c\<rparr>))"
  using assms bearer_header by (auto simp: carries_access_def JWT_def split: option.splits)

lemma RefreshJWT_parses:
  assumes "in_cookie_refresh rq = Some t"
  shows "RefreshJWT K cfg rq cx = andThen (parse_token K (ValidateRefreshJWT (jwt_params cfg)) t) (\<lambda>(c, e, i).
    ret (cx\<lparr>cx_claims := jc_custom c, cx_exp_refresh := e, cx_iat_refresh := i, cx_jti_refresh := jc_id c,
      cx_iss := jc_issuer c, cx_sub := jc_subject c, cx_aud := jc_audience c\<rparr>))"
  using assms by (simp add: RefreshJWT_def refresh_token_def)

section \<open>Validity\<close>

lemma later_mono: "a \<le> b \<Longrightarrow> later a u n \<le> later b u n"
  unfolding later_def by (rule zdiv_mono1) simp_all

text \<open>A token that \<open>GetJWT\<close> issued: signed with the key of its type, and it expires so many
  minutes after a time during the call.\<close>

lemma GetJWT_issued:
  assumes "GetJWT K cfg claims tt s = (Inr (t, jti), s')" and "token_settings (jwt_params cfg) tt = Some (key, ttl, nbf)" and "nbf \<le> 0"
  obtains c e i where "issued K (jwt_params cfg) key c t" "jc_expires c = Some e" "jc_issued c = Some i" "jc_not_before c = None"
    "jc_custom c = claims" "jc_id c = jti" "later (aw_now s) (60 * second) ttl \<le> e" "e \<le> later (aw_now s') (60 * second) ttl"
proof (rule GetJWT_signed [OF assms])
  fix t1 i
  assume "aw_now s \<le> t1" "t1 \<le> aw_now s'"
    and *: "case signing_key (jwt_params cfg) key of (alg, k) \<Rightarrow>
       p_jwt_sign K alg k (issue_claims (jwt_params cfg) claims (later t1 (60 * second) ttl) jti i None) = Inr t"
  then have "later (aw_now s) (60 * second) ttl \<le> later t1 (60 * second) ttl" "later t1 (60 * second) ttl \<le> later (aw_now s') (60 * second) ttl"
    by (simp_all add: later_mono)
  moreover have "issued K (jwt_params cfg) key (issue_claims (jwt_params cfg) claims (later t1 (60 * second) ttl) jti i None) t"
    using * by (simp add: issued_def)
  ultimately show thesis by (intro that [of "issue_claims (jwt_params cfg) claims (later t1 (60 * second) ttl) jti i None"])
      (simp_all only: issue_claims_simps)
qed

lemma JWT_of_issued:
  assumes "jwt_law K" and "keys_match (jwt_params cfg)" and "issued K (jwt_params cfg) key c t" and "jc_expires c = Some e"
    and "jc_issued c = Some i" and "jc_not_before c = None" and "carries_access rq t"
  shows "if (hmac_alg (jp_algorithm (jwt_params cfg)) \<longrightarrow> key = jp_access_key (jwt_params cfg)) \<and> aw_now (ticked s) < e * second
    then JWT K cfg rq cx s = (Inr (cx\<lparr>cx_claims := jc_custom c, cx_exp_access := e, cx_iat_access := i, cx_jti_access := jc_id c,
      cx_iss := jc_issuer c, cx_sub := jc_subject c, cx_aud := jc_audience c\<rparr>), ticked s)
    else \<exists>msg. JWT K cfg rq cx s = (Inl (Raise (MRaw msg, 401)), ticked s)"
proof -
  let ?good = "hmac_alg (jp_algorithm (jwt_params cfg)) \<longrightarrow> key = jp_access_key (jwt_params cfg)"
  let ?kf = "ValidateAccessJWT (jwt_params cfg)"
  have "if ?good \<and> aw_now (ticked s) < e * second then parse_token K ?kf t s = (Inr (c, e, i), ticked s)
    else \<exists>msg. parse_token K ?kf t s = (Inl (Raise (MRaw msg, 401)), ticked s)"
    by (rule parse_issued [OF assms(1,3-6)]) (rule access_key_opens [OF assms(2)])
  then show ?thesis by (auto simp: JWT_parses [OF assms(7)] andThen_def ret_def split: if_splits)
qed

lemma RefreshJWT_of_issued:
  assumes "jwt_law K" and "keys_match (jwt_params cfg)" and "issued K (jwt_params cfg) key c t" and "jc_expires c = Some e"
    and "jc_issued c = Some i" and "jc_not_before c = None" and "in_cookie_refresh rq = Some t"
  shows "if (hmac_alg (jp_algorithm (jwt_params cfg)) \<longrightarrow> key = jp_refresh_key (jwt_params cfg)) \<and> aw_now (ticked s) < e * second
    then RefreshJWT K cfg rq cx s = (Inr (cx\<lparr>cx_claims := jc_custom c, cx_exp_refresh := e, cx_iat_refresh := i, cx_jti_refresh := jc_id c,
      cx_iss := jc_issuer c, cx_sub := jc_subject c, cx_aud := jc_audience c\<rparr>), ticked s)
    else \<exists>msg. RefreshJWT K cfg rq cx s = (Inl (Raise (MRaw msg, 401)), ticked s)"
proof -
  let ?good = "hmac_alg (jp_algorithm (jwt_params cfg)) \<longrightarrow> key = jp_refresh_key (jwt_params cfg)"
  let ?kf = "ValidateRefreshJWT (jwt_params cfg)"
  have "if ?good \<and> aw_now (ticked s) < e * second then parse_token K ?kf t s = (Inr (c, e, i), ticked s)
    else \<exists>msg. parse_token K ?kf t s = (Inl (Raise (MRaw msg, 401)), ticked s)"
    by (rule parse_issued [OF assms(1,3-6)]) (rule refresh_key_opens [OF assms(2)])
  then show ?thesis by (auto simp: RefreshJWT_parses [OF assms(7)] andThen_def ret_def split: if_splits)
qed

section \<open>A package for examples\<close>

text \<open>Packages that meet the assumptions of this development: a token is its own key and stands for
  one set of claims, a hash is the padded text, encryption is the identity.\<close>

definition example_packages :: "JWTClaims \<Rightarrow> string packages" where
  "example_packages c =
     \<lparr>p_argon_hash = \<lambda>_ _ pass _. Inr pass,
      p_argon_compare = \<lambda>given _ stored. Inr (given = stored),
      p_blake2b = \<lambda>_ x. take 32 (x @ replicate 32 CHR ''b''),
      p_sha256 = \<lambda>x. take 32 (x @ replicate 32 CHR ''s''),
      p_gcm_seal = \<lambda>_ _ x. x,
      p_gcm_open = \<lambda>_ _ x. Some x,
      p_chacha_encrypt = \<lambda>_ _ x. Inr (x, []),
      p_chacha_decrypt = \<lambda>_ _ x. Inr x,
      p_lookup_mx = \<lambda>_ _. True,
      p_uuid = \<lambda>_. ''id'',
      p_nonce = \<lambda>_. Some ''123456789012'',
      p_random = \<lambda>_ b. Some (b - 1),
      p_jwt_sign = \<lambda>alg key c'.
        if alg = ''HS256'' \<and> c' = c then (case key of KeyBytes k \<Rightarrow> Inr k | _ \<Rightarrow> Inl ''key is of invalid type'') else Inl ''key is invalid'',
      p_jwt_parse = \<lambda>kf now t.
        case kf ''HS256'' of
          Inr (KeyBytes k) \<Rightarrow> if k = t \<and> in_time c now then Inr c else Inl ''token is invalid''
        | _ \<Rightarrow> Inl ''token is unverifiable'',
      p_totp_new = \<lambda>_ _ _ _ _. Inr ''123456'',
      p_totp_from_bytes = \<lambda>b _. Inr b,
      p_totp_to_bytes = \<lambda>x. Inr x,
      p_totp_validate = \<lambda>_ x i. (x = i, x),
      p_totp_qr = \<lambda>x. Inr x,
      p_png = \<lambda>_ _. Some ''qr.png'',
      p_postmark = \<lambda>_ _. Inr ''OK'',
      p_hour_minute_second = \<lambda>_. []\<rparr>"

lemma example_jwt_law: "jwt_law (example_packages c)"
proof -
  have "opens (KeyBytes t) k \<longleftrightarrow> k = KeyBytes t" for t k by (cases k) auto
  then show ?thesis by (auto simp: jwt_law_def example_packages_def split: if_splits jwt_key.splits sum.splits)
qed

definition example_jwt :: JWTParameters where
  "example_jwt = no_jwt_parameters\<lparr>jp_algorithm := ''HS256'', jp_access_key := ''A'', jp_access_ttl := 5, jp_refresh_key := ''R'', jp_refresh_ttl := 5\<rparr>"

definition example_security :: SecurityConfig where
  "example_security = no_security
     \<lparr>sc_user_pass_min_length := 6, sc_must_jwt := ''yes'', sc_jwt := example_jwt, sc_invalidate_jwt := ''yes'', sc_serve_jwt_as_res_body := True,
      sc_hash_pass := \<lparr>hp_memory = 64, hp_iterations = 2, hp_parallelism = 2, hp_salt_length = 16, hp_key_length = 32\<rparr>,
      sc_verify_email := True, sc_recover_pass := True, sc_must_2fa := ''yes'', sc_2fa_crypto := 1, sc_2fa_digits := 6,
      sc_2fa_status := \<lparr>s2_verified = ''verified'', s2_on = ''on'', s2_off = ''off'', s2_invalid = ''invalid''\<rparr>, sc_2fa_path_qr := ''tmp''\<rparr>"

definition example_config :: Configuration where
  "example_config =
     \<lparr>cf_version = [],
      cf_database = no_database\<lparr>db_rdbms := [AppDB \<mapsto> no_rdbms\<lparr>rd_activate := ''yes''\<rparr>], db_redis := no_redis\<lparr>re_activate := ''yes''\<rparr>\<rparr>,
      cf_email = no_email\<lparr>ec_activate := ''yes'', ec_provider := ''postmark'', ec_addr_from := ''a@b.co'', ec_verification_template := 1,
        ec_recover_template := 2, ec_update_template := 3, ec_verification_length := 8, ec_recover_length := 12, ec_verify_period := 600,
        ec_recover_period := 600\<rparr>,
      cf_logger = no_logger, cf_server = no_server, cf_security = example_security, cf_view = no_view\<rparr>"

definition no_rows :: auth_db where
  "no_rows = \<lparr>auths = [], temp_emails = [], two_fas = [], backups = [], next_auth = 1, next_temp = 1, next_twofa = 1, next_backup = 1\<rparr>"

definition example_world :: "auth_db \<Rightarrow> auth_world" where
  "example_world d =
     \<lparr>aw_db = \<lparr>committed = d, txn = NoTx, faults = [], db_up = True\<rparr>, aw_redis = \<lambda>_. None, aw_redis_faults = [], aw_mem = \<lambda>_. None,
      aw_now = 0, aw_ticks = [], aw_draws = 0, aw_mails = [], aw_files = []\<rparr>"

lemmas zero_defs = no_jwt_parameters_def no_security_def no_email_def no_database_def no_redis_def no_status_def no_hash_pass_def

lemmas example_config_defs = example_config_def example_security_def example_jwt_def zero_defs

lemmas example_defs = example_packages_def example_config_defs no_rows_def example_world_def

text \<open>The claims of a token issued at the beginning of 1970.\<close>

definition example_claims :: "MyCustomClaims \<Rightarrow> JWTClaims" where
  "example_claims c = \<lparr>jc_custom = c, jc_expires = Some 300, jc_id = ''id'', jc_issued = Some 0, jc_not_before = None, jc_issuer = [],
     jc_subject = [], jc_audience = []\<rparr>"

definition token_request :: "string \<Rightarrow> http_in" where
  "token_request t = \<lparr>in_cookie_access = None, in_cookie_refresh = Some ''R'', in_authorization = ''Bearer '' @ t, in_body = None\<rparr>"

lemma example_issue:
  "GetJWT (example_packages (example_claims c)) example_config c AccessToken (example_world d) =
     (Inr (''A'', ''id''), (example_world d)\<lparr>aw_draws := 1\<rparr>)"
  "GetJWT (example_packages (example_claims c)) example_config c RefreshToken (example_world d) =
     (Inr (''R'', ''id''), (example_world d)\<lparr>aw_draws := 1\<rparr>)"
  by (simp_all add: GetJWT_def example_defs run_simps auth_run ticked_def signing_key_def hmac_alg_def issue_claims_def example_claims_def later_def
      wrap64_def)

section \<open>Properties\<close>

text \<open>C9. Round trip of tokens: an access token that \<open>GetJWT\<close> issued is accepted by the middleware
  \<open>JWT\<close> from the header or the cookie, with exactly the claims and the id it was issued for, up to
  the configured number of minutes after the call began; from that long after the call ended on, it
  is refused with 401.\<close>

theorem issued_token_accepted:
  assumes "jwt_law K" and "keys_match (jwt_params cfg)" and "jp_acc_nbf (jwt_params cfg) \<le> 0"
    and "GetJWT K cfg claims AccessToken s = (Inr (t, jti), s1)" and "carries_access rq t"
  shows "(aw_now (ticked s2) < later (aw_now s) (60 * second) (jp_access_ttl (jwt_params cfg)) * second \<longrightarrow>
      (\<exists>cx. JWT K cfg rq no_context s2 = (Inr cx, ticked s2) \<and> GetClaims cx = claims \<and> cx_jti_access cx = jti)) \<and>
    (later (aw_now s1) (60 * second) (jp_access_ttl (jwt_params cfg)) * second \<le> aw_now (ticked s2) \<longrightarrow>
      (\<exists>msg. JWT K cfg rq no_context s2 = (Inl (Raise (MRaw msg, 401)), ticked s2)))"
proof -
  obtain c e i where c: "issued K (jwt_params cfg) (jp_access_key (jwt_params cfg)) c t" "jc_expires c = Some e" "jc_issued c = Some i"
      "jc_not_before c = None" "jc_custom c = claims" "jc_id c = jti"
    and e: "later (aw_now s) (60 * second) (jp_access_ttl (jwt_params cfg)) \<le> e" "e \<le> later (aw_now s1) (60 * second) (jp_access_ttl (jwt_params cfg))"
    by (rule GetJWT_issued [OF assms(4) token_settings.simps(1) assms(3)])
  show ?thesis
    using JWT_of_issued [OF assms(1,2) c(1-4) assms(5), where s = s2 and cx = no_context] e c(5,6) by (auto simp: GetClaims_def)
qed

theorem issued_token_accepted_witness:
  "(\<exists>cx. JWT (example_packages (example_claims no_claims)) example_config (token_request ''A'') no_context (example_world no_rows) =
       (Inr cx, ticked (example_world no_rows)) \<and> GetClaims cx = no_claims \<and> cx_jti_access cx = ''id'') \<and>
   (\<exists>msg. JWT (example_packages (example_claims no_claims)) example_config (token_request ''A'') no_context ((example_world no_rows)\<lparr>aw_now := 300 * second\<rparr>) =
       (Inl (Raise (MRaw msg, 401)), ticked ((example_world no_rows)\<lparr>aw_now := 300 * second\<rparr>)))"
proof -
  have *: "keys_match (jwt_params example_config)" "jp_acc_nbf (jwt_params example_config) \<le> 0" "carries_access (token_request ''A'') ''A''"
    by (simp_all add: keys_match_def hmac_alg_def example_defs carries_access_def token_request_def)
  have "later 0 (60 * second) 5 = 300" by (simp add: later_def wrap64_def)
  then show ?thesis
    using issued_token_accepted [OF example_jwt_law *(1,2) example_issue(1) *(3), of "example_world no_rows" no_rows no_claims]
      issued_token_accepted [OF example_jwt_law *(1,2) example_issue(1) *(3), of "(example_world no_rows)\<lparr>aw_now := 300 * second\<rparr>" no_rows no_claims]
    by (simp add: example_config_defs example_world_def ticked_def)
qed

text \<open>The two types of token: with an HMAC algorithm a refresh token that has not expired passes
  as an access token exactly when both types share one key; with ECDSA and RSA, where one key pair
  signs both types, it always passes, as nothing in a token says which type it is.\<close>

theorem refresh_token_as_access_token:
  assumes "jwt_law K" and "keys_match (jwt_params cfg)" and "jp_ref_nbf (jwt_params cfg) \<le> 0"
    and "GetJWT K cfg claims RefreshToken s = (Inr (t, jti), s1)" and "carries_access rq t"
    and "aw_now (ticked s2) < later (aw_now s) (60 * second) (jp_refresh_ttl (jwt_params cfg)) * second"
  shows "(\<exists>cx. JWT K cfg rq no_context s2 = (Inr cx, ticked s2) \<and> GetClaims cx = claims) \<longleftrightarrow>
    (hmac_alg (jp_algorithm (jwt_params cfg)) \<longrightarrow> jp_refresh_key (jwt_params cfg) = jp_access_key (jwt_params cfg))"
proof -
  obtain c e i where c: "issued K (jwt_params cfg) (jp_refresh_key (jwt_params cfg)) c t" "jc_expires c = Some e" "jc_issued c = Some i"
      "jc_not_before c = None" "jc_custom c = claims" "jc_id c = jti"
    and e: "later (aw_now s) (60 * second) (jp_refresh_ttl (jwt_params cfg)) \<le> e" "e \<le> later (aw_now s1) (60 * second) (jp_refresh_ttl (jwt_params cfg))"
    by (rule GetJWT_issued [OF assms(4) token_settings.simps(2) assms(3)])
  show ?thesis
    using JWT_of_issued [OF assms(1,2) c(1-4) assms(5), where s = s2 and cx = no_context] e(1) c(5) assms(6)
    by (auto simp: GetClaims_def split: if_splits)
qed

theorem refresh_token_as_access_token_witness:
  "\<not> (\<exists>cx. JWT (example_packages (example_claims no_claims)) example_config (token_request ''R'') no_context (example_world no_rows) =
     (Inr cx, ticked (example_world no_rows)) \<and> GetClaims cx = no_claims)"
proof -
  have *: "keys_match (jwt_params example_config)" "jp_ref_nbf (jwt_params example_config) \<le> 0" "carries_access (token_request ''R'') ''R''"
    "jp_refresh_key (jwt_params example_config) \<noteq> jp_access_key (jwt_params example_config)" "hmac_alg (jp_algorithm (jwt_params example_config))"
    by (simp_all add: keys_match_def hmac_alg_def example_defs carries_access_def token_request_def)
  have "aw_now (ticked (example_world no_rows)) < later (aw_now (example_world no_rows)) (60 * second) (jp_refresh_ttl (jwt_params example_config)) * second"
    by (simp add: example_defs ticked_def later_def wrap64_def)
  from refresh_token_as_access_token [OF example_jwt_law *(1,2) example_issue(2) *(3) this] *(4,5) show ?thesis by blast
qed

section \<open>Protected routes\<close>

definition sent_access :: "http_in \<Rightarrow> string option" where
  "sent_access rq = (case in_cookie_access rq of Some t \<Rightarrow> Some t | None \<Rightarrow> access_from_header (in_authorization rq))"

definition revocation_on :: "Configuration \<Rightarrow> bool" where
  "revocation_on cfg \<longleftrightarrow> IsJWT cfg \<and> IsRedis cfg \<and> InvalidateJWT cfg"

lemma auth_redis_Inr: "auth_redis f s = (Inr a, s') \<Longrightarrow> \<exists>fs. f (s\<lparr>aw_redis_faults := fs\<rparr>) = (a, s')"
proof -
  assume *: "auth_redis f s = (Inr a, s')"
  have "s = s\<lparr>aw_redis_faults := aw_redis_faults s\<rparr>" by simp
  then have "f s = (a, s') \<Longrightarrow> ?thesis" by metis
  with * show ?thesis by (auto simp: auth_redis_def split: list.splits option.splits prod.splits)
qed

lemma redis_lookup_faults [simp]: "redis_lookup k (s\<lparr>aw_redis_faults := fs\<rparr>) = redis_lookup k s"
  by (simp add: redis_lookup_def split: option.split)

text \<open>Whatever Redis answers, a token is allowed only if it is not on the list.\<close>

lemma IsTokenAllowed_sound:
  assumes "IsTokenAllowed cfg jti s = (Inr True, s')" and "revocation_on cfg"
  shows "redis_lookup (PrefixJtiBlacklist @ jti) s = None"
  using assms
  by (auto simp: IsTokenAllowed_def revocation_on_def run_simps cmd_exists_def dest!: auth_redis_Inr
      split: prod.splits sum.splits exit.splits)

lemma IsTokenAllowed_total: "\<exists>b s'. IsTokenAllowed cfg jti s = (Inr b, s')"
proof -
  have "\<exists>r s'. auth_redis f s = (r, s') \<and> r \<noteq> Inl GoPanic" for f :: "auth_world \<Rightarrow> bool \<times> auth_world"
    by (auto simp: auth_redis_def split: list.splits option.splits prod.splits)
  from this [of "cmd_exists (PrefixJtiBlacklist @ jti)"] show ?thesis
    by (auto simp: IsTokenAllowed_def run_simps split: sum.splits exit.splits)
qed

lemma JWTBlacklistChecker_total:
  "\<exists>s'. JWTBlacklistChecker cfg cx s = (Inr (), s') \<or> JWTBlacklistChecker cfg cx s = (Inl (Raise (MRaw ''invalid token'', 401)), s')"
proof -
  let ?j = "if trim_space (cx_jti_access cx) \<noteq> [] then trim_space (cx_jti_access cx) else trim_space (cx_jti_refresh cx)"
  obtain b s' where "(IsTokenAllowed cfg ?j :: (auth_reply, bool) aprog) s = (Inr b, s')" using IsTokenAllowed_total by blast
  then show ?thesis
    by (cases b) (auto simp: JWTBlacklistChecker_def Let_def andThen_def unauthorized_def raise_def ret_def)
qed

text \<open>What the second factor has to be: off, never set up, or verified.\<close>

definition second_factor_settled :: "Configuration \<Rightarrow> string \<Rightarrow> bool" where
  "second_factor_settled cfg st \<longleftrightarrow>
     st = [] \<or> st = s2_off (tfa_status cfg) \<or> st = s2_verified (tfa_status cfg) \<and> st \<noteq> s2_on (tfa_status cfg)"

lemma TwoFA_middleware_iff:
  "TwoFA_middleware (s2_on (tfa_status cfg)) (s2_off (tfa_status cfg)) (s2_verified (tfa_status cfg)) st s = (Inr (), s') \<longleftrightarrow>
     second_factor_settled cfg st \<and> s' = s"
  by (auto simp: TwoFA_middleware_def second_factor_settled_def unauthorized_def run_simps)

lemma middleware_refuses_unsettled:
  assumes "Is2FA cfg" and "\<not> second_factor_settled cfg (cl_twofa (cx_claims cx))" and "JWT K cfg rq no_context s = (Inr cx, s1)"
  shows "\<exists>msg s'. createAuthMiddleware K cfg rq s = (Inl (Raise (MRaw msg, 401)), s')"
  using assms JWTBlacklistChecker_total [of cfg cx s1]
  by (auto simp: createAuthMiddleware_def andThen_def TwoFA_middleware_def second_factor_settled_def unauthorized_def raise_def)

lemma parse_token_Inr:
  "parse_token K kf t s = (Inr (c, e, i), s') \<longleftrightarrow>
     p_jwt_parse K kf (aw_now (ticked s)) t = Inr c \<and> jc_expires c = Some e \<and> jc_issued c = Some i \<and> s' = ticked s"
  by (auto simp: parse_token_def run_simps auth_run unauthorized_def go_panic_def split: sum.splits option.splits)

lemma JWT_Inr:
  "JWT K cfg rq cx s = (Inr cx', s') \<Longrightarrow>
     \<exists>t c e i. sent_access rq = Some t \<and> p_jwt_parse K (ValidateAccessJWT (jwt_params cfg)) (aw_now (ticked s)) t = Inr c \<and>
       jc_expires c = Some e \<and> s' = ticked s \<and>
       cx' = cx\<lparr>cx_claims := jc_custom c, cx_exp_access := e, cx_iat_access := i, cx_jti_access := jc_id c,
         cx_iss := jc_issuer c, cx_sub := jc_subject c, cx_aud := jc_audience c\<rparr>"
  by (auto simp: JWT_def sent_access_def [symmetric] unauthorized_def raise_def ret_def andThen_def parse_token_Inr
      split: option.splits prod.splits sum.splits)

text \<open>C6. What lies behind the protected routes: a request passes \<open>createAuthMiddleware\<close> only with a token
  in the cookie or the header that the JWT package accepts under the access key at that moment; the
  handlers get the claims of that very token; with revocation switched on its id is not on the list
  of revoked tokens, whatever Redis answers; and with the second factor switched on, the token does
  not wait for a one-time password.\<close>

theorem protected_routes_guarded:
  assumes "createAuthMiddleware K cfg rq s = (Inr cx, s')"
  shows "\<exists>t c. sent_access rq = Some t \<and>
    p_jwt_parse K (ValidateAccessJWT (jwt_params cfg)) (aw_now (ticked s)) t = Inr c \<and> GetClaims cx = jc_custom c \<and>
    (revocation_on cfg \<longrightarrow> redis_lookup (PrefixJtiBlacklist @ trim_space (jc_id c)) (ticked s) = None) \<and>
    (Is2FA cfg \<longrightarrow> second_factor_settled cfg (cl_twofa (GetClaims cx)))"
proof -
  obtain cx1 s1 where J: "JWT K cfg rq no_context s = (Inr cx1, s1)"
    using assms by (auto simp: createAuthMiddleware_def andThen_def split: prod.splits sum.splits)
  from JWT_Inr [OF this] obtain t c e i where c: "sent_access rq = Some t" "s1 = ticked s"
      "p_jwt_parse K (ValidateAccessJWT (jwt_params cfg)) (aw_now (ticked s)) t = Inr c"
      "cx_claims cx1 = jc_custom c" "cx_jti_access cx1 = jc_id c" "cx_jti_refresh cx1 = []"
    by (auto simp: no_context_def)
  from assms J obtain s2 where B: "JWTBlacklistChecker cfg cx1 s1 = (Inr (), s2)" and cx: "cx = cx1"
      and tf: "Is2FA cfg \<Longrightarrow> second_factor_settled cfg (cl_twofa (cx_claims cx1))"
    by (auto simp: createAuthMiddleware_def andThen_def ret_def TwoFA_middleware_iff split: prod.splits sum.splits if_splits)
  have "(if trim_space (jc_id c) \<noteq> [] then trim_space (jc_id c) else trim_space []) = trim_space (jc_id c)"
    by (simp add: trim_space_def)
  with B c(5,6) have "(IsTokenAllowed cfg (trim_space (jc_id c)) :: (auth_reply, bool) aprog) s1 = (Inr True, s2)"
    by (auto simp: JWTBlacklistChecker_def Let_def andThen_def unauthorized_def raise_def ret_def split: prod.splits sum.splits if_splits)
  with c tf cx show ?thesis by (auto simp: GetClaims_def dest: IsTokenAllowed_sound)
qed

lemma example_bearer: "split_on CHR '' '' ''Bearer A'' = [''Bearer'', ''A'']" "contains ''Bearer A'' ''Bearer''" "trim_space ''id'' = ''id''"
  by code_simp+

lemma example_JWT:
  "JWT (example_packages (example_claims no_claims)) example_config (token_request ''A'') no_context (example_world no_rows) =
     (Inr (no_context\<lparr>cx_exp_access := 300, cx_jti_access := ''id''\<rparr>), example_world no_rows)"
  by (simp add: JWT_def token_request_def access_from_header_def example_bearer parse_token_def run_simps auth_run ticked_def
      example_defs ValidateAccessJWT_def ValidateHMACAccess_def hmac_alg_def in_time_def example_claims_def no_claims_def no_context_def)

lemma example_passes:
  "createAuthMiddleware (example_packages (example_claims no_claims)) example_config (token_request ''A'') (example_world no_rows) =
     (Inr (no_context\<lparr>cx_exp_access := 300, cx_jti_access := ''id''\<rparr>), example_world no_rows)"
  unfolding createAuthMiddleware_def andThen_Inr [of "JWT _ _ _ _", OF example_JWT]
  by (simp add: run_simps auth_run example_defs JWTBlacklistChecker_def Let_def example_bearer IsTokenAllowed_def IsJWT_def IsRedis_def
      InvalidateJWT_def Activated_def auth_redis_def cmd_exists_def redis_lookup_def Is2FA_def TwoFA_middleware_def no_claims_def no_context_def)

theorem protected_routes_guarded_witness:
  "\<exists>t c. sent_access (token_request ''A'') = Some t \<and>
    p_jwt_parse (example_packages (example_claims no_claims)) (ValidateAccessJWT (jwt_params example_config)) (aw_now (ticked (example_world no_rows))) t = Inr c \<and>
    no_claims = jc_custom c"
  using protected_routes_guarded [OF example_passes] by (auto simp: GetClaims_def no_context_def)

section \<open>Logout\<close>

lemma blacklist_Inr:
  assumes "blacklist jti e s = (Inr (), s')"
  shows "aw_redis s' = (aw_redis s)(PrefixJtiBlacklist @ jti \<mapsto> (show_int e, Some e))"
proof -
  let ?k = "PrefixJtiBlacklist @ jti"
  obtain s1 where 1: "auth_redis (cmd_set ?k (show_int e)) s = (Inr (), s1)" and 2: "auth_redis (cmd_expireat ?k e) s1 = (Inr (), s')"
    using assms by (auto simp: blacklist_def andThen_def onErr_def server_error_def raise_def split: prod.splits sum.splits exit.splits)
  from auth_redis_Inr [OF 1] have s1: "aw_redis s1 = (aw_redis s)(?k \<mapsto> (show_int e, None))" by (auto simp: cmd_set_def)
  then have "redis_lookup ?k (s1\<lparr>aw_redis_faults := fs\<rparr>) = Some (show_int e)" for fs by (simp add: redis_lookup_def)
  with auth_redis_Inr [OF 2] s1 show ?thesis by (auto simp: cmd_expireat_def)
qed

lemma Logout_revokes:
  assumes "Logout cfg jti jr e er s = (Inr r, s')" and "IsRedis cfg" and "jti \<noteq> []" and "jr \<noteq> jti"
  shows "aw_redis s' (PrefixJtiBlacklist @ jti) = Some (show_int e, Some e)"
proof -
  obtain s1 where 1: "blacklist jti e s = (Inr (), s1)"
    and 2: "jr \<noteq> [] \<Longrightarrow> blacklist jr er s1 = (Inr (), s')" "jr = [] \<Longrightarrow> s' = s1"
    using assms(1-3) by (auto simp: Logout_def andThen_def ret_def split: prod.splits sum.splits if_splits)
  show ?thesis
    using blacklist_Inr [OF 1] 2 blacklist_Inr [of jr er s1 s'] assms(4) by (cases "jr = []") auto
qed


lemma example_logout:
  "Logout example_config ''id'' [] 300 0 (example_world no_rows) =
     (Inr (MStr ''logout successful'', 200), (example_world no_rows)\<lparr>aw_redis := [PrefixJtiBlacklist @ ''id'' \<mapsto> (show_int 300, Some 300)]\<rparr>)"
  by (simp add: Logout_def blacklist_def IsRedis_def Activated_def example_config_defs run_simps example_world_def auth_redis_def cmd_set_def
      cmd_expireat_def redis_lookup_def)


text \<open>The route for new tokens looks up one id only: a request with an access token that is not
  revoked and a refresh token that is revoked passes the chain of \<^verbatim>\<open>refresh\<close> (and of \<^verbatim>\<open>logout\<close>), and the
  claims the handler works with are those of the revoked refresh token.\<close>

theorem revoked_refresh_token_passes:
  assumes "revocation_on cfg" and "redis_up s"
    and "sent_access rq = Some ta" and "p_jwt_parse K (ValidateAccessJWT (jwt_params cfg)) (aw_now (ticked s)) ta = Inr ca"
    and "jc_expires ca = Some ea" and "jc_issued ca = Some ia" and "trim_space (jc_id ca) \<noteq> []"
    and "redis_lookup (PrefixJtiBlacklist @ trim_space (jc_id ca)) (ticked (ticked s)) = None"
    and "in_cookie_refresh rq = Some tr" and "p_jwt_parse K (ValidateRefreshJWT (jwt_params cfg)) (aw_now (ticked (ticked s))) tr = Inr cr"
    and "jc_expires cr = Some er" and "jc_issued cr = Some ir"
    and "redis_lookup (PrefixJtiBlacklist @ jc_id cr) (ticked (ticked s)) = Some v"
  shows "\<exists>cx. refresh_chain K cfg rq s = (Inr cx, ticked (ticked s)) \<and> GetClaims cx = jc_custom cr"
proof -
  have 1: "parse_token K (ValidateAccessJWT (jwt_params cfg)) ta s = (Inr (ca, ea, ia), ticked s)"
    using assms(4-6) by (simp add: parse_token_Inr)
  have 2: "parse_token K (ValidateRefreshJWT (jwt_params cfg)) tr (ticked s) = (Inr (cr, er, ir), ticked (ticked s))"
    using assms(10-12) by (simp add: parse_token_Inr)
  have 3: "(IsTokenAllowed cfg (trim_space (jc_id ca)) :: (auth_reply, bool) aprog) (ticked (ticked s)) = (Inr True, ticked (ticked s))"
    using assms(1,2,8) by (simp add: IsTokenAllowed_def revocation_on_def run_simps auth_run cmd_exists_def)
  show ?thesis
    using 1 2 3 assms(3,7,9)
    by (simp add: refresh_chain_def JWT_def sent_access_def [symmetric] RefreshJWT_def refresh_token_def andThen_def ret_def JWTBlacklistChecker_def
        Let_def GetClaims_def)
qed

theorem revoked_refresh_token_passes_witness:
  "\<exists>cx. refresh_chain ((example_packages (example_claims no_claims))\<lparr>p_jwt_parse := \<lambda>kf now t. Inr ((example_claims no_claims)\<lparr>jc_id := t\<rparr>)\<rparr>)
     example_config (token_request ''A'') ((example_world no_rows)\<lparr>aw_redis := [PrefixJtiBlacklist @ ''R'' \<mapsto> ([], None)]\<rparr>) =
     (Inr cx, ticked (ticked ((example_world no_rows)\<lparr>aw_redis := [PrefixJtiBlacklist @ ''R'' \<mapsto> ([], None)]\<rparr>))) \<and> GetClaims cx = no_claims"
proof -
  have tr: "trim_space ''A'' = ''A''" by code_simp
  have *: "revocation_on example_config" "sent_access (token_request ''A'') = Some ''A''"
    by (simp_all add: example_defs token_request_def sent_access_def access_from_header_def example_bearer revocation_on_def IsJWT_def
        IsRedis_def InvalidateJWT_def Activated_def)
  let ?c = "\<lambda>t. (example_claims no_claims)\<lparr>jc_id := t\<rparr>"
  show ?thesis
    using revoked_refresh_token_passes [OF *(1) _ *(2), where K = "(example_packages (example_claims no_claims))\<lparr>p_jwt_parse := \<lambda>kf now t. Inr (?c t)\<rparr>"
        and s = "(example_world no_rows)\<lparr>aw_redis := [PrefixJtiBlacklist @ ''R'' \<mapsto> ([], None)]\<rparr>" and ca = "?c ''A''" and cr = "?c ''R''"
        and ea = 300 and ia = 0 and er = 300 and ir = 0 and tr = "''R''" and v = "[]"]
    by (simp add: tr redis_up_def redis_lookup_def example_world_def example_claims_def token_request_def ticked_def)
qed

end
