(* ===== verification/Account_Tables.thy ===== *)
theory Account_Tables
  imports Auth_Rules Jwt_Correct
begin

text \<open>
  The account tables stay well formed: in every table the ids are positive, unique and below the
  next one, and every row that belongs to an account belongs to one that exists.
\<close>

section \<open>The invariant\<close>

definition table_ok :: "('r \<Rightarrow> nat) \<Rightarrow> nat \<Rightarrow> 'r list \<Rightarrow> bool" where
  "table_ok key n rows \<longleftrightarrow> 0 < n \<and> distinct (map key rows) \<and> (\<forall>r \<in> set rows. 0 < key r \<and> key r < n)"

definition owned :: "('r \<Rightarrow> nat) \<Rightarrow> 'r list \<Rightarrow> Auth list \<Rightarrow> bool" where
  "owned owner rows accounts \<longleftrightarrow> owner ` set rows \<subseteq> au_id ` set accounts"

definition accounts_wf :: "auth_db \<Rightarrow> bool" where
  "accounts_wf d \<longleftrightarrow>
     table_ok au_id (next_auth d) (auths d) \<and> table_ok te_id (next_temp d) (temp_emails d) \<and>
     table_ok tf_id (next_twofa d) (two_fas d) \<and> table_ok tb_id (next_backup d) (backups d) \<and>
     owned te_id_auth (temp_emails d) (auths d) \<and> owned tf_id_auth (two_fas d) (auths d) \<and> owned tb_id_auth (backups d) (auths d)"

lemma table_ok_append: "table_ok key n rows \<Longrightarrow> key r = n \<Longrightarrow> table_ok key (Suc n) (rows @ [r])"
  by (auto simp: table_ok_def)

lemma table_ok_filter: "table_ok key n rows \<Longrightarrow> table_ok key n (filter P rows)"
  by (auto simp: table_ok_def distinct_map_filter)

lemma map_update_keys: "map key (map (\<lambda>r. if key r = key x then x else r) rows) = map key rows"
  by simp

lemma table_ok_update: "table_ok key n rows \<Longrightarrow> table_ok key n (map (\<lambda>r. if key r = key x then x else r) rows)"
  by (auto simp: table_ok_def o_def cong: map_cong) (metis (no_types, lifting) map_update_keys map_map o_def map_eq_conv)+

lemma owned_update: "owned owner rows accounts \<Longrightarrow> owner x \<in> au_id ` set accounts \<Longrightarrow>
    owned owner (map (\<lambda>r. if key r = k then x else r) rows) accounts"
  by (auto simp: owned_def)

lemma owned_accounts: "owned owner rows accounts \<Longrightarrow> au_id ` set accounts \<subseteq> au_id ` set accounts' \<Longrightarrow> owned owner rows accounts'"
  by (auto simp: owned_def)

lemma owned_append [simp]: "owned owner (xs @ ys) accounts \<longleftrightarrow> owned owner xs accounts \<and> owned owner ys accounts"
  by (auto simp: owned_def)

lemma owned_filter: "owned owner rows accounts \<Longrightarrow> owned owner (filter P rows) accounts"
  by (auto simp: owned_def)

subsection \<open>Writes\<close>

named_theorems wf_intros \<open>writes that keep the tables well formed\<close>

lemma wf_create_auth [wf_intros]: "accounts_wf d \<Longrightarrow> accounts_wf (snd (create_auth a d))"
  by (auto simp: accounts_wf_def create_auth_def Let_def intro!: table_ok_append elim!: owned_accounts)

lemma wf_save_auth [wf_intros]:
  assumes "accounts_wf d" and "au_id a \<in> au_id ` set (auths d)"
  shows "accounts_wf (snd (save_auth a d))"
proof -
  have "set (map au_id (map (\<lambda>r. if au_id r = au_id a then a else r) (auths d))) = set (map au_id (auths d))"
    by (simp only: map_update_keys)
  then have "au_id ` set (auths d) \<subseteq> au_id ` set (map (\<lambda>r. if au_id r = au_id a then a else r) (auths d))"
    by (simp only: list.set_map)
  with assms show ?thesis
    by (auto simp: accounts_wf_def save_auth_def simp del: set_map intro!: table_ok_update elim!: owned_accounts)
qed

lemma wf_save_temp [wf_intros]:
  "accounts_wf d \<Longrightarrow> te_id t = 0 \<or> te_id t \<in> te_id ` set (temp_emails d) \<Longrightarrow> te_id_auth t \<in> au_id ` set (auths d) \<Longrightarrow>
    accounts_wf (snd (save_temp t d))"
  by (auto simp: accounts_wf_def save_temp_def intro!: table_ok_append table_ok_update owned_update) (auto simp: owned_def)

lemma wf_delete_temp [wf_intros]: "accounts_wf d \<Longrightarrow> accounts_wf (snd (delete_temp t d))"
  by (auto simp: accounts_wf_def delete_temp_def intro!: table_ok_filter owned_filter)

lemma wf_create_twofa [wf_intros]: "accounts_wf d \<Longrightarrow> tf_id_auth t \<in> au_id ` set (auths d) \<Longrightarrow> accounts_wf (snd (create_twofa t d))"
  by (auto simp: accounts_wf_def create_twofa_def intro!: table_ok_append) (auto simp: owned_def)

lemma wf_save_twofa [wf_intros]:
  "accounts_wf d \<Longrightarrow> tf_id t \<in> tf_id ` set (two_fas d) \<Longrightarrow> tf_id_auth t \<in> au_id ` set (auths d) \<Longrightarrow> accounts_wf (snd (save_twofa t d))"
  by (auto simp: accounts_wf_def save_twofa_def intro!: table_ok_update owned_update)

lemma wf_delete_backups [wf_intros]: "accounts_wf d \<Longrightarrow> accounts_wf (snd (delete_backups ids d))"
  by (auto simp: accounts_wf_def delete_backups_def intro!: table_ok_filter owned_filter)

lemma wf_create_backups [wf_intros]:
  assumes "accounts_wf d" and "i \<in> au_id ` set (auths d)"
  shows "accounts_wf (snd (create_backups i hs d))"
proof -
  let ?n = "next_backup d"
  let ?new = "map2 (\<lambda>k h. \<lparr>tb_id = k, tb_code_hash = h, tb_id_auth = i\<rparr>) [?n..<?n + length hs] hs"
  have "map tb_id ?new = map fst (zip [?n..<?n + length hs] hs)" by (simp add: comp_def case_prod_beta)
  then have ids: "map tb_id ?new = [?n..<?n + length hs]" by simp
  then have "set [?n..<?n + length hs] = tb_id ` set ?new" by (metis list.set_map)
  then have bound: "?n \<le> tb_id r \<and> tb_id r < ?n + length hs" if "r \<in> set ?new" for r
    using that by (metis (no_types, lifting) atLeastLessThan_iff image_eqI set_upt)
  have "table_ok tb_id (?n + length hs) (backups d @ ?new)"
    using assms(1) ids bound unfolding table_ok_def accounts_wf_def by (fastforce simp del: map_map)
  moreover have "owned tb_id_auth ?new (auths d)" using assms(2) by (auto simp: owned_def)
  ultimately show ?thesis using assms(1) by (simp add: accounts_wf_def create_backups_def)
qed

text \<open>A write to one table leaves the others alone, and no write removes an account.\<close>

lemma other_tables [simp]:
  "auths (snd (save_twofa t d)) = auths d" "auths (snd (delete_temp e d)) = auths d" "auths (snd (delete_backups ids d)) = auths d"
  by (simp_all add: save_twofa_def delete_temp_def delete_backups_def)

lemma find_row: "find P xs = Some x \<Longrightarrow> x \<in> set xs \<and> P x"
  by (metis find_Some_iff nth_mem)

lemma row_owner:
  "accounts_wf d \<Longrightarrow> t \<in> set (temp_emails d) \<Longrightarrow> te_id_auth t \<in> au_id ` set (auths d)"
  "accounts_wf d \<Longrightarrow> f \<in> set (two_fas d) \<Longrightarrow> tf_id_auth f \<in> au_id ` set (auths d)"
  by (auto simp: accounts_wf_def owned_def)

lemma known_owner: "known i d \<Longrightarrow> i \<in> au_id ` set (auths d)"
  by (simp add: known_def)

lemma wf_save_account:
  assumes "find P (auths d0) = Some x" and "accounts_wf d" and "auths d = auths d0" and "au_id a = au_id x"
  shows "accounts_wf (snd (save_auth a d))"
  using assms find_row [OF assms(1)] by (intro wf_save_auth) simp_all

lemma wf_save_row:
  assumes "find P (two_fas d) = Some x" and "accounts_wf d" and "tf_id t = tf_id x" and "tf_id_auth t = tf_id_auth x"
  shows "accounts_wf (snd (save_twofa t d))"
  using assms find_row [OF assms(1)] row_owner(2) [OF assms(2)] by (intro wf_save_twofa) simp_all

lemma wf_save_pending:
  assumes "find P (temp_emails d) = Some x" and "accounts_wf d" and "te_id t = te_id x" and "te_id_auth t = te_id_auth x"
  shows "accounts_wf (snd (save_temp t d))"
  using assms find_row [OF assms(1)] row_owner(1) [OF assms(2)] by (intro wf_save_temp) simp_all

lemma no_zero_id: "accounts_wf d \<Longrightarrow> find P (temp_emails d) = Some x \<Longrightarrow> te_id x \<noteq> 0"
  using find_row [of P "temp_emails d" x] by (auto simp: accounts_wf_def table_ok_def)

lemma wf_new_pending:
  "known i d \<Longrightarrow> accounts_wf d \<Longrightarrow> te_id t = 0 \<Longrightarrow> te_id_auth t = i \<Longrightarrow> accounts_wf (snd (save_temp t d))"
  by (intro wf_save_temp) (simp_all add: known_owner)

lemma wf_take_row:
  assumes "find P (two_fas d) = Some x" and "accounts_wf d" and "tf_id t = tf_id x" and "known (tf_id_auth t) d"
  shows "accounts_wf (snd (save_twofa t d))"
  using assms find_row [OF assms(1)] known_owner [OF assms(4)] by (intro wf_save_twofa) simp_all

lemmas wf_solve = wf_save_account wf_save_row wf_save_pending

section \<open>Handlers\<close>

lemma safe_CreateUserAuth: "safe accounts_wf d (CreateUserAuth K cfg a)"
  unfolding CreateUserAuth_def Let_def
  by (intro safe_steps) (auto intro: wf_intros)

lemma safe_UpdateEmail: "safe accounts_wf d (UpdateEmail K cfg claims req)"
  unfolding UpdateEmail_def Let_def
  by (intro safe_steps) (auto elim: wf_solve wf_new_pending simp: no_zero_id no_temp_def move_email_def)

lemma safe_VerifyEmail: "safe accounts_wf d (VerifyEmail K cfg p)"
  unfolding VerifyEmail_def by (intro safe_steps) (auto elim!: wf_solve)

lemma safe_VerifyUpdatedEmail: "safe accounts_wf d (VerifyUpdatedEmail K cfg p)"
  unfolding VerifyUpdatedEmail_def by (intro safe_steps) (auto elim!: wf_solve intro: wf_delete_temp simp: move_email_def)

lemma safe_PasswordRecover: "safe accounts_wf d (PasswordRecover K cfg p)"
  unfolding PasswordRecover_def Let_def recovery_step_def recover_twofa_def
  by (intro safe_steps) (auto elim!: wf_solve)

lemma safe_PasswordUpdate: "safe accounts_wf d (PasswordUpdate K cfg c p)"
  unfolding PasswordUpdate_def Let_def reencrypt_main_def
  by (intro safe_steps) (auto elim!: wf_solve)

lemma safe_Activate2FA: "safe accounts_wf d (Activate2FA K cfg claims p)"
  unfolding Activate2FA_def Let_def activate_row_def
  by (intro safe_steps) (auto elim: wf_take_row intro: wf_create_twofa simp: known_owner)

lemma safe_Validate2FA: "safe accounts_wf d (Validate2FA K cfg claims p)"
  unfolding Validate2FA_def Let_def failed_attempt_def validated_def
  by (intro safe_steps) (auto elim!: wf_solve)

lemma safe_Deactivate2FA: "safe accounts_wf d (Deactivate2FA K cfg claims p)"
  unfolding Deactivate2FA_def Let_def deactivate_row_def drop_backups_def
  by (intro safe_steps) (auto elim!: wf_solve intro: wf_delete_backups)

lemma safe_CreateBackup2FA: "safe accounts_wf d (CreateBackup2FA K cfg claims p)"
  unfolding CreateBackup2FA_def Let_def
  by (intro safe_steps) (auto intro: wf_delete_backups wf_create_backups simp: known_owner)

lemma safe_ValidateBackup2FA: "safe accounts_wf d (ValidateBackup2FA K cfg claims p)"
  unfolding ValidateBackup2FA_def Let_def
  by (intro safe_steps) (auto intro: wf_delete_backups)

section \<open>All requests\<close>

text \<open>The account routes of server/router/router.go, behind their middleware: which handler a request
  reaches, with the claims of its token.\<close>

datatype auth_request =
    Post_register Auth
  | Post_login AuthPayload
  | Post_verify AuthPayload
  | Post_resend AuthPayload
  | Post_verify_updated AuthPayload
  | Post_forgot AuthPayload
  | Post_reset AuthPayload
  | Post_logout string string int int
  | Post_refresh MyCustomClaims
  | Post_2fa_setup MyCustomClaims AuthPayload
  | Post_2fa_activate MyCustomClaims AuthPayload
  | Post_2fa_validate MyCustomClaims AuthPayload
  | Post_2fa_validate_backup MyCustomClaims AuthPayload
  | Post_2fa_create_backup MyCustomClaims AuthPayload
  | Post_2fa_deactivate MyCustomClaims AuthPayload
  | Post_password_edit MyCustomClaims AuthPayload
  | Post_email_update MyCustomClaims TempEmail
  | Get_email_unverified MyCustomClaims
  | Post_email_resend MyCustomClaims

fun serve :: "'o packages \<Rightarrow> Configuration \<Rightarrow> auth_request \<Rightarrow> (auth_reply, auth_reply) aprog" where
  "serve K cfg (Post_register a) = CreateUserAuth K cfg a"
| "serve K cfg (Post_login p) = Login K cfg p"
| "serve K cfg (Post_verify p) = VerifyEmail K cfg p"
| "serve K cfg (Post_resend p) = CreateVerificationEmail K cfg p"
| "serve K cfg (Post_verify_updated p) = VerifyUpdatedEmail K cfg p"
| "serve K cfg (Post_forgot p) = PasswordForgot K cfg p"
| "serve K cfg (Post_reset p) = PasswordRecover K cfg p"
| "serve K cfg (Post_logout ja jr ea er) = Logout cfg ja jr ea er"
| "serve K cfg (Post_refresh c) = Refresh K cfg c"
| "serve K cfg (Post_2fa_setup c p) = Setup2FA K cfg c p"
| "serve K cfg (Post_2fa_activate c p) = Activate2FA K cfg c p"
| "serve K cfg (Post_2fa_validate c p) = Validate2FA K cfg c p"
| "serve K cfg (Post_2fa_validate_backup c p) = ValidateBackup2FA K cfg c p"
| "serve K cfg (Post_2fa_create_backup c p) = CreateBackup2FA K cfg c p"
| "serve K cfg (Post_2fa_deactivate c p) = Deactivate2FA K cfg c p"
| "serve K cfg (Post_password_edit c p) = PasswordUpdate K cfg c p"
| "serve K cfg (Post_email_update c t) = UpdateEmail K cfg c t"
| "serve K cfg (Get_email_unverified c) = GetUnverifiedEmail K cfg c"
| "serve K cfg (Post_email_resend c) = ResendVerificationCodeToModifyActiveEmail K cfg c"

text \<open>One request after the other.\<close>

definition serve_all :: "'o packages \<Rightarrow> Configuration \<Rightarrow> auth_request list \<Rightarrow> auth_world \<Rightarrow> auth_world" where
  "serve_all K cfg rs = fold (\<lambda>r s. snd (serve K cfg r s)) rs"

lemmas safe_handlers = safe_CreateUserAuth safe_UpdateEmail safe_VerifyEmail safe_VerifyUpdatedEmail safe_PasswordRecover
  safe_PasswordUpdate safe_Activate2FA safe_Validate2FA safe_Deactivate2FA safe_CreateBackup2FA safe_ValidateBackup2FA

lemma safe_serve: "safe accounts_wf d (serve K cfg r)"
  by (cases r) (auto intro: safe_handlers safe_nodb nodb_handlers)

lemma serve_wf: "accounts_wf (db_of s) \<Longrightarrow> accounts_wf (db_of (snd (serve K cfg r s)))"
  using safeD [OF safe_serve [of "db_of s" K cfg r], of s "fst (serve K cfg r s)"] by simp

text \<open>C8. The account tables keep their shape: starting from well-formed tables, after any sequence of
  requests to the account routes, with any pattern of failures of the database, of Redis and of the
  packages, the ids of accounts, pending addresses, second-factor rows and backup codes are positive
  and unique, below the next id, and every pending address, second-factor row and backup code
  belongs to an account that exists.\<close>

theorem account_tables_well_formed:
  assumes "accounts_wf (db_of s)"
  shows "accounts_wf (db_of (serve_all K cfg rs s))"
  unfolding serve_all_def by (rule fold_invariant [where I = "\<lambda>s. accounts_wf (db_of s)"]) (use assms in \<open>simp_all add: serve_wf\<close>)

theorem account_tables_well_formed_witness:
  "accounts_wf (db_of (serve_all (example_packages (example_claims no_claims)) example_config
     [Post_register (no_auth\<lparr>au_email := ''ann@b.co'', au_password := ''secret''\<rparr>), Post_refresh (no_claims\<lparr>cl_auth_id := 1\<rparr>)] (example_world no_rows)))"
  by (rule account_tables_well_formed) (simp add: accounts_wf_def table_ok_def owned_def no_rows_def example_world_def)

end
