(* ===== verification/Account_Correct.thy ===== *)
theory Account_Correct
  imports Account_Tables
begin

text \<open>
  What the account handlers promise: numeric codes, sign-up, login and the codes sent by mail.
\<close>

section \<open>Random numbers\<close>

text \<open>The loop returns the first draw above the bound, if there is one.\<close>

lemma draw_until_returns:
  assumes "rnd k hi = Some x" and "lo < x" and "n \<le> k"
  shows "\<exists>y m. draw_until rnd lo hi n = Some (y, Suc m) \<and> n \<le> m \<and> rnd m hi = Some y \<and> lo < y"
  using assms(3)
proof (induction rule: inc_induct)
  case base
  show ?case using assms(1,2) by (subst draw_until.simps) simp
next
  case (step n)
  show ?case
  proof (cases "\<exists>y. rnd n hi = Some y \<and> lo < y")
    case True
    then show ?thesis by (subst draw_until.simps) auto
  next
    case False
    then have "draw_until rnd lo hi n = draw_until rnd lo hi (Suc n)" by (subst draw_until.simps) (auto split: option.splits)
    with step.IH show ?thesis by (metis Suc_leD)
  qed
qed

lemma length_show_nat: "10 ^ k \<le> n \<Longrightarrow> n < 10 ^ Suc k \<Longrightarrow> length (show_nat n) = Suc k"
proof (induction k arbitrary: n)
  case 0
  then show ?case by (simp add: show_nat_1)
next
  case (Suc k)
  then have "10 ^ k \<le> n div 10" "n div 10 < 10 ^ Suc k"
    by (auto simp: less_eq_div_iff_mult_less_eq div_less_iff_less_mult mult.commute)
  moreover have "(10 :: nat) ^ 1 \<le> 10 ^ Suc k" by (rule power_increasing) simp_all
  from order_trans [OF this Suc.prems(1)] have "10 \<le> n" by simp
  ultimately show ?case using Suc.IH by (simp add: show_nat_step)
qed

lemma round_pow: "0 < d \<Longrightarrow> d < 19 \<Longrightarrow> round53 (10 ^ d - 1) \<le> 10 ^ d"
proof -
  assume d: "0 < d" "d < 19"
  have "round53 (10 ^ 16 - 1) \<le> 10 ^ 16" "round53 (10 ^ 17 - 1) \<le> 10 ^ 17" "round53 (10 ^ 18 - 1) \<le> 10 ^ 18"
    by (simp_all add: round53_def Let_def bit_len.simps)
  moreover have "round53 (10 ^ d - 1) \<le> 10 ^ d" if "d \<le> 15"
  proof -
    have "(10 :: nat) ^ d \<le> 10 ^ 15" using that by (rule power_increasing) simp
    then have "(10 :: nat) ^ d - 1 < 2 ^ 53" by simp
    then show ?thesis by (simp add: round53_exact)
  qed
  moreover have "d \<le> 15 \<or> d = 16 \<or> d = 17 \<or> d = 18" using d by linarith
  ultimately show ?thesis by blast
qed

text \<open>C35. The loop of \<open>SecureRandomNumber\<close> ends: for one to eighteen digits and a random source that
  stays below the bound it is asked for and at some time gives a number above the least one, the
  function returns, and what it returns has exactly so many decimal digits.\<close>

theorem random_number_returns:
  assumes "0 < d" and "d < 19"
    and "\<forall>n x. p_random K n (round53 (10 ^ d - 1)) = Some x \<longrightarrow> x < round53 (10 ^ d - 1)"
    and "aw_draws s \<le> k" and "p_random K k (round53 (10 ^ d - 1)) = Some x" and "10 ^ (d - 1) < x"
  shows "\<exists>y n. SecureRandomNumber K d s = (Inr y, s\<lparr>aw_draws := n\<rparr>) \<and> aw_draws s < n \<and>
    10 ^ (d - 1) < y \<and> y < 10 ^ d \<and> length (show_nat y) = d"
proof -
  obtain y m where y: "draw_until (p_random K) (10 ^ (d - 1)) (round53 (10 ^ d - 1)) (aw_draws s) = Some (y, Suc m)" "aw_draws s \<le> m"
      "p_random K m (round53 (10 ^ d - 1)) = Some y" "10 ^ (d - 1) < y"
    using draw_until_returns [of "p_random K", OF assms(5,6,4)] by blast
  have "y < 10 ^ d" using y(3) assms(3) round_pow [OF assms(1,2)] by fastforce
  moreover from this have "length (show_nat y) = d" using length_show_nat [of "d - 1" y] y(4) assms(1) by simp
  moreover have "SecureRandomNumber K d s = (Inr y, s\<lparr>aw_draws := Suc m\<rparr>)"
    using y(1) assms(1,2) by (simp add: SecureRandomNumber_def)
  ultimately show ?thesis using y(2,4) by (intro exI [of _ y] exI [of _ "Suc m"]) simp
qed

theorem random_number_returns_witness:
  "\<exists>y n. SecureRandomNumber (example_packages (example_claims no_claims)) 3 (example_world no_rows) = (Inr y, (example_world no_rows)\<lparr>aw_draws := n\<rparr>) \<and>
    10 ^ 2 < y \<and> y < 10 ^ 3 \<and> length (show_nat y) = 3"
proof -
  have r: "round53 (10 ^ 3 - 1) = 999" by (simp add: round53_exact)
  show ?thesis
    using random_number_returns [of 3 "example_packages (example_claims no_claims)" "example_world no_rows" 0 998] unfolding r
    by (auto simp: example_packages_def example_world_def)
qed

section \<open>Sign-up\<close>

text \<open>No two accounts share an address, in plain text or as a hash.\<close>

definition emails_unique :: "auth_db \<Rightarrow> bool" where
  "emails_unique d \<longleftrightarrow>
     distinct (filter (\<lambda>e. e \<noteq> []) (map au_email (auths d))) \<and> distinct (filter (\<lambda>h. h \<noteq> []) (map au_email_hash (auths d)))"

lemma unique_create:
  assumes "emails_unique d" and "\<forall>x \<in> set (auths d). au_email a = [] \<or> au_email x \<noteq> au_email a"
    and "\<forall>x \<in> set (auths d). au_email_hash a = [] \<or> au_email_hash x \<noteq> au_email_hash a"
  shows "emails_unique (snd (create_auth a d))"
  using assms by (auto simp: emails_unique_def create_auth_def Let_def)

lemma check_new_email_fact:
  assumes "auth_up s" and "au_id a = 0" and "check_new_email K cfg a s = (Inr h, s')"
  shows "(\<forall>x \<in> set (auths (db_of s)). au_email x \<noteq> au_email a) \<and>
    (if IsCipher cfg then \<forall>x \<in> set (auths (db_of s)). au_email_hash x \<noteq> h else h = [])"
  using assms
  by (auto simp: check_new_email_def with_key_def run_simps auth_run find_None_iff split: option.splits sum.splits if_splits)

text \<open>Sign-up once the checks have passed.\<close>

definition sign_up_rest :: "'o packages \<Rightarrow> Configuration \<Rightarrow> Auth \<Rightarrow> string \<Rightarrow> (auth_reply, auth_reply) aprog" where
  "sign_up_rest K cfg a h =
     andThen (send_or_fail K cfg (au_email a) VerifyEmailNewAcc) (\<lambda>emailDelivered.
       let authFinal = no_auth\<lparr>au_email := au_email a, au_password := au_password a, au_email_hash := h,
             au_verify := (if emailDelivered then EmailNotVerified else EmailVerifyNotRequired)\<rparr> in
       andThen (if IsCipher cfg then
                  andThen (encrypt_email K cfg (au_email a)) (\<lambda>(c, nonce).
                  ret (authFinal\<lparr>au_email := [], au_email_cipher := hex_encode c, au_email_nonce := hex_encode nonce\<rparr>))
                else ret authFinal) (\<lambda>authFinal.
       andThen (or_server_error (in_tx (create_auth authFinal))) (\<lambda>created.
       ret (MAuth created, 201))))"

lemma CreateUserAuth_checks:
  "CreateUserAuth K cfg a = andThen (ValidateEmail K (au_email a)) (\<lambda>ok.
     if \<not> ok then refuse 400 ''wrong email address'' else andThen (check_new_email K cfg a) (sign_up_rest K cfg a))"
  unfolding CreateUserAuth_def sign_up_rest_def [symmetric] ..

lemma safe_sign_up:
  assumes "\<forall>x \<in> set (auths d). au_email x \<noteq> au_email a"
    and "if IsCipher cfg then \<forall>x \<in> set (auths d). au_email_hash x \<noteq> h else h = []"
  shows "safe emails_unique d (sign_up_rest K cfg a h)"
  unfolding sign_up_rest_def Let_def
  by (intro safe_steps) (use assms in \<open>auto intro!: unique_create simp: no_auth_def\<close>)

text \<open>C36. Addresses stay unique: a sign-up without an account id in the request, served while the
  database answers and whatever Redis, the mail service and the other packages do, keeps the
  accounts free of duplicate addresses, in plain text and as hashes.\<close>

theorem sign_up_keeps_emails_unique:
  assumes "emails_unique (db_of s)" and "auth_up s" and "au_id a = 0"
  shows "emails_unique (db_of (snd (CreateUserAuth K cfg a s)))"
proof -
  obtain ok s1 where v: "(ValidateEmail K (au_email a) :: (auth_reply, bool) aprog) s = (Inr ok, s1)"
    using ValidateEmail_total by blast
  then have up: "auth_up s1" "db_of s1 = db_of s" using nosql_up [OF nosql_services(1) v] assms(2) by auto
  obtain r s2 where c: "check_new_email K cfg a s1 = (r, s2)" by (cases "check_new_email K cfg a s1")
  have d2: "db_of s2 = db_of s1" by (rule sameD [OF nodb_twofa(1) c])
  have run: "CreateUserAuth K cfg a s =
      (if \<not> ok then (Inl (Raise (MStr ''wrong email address'', 400)), s1)
       else case r of Inl x \<Rightarrow> (Inl x, s2) | Inr h \<Rightarrow> sign_up_rest K cfg a h s2)"
    using v c by (simp add: CreateUserAuth_checks andThen_def refuse_def raise_def split: sum.split)
  show ?thesis
  proof (cases "\<exists>h. ok \<and> r = Inr h")
    case False
    then show ?thesis using run d2 up(2) assms(1) by (cases r) auto
  next
    case True
    then obtain h where h: "ok" "r = Inr h" by blast
    have "safe emails_unique (db_of s) (sign_up_rest K cfg a h)"
      using check_new_email_fact [OF up(1) assms(3) c [unfolded h(2)]] up(2) by (intro safe_sign_up) auto
    from safeD [OF this assms(1), of s2 "fst (sign_up_rest K cfg a h s2)"] run h d2 up(2) show ?thesis by simp
  qed
qed

theorem sign_up_keeps_emails_unique_witness:
  "emails_unique (db_of (snd (CreateUserAuth (example_packages (example_claims no_claims)) example_config
     (no_auth\<lparr>au_email := ''ann@b.co'', au_password := ''secret''\<rparr>)
     (example_world (no_rows\<lparr>auths := [no_auth\<lparr>au_id := 1, au_email := ''ann@b.co''\<rparr>], next_auth := 2\<rparr>)))))"
  by (rule sign_up_keeps_emails_unique) (simp_all add: emails_unique_def example_world_def auth_up_def no_auth_def)

text \<open>With an account id in the request that no account has, the checks find nothing: gorm adds the id
  to their conditions, and the address is registered a second time.\<close>

theorem sign_up_id_bypasses_check:
  assumes "auth_up s" and "\<not> IsEmailService cfg" and "\<not> IsCipher cfg" and "x \<in> set (auths (db_of s))"
    and "au_email x = au_email a" and "au_id a \<noteq> 0" and "au_id a \<notin> au_id ` set (auths (db_of s))"
    and "email_syntax (au_email a)" and "3 \<le> length (au_email a)" and "length (au_email a) \<le> 254"
    and "p_lookup_mx K (aw_draws s) (email_domain (au_email a))"
  shows "\<exists>y. fst (CreateUserAuth K cfg a s) = Inr (MAuth y, 201) \<and> auths (db_of (snd (CreateUserAuth K cfg a s))) = auths (db_of s) @ [y] \<and>
    au_email y = au_email x"
proof -
  have "find (with_key (au_id a) P) (auths (db_of s)) = None" for P
    using assms(6,7) by (auto simp: find_None_iff with_key_def) (metis imageI)
  with assms show ?thesis
    by (simp add: CreateUserAuth_checks ValidateEmail_def run_simps auth_run check_new_email_def sign_up_rest_def send_or_fail_def SendEmail_def
        Let_def create_auth_def)
qed

section \<open>Login\<close>

text \<open>The account a login is for: its address, in plain text or as a hash, is the one given.\<close>

definition has_address :: "'o packages \<Rightarrow> Configuration \<Rightarrow> string \<Rightarrow> Auth \<Rightarrow> bool" where
  "has_address K cfg email a \<longleftrightarrow> au_email a = email \<or> IsCipher cfg \<and> email_hash K cfg email = Inr (au_email_hash a)"

lemma GetUserByEmail_Inr:
  assumes "GetUserByEmail K cfg email False s = (Inr a, s')"
  shows "a \<in> set (auths (db_of s)) \<and> has_address K cfg email a"
proof -
  have f: "x \<in> set (auths (db_of s1)) \<and> P x" if "first_of auths P s1 = (Inr x, s2)" for P x s1 s2
    using find_row [OF first_of_Inr [OF that]] .
  have d: "db_of s2 = db_of s1" if "first_of auths P s1 = (r, s2)" for P r s1 s2
    using sameD [OF nodb_reads(1) that] .
  show ?thesis
    using assms by (auto simp: GetUserByEmail_def onErr_def run_simps of_result_run has_address_def dest!: f dest: d
        split: prod.splits sum.splits exit.splits if_splits)
qed

lemma GetUserByEmail_up: "auth_up s \<Longrightarrow> snd (GetUserByEmail K cfg email dec s) = s"
  by (simp add: GetUserByEmail_def run_simps auth_run split: option.split sum.split)

lemma check_password_Inr:
  "check_password K cfg given stored code msg s = (Inr u, s') \<longleftrightarrow>
     p_argon_compare K given (sc_hash_sec (cf_security cfg)) stored = Inr True \<and> s' = s"
  by (auto simp: check_password_run split: sum.splits bool.splits)

lemma issue_tokens_Inr:
  assumes "issue_tokens K cfg claims key s = (Inr r, s')"
  obtains ta ja s1 tr where "GetJWT K cfg claims AccessToken s = (Inr (ta, ja), s1)"
    "r = (MTokens \<lparr>jl_access = ta, jl_refresh = tr, jl_twofa = cl_twofa claims, jl_recovery_key = key\<rparr>, 200)"
  using assms by (auto simp: issue_tokens_def ret_def elim!: andThen_InrE dest!: or_server_error_Inr)

text \<open>No time passes before the tokens are issued.\<close>

lemma clock_steps:
  "same aw_now (ret a)" "same aw_now (raise e)" "same aw_now (draw g)" "same aw_now (of_result r)" "same aw_now (first_of rows P)"
  "same aw_now (server_error :: (auth_reply, 'b) aprog)" "same aw_now (upd_st (\<lambda>s. s\<lparr>aw_mem := f s\<rparr>))"
  by (auto simp: same_def ret_def raise_def draw_def of_result_def server_error_def upd_st_def first_of_def auth_sql_def zoom_def andThen_def
      split: sum.split prod.split option.split)

lemma clock_login:
  "same aw_now (ValidateEmail K e)" "same aw_now (GetUserByEmail K cfg e d)" "same aw_now (login_twofa K cfg a pw)"
  unfolding ValidateEmail_def GetUserByEmail_def login_twofa_def lookup_opt_def or_server_error_def
  by (intro same_cases same_andThen same_onErr same_attempt clock_steps)+

text \<open>A login that ends well, step by step.\<close>

lemma Login_Inr:
  assumes "Login K cfg p s = (Inr r, s')"
  obtains a s1 s2 st where "a \<in> set (auths (db_of s))" "has_address K cfg (trim_space (ap_email p)) a"
    "sc_verify_email (cf_security cfg) \<longrightarrow> au_verify a = EmailVerified"
    "p_argon_compare K (ap_password p) (sc_hash_sec (cf_security cfg)) (au_password a) = Inr True"
    "db_of s1 = db_of s" "auth_up s \<Longrightarrow> auth_up s1" "login_twofa K cfg a (ap_password p) s1 = (Inr st, s2)"
    "issue_tokens K cfg (no_claims\<lparr>cl_auth_id := au_id a, cl_twofa := st\<rparr>) [] s2 = (Inr r, s')" "aw_now s2 = aw_now s"
proof -
  obtain ok s0 where v: "(ValidateEmail K (trim_space (ap_email p)) :: (auth_reply, bool) aprog) s = (Inr ok, s0)"
    using ValidateEmail_total by blast
  have d0: "db_of s0 = db_of s" "auth_up s0 = auth_up s" using nosql_up [OF nosql_services(1) v] by auto
  obtain a s1 st s2 where "lookup_opt (GetUserByEmail K cfg (trim_space (ap_email p)) False) s0 = (Inr (Some a), s1)"
    "sc_verify_email (cf_security cfg) \<longrightarrow> au_verify a = EmailVerified"
    "p_argon_compare K (ap_password p) (sc_hash_sec (cf_security cfg)) (au_password a) = Inr True"
    "login_twofa K cfg a (ap_password p) s1 = (Inr st, s2)"
    "issue_tokens K cfg (no_claims\<lparr>cl_auth_id := au_id a, cl_twofa := st\<rparr>) [] s2 = (Inr r, s')"
    using assms v by (auto simp: Login_def Let_def check_password_Inr elim!: andThen_InrE split: if_splits option.splits)
  moreover from lookup_opt_Inr [OF this(1)]
  have g: "GetUserByEmail K cfg (trim_space (ap_email p)) False s0 = (Inr a, s1)" .
  moreover have "db_of s1 = db_of s" using sameD [OF nodb_services(1) g] d0 by simp
  moreover have "aw_now s2 = aw_now s"
    using sameD [OF clock_login(3) calculation(4)] sameD [OF clock_login(2) g] sameD [OF clock_login(1) v] by simp
  moreover have "auth_up s \<Longrightarrow> auth_up s1" using GetUserByEmail_up [of s0 K cfg "trim_space (ap_email p)" False] g d0 by simp
  ultimately show thesis using GetUserByEmail_Inr [OF g] d0 by (intro that [of a s1 st s2]) auto
qed

text \<open>C11. Who gets tokens: whatever the servers answer, \<open>Login\<close> answers with tokens only for an account
  whose address is the one given, whose address is verified if the configuration asks for that, and
  whose stored hash argon2 accepts for the password given; the answer is 200 and the tables are as
  before.\<close>

theorem login_requires_password:
  assumes "Login K cfg p s = (Inr (r, code), s')"
  shows "(\<exists>a \<in> set (auths (db_of s)). has_address K cfg (trim_space (ap_email p)) a \<and>
      (IsEmailVerificationService cfg \<longrightarrow> au_verify a = EmailVerified) \<and>
      p_argon_compare K (ap_password p) (sc_hash_sec (cf_security cfg)) (au_password a) = Inr True) \<and>
    (\<exists>t. r = MTokens t) \<and> code = 200 \<and> db_of s' = db_of s"
proof -
  have "db_of s' = db_of s" using sameD [OF nodb_handlers(1) assms] .
  moreover obtain a s2 st where "a \<in> set (auths (db_of s))" "has_address K cfg (trim_space (ap_email p)) a"
    "sc_verify_email (cf_security cfg) \<longrightarrow> au_verify a = EmailVerified"
    "p_argon_compare K (ap_password p) (sc_hash_sec (cf_security cfg)) (au_password a) = Inr True"
    and iss: "issue_tokens K cfg (no_claims\<lparr>cl_auth_id := au_id a, cl_twofa := st\<rparr>) [] s2 = (Inr (r, code), s')"
    by (rule Login_Inr [OF assms])
  moreover have "(\<exists>t. r = MTokens t) \<and> code = 200" by (rule issue_tokens_Inr [OF iss]) simp
  ultimately show ?thesis by (auto simp: IsEmailVerificationService_def)
qed

lemma login_twofa_on:
  assumes "auth_up s" and "Is2FA cfg" and "find (\<lambda>t. tf_id_auth t = au_id a) (two_fas (db_of s)) = Some row" and "tf_status row = st"
    and "login_twofa K cfg a pw s = (Inr st', s')"
  shows "st' = st"
  using assms by (auto simp: login_twofa_def run_simps auth_run split: option.splits sum.splits if_splits)

text \<open>C5. The second factor is enforced from end to end: when an account has the second factor switched
  on, the access token of a login with its password alone never passes a protected route, at any
  later time and in any later state; the answer is 401.\<close>

theorem second_factor_enforced:
  assumes "jwt_law K" and "keys_match (jwt_params cfg)" and "jp_acc_nbf (jwt_params cfg) \<le> 0" and "Is2FA cfg"
    and "s2_on (tfa_status cfg) \<noteq> []" and "s2_on (tfa_status cfg) \<noteq> s2_off (tfa_status cfg)" and "auth_up s"
    and "\<forall>a \<in> set (auths (db_of s)). has_address K cfg (trim_space (ap_email p)) a \<longrightarrow>
      (\<exists>row. find (\<lambda>t. tf_id_auth t = au_id a) (two_fas (db_of s)) = Some row \<and> tf_status row = s2_on (tfa_status cfg))"
    and "Login K cfg p s = (Inr (MTokens t, code), s')" and "carries_access rq (jl_access t)"
  shows "\<exists>msg s3. createAuthMiddleware K cfg rq s2 = (Inl (Raise (MRaw msg, 401)), s3)"
proof (rule Login_Inr [OF assms(9)])
  fix a s1 s1' st
  assume a: "a \<in> set (auths (db_of s))" "has_address K cfg (trim_space (ap_email p)) a"
    and s1: "db_of s1 = db_of s" "auth_up s \<Longrightarrow> auth_up s1" "login_twofa K cfg a (ap_password p) s1 = (Inr st, s1')"
    and iss: "issue_tokens K cfg (no_claims\<lparr>cl_auth_id := au_id a, cl_twofa := st\<rparr>) [] s1' = (Inr (MTokens t, code), s')"
  have st: "st = s2_on (tfa_status cfg)" using login_twofa_on [OF s1(2)] assms(4,7,8) a s1 by metis
  let ?claims = "no_claims\<lparr>cl_auth_id := au_id a, cl_twofa := st\<rparr>"
  from iss obtain ja s4 where "GetJWT K cfg ?claims AccessToken s1' = (Inr (jl_access t, ja), s4)"
    by (auto elim!: issue_tokens_Inr)
  then obtain c e i where c: "issued K (jwt_params cfg) (jp_access_key (jwt_params cfg)) c (jl_access t)" "jc_expires c = Some e"
      "jc_issued c = Some i" "jc_not_before c = None" "jc_custom c = ?claims"
    by (rule GetJWT_issued [OF _ token_settings.simps(1) assms(3)])
  have no: "\<not> second_factor_settled cfg st" using st assms(5,6) by (simp add: second_factor_settled_def)
  show ?thesis
  proof (cases "aw_now (ticked s2) < e * second")
    case True
    then obtain cx where "JWT K cfg rq no_context s2 = (Inr cx, ticked s2)" "cx_claims cx = ?claims"
      using JWT_of_issued [OF assms(1,2) c(1-4) assms(10), where s = s2 and cx = no_context] c(5) by auto
    then show ?thesis using no by (intro middleware_refuses_unsettled [OF assms(4)]) simp_all
  next
    case False
    then show ?thesis
      using JWT_of_issued [OF assms(1,2) c(1-4) assms(10), where s = s2 and cx = no_context] by (auto simp: createAuthMiddleware_def andThen_def)
  qed
qed

subsection \<open>An example\<close>

definition no_payload :: AuthPayload where
  "no_payload = \<lparr>ap_email = [], ap_password = [], ap_verification_code = [], ap_otp = [], ap_secret_code = [], ap_recovery_key = [],
     ap_pass_new = [], ap_pass_repeat = []\<rparr>"

definition ann :: Auth where
  "ann = no_auth\<lparr>au_id := 1, au_email := ''ann@b.co'', au_password := ''secret'', au_verify := EmailVerified\<rparr>"

definition ann_claims :: MyCustomClaims where
  "ann_claims = no_claims\<lparr>cl_auth_id := 1, cl_twofa := ''on''\<rparr>"

definition ann_row :: TwoFA where
  "ann_row = \<lparr>tf_id = 1, tf_key_main = base64 ''123456789012123456'', tf_key_backup = [], tf_uuid_sha = [], tf_uuid_enc = [],
     tf_status = ''on'', tf_id_auth = 1\<rparr>"

definition ann_rows :: auth_db where
  "ann_rows = no_rows\<lparr>auths := [ann], next_auth := 2, two_fas := [ann_row], next_twofa := 2\<rparr>"

abbreviation "ann_packages \<equiv> example_packages (example_claims ann_claims)"

lemmas ann_defs = no_payload_def ann_def ann_claims_def ann_row_def ann_rows_def no_auth_def no_claims_def example_defs

definition ann_hash :: string where
  "ann_hash = ''secretssssssssssssssssssssssssss''"

lemma ann_hash: "GetHash ann_packages example_config ''secret'' = Inr ann_hash"
  by (simp add: GetHash_def Is2FADoubleHash_def example_defs ann_hash_def numeral_eq_Suc)

lemma ann_tokens:
  "issue_tokens ann_packages example_config ann_claims [] ((example_world d)\<lparr>aw_draws := n, aw_mem := m\<rparr>) =
     (Inr (MTokens \<lparr>jl_access = ''A'', jl_refresh = ''R'', jl_twofa = ''on'', jl_recovery_key = []\<rparr>, 200),
      (example_world d)\<lparr>aw_draws := Suc (Suc n), aw_mem := m\<rparr>)"
  by (simp add: issue_tokens_def GetJWT_def ann_defs run_simps auth_run ticked_def signing_key_def hmac_alg_def issue_claims_def example_claims_def
      later_def wrap64_def)

lemma ann_login:
  "Login ann_packages example_config (no_payload\<lparr>ap_email := ''ann@b.co'', ap_password := ''secret''\<rparr>) (example_world ann_rows) =
     (Inr (MTokens \<lparr>jl_access = ''A'', jl_refresh = ''R'', jl_twofa = ''on'', jl_recovery_key = []\<rparr>, 200),
      (example_world ann_rows)\<lparr>aw_draws := 3, aw_mem := [1 \<mapsto> \<lparr>s2_pass_sha = ann_hash, s2_secret = [], s2_image = []\<rparr>]\<rparr>)"
proof -
  have *: "trim_space ''ann@b.co'' = ''ann@b.co''" "email_syntax ''ann@b.co''" by code_simp+
  have claims: "no_claims\<lparr>cl_auth_id := 1, cl_twofa := ''on''\<rparr> = ann_claims" by (simp add: ann_claims_def)
  have up: "auth_up ((example_world ann_rows)\<lparr>aw_draws := 1\<rparr>)" "db_of ((example_world ann_rows)\<lparr>aw_draws := 1\<rparr>) = ann_rows"
    by (simp_all add: auth_up_def example_world_def)
  have 1: "(ValidateEmail ann_packages ''ann@b.co'' :: (auth_reply, bool) aprog) (example_world ann_rows) =
      (Inr True, (example_world ann_rows)\<lparr>aw_draws := 1\<rparr>)"
    using * by (simp add: ValidateEmail_def draw_def example_packages_def example_world_def)
  have 2: "lookup_opt (GetUserByEmail ann_packages example_config ''ann@b.co'' False) ((example_world ann_rows)\<lparr>aw_draws := 1\<rparr>) =
      (Inr (Some ann), (example_world ann_rows)\<lparr>aw_draws := 1\<rparr>)"
    using up by (simp add: lookup_opt_def GetUserByEmail_def run_simps first_of_run ann_rows_def no_rows_def) (simp add: ann_def)
  have 3: "check_password ann_packages example_config ''secret'' (au_password ann) 401 ''wrong credentials'' w = (Inr (), w)" for w
    by (simp add: check_password_run example_packages_def ann_def)
  have 4: "login_twofa ann_packages example_config ann ''secret'' ((example_world ann_rows)\<lparr>aw_draws := 1\<rparr>) =
      (Inr ''on'', (example_world ann_rows)\<lparr>aw_draws := 1, aw_mem := [1 \<mapsto> \<lparr>s2_pass_sha = ann_hash, s2_secret = [], s2_image = []\<rparr>]\<rparr>)"
    using up ann_hash
    by (simp add: login_twofa_def run_simps auth_run ann_rows_def no_rows_def ann_row_def ann_def Is2FA_def Activated_def example_config_defs) (simp add: example_world_def)
  have "au_id ann = 1" "au_verify ann = EmailVerified" by (simp_all add: ann_def)
  then show ?thesis
    using 1 2 3 4 * ann_tokens [where d = ann_rows and n = 1 and m = "[1 \<mapsto> \<lparr>s2_pass_sha = ann_hash, s2_secret = [], s2_image = []\<rparr>]"] claims
    by (simp add: Login_def Let_def andThen_def no_payload_def)
qed

theorem login_requires_password_witness:
  "(\<exists>a \<in> set (auths ann_rows). has_address ann_packages example_config ''ann@b.co'' a \<and>
      p_argon_compare ann_packages ''secret'' [] (au_password a) = Inr True)"
proof -
  have "trim_space ''ann@b.co'' = ''ann@b.co''" by code_simp
  then show ?thesis
    using login_requires_password [OF ann_login] by (auto simp: no_payload_def example_world_def example_config_defs)
qed

theorem second_factor_enforced_witness:
  "\<exists>msg s3. createAuthMiddleware ann_packages example_config (token_request ''A'') ((example_world ann_rows)\<lparr>aw_now := 9\<rparr>) =
     (Inl (Raise (MRaw msg, 401)), s3)"
proof -
  have *: "keys_match (jwt_params example_config)" "jp_acc_nbf (jwt_params example_config) \<le> 0" "Is2FA example_config"
    "s2_on (tfa_status example_config) \<noteq> []" "s2_on (tfa_status example_config) \<noteq> s2_off (tfa_status example_config)"
    "auth_up (example_world ann_rows)" "carries_access (token_request ''A'') ''A''"
    by (simp_all add: keys_match_def hmac_alg_def example_defs carries_access_def token_request_def Is2FA_def Activated_def auth_up_def)
  have row: "\<forall>a \<in> set (auths (db_of (example_world ann_rows))). P a \<longrightarrow>
      (\<exists>row. find (\<lambda>t. tf_id_auth t = au_id a) (two_fas (db_of (example_world ann_rows))) = Some row \<and> tf_status row = s2_on (tfa_status example_config))" for P
    by (simp add: ann_defs)
  show ?thesis
    using second_factor_enforced [OF example_jwt_law *(1-6) row ann_login, of "token_request ''A''"] *(7) by simp
qed

end
