(* ===== verification/Code_Correct.thy ===== *)
theory Code_Correct
  imports Account_Correct
begin

text \<open>
  Codes sent by mail: what \<open>SendEmail\<close> leaves in Redis and in the mail, and that the code works once
  and only in its time.
\<close>

lemma trim_show_nat [simp]: "trim_space (show_nat n) = show_nat n"
proof (rule trim_space_id)
  have "\<forall>c \<in> set (show_nat n). is_digit c" by (rule digits_show_nat)
  then have "is_digit (hd (show_nat n))" "is_digit (last (show_nat n))" by simp_all
  then show "hd (show_nat n) \<notin> hd ` set space_encodings" "last (show_nat n) \<notin> last ` set space_encodings"
    by (simp_all add: digit_no_space)
qed simp

section \<open>What a sent code leaves behind\<close>

lemma with_options_other:
  assumes "\<And>i. k \<noteq> ''additional_info_'' @ show_nat i"
  shows "map_of (with_options opts m) k = map_of m k"
proof -
  have "map_of (fold (\<lambda>(i, o') m. AList.update (''additional_info_'' @ show_nat i) (Inr o') m) xs m) k = map_of m k" for xs
    using assms by (induction xs arbitrary: m) (auto simp: update_conv')
  then show ?thesis by (simp add: with_options_def)
qed

lemma mail_carries_code: "map_of (pk_html_model (mail_params K cfg email t code ttl opts m)) ''secret_code'' = Some (mailed_code code)"
proof -
  have "''secret_code'' \<noteq> ''additional_info_'' @ show_nat i" for i by simp
  then show ?thesis by (simp add: mail_params_def Let_def with_options_other update_conv')
qed

lemma mail_params_to [simp]: "pk_to (mail_params K cfg email t code ttl opts m) = email"
  by (simp add: mail_params_def Let_def)

text \<open>The value under a code, and how long it is kept.\<close>

definition code_value :: "'o packages \<Rightarrow> Configuration \<Rightarrow> string \<Rightarrow> string + string" where
  "code_value K cfg email = (if IsCipher cfg then email_hash K cfg email else Inr email)"

definition code_ttl :: "Configuration \<Rightarrow> email_type \<Rightarrow> nat" where
  "code_ttl cfg t = (if t = PassRecovery then ec_recover_period (cf_email cfg) else ec_verify_period (cf_email cfg))"

lemma secret_code_world:
  "secret_code K cfg t s = (Inr code, s0) \<Longrightarrow> \<exists>n. s0 = s\<lparr>aw_draws := n\<rparr>"
  by (auto simp: secret_code_def Let_def andThen_def ret_def draw_def SecureRandomNumber_def intro: exI [of _ "aw_draws s"]
      split: if_splits option.splits)

lemma SendEmail_stores:
  assumes "SendEmail K cfg email t opts s = (Inr True, s1)" and "redis_up s"
  obtains code v m n where "(secret_code K cfg t :: (string, nat + string) aprog) s = (Inr code, s\<lparr>aw_draws := n\<rparr>)" "code_value K cfg email = Inr v"
    "aw_redis s1 = (aw_redis s)(key_prefix t @ code_text code \<mapsto> (v, Some (aw_now s div second + int (code_ttl cfg t))))"
    "aw_mails s1 = aw_mails s @ [m]" "pk_to m = email" "map_of (pk_html_model m) ''secret_code'' = Some (mailed_code code)"
proof -
  from assms(1) obtain code s0 where c: "(secret_code K cfg t :: (string, nat + string) aprog) s = (Inr code, s0)"
    by (auto simp: SendEmail_def Let_def ret_def elim!: andThen_InrE split: if_splits)
  then obtain n where n: "s0 = s\<lparr>aw_draws := n\<rparr>" using secret_code_world by blast
  have up: "aw_redis_faults s = []" using assms(2) by (simp add: redis_up_def)
  from assms(1) c obtain v where v: "code_value K cfg email = Inr v"
    by (auto simp: SendEmail_def Let_def andThen_def ret_def raise_def code_value_def of_result_def split: if_splits sum.splits)
  let ?k = "key_prefix t @ code_text code"
  let ?r = "(aw_redis s)(?k \<mapsto> (v, Some (aw_now s div second + int (code_ttl cfg t))))"
  have "deliver K cfg email t code (code_ttl cfg t) opts (s0\<lparr>aw_redis := ?r\<rparr>) = (Inr True, s1)"
    using assms(1) c v up n
    by (auto simp: SendEmail_def Let_def run_simps code_value_def of_result_def code_ttl_def auth_redis_def cmd_set_def cmd_expire_def
        cmd_expireat_def redis_lookup_def split: if_splits sum.splits)
  then obtain m where "aw_redis s1 = ?r" "aw_mails s1 = aw_mails s @ [m]" "pk_to m = email"
      "map_of (pk_html_model m) ''secret_code'' = Some (mailed_code code)"
    using n
    by (auto simp: mail_carries_code deliver_def Postmark_def run_simps draw_def of_result_def go_panic_def
        split: if_splits option.splits sum.splits)
  with c v n that show thesis by blast
qed

text \<open>A number that the loop returns is above the bound.\<close>

lemma draw_until_above: "draw_until rnd lo hi n = Some r \<Longrightarrow> lo < fst r"
  by (rule draw_until.raw_induct [where P = "\<lambda>rnd lo hi n r. lo < fst r"]) (auto split: option.splits if_splits)

section \<open>Taking a code\<close>

lemma redis_lookup_entry: "aw_redis s k = Some (v, Some e) \<Longrightarrow> redis_lookup k s = (if aw_now s div second < e then Some v else None)"
  by (simp add: redis_lookup_def)

lemma take_code_run:
  assumes "redis_up s" and "trim_space code = code" and "code \<noteq> []" and "aw_redis s (pre @ code) = Some (v, Some e)"
    and "aw_now (ticked s) < e * second"
  shows "take_code pre code s = (Inr v, (ticked s)\<lparr>aw_redis := (aw_redis s)(pre @ code := None)\<rparr>)"
proof -
  have "aw_now s < e * second" using ticked_simps(10) assms(5) by (rule order.strict_trans1)
  then have "aw_now s div second < e" "aw_now (ticked s) div second < e" using assms(5) by auto
  then show ?thesis
    using assms by (simp add: take_code_def Let_def run_simps auth_run cmd_exists_def cmd_get_def cmd_del_def redis_lookup_def)
qed

lemma take_code_gone:
  assumes "redis_up s" and "aw_redis s (pre @ trim_space code) = None" and "trim_space code \<noteq> []"
  shows "take_code pre code s = (Inl (Raise (MStr ''wrong/expired verification code'', 400)), s)"
  using assms by (simp add: take_code_def Let_def run_simps auth_run cmd_exists_def redis_lookup_def)

text \<open>The account that a value stands for: the decision between address and hash agrees with what
  was stored, for an address that the lookup of mail servers confirms.\<close>

definition address_of :: "'o packages \<Rightarrow> Configuration \<Rightarrow> string \<Rightarrow> Auth \<Rightarrow> bool" where
  "address_of K cfg email a \<longleftrightarrow> (if IsCipher cfg then email_hash K cfg email = Inr (au_email_hash a) else au_email a = email)"

definition deliverable :: "'o packages \<Rightarrow> string \<Rightarrow> bool" where
  "deliverable K email \<longleftrightarrow> email_syntax email \<and> 3 \<le> length email \<and> length email \<le> 254 \<and> (\<forall>n. p_lookup_mx K n (email_domain email))"

lemma value_finds_owner:
  assumes "code_value K cfg email = Inr v" and "deliverable K email"
  shows "\<exists>isEmail n. (ValidateEmail K v :: ('e, bool) aprog) s = (Inr isEmail, s\<lparr>aw_draws := n\<rparr>) \<and> owner_cond isEmail v = address_of K cfg email"
proof (cases "IsCipher cfg")
  case True
  then obtain x where "v = hex_encode x" "email_hash K cfg email = Inr v"
    using assms(1) by (auto simp: code_value_def email_hash_def map_sum_def split: sum.splits)
  then show ?thesis
    using True hex_not_email [of x]
    by (intro exI [of _ False] exI [of _ "aw_draws s"]) (auto simp: ValidateEmail_def ret_def owner_cond_def address_of_def fun_eq_iff)
next
  case False
  with assms show ?thesis
    by (intro exI [of _ True] exI [of _ "Suc (aw_draws s)"])
      (auto simp: code_value_def deliverable_def ValidateEmail_def draw_def owner_cond_def address_of_def fun_eq_iff)
qed

lemma VerifyEmail_run:
  assumes "redis_up s" and "auth_up s" and "trim_space code = code" and "code \<noteq> []" and "code_value K cfg email = Inr v" and "deliverable K email"
    and "aw_redis s (EmailVerificationKeyPrefix @ code) = Some (v, Some e)" and "aw_now (ticked s) < e * second"
    and "find (address_of K cfg email) (auths (db_of s)) = Some x" and "au_verify x \<noteq> EmailVerified" and "ap_verification_code p = code"
  shows "\<exists>s'. VerifyEmail K cfg p s = (Inr (MStr ''email successfully verified'', 200), s') \<and>
    db_of s' = snd (save_auth (x\<lparr>au_verify := EmailVerified\<rparr>) (db_of s)) \<and> aw_redis s' = (aw_redis s)(EmailVerificationKeyPrefix @ code := None)"
proof -
  let ?s1 = "(ticked s)\<lparr>aw_redis := (aw_redis s)(EmailVerificationKeyPrefix @ code := None)\<rparr>"
  have 1: "take_code EmailVerificationKeyPrefix code s = (Inr v, ?s1)" using take_code_run assms by blast
  obtain b n where 2: "(ValidateEmail K v :: (auth_reply, bool) aprog) ?s1 = (Inr b, ?s1\<lparr>aw_draws := n\<rparr>)" "owner_cond b v = address_of K cfg email"
    using value_finds_owner [OF assms(5,6)] by metis
  have up: "auth_up (?s1\<lparr>aw_draws := n\<rparr>)" "db_of (?s1\<lparr>aw_draws := n\<rparr>) = db_of s" using assms(2) by simp_all
  show ?thesis
    using 1 2 up assms(9-11) by (simp add: VerifyEmail_def andThen_def ret_def auth_run)
qed

text \<open>C10. A mailed code verifies, once: when \<open>SendEmail\<close> has delivered a numeric code for an address, the
  mail goes to that address and carries a code such that \<open>VerifyEmail\<close>, given that code before its
  validity ends, answers 200 and marks the account of the address (found in plain text or by its
  hash, as configured) as verified; a second request with the same code is refused with 400.\<close>

theorem mailed_code_verifies_once:
  assumes "redis_up s" and "SendEmail K cfg email VerifyEmailNewAcc opts s = (Inr True, s1)"
    and "\<not> IsEmailVerificationCodeUUIDv4 cfg" and "ec_verification_length (cf_email cfg) \<noteq> 0" and "deliverable K email"
    and "auth_up s2" and "redis_up s2" and "aw_redis s2 = aw_redis s1"
    and "aw_now (ticked s2) < (aw_now s div second + int (ec_verify_period (cf_email cfg))) * second"
    and "find (address_of K cfg email) (auths (db_of s2)) = Some x" and "au_verify x \<noteq> EmailVerified"
  shows "\<exists>m code s3. aw_mails s1 = aw_mails s @ [m] \<and> pk_to m = email \<and> map_of (pk_html_model m) ''secret_code'' = Some (Inl code) \<and>
    VerifyEmail K cfg (no_payload\<lparr>ap_verification_code := show_nat code\<rparr>) s2 = (Inr (MStr ''email successfully verified'', 200), s3) \<and>
    db_of s3 = snd (save_auth (x\<lparr>au_verify := EmailVerified\<rparr>) (db_of s2)) \<and>
    (\<forall>s4. redis_up s4 \<and> aw_redis s4 = aw_redis s3 \<longrightarrow>
      VerifyEmail K cfg (no_payload\<lparr>ap_verification_code := show_nat code\<rparr>) s4 = (Inl (Raise (MStr ''wrong/expired verification code'', 400)), s4))"
proof (rule SendEmail_stores [OF assms(2,1)])
  fix c v m n
  assume c: "(secret_code K cfg VerifyEmailNewAcc :: (string, nat + string) aprog) s = (Inr c, s\<lparr>aw_draws := n\<rparr>)"
    and v: "code_value K cfg email = Inr v"
    and r: "aw_redis s1 = (aw_redis s)(key_prefix VerifyEmailNewAcc @ code_text c \<mapsto> (v, Some (aw_now s div second + int (code_ttl cfg VerifyEmailNewAcc))))"
    and m: "aw_mails s1 = aw_mails s @ [m]" "pk_to m = email" "map_of (pk_html_model m) ''secret_code'' = Some (mailed_code c)"
  obtain code where code: "c = Inl code" "code \<noteq> 0"
  proof -
    obtain d where "c = Inl d" "(SecureRandomNumber K (ec_verification_length (cf_email cfg)) :: (string, nat) aprog) s = (Inr d, s\<lparr>aw_draws := n\<rparr>)"
      using c assms(3) by (auto simp: secret_code_def Let_def andThen_def ret_def split: prod.splits sum.splits)
    with that assms(4) draw_until_above show thesis by (fastforce simp: SecureRandomNumber_def split: if_splits option.splits)
  qed
  let ?p = "no_payload\<lparr>ap_verification_code := show_nat code\<rparr>"
  have "aw_redis s2 (EmailVerificationKeyPrefix @ show_nat code) = Some (v, Some (aw_now s div second + int (ec_verify_period (cf_email cfg))))"
    using r assms(8) code by (simp add: code_text_def code_ttl_def)
  from VerifyEmail_run [OF assms(7,6) trim_show_nat show_nat_nonempty v assms(5) this assms(9,10,11), of ?p]
  obtain s3 where s3: "VerifyEmail K cfg ?p s2 = (Inr (MStr ''email successfully verified'', 200), s3)"
      "db_of s3 = snd (save_auth (x\<lparr>au_verify := EmailVerified\<rparr>) (db_of s2))"
      "aw_redis s3 = (aw_redis s2)(EmailVerificationKeyPrefix @ show_nat code := None)" by auto
  have "VerifyEmail K cfg ?p s4 = (Inl (Raise (MStr ''wrong/expired verification code'', 400)), s4)" if "redis_up s4 \<and> aw_redis s4 = aw_redis s3" for s4
    using take_code_gone [of s4 EmailVerificationKeyPrefix "show_nat code"] that s3(3) by (simp add: VerifyEmail_def andThen_def)
  then show ?thesis
    using m s3 code by (intro exI [of _ m] exI [of _ code] exI [of _ s3]) (auto simp: mailed_code_def split: nat.splits)
qed

definition new_ann :: auth_world where
  "new_ann = example_world (ann_rows\<lparr>auths := [ann\<lparr>au_verify := EmailNotVerified\<rparr>]\<rparr>)"

lemma example_number:
  assumes "0 < d" and "d \<le> 15"
  shows "SecureRandomNumber ann_packages d s = (Inr (10 ^ d - 2), s\<lparr>aw_draws := Suc (aw_draws s)\<rparr>)"
proof -
  have "(10 :: nat) ^ d \<le> 10 ^ 15" using assms(2) by (rule power_increasing) simp
  then have r: "round53 (10 ^ d - 1) = 10 ^ d - 1" by (simp add: round53_exact)
  obtain k where k: "d = Suc k" using assms(1) by (cases d) auto
  have "(1 :: nat) \<le> 10 ^ k" by simp
  then have "10 ^ k < 10 * 10 ^ k - (2 :: nat)" by linarith
  then have lt: "10 ^ (d - 1) < 10 ^ d - (2 :: nat)" unfolding k by simp
  have "p_random ann_packages n (10 ^ d - 1) = Some (10 ^ d - 2)" for n by (simp add: example_packages_def eval_nat_numeral)
  with lt have "draw_until (p_random ann_packages) (10 ^ (d - 1)) (10 ^ d - 1) (aw_draws s) = Some (10 ^ d - 2, Suc (aw_draws s))"
    by (subst draw_until.simps) simp
  with assms show ?thesis
    unfolding SecureRandomNumber_def r by simp
qed

lemma example_mail:
  "\<exists>s1. SendEmail ann_packages example_config ''ann@b.co'' t [] (example_world d) = (Inr True, s1) \<and> auth_up s1 \<and> redis_up s1 \<and>
     db_of s1 = d \<and> aw_now (ticked s1) = 0"
proof -
  have h: "HTMLModel (StrArrHTMLModel []) [] = Some []" by code_simp
  have pm: "p_postmark ann_packages n x = Inr ''OK''" for n x by (simp add: example_packages_def)
  show ?thesis
    by (simp add: SendEmail_def secret_code_def example_number run_simps example_config_defs IsEmailService_def Activated_def
        email_required_def IsRedis_def IsEmailVerificationCodeUUIDv4_def IsPasswordRecoverCodeUUIDv4_def IsCipher_def Let_def auth_redis_def cmd_set_def
        cmd_expire_def cmd_expireat_def redis_lookup_def deliver_def h Postmark_def draw_def of_result_def pm example_world_def auth_up_def
        redis_up_def ticked_def)
qed

lemma ann_deliverable: "deliverable ann_packages ''ann@b.co''"
proof -
  have "email_syntax ''ann@b.co''" by code_simp
  then show ?thesis by (simp add: deliverable_def example_packages_def)
qed

theorem mailed_code_verifies_once_witness:
  "\<exists>s1 m code s3. SendEmail ann_packages example_config ''ann@b.co'' VerifyEmailNewAcc [] new_ann = (Inr True, s1) \<and>
     aw_mails s1 = [m] \<and> pk_to m = ''ann@b.co'' \<and> map_of (pk_html_model m) ''secret_code'' = Some (Inl code) \<and>
     VerifyEmail ann_packages example_config (no_payload\<lparr>ap_verification_code := show_nat code\<rparr>) s1 =
       (Inr (MStr ''email successfully verified'', 200), s3)"
proof -
  obtain s1 where s1: "SendEmail ann_packages example_config ''ann@b.co'' VerifyEmailNewAcc [] new_ann = (Inr True, s1)"
      "auth_up s1" "redis_up s1" "db_of s1 = db_of new_ann" "aw_now (ticked s1) = 0"
    using example_mail [of VerifyEmailNewAcc "db_of new_ann"] by (auto simp: new_ann_def example_world_def)
  have f: "find (address_of ann_packages example_config ''ann@b.co'') (auths (db_of s1)) = Some (ann\<lparr>au_verify := EmailNotVerified\<rparr>)"
    by (simp add: s1(4) new_ann_def example_world_def ann_rows_def address_of_def IsCipher_def example_config_defs)
      (simp add: ann_def)
  have "redis_up new_ann" "\<not> IsEmailVerificationCodeUUIDv4 example_config" "ec_verification_length (cf_email example_config) \<noteq> 0"
    "aw_mails new_ann = []"
    "aw_now (ticked s1) < (aw_now new_ann div second + int (ec_verify_period (cf_email example_config))) * second"
    by (simp_all add: s1(5) new_ann_def example_world_def redis_up_def example_config_defs IsEmailVerificationCodeUUIDv4_def)
  from mailed_code_verifies_once [OF this(1) s1(1) this(2,3) ann_deliverable s1(2,3) refl this(5) f] this(4) s1(1) show ?thesis by auto
qed

end
