(* ===== verification/Playground.thy ===== *)
theory Playground
  imports Jwt
begin

text \<open>
  The string operations of server/handler/playgroundRedis.go.  Their routes have no middleware, and
  they work on the same Redis as the codes and the list of revoked tokens.
\<close>

record RedisData =
  rd_key :: string
  rd_value :: string

datatype playground_message = PStr string | PData RedisData

type_synonym playground_reply = "playground_message \<times> nat"

definition playground_error :: "(playground_reply, 'a) aprog" where
  "playground_error = raise (PStr ''internal server error'', 500)"

text \<open>\<^verbatim>\<open>DEL\<close> with the number of keys it removed.\<close>

definition cmd_del_count :: "string \<Rightarrow> auth_world \<Rightarrow> nat \<times> auth_world" where
  "cmd_del_count k s = (if redis_lookup k s = None then 0 else 1, snd (cmd_del k s))"

text \<open>A \<^verbatim>\<open>SET\<close> that does not fail answers OK.\<close>

definition RedisCreate :: "RedisData \<Rightarrow> (playground_reply, playground_reply) aprog" where
  "RedisCreate d =
     andThen (onErr (auth_redis (cmd_set (rd_key d) (rd_value d))) (\<lambda>_. playground_error)) (\<lambda>_.
     ret (PData d, 201))"

definition RedisRead :: "RedisData \<Rightarrow> (playground_reply, playground_reply) aprog" where
  "RedisRead d =
     andThen (onErr (auth_redis (cmd_exists (rd_key d))) (\<lambda>_. playground_error)) (\<lambda>found.
     if \<not> found then raise (PStr ''key does not exist'', 404)
     else
       andThen auth_time_now (\<lambda>_.
       andThen (onErr (auth_redis (cmd_get (rd_key d))) (\<lambda>_. playground_error)) (\<lambda>v.
       ret (PData (d\<lparr>rd_value := v\<rparr>), 200))))"

definition RedisDelete :: "RedisData \<Rightarrow> (playground_reply, playground_reply) aprog" where
  "RedisDelete d =
     andThen (onErr (auth_redis (cmd_del_count (rd_key d))) (\<lambda>_. playground_error)) (\<lambda>n.
     if n = 0 then raise (PStr ''key does not exist'', 404)
     else ret (PStr ''key is deleted'', 200))"

end
