(* ===== verification/Password_Correct.thy ===== *)
theory Password_Correct
  imports Code_Correct Playground
begin

text \<open>
  Recovered passwords: the code from the mail sets a new password; and what the code of a
  recovery is worth when it expires at the wrong moment, or when it can be planted.
\<close>

section \<open>Recovery\<close>

text \<open>Accounts whose second factor does not stand in the way.\<close>

definition no_second_factor :: "Configuration \<Rightarrow> auth_db \<Rightarrow> Auth \<Rightarrow> bool" where
  "no_second_factor cfg d a \<longleftrightarrow>
     Is2FA cfg \<longrightarrow> (\<forall>t. find (\<lambda>t. tf_id_auth t = au_id a) (two_fas d) = Some t \<longrightarrow> tf_status t \<noteq> s2_on (tfa_status cfg))"

lemma recovery_step_none:
  "auth_up s \<Longrightarrow> no_second_factor cfg (db_of s) a \<Longrightarrow> recovery_step K cfg a p s = (Inr [], s)"
  by (auto simp: recovery_step_def run_simps auth_run no_second_factor_def split: option.split)

definition acceptable_password :: "Configuration \<Rightarrow> AuthPayload \<Rightarrow> bool" where
  "acceptable_password cfg p \<longleftrightarrow> sc_user_pass_min_length (cf_security cfg) \<le> int (length (ap_pass_new p)) \<and> ap_pass_new p = ap_pass_repeat p"

definition new_hash :: "'o packages \<Rightarrow> Configuration \<Rightarrow> nat \<Rightarrow> string \<Rightarrow> string + string" where
  "new_hash K cfg n pw =
     (let hc = sc_hash_pass (cf_security cfg) in
      p_argon_hash K n (hc\<lparr>hp_memory := hp_memory hc * 1024 mod 2 ^ 32\<rparr>) pw (sc_hash_sec (cf_security cfg)))"

lemma PasswordRecover_run:
  assumes "redis_up s" and "auth_up s" and "acceptable_password cfg p"
    and "redis_lookup (PasswordRecoveryKeyPrefix @ ap_secret_code p) s \<noteq> None"
    and "fst (cmd_get (PasswordRecoveryKeyPrefix @ ap_secret_code p) (ticked s)) = v"
    and "new_hash K cfg (aw_draws s) (ap_pass_new p) = Inr h"
    and "(ValidateEmail K v :: (auth_reply, bool) aprog) ((ticked s)\<lparr>aw_draws := Suc (aw_draws s)\<rparr>) = (Inr b, (ticked s)\<lparr>aw_draws := n\<rparr>)"
    and "find (owner_cond b v) (auths (db_of s)) = Some x" and "no_second_factor cfg (db_of s) x"
  shows "\<exists>s'. PasswordRecover K cfg p s = (Inr (MRecovered ''password updated'' [], 200), s') \<and>
    db_of s' = snd (save_auth (x\<lparr>au_password := h\<rparr>) (db_of s)) \<and>
    aw_redis s' = (aw_redis s)(PasswordRecoveryKeyPrefix @ ap_secret_code p := None)"
proof -
  let ?k = "PasswordRecoveryKeyPrefix @ ap_secret_code p"
  let ?s2 = "(ticked s)\<lparr>aw_draws := n\<rparr>"
  have 1: "check_new_password cfg p s = (Inr (), s)" using assms(3) by (auto simp: check_new_password_def acceptable_password_def Let_def ret_def)
  have 2: "cmd_get ?k (ticked s) = (v, ticked s)" using assms(5) by (simp add: cmd_get_def)
  have 3: "hash_new_password K cfg (ap_pass_new p) (ticked s) = (Inr h, (ticked s)\<lparr>aw_draws := Suc (aw_draws s)\<rparr>)"
    using assms(6) by (simp add: hash_new_password_def HashPass_def run_simps auth_run new_hash_def Let_def)
  have 4: "recovery_step K cfg x p ?s2 = (Inr [], ?s2)" using assms(2,9) by (intro recovery_step_none) simp_all
  show ?thesis
    using assms(1,2,4,7,8) 1 2 3 4
    by (simp add: PasswordRecover_def Let_def andThen_def ret_def onErr_def auth_run cmd_exists_def cmd_del_def)
qed

lemma save_auth_find:
  assumes "x \<in> set (auths d)" and "au_id a = au_id x"
  shows "find (\<lambda>r. au_id r = au_id x) (auths (snd (save_auth a d))) = Some a"
proof -
  have "x \<in> set rows \<Longrightarrow> find (\<lambda>r. au_id r = au_id x) (map (\<lambda>r. if au_id r = au_id a then a else r) rows) = Some a" for rows
    using assms(2) by (induction rows) auto
  moreover have "au_id a \<in> au_id ` set (auths d)" using assms by auto
  ultimately show ?thesis using assms(1) by (simp add: save_auth_def)
qed

definition argon_law :: "'o packages \<Rightarrow> bool" where
  "argon_law K \<longleftrightarrow> (\<forall>n hc pw sec h. p_argon_hash K n hc pw sec = Inr h \<longrightarrow> p_argon_compare K pw sec h = Inr True)"

lemma PasswordRecover_gone:
  assumes "redis_up s" and "acceptable_password cfg p" and "redis_lookup (PasswordRecoveryKeyPrefix @ ap_secret_code p) s = None"
  shows "PasswordRecover K cfg p s = (Inl (Raise (MStr ''wrong/expired secret code'', 401)), s)"
proof -
  have "check_new_password cfg p s = (Inr (), s)" using assms(2) by (auto simp: check_new_password_def acceptable_password_def Let_def ret_def)
  with assms(1,3) show ?thesis by (simp add: PasswordRecover_def Let_def run_simps auth_run cmd_exists_def)
qed

text \<open>C37. A recovery code resets the password, once: when \<open>SendEmail\<close> has delivered a recovery code for an
  address, \<open>PasswordRecover\<close> with that code, before its validity ends and for an account without an
  active second factor, answers 200 and stores a hash that argon2 accepts for the new password in the
  account of the address; a second request with the code is refused with 401.\<close>

theorem recovery_code_resets_password:
  assumes "argon_law K" and "redis_up s" and "SendEmail K cfg email PassRecovery opts s = (Inr True, s1)" and "deliverable K email"
    and "auth_up s2" and "redis_up s2" and "aw_redis s2 = aw_redis s1"
    and "aw_now (ticked s2) < (aw_now s div second + int (ec_recover_period (cf_email cfg))) * second"
    and "find (address_of K cfg email) (auths (db_of s2)) = Some x" and "no_second_factor cfg (db_of s2) x"
  shows "\<exists>m code. aw_mails s1 = aw_mails s @ [m] \<and> pk_to m = email \<and> map_of (pk_html_model m) ''secret_code'' = Some (mailed_code code) \<and>
    (\<forall>p h. ap_secret_code p = code_text code \<and> acceptable_password cfg p \<and> new_hash K cfg (aw_draws s2) (ap_pass_new p) = Inr h \<longrightarrow>
      (\<exists>s3 y. PasswordRecover K cfg p s2 = (Inr (MRecovered ''password updated'' [], 200), s3) \<and>
        find (\<lambda>a. au_id a = au_id x) (auths (db_of s3)) = Some y \<and>
        p_argon_compare K (ap_pass_new p) (sc_hash_sec (cf_security cfg)) (au_password y) = Inr True \<and>
        (\<forall>s4. redis_up s4 \<and> aw_redis s4 = aw_redis s3 \<longrightarrow>
          PasswordRecover K cfg p s4 = (Inl (Raise (MStr ''wrong/expired secret code'', 401)), s4))))"
proof (rule SendEmail_stores [OF assms(3,2)])
  fix c v m n
  assume v: "code_value K cfg email = Inr v"
    and r: "aw_redis s1 = (aw_redis s)(key_prefix PassRecovery @ code_text c \<mapsto> (v, Some (aw_now s div second + int (code_ttl cfg PassRecovery))))"
    and m: "aw_mails s1 = aw_mails s @ [m]" "pk_to m = email" "map_of (pk_html_model m) ''secret_code'' = Some (mailed_code c)"
  have "\<exists>s3 y. PasswordRecover K cfg p s2 = (Inr (MRecovered ''password updated'' [], 200), s3) \<and>
        find (\<lambda>a. au_id a = au_id x) (auths (db_of s3)) = Some y \<and>
        p_argon_compare K (ap_pass_new p) (sc_hash_sec (cf_security cfg)) (au_password y) = Inr True \<and>
        (\<forall>s4. redis_up s4 \<and> aw_redis s4 = aw_redis s3 \<longrightarrow>
          PasswordRecover K cfg p s4 = (Inl (Raise (MStr ''wrong/expired secret code'', 401)), s4))"
    if code: "ap_secret_code p = code_text c" and pw: "acceptable_password cfg p" "new_hash K cfg (aw_draws s2) (ap_pass_new p) = Inr h" for p h
  proof -
    let ?k = "PasswordRecoveryKeyPrefix @ ap_secret_code p"
    let ?e = "aw_now s div second + int (ec_recover_period (cf_email cfg))"
    have k: "aw_redis s2 ?k = Some (v, Some ?e)" using r assms(7) code by (simp add: code_ttl_def)
    have "aw_now s2 < ?e * second" using ticked_simps(10) assms(8) by (rule order.strict_trans1)
    then have now: "aw_now s2 div second < ?e" "aw_now (ticked s2) div second < ?e" using assms(8) by auto
    obtain b n where b: "(ValidateEmail K v :: (auth_reply, bool) aprog) ((ticked s2)\<lparr>aw_draws := Suc (aw_draws s2)\<rparr>) = (Inr b, (ticked s2)\<lparr>aw_draws := n\<rparr>)"
        "owner_cond b v = address_of K cfg email"
      using value_finds_owner [OF v assms(4), of "(ticked s2)\<lparr>aw_draws := Suc (aw_draws s2)\<rparr>"] by auto
    obtain s3 where s3: "PasswordRecover K cfg p s2 = (Inr (MRecovered ''password updated'' [], 200), s3)"
        "db_of s3 = snd (save_auth (x\<lparr>au_password := h\<rparr>) (db_of s2))" "aw_redis s3 = (aw_redis s2)(?k := None)"
      using PasswordRecover_run [OF assms(6,5) pw(1) _ _ pw(2) b(1) _ assms(10)] k now b(2) assms(9)
      by (auto simp: redis_lookup_entry cmd_get_def)
    have "x \<in> set (auths (db_of s2))" using find_row [OF assms(9)] by simp
    then have "find (\<lambda>a. au_id a = au_id x) (auths (db_of s3)) = Some (x\<lparr>au_password := h\<rparr>)"
      using s3(2) by (simp add: save_auth_find)
    moreover have "p_argon_compare K (ap_pass_new p) (sc_hash_sec (cf_security cfg)) h = Inr True"
      using assms(1) pw(2) by (auto simp: argon_law_def new_hash_def Let_def)
    moreover have "PasswordRecover K cfg p s4 = (Inl (Raise (MStr ''wrong/expired secret code'', 401)), s4)"
      if "redis_up s4 \<and> aw_redis s4 = aw_redis s3" for s4
      using that s3(3) pw(1) by (intro PasswordRecover_gone) (auto simp: redis_lookup_def)
    ultimately show ?thesis using s3(1) by (intro exI [of _ s3] exI [of _ "x\<lparr>au_password := h\<rparr>"]) simp
  qed
  with m show ?thesis by blast
qed

theorem recovery_code_resets_password_witness:
  "\<exists>s1 code s3 y. SendEmail ann_packages example_config ''ann@b.co'' PassRecovery [] (example_world (ann_rows\<lparr>two_fas := []\<rparr>)) = (Inr True, s1) \<and>
     PasswordRecover ann_packages example_config
       (no_payload\<lparr>ap_secret_code := code, ap_pass_new := ''sesame'', ap_pass_repeat := ''sesame''\<rparr>) s1 =
       (Inr (MRecovered ''password updated'' [], 200), s3) \<and>
     find (\<lambda>a. au_id a = 1) (auths (db_of s3)) = Some y \<and> p_argon_compare ann_packages ''sesame'' [] (au_password y) = Inr True"
proof -
  let ?w = "example_world (ann_rows\<lparr>two_fas := []\<rparr>)"
  obtain s1 where s1: "SendEmail ann_packages example_config ''ann@b.co'' PassRecovery [] ?w = (Inr True, s1)"
      "auth_up s1" "redis_up s1" "db_of s1 = ann_rows\<lparr>two_fas := []\<rparr>" "aw_now (ticked s1) = 0"
    using example_mail [of PassRecovery "ann_rows\<lparr>two_fas := []\<rparr>"] by blast
  have f: "find (address_of ann_packages example_config ''ann@b.co'') (auths (db_of s1)) = Some ann"
    by (simp add: s1(4) example_world_def ann_rows_def address_of_def IsCipher_def example_config_defs) (simp add: ann_def)
  have *: "argon_law ann_packages" "redis_up ?w" "no_second_factor example_config (db_of s1) ann"
    "aw_now (ticked s1) < (aw_now ?w div second + int (ec_recover_period (cf_email example_config))) * second"
    by (simp_all add: argon_law_def s1(4,5) example_world_def redis_up_def no_second_factor_def example_config_defs)
      (simp add: example_packages_def)
  let ?p = "\<lambda>c. no_payload\<lparr>ap_secret_code := code_text c, ap_pass_new := ''sesame'', ap_pass_repeat := ''sesame''\<rparr>"
  have "acceptable_password example_config (?p c)" "new_hash ann_packages example_config (aw_draws s1) (ap_pass_new (?p c)) = Inr ''sesame''" for c
    by (simp_all add: acceptable_password_def new_hash_def no_payload_def example_config_defs) (simp add: example_packages_def Let_def)
  moreover have "au_id ann = 1" "sc_hash_sec (cf_security example_config) = []" by (simp_all add: ann_def example_config_defs)
  moreover obtain c where "\<forall>p h. ap_secret_code p = code_text c \<and> acceptable_password example_config p \<and>
      new_hash ann_packages example_config (aw_draws s1) (ap_pass_new p) = Inr h \<longrightarrow>
      (\<exists>s3 y. PasswordRecover ann_packages example_config p s1 = (Inr (MRecovered ''password updated'' [], 200), s3) \<and>
        find (\<lambda>a. au_id a = au_id ann) (auths (db_of s3)) = Some y \<and>
        p_argon_compare ann_packages (ap_pass_new p) (sc_hash_sec (cf_security example_config)) (au_password y) = Inr True)"
    using recovery_code_resets_password [OF *(1,2) s1(1) ann_deliverable s1(2,3) refl *(4) f *(3)] by blast
  ultimately obtain s3 y where "PasswordRecover ann_packages example_config (?p c) s1 = (Inr (MRecovered ''password updated'' [], 200), s3)"
      "find (\<lambda>a. au_id a = 1) (auths (db_of s3)) = Some y" "p_argon_compare ann_packages ''sesame'' [] (au_password y) = Inr True"
    by (auto dest!: spec [of _ "?p c"])
  with s1(1) show ?thesis by blast
qed

section \<open>Codes that are not worth what they seem\<close>

text \<open>A recovery code that expires between the two questions to Redis yields the empty string, which is
  taken for a hash: the new password goes to the first account that has no hash of its address,
  whoever asked for the code.\<close>

theorem expiring_code_hits_first_account:
  assumes "redis_up s" and "auth_up s" and "acceptable_password cfg p"
    and "aw_redis s (PasswordRecoveryKeyPrefix @ ap_secret_code p) = Some (v, Some e)"
    and "aw_now s div second < e" and "e \<le> aw_now (ticked s) div second"
    and "new_hash K cfg (aw_draws s) (ap_pass_new p) = Inr h"
    and "find (\<lambda>a. au_email_hash a = []) (auths (db_of s)) = Some x" and "no_second_factor cfg (db_of s) x"
  shows "\<exists>s'. PasswordRecover K cfg p s = (Inr (MRecovered ''password updated'' [], 200), s') \<and>
    db_of s' = snd (save_auth (x\<lparr>au_password := h\<rparr>) (db_of s))"
proof -
  have "(ValidateEmail K [] :: (auth_reply, bool) aprog) w = (Inr False, w)" for w by (simp add: ValidateEmail_def ret_def)
  then have v: "(ValidateEmail K [] :: (auth_reply, bool) aprog) ((ticked s)\<lparr>aw_draws := Suc (aw_draws s)\<rparr>) =
      (Inr False, (ticked s)\<lparr>aw_draws := Suc (aw_draws s)\<rparr>)" .
  have "owner_cond False [] = (\<lambda>a. au_email_hash a = [])" by (simp add: owner_cond_def fun_eq_iff)
  with PasswordRecover_run [OF assms(1-3) _ _ assms(7) v _ assms(9)] assms(4-6,8) show ?thesis
    by (auto simp: redis_lookup_entry cmd_get_def)
qed

text \<open>Anyone may write any key through the playground, so anyone may plant a recovery code for the
  address of an account and set its password.\<close>

theorem planted_code_takes_over:
  assumes "redis_up s" and "auth_up s" and "\<not> IsCipher cfg" and "deliverable K email" and "acceptable_password cfg p"
    and "find (\<lambda>a. au_email a = email) (auths (db_of s)) = Some x" and "no_second_factor cfg (db_of s) x"
    and "new_hash K cfg (aw_draws s) (ap_pass_new p) = Inr h"
  shows "\<exists>s1 s2. RedisCreate \<lparr>rd_key = PasswordRecoveryKeyPrefix @ ap_secret_code p, rd_value = email\<rparr> s =
      (Inr (PData \<lparr>rd_key = PasswordRecoveryKeyPrefix @ ap_secret_code p, rd_value = email\<rparr>, 201), s1) \<and>
    PasswordRecover K cfg p s1 = (Inr (MRecovered ''password updated'' [], 200), s2) \<and>
    db_of s2 = snd (save_auth (x\<lparr>au_password := h\<rparr>) (db_of s))"
proof -
  let ?k = "PasswordRecoveryKeyPrefix @ ap_secret_code p"
  let ?s1 = "s\<lparr>aw_redis := (aw_redis s)(?k \<mapsto> (email, None))\<rparr>"
  have 1: "RedisCreate \<lparr>rd_key = ?k, rd_value = email\<rparr> s = (Inr (PData \<lparr>rd_key = ?k, rd_value = email\<rparr>, 201), ?s1)"
    using assms(1) by (simp add: RedisCreate_def run_simps auth_run cmd_set_def)
  have v: "code_value K cfg email = Inr email" using assms(3) by (simp add: code_value_def)
  obtain b n where b: "(ValidateEmail K email :: (auth_reply, bool) aprog) ((ticked ?s1)\<lparr>aw_draws := Suc (aw_draws ?s1)\<rparr>) =
      (Inr b, (ticked ?s1)\<lparr>aw_draws := n\<rparr>)" "owner_cond b email = address_of K cfg email"
    using value_finds_owner [OF v assms(4), of "(ticked ?s1)\<lparr>aw_draws := Suc (aw_draws ?s1)\<rparr>"] by auto
  have a: "address_of K cfg email = (\<lambda>a. au_email a = email)" using assms(3) by (simp add: address_of_def fun_eq_iff)
  have "\<exists>s2. PasswordRecover K cfg p ?s1 = (Inr (MRecovered ''password updated'' [], 200), s2) \<and>
      db_of s2 = snd (save_auth (x\<lparr>au_password := h\<rparr>) (db_of ?s1)) \<and> aw_redis s2 = (aw_redis ?s1)(?k := None)"
    by (rule PasswordRecover_run [where b = b and n = n and v = email]) (use assms b a in \<open>simp_all add: redis_lookup_def cmd_get_def\<close>)
  with 1 show ?thesis by auto
qed

end
