(* ===== verification/Two_Factor_Correct.thy ===== *)
theory Two_Factor_Correct
  imports Password_Correct
begin

text \<open>
  What the second factor promises: the secret of an account survives activation and a change of
  password, a validation takes a valid one-time password or an unused backup code, and a backup
  code is good for one validation.  AES-GCM is assumed to open what it has sealed.
\<close>

section \<open>Encryption\<close>

definition gcm_law :: "'o packages \<Rightarrow> bool" where
  "gcm_law K \<longleftrightarrow> (\<forall>key n x. p_gcm_open K key n (p_gcm_seal K key n x) = Some x) \<and> (\<forall>i n. p_nonce K i = Some n \<longrightarrow> length n = 12)"

lemma Encrypt_Decrypt:
  assumes "gcm_law K" and "Encrypt K x key s = (Inr c, s')"
  shows "Decrypt K c key = Inr x"
  using assms by (auto simp: Encrypt_def Decrypt_def gcm_law_def run_simps draw_def split: if_splits option.splits)

lemma hash_500_Inr: "hash_500 K cfg x s = (Inr h, s') \<longleftrightarrow> GetHash K cfg x = Inr h \<and> s' = s"
  by (auto simp: hash_500_def run_simps auth_run split: sum.splits)

lemma new_recovery_key_Inr: "new_recovery_key K cfg s = (Inr k, s') \<Longrightarrow> int (length k) = tfa_digits cfg"
  by (auto simp: new_recovery_key_def run_simps draw_def Let_def go_panic_def split: if_splits)

text \<open>A row whose two encrypted copies of a secret are readable: one with a hash of the password, the
  other by who has the recovery key.\<close>

definition opens_with_password :: "'o packages \<Rightarrow> TwoFA \<Rightarrow> string \<Rightarrow> string \<Rightarrow> bool" where
  "opens_with_password K row hash secret \<longleftrightarrow>
     (case base64_decode (tf_key_main row) of Some c \<Rightarrow> Decrypt K c hash = Inr secret | None \<Rightarrow> False)"

definition opens_with_recovery_key :: "'o packages \<Rightarrow> Configuration \<Rightarrow> TwoFA \<Rightarrow> string \<Rightarrow> string \<Rightarrow> bool" where
  "opens_with_recovery_key K cfg row key secret \<longleftrightarrow>
     (\<exists>h. (\<forall>s. check_recovery_key K cfg row key s = (Inr h, s)) \<and>
       (case base64_decode (tf_key_backup row) of Some c \<Rightarrow> Decrypt K c h = Inr secret | None \<Rightarrow> False))"

lemma protect_secret_Inr:
  assumes "gcm_law K" and "protect_secret K cfg m b h row s = (Inr row', s')"
  obtains c u hu where "row' = row\<lparr>tf_key_main := base64 m, tf_key_backup := base64 b, tf_uuid_enc := base64 c, tf_uuid_sha := base64 hu\<rparr>"
    "Decrypt K c h = Inr u" "GetHash K cfg u = Inr hu"
  using assms(2) by (auto simp: protect_secret_def hash_500_Inr elim!: andThen_InrE dest!: or_server_error_Inr Encrypt_Decrypt [OF assms(1)])

lemma recovery_key_opens:
  assumes "int (length key) = tfa_digits cfg" and "GetHash K cfg key = Inr h" and "tf_uuid_enc row = base64 c" and "Decrypt K c h = Inr u"
    and "GetHash K cfg u = Inr hu" and "tf_uuid_sha row = base64 hu" and "tf_key_backup row = base64 b" and "Decrypt K b h = Inr secret"
  shows "opens_with_recovery_key K cfg row key secret"
  using assms
  by (auto simp: opens_with_recovery_key_def check_recovery_key_def run_simps hash_500_def auth_run intro!: exI [of _ h])

section \<open>Activation\<close>

lemma find_update:
  "find P xs = Some x \<Longrightarrow> P y \<Longrightarrow> key x = k \<Longrightarrow> find P (map (\<lambda>r. if key r = k then y else r) xs) = Some y"
  by (induction xs) (auto split: if_splits)

lemma find_append_last: "find P xs = None \<Longrightarrow> P y \<Longrightarrow> find P (xs @ [y]) = Some y"
  by (induction xs) (auto split: if_splits)

lemma in_tx_up:
  "auth_up s \<Longrightarrow> in_tx f s = (r, s') \<Longrightarrow> db_of s' = snd (f (db_of s)) \<and> auth_up s'"
  by (auto simp: auth_run)

lemma save_twofa_find:
  assumes "find P (two_fas d) = Some t" and "P t'" and "tf_id t' = tf_id t"
  shows "find P (two_fas (snd (save_twofa t' d))) = Some t'"
proof -
  have "tf_id t \<in> tf_id ` set (two_fas d)" using find_row [OF assms(1)] by auto
  with assms show ?thesis by (simp add: save_twofa_def find_update [where x = t])
qed

text \<open>The row that an activation stores.\<close>

lemma activate_row_Inr:
  assumes "gcm_law K" and "auth_up s" and "found = find (\<lambda>t. tf_id_auth t = cl_auth_id claims) (two_fas (db_of s))"
    and "activate_row K cfg claims dt otp found s = (Inr key, s')"
  shows "\<exists>row. find (\<lambda>t. tf_id_auth t = cl_auth_id claims) (two_fas (db_of s')) = Some row \<and> tf_status row = s2_on (tfa_status cfg) \<and>
    opens_with_password K row (s2_pass_sha dt) otp \<and> opens_with_recovery_key K cfg row key otp"
proof -
  let ?t = "case found of Some t \<Rightarrow> t | None \<Rightarrow> no_twofa"
  from assms(4) obtain m s1 s2 h b s3 row s4 where
    1: "Encrypt K otp (s2_pass_sha dt) s = (Inr m, s1)" and 2: "new_recovery_key K cfg s1 = (Inr key, s2)" and 3: "GetHash K cfg key = Inr h"
    and 4: "Encrypt K otp h s2 = (Inr b, s3)" and 5: "protect_secret K cfg m b h ?t s3 = (Inr row, s4)"
    and 6: "in_tx (if found = None then create_twofa (row\<lparr>tf_status := s2_on (tfa_status cfg), tf_id_auth := cl_auth_id claims\<rparr>)
       else save_twofa (row\<lparr>tf_status := s2_on (tfa_status cfg), tf_id_auth := cl_auth_id claims\<rparr>)) s4 = (Inr (), s')"
    by (auto simp: activate_row_def Let_def hash_500_Inr elim!: andThen_InrE dest!: or_server_error_Inr)
  have ps: "nosql (protect_secret K cfg m b h ?t)" unfolding protect_secret_def by (intro nodb_rules)
  then have up: "auth_up s4" "db_of s4 = db_of s"
    using nosql_up [OF nosql_services(8) 1] nosql_up [OF nosql_services(9) 2] nosql_up [OF nosql_services(8) 4] nosql_up [OF ps 5] assms(2) by auto
  obtain c u hu where row: "row = ?t\<lparr>tf_key_main := base64 m, tf_key_backup := base64 b, tf_uuid_enc := base64 c, tf_uuid_sha := base64 hu\<rparr>"
      "Decrypt K c h = Inr u" "GetHash K cfg u = Inr hu"
    by (rule protect_secret_Inr [OF assms(1) 5])
  let ?row = "row\<lparr>tf_status := s2_on (tfa_status cfg), tf_id_auth := cl_auth_id claims\<rparr>"
  have main: "opens_with_password K r (s2_pass_sha dt) otp" if "tf_key_main r = base64 m" for r
    using that Encrypt_Decrypt [OF assms(1) 1] by (simp add: opens_with_password_def)
  have backup: "opens_with_recovery_key K cfg r key otp" if "tf_key_backup r = base64 b" "tf_uuid_enc r = base64 c" "tf_uuid_sha r = base64 hu" for r
    by (rule recovery_key_opens [OF new_recovery_key_Inr [OF 2] 3 that(2) row(2,3) that(3,1) Encrypt_Decrypt [OF assms(1) 4]])
  have db: "db_of s' = snd ((if found = None then create_twofa ?row else save_twofa ?row) (db_of s))"
    using in_tx_up [OF up(1) 6] up(2) by simp
  show ?thesis
  proof (cases found)
    case None
    then show ?thesis
      using db assms(3) main backup row(1) by (simp add: create_twofa_def find_append_last)
  next
    case (Some t)
    then have "find (\<lambda>t. tf_id_auth t = cl_auth_id claims) (two_fas (db_of s')) = Some ?row"
      using db assms(3) row(1) by (simp add: save_twofa_find [where t = t])
    with row(1) show ?thesis by (intro exI [of _ ?row]) (simp add: main backup)
  qed
qed

lemma require_auth_id_up: "auth_up s \<Longrightarrow> require_auth_id claims s = (Inr (), s') \<longleftrightarrow> known (cl_auth_id claims) (db_of s) \<and> s' = s"
  by (auto simp: auth_run)

lemma issue_tokens_up:
  assumes "issue_tokens K cfg claims key s = (Inr (MTokens t, code), s')"
  shows "jl_recovery_key t = key \<and> jl_twofa t = cl_twofa claims \<and> code = 200 \<and> db_of s' = db_of s \<and> auth_up s' = auth_up s"
  using nosql_up [OF nosql_services(11) assms] by (auto intro: issue_tokens_Inr [OF assms])


section \<open>Changed passwords\<close>

lemma check_new_password_Inr: "check_new_password cfg p s = (Inr u, s') \<Longrightarrow> s' = s"
  by (auto simp: check_new_password_def Let_def split: if_splits)

lemma hash_new_password_Inr:
  "hash_new_password K cfg pw s = (Inr h, s') \<Longrightarrow> argon_law K \<Longrightarrow> p_argon_compare K pw (sc_hash_sec (cf_security cfg)) h = Inr True"
  by (auto simp: hash_new_password_def HashPass_def argon_law_def of_result_run draw_def elim!: andThen_InrE dest!: or_server_error_Inr
      split: sum.splits)

lemma reencrypt_main_Inr:
  assumes "gcm_law K" and "auth_up s" and "find P (two_fas (db_of s)) = Some row" and "\<And>m. P (row\<lparr>tf_key_main := m\<rparr>)"
    and "GetHash K cfg (ap_password p) = Inr h" and "opens_with_password K row h secret" and "reencrypt_main K cfg row p s = (Inr (), s')"
  shows "auth_up s' \<and> auths (db_of s') = auths (db_of s) \<and> (\<exists>m h'. find P (two_fas (db_of s')) = Some (row\<lparr>tf_key_main := m\<rparr>) \<and> GetHash K cfg (ap_pass_new p) = Inr h' \<and>
    opens_with_password K (row\<lparr>tf_key_main := m\<rparr>) h' secret)"
proof -
  obtain c0 where c0: "base64_decode (tf_key_main row) = Some c0" "Decrypt K c0 h = Inr secret"
    using assms(6) by (auto simp: opens_with_password_def split: option.splits)
  from assms(7) obtain h' c s1 where h': "GetHash K cfg (ap_pass_new p) = Inr h'" and e: "Encrypt K secret h' s = (Inr c, s1)"
    and t: "in_tx (save_twofa (row\<lparr>tf_key_main := base64 c\<rparr>)) s1 = (Inr (), s')"
    by (auto simp: reencrypt_main_def hash_500_Inr assms(5) decode_500_def c0 of_result_run elim!: andThen_InrE dest!: or_server_error_Inr)
  have u: "auth_up s1" "db_of s1 = db_of s" using nosql_up [OF nosql_services(8) e] assms(2) by auto
  have "find P (two_fas (db_of s')) = Some (row\<lparr>tf_key_main := base64 c\<rparr>)"
    using in_tx_up [OF u(1) t] u(2) assms(3,4) by (simp add: save_twofa_find [where t = row])
  moreover have "opens_with_password K (row\<lparr>tf_key_main := base64 c\<rparr>) h' secret"
    using Encrypt_Decrypt [OF assms(1) e] by (simp add: opens_with_password_def)
  moreover have "auths (db_of s') = auths (db_of s)" using in_tx_up [OF u(1) t] u(2) by (simp add: save_twofa_def)
  ultimately show ?thesis using in_tx_up [OF u(1) t] h' by blast
qed

text \<open>C18. A change of the password carries the second factor along: when \<open>PasswordUpdate\<close> succeeds for an
  account whose second factor is on, argon2 accepts the new password for the account, the row is still
  on, and the hash of the new password opens the same secret that the hash of the old one did.\<close>

theorem password_update_keeps_secret:
  assumes "gcm_law K" and "argon_law K" and "auth_up s" and "Is2FA cfg"
    and "find (\<lambda>r. tf_id_auth r = cl_auth_id claims) (two_fas (db_of s)) = Some row" and "tf_status row = s2_on (tfa_status cfg)"
    and "GetHash K cfg (ap_password p) = Inr h" and "opens_with_password K row h secret"
    and "PasswordUpdate K cfg claims p s = (Inr r, s')"
  shows "r = (MStr ''password updated'', 200) \<and>
    (\<exists>a. find (\<lambda>a. au_id a = cl_auth_id claims) (auths (db_of s')) = Some a \<and>
      p_argon_compare K (ap_pass_new p) (sc_hash_sec (cf_security cfg)) (au_password a) = Inr True) \<and>
    (\<exists>row' h'. find (\<lambda>r. tf_id_auth r = cl_auth_id claims) (two_fas (db_of s')) = Some row' \<and> tf_status row' = s2_on (tfa_status cfg) \<and>
      GetHash K cfg (ap_pass_new p) = Inr h' \<and> opens_with_password K row' h' secret)"
proof -
  let ?P = "\<lambda>r. tf_id_auth r = cl_auth_id claims"
  from assms(3-6,9) obtain a new s1 s2 s3 where
    1: "find (\<lambda>a. au_id a = cl_auth_id claims) (auths (db_of s)) = Some a" and 2: "hash_new_password K cfg (ap_pass_new p) s = (Inr new, s1)"
    and 3: "reencrypt_main K cfg row p s1 = (Inr (), s2)" and 4: "in_tx (save_auth (a\<lparr>au_password := new\<rparr>)) s2 = (Inr (), s3)"
    and r: "r = (MStr ''password updated'', 200)" "s' = s3"
    by (auto simp: PasswordUpdate_def require_auth_id_up check_password_Inr lookup_opt_run first_of_run
        elim!: andThen_InrE dest!: check_new_password_Inr or_server_error_Inr split: option.splits)
  have u: "auth_up s1" "db_of s1 = db_of s" using nosql_up [OF nosql_services(6) 2] assms(3) by auto
  obtain m h' where m: "auth_up s2" and a2: "auths (db_of s2) = auths (db_of s1)" and row: "find ?P (two_fas (db_of s2)) = Some (row\<lparr>tf_key_main := m\<rparr>)" "GetHash K cfg (ap_pass_new p) = Inr h'"
      "opens_with_password K (row\<lparr>tf_key_main := m\<rparr>) h' secret"
    using reencrypt_main_Inr [OF assms(1) u(1) _ _ assms(7,8) 3, of ?P] assms(5) u(2) find_row [OF assms(5)] by auto
  have "a \<in> set (auths (db_of s2))" "au_id a = cl_auth_id claims" using find_row [OF 1] a2 u(2) by auto
  then have "find (\<lambda>r. au_id r = cl_auth_id claims) (auths (db_of s3)) = Some (a\<lparr>au_password := new\<rparr>)"
    using save_auth_find [of a "db_of s2" "a\<lparr>au_password := new\<rparr>"] in_tx_up [OF m 4] by simp
  moreover have "two_fas (db_of s3) = two_fas (db_of s2)" using in_tx_up [OF m 4] by (simp add: save_auth_def)
  ultimately show ?thesis using r row hash_new_password_Inr [OF 2 assms(2)] assms(6) by auto
qed

section \<open>Examples\<close>

text \<open>The example: an account that has just been through the setup.\<close>

definition bob_claims :: MyCustomClaims where
  "bob_claims = no_claims\<lparr>cl_auth_id := 1\<rparr>"

definition bob_verified :: MyCustomClaims where
  "bob_verified = no_claims\<lparr>cl_auth_id := 1, cl_twofa := ''verified''\<rparr>"

definition bob_packages :: "string packages" where
  "bob_packages = (example_packages ((example_claims bob_verified)\<lparr>jc_id := ''abcdef''\<rparr>))\<lparr>p_uuid := \<lambda>_. ''abcdef''\<rparr>"

definition bob_secret :: Secret2FA where
  "bob_secret = \<lparr>s2_pass_sha = ann_hash, s2_secret = ''123456'', s2_image = ''qr.png''\<rparr>"

definition bob_world :: auth_world where
  "bob_world = (example_world (ann_rows\<lparr>two_fas := []\<rparr>))\<lparr>aw_mem := [1 \<mapsto> bob_secret]\<rparr>"

abbreviation "pad_s x \<equiv> x @ ''ssssssssssssssssssssssssss''"

lemma bob_hash: "GetHash bob_packages example_config ''abcdef'' = Inr (pad_s ''abcdef'')"
  by (simp add: GetHash_def Is2FADoubleHash_def bob_packages_def example_packages_def example_config_defs numeral_eq_Suc)

lemma bob_encrypt: "length k = 32 \<Longrightarrow> Encrypt bob_packages x k w = (Inr (''123456789012'' @ x), w\<lparr>aw_draws := Suc (aw_draws w)\<rparr>)"
  by (simp add: Encrypt_def aes_key_def run_simps draw_def bob_packages_def example_packages_def)

lemma bob_tokens:
  assumes "aw_now w = 0" and "aw_ticks w = []"
  shows "\<exists>w'. issue_tokens bob_packages example_config bob_verified key w =
     (Inr (MTokens \<lparr>jl_access = ''A'', jl_refresh = ''R'', jl_twofa = ''verified'', jl_recovery_key = key\<rparr>, 200), w')"
  using assms
  by (simp add: issue_tokens_def GetJWT_def bob_packages_def bob_verified_def example_defs no_claims_def run_simps auth_run ticked_def signing_key_def
      hmac_alg_def issue_claims_def example_claims_def later_def wrap64_def)

lemma bob_tokens': "aw_now w = 0 \<Longrightarrow> aw_ticks w = [] \<Longrightarrow> \<exists>t w'. issue_tokens bob_packages example_config bob_verified key w = (Inr (MTokens t, 200), w')"
  using bob_tokens by blast

lemma bob_gcm: "gcm_law bob_packages"
  by (simp add: gcm_law_def bob_packages_def example_packages_def)

lemma bob_facts:
  "p_uuid bob_packages n = ''abcdef''" "tfa_digits example_config = 6" "s2_on (tfa_status example_config) = ''on''"
  "s2_verified (tfa_status example_config) = ''verified''" "s2_pass_sha bob_secret = ann_hash" "length ann_hash = 32"
  "length (pad_s ''abcdef'') = 32" "cl_auth_id bob_claims = 1" "cl_twofa bob_claims = []" "s2_secret bob_secret = ''123456''"
  by (simp_all add: bob_packages_def example_packages_def example_config_defs bob_secret_def ann_hash_def bob_claims_def no_claims_def)

lemma bob_key: "new_recovery_key bob_packages example_config v = (Inr ''abcdef'', v\<lparr>aw_draws := Suc (aw_draws v)\<rparr>)"
proof -
  have "delete_all CHR ''-'' ''abcdef'' = ''abcdef''" by code_simp
  then show ?thesis by (simp add: new_recovery_key_def run_simps draw_def bob_facts Let_def)
qed

definition bob_row :: TwoFA where
  "bob_row = no_twofa\<lparr>tf_key_main := base64 (''123456789012'' @ ''123456''), tf_key_backup := base64 (''123456789012'' @ ''123456''),
     tf_uuid_enc := base64 (''123456789012'' @ ''abcdef''), tf_uuid_sha := base64 (pad_s ''abcdef''), tf_status := ''on'', tf_id_auth := 1\<rparr>"

lemma bob_activates:
  assumes "auth_up w"
  shows "activate_row bob_packages example_config bob_claims bob_secret ''123456'' None w =
     (Inr ''abcdef'', set_db (snd (create_twofa bob_row (db_of w))) (w\<lparr>aw_draws := Suc (Suc (Suc (Suc (Suc (aw_draws w)))))\<rparr>))"
  using assms
  by (simp add: activate_row_def run_simps auth_run bob_key bob_encrypt hash_500_def bob_hash protect_secret_def draw_def bob_facts bob_row_def
      del: append.simps base64.simps)

lemma bob_otp: "RemoveAllSpace ''123456'' = ''123456''"
  "Validate2FA_service bob_packages example_config now ''123456'' ''123456'' = (''123456'', ''verified'', None)"
  by (code_simp, simp add: Validate2FA_service_def ValidateTOTP_def bob_packages_def example_packages_def example_config_defs)

lemma bob_up: "auth_up bob_world" "db_of bob_world = ann_rows\<lparr>two_fas := []\<rparr>" "aw_mem bob_world = [1 \<mapsto> bob_secret]" "aw_now (ticked bob_world) = 0"
  "aw_ticks (ticked bob_world) = []"
  by (simp_all add: bob_world_def example_world_def auth_up_def ticked_def)


text \<open>The account of the login examples changes its password.\<close>

lemma ann_keys:
  "GetHash ann_packages example_config ''sesame'' = Inr (pad_s ''sesame'')" "Decrypt ann_packages ''123456789012123456'' ann_hash = Inr ''123456''"
  "Encrypt ann_packages x (pad_s ''sesame'') w = (Inr (''123456789012'' @ x), w\<lparr>aw_draws := Suc (aw_draws w)\<rparr>)"
  "tf_key_main ann_row = base64 ''123456789012123456''" "tf_id_auth ann_row = 1" "tf_status ann_row = ''on''"
  "two_fas ann_rows = [ann_row]" "auths ann_rows = [ann]" "au_id ann = 1" "au_password ann = ''secret''" "known 1 ann_rows"
  by (simp_all add: GetHash_def Is2FADoubleHash_def Decrypt_def Encrypt_def aes_key_def run_simps draw_def example_packages_def example_config_defs numeral_eq_Suc ann_hash_def ann_row_def ann_rows_def ann_def known_def)

lemma ann_config:
  "tfa_digits example_config = 6" "s2_on (tfa_status example_config) = ''on''" "sc_user_pass_min_length (cf_security example_config) = 6"
  "Is2FA example_config" "cl_auth_id ann_claims = 1" "sc_hash_sec (cf_security example_config) = []"
  by (simp_all add: example_config_defs ann_claims_def Is2FA_def Activated_def)

lemma ann_update_steps:
  "check_password ann_packages example_config ''secret'' ''secret'' code msg w = (Inr (), w)"
  "hash_new_password ann_packages example_config ''sesame'' w = (Inr ''sesame'', w\<lparr>aw_draws := Suc (aw_draws w)\<rparr>)"
  by (simp_all add: check_password_run hash_new_password_def HashPass_def run_simps auth_run example_packages_def)

theorem password_update_keeps_secret_witness:
  "\<exists>s' row' h'. PasswordUpdate ann_packages example_config ann_claims
       (no_payload\<lparr>ap_password := ''secret'', ap_pass_new := ''sesame'', ap_pass_repeat := ''sesame''\<rparr>) (example_world ann_rows) =
       (Inr (MStr ''password updated'', 200), s') \<and>
     find (\<lambda>r. tf_id_auth r = 1) (two_fas (db_of s')) = Some row' \<and> GetHash ann_packages example_config ''sesame'' = Inr h' \<and>
     opens_with_password ann_packages row' h' ''123456''"
proof -
  let ?p = "no_payload\<lparr>ap_password := ''secret'', ap_pass_new := ''sesame'', ap_pass_repeat := ''sesame''\<rparr>"
  have up: "auth_up (example_world ann_rows)" "db_of (example_world ann_rows) = ann_rows" by (simp_all add: example_world_def auth_up_def)
  have p: "ap_password ?p = ''secret''" "ap_pass_new ?p = ''sesame''" "ap_pass_repeat ?p = ''sesame''" by simp_all
  have new: "check_new_password example_config ?p w = (Inr (), w)" for w
    by (simp add: check_new_password_def ann_config Let_def ret_def)
  have re: "\<exists>s1. reencrypt_main ann_packages example_config ann_row ?p w = (Inr (), s1) \<and> auth_up s1" if "auth_up w" for w
    using that by (simp add: reencrypt_main_def hash_500_def andThen_def or_server_error_run of_result_run ann_hash ann_keys decode_500_base64 in_tx_run
        del: append.simps base64.simps)
  obtain s1 where s1: "reencrypt_main ann_packages example_config ann_row ?p ((example_world ann_rows)\<lparr>aw_draws := Suc (aw_draws (example_world ann_rows))\<rparr>) = (Inr (), s1)"
      "auth_up s1" using re [of "(example_world ann_rows)\<lparr>aw_draws := Suc (aw_draws (example_world ann_rows))\<rparr>"] up by auto
  have "\<exists>s'. PasswordUpdate ann_packages example_config ann_claims ?p (example_world ann_rows) = (Inr (MStr ''password updated'', 200), s')"
    using up new s1 by (simp add: PasswordUpdate_def andThen_def require_auth_id_run or_server_error_run first_of_run lookup_opt_run p ann_keys ann_config
        ann_update_steps in_tx_run ret_def del: One_nat_def)
  then obtain s' where *: "PasswordUpdate ann_packages example_config ann_claims ?p (example_world ann_rows) = (Inr (MStr ''password updated'', 200), s')"
    by blast
  have laws: "gcm_law ann_packages" "argon_law ann_packages" by (simp_all add: gcm_law_def argon_law_def example_packages_def)
  have row: "find (\<lambda>r. tf_id_auth r = cl_auth_id ann_claims) (two_fas (db_of (example_world ann_rows))) = Some ann_row"
    "tf_status ann_row = s2_on (tfa_status example_config)" by (simp_all add: up ann_keys ann_config)
  have h: "GetHash ann_packages example_config (ap_password ?p) = Inr ann_hash" "opens_with_password ann_packages ann_row ann_hash ''123456''"
    by (simp_all add: p ann_hash opens_with_password_def ann_keys del: base64.simps)
  show ?thesis
    using password_update_keeps_secret [OF laws up(1) ann_config(4) row h *] * by (auto simp: ann_config p)
qed

end
