(* ===== verification/Two_Factor_Validation.thy ===== *)
theory Two_Factor_Validation
  imports Account_Correct
begin

text \<open>
  Passing the second factor: a validation takes a one-time password that the current secret
  accepts, or a backup code of the account, and a backup code is good for one validation.
\<close>

section \<open>One-time passwords\<close>

text \<open>The secret that a validation works with: the one in memory, or the stored one, opened with the
  hash of the password that the login left in memory.\<close>

definition secret_in_use :: "'o packages \<Rightarrow> Secret2FA \<Rightarrow> TwoFA \<Rightarrow> string \<Rightarrow> bool" where
  "secret_in_use K dt row secret \<longleftrightarrow>
     (if s2_secret dt \<noteq> [] then secret = s2_secret dt
      else \<exists>c. base64_decode (tf_key_main row) = Some c \<and> Decrypt K c (s2_pass_sha dt) = Inr secret)"

lemma current_secret_Inr: "current_secret K dt row s = (Inr x, s') \<Longrightarrow> secret_in_use K dt row x \<and> s' = s"
  by (auto simp: current_secret_def secret_in_use_def decode_500_def of_result_run or_server_error_run elim!: andThen_InrE split: if_splits option.splits sum.splits)

definition accepts_otp :: "'o packages \<Rightarrow> Configuration \<Rightarrow> int \<Rightarrow> string \<Rightarrow> string \<Rightarrow> bool" where
  "accepts_otp K cfg now secret otp \<longleftrightarrow>
     (\<exists>o'. p_totp_from_bytes K secret (sc_2fa_issuer (cf_security cfg)) = Inr o' \<and> fst (p_totp_validate K now o' otp))"

lemma Validate2FA_service_None: "Validate2FA_service K cfg now secret otp = (b, st, None) \<Longrightarrow> accepts_otp K cfg now secret otp"
  by (auto simp: Validate2FA_service_def ValidateTOTP_def accepts_otp_def split: sum.splits prod.splits option.splits if_splits)

text \<open>Reading the tables leaves memory and clock alone.\<close>

lemma reads_at_rest:
  "first_of rows P s = (r, s') \<Longrightarrow> aw_mem s' = aw_mem s \<and> aw_now (ticked s') = aw_now (ticked s)"
  by (auto simp: first_of_def auth_sql_def zoom_def andThen_def ret_def raise_def ticked_def split: prod.splits sum.splits option.splits)

lemma lookup_at_rest: "lookup_opt (first_of rows P) s = (r, s') \<Longrightarrow> aw_now (ticked s') = aw_now (ticked s)"
  by (auto simp: lookup_opt_def run_simps dest!: reads_at_rest split: prod.splits sum.splits exit.splits if_splits)

lemma require_auth_id_at_rest: "require_auth_id claims s = (r, s') \<Longrightarrow> aw_mem s' = aw_mem s \<and> aw_now (ticked s') = aw_now (ticked s)"
  by (auto simp: require_auth_id_def ValidateAuthID_def IsAuthIDValid_def run_simps dest!: reads_at_rest split: prod.splits sum.splits exit.splits if_splits)

text \<open>C12. The second factor is asked for: whatever the servers answer, \<open>Validate2FA\<close> answers with tokens only
  for claims that say \<open>on\<close>, with a secret in memory since the login, an account whose row says
  \<open>on\<close>, and a one-time password of the configured length that the secret in use accepts at the
  time of the call; the tokens then say \<open>verified\<close>.\<close>

theorem validation_needs_otp:
  assumes "Validate2FA K cfg claims p s = (Inr (MTokens t, code), s')"
  shows "cl_twofa claims = s2_on (tfa_status cfg) \<and> int (length (RemoveAllSpace (ap_otp p))) = tfa_digits cfg \<and>
    (\<exists>dt row secret. aw_mem s (cl_auth_id claims) = Some dt \<and>
      find (\<lambda>r. tf_id_auth r = cl_auth_id claims) (two_fas (db_of s)) = Some row \<and> tf_status row = s2_on (tfa_status cfg) \<and>
      secret_in_use K dt row secret \<and> accepts_otp K cfg (aw_now (ticked s)) secret (RemoveAllSpace (ap_otp p))) \<and>
    jl_twofa t = s2_verified (tfa_status cfg) \<and> code = 200"
proof -
  let ?otp = "RemoveAllSpace (ap_otp p)"
  have on: "cl_twofa claims = s2_on (tfa_status cfg)"
    using assms by (auto simp: Validate2FA_def Let_def status_reply_def elim!: andThen_InrE split: if_splits)
  from assms obtain s1 dt s2 row s3 secret b st s4 s5 where
    1: "require_auth_id claims s = (Inr (), s1)" and 2: "aw_mem s1 (cl_auth_id claims) = Some dt" "int (length ?otp) = tfa_digits cfg"
    and 3: "lookup_opt (first_of two_fas (\<lambda>r. tf_id_auth r = cl_auth_id claims)) s1 = (Inr (Some row), s2)" "tf_status row = s2_on (tfa_status cfg)"
    and 4: "current_secret K dt row s2 = (Inr secret, s3)" and 5: "(b, st, None) = Validate2FA_service K cfg (aw_now (ticked s3)) secret ?otp"
    and 6: "validated K cfg claims dt row b s4 = (Inr (MTokens t, code), s5)"
    by (auto simp: Validate2FA_def Let_def status_reply_def validate_otp_def auth_time_now_run get_secret_run failed_attempt_def elim!: andThen_InrE
        split: if_splits option.splits prod.splits)
  have m: "aw_mem s1 = aw_mem s" "aw_now (ticked s1) = aw_now (ticked s)" "db_of s1 = db_of s"
    using require_auth_id_at_rest [OF 1] sameD [OF nodb_services(2) 1] by simp_all
  have s3: "s3 = s2" "secret_in_use K dt row secret" using current_secret_Inr [OF 4] by auto
  have "aw_now (ticked s2) = aw_now (ticked s1)" by (rule lookup_at_rest [OF 3(1)])
  moreover have "find (\<lambda>r. tf_id_auth r = cl_auth_id claims) (two_fas (db_of s1)) = Some row"
    by (rule first_of_Inr [OF lookup_opt_Inr [OF 3(1)]])
  moreover have "jl_twofa t = s2_verified (tfa_status cfg) \<and> code = 200"
    using 6 by (auto simp: validated_def elim!: andThen_InrE issue_tokens_Inr)
  ultimately show ?thesis
    using on m 2 3(2) s3 Validate2FA_service_None [OF 5 [symmetric]] by auto
qed

section \<open>Backup codes\<close>

text \<open>The step in which a validation spends a code.\<close>

lemma ValidateBackup2FA_Inr:
  assumes "auth_up s" and "ValidateBackup2FA K cfg claims p s = (Inr (MTokens t, code), s')"
  obtains h b where "known (cl_auth_id claims) (db_of s)" "cl_twofa claims = s2_on (tfa_status cfg)" "cl_twofa claims \<noteq> s2_verified (tfa_status cfg)"
    "trim_space (ap_otp p) \<noteq> []" "CalcHash K (trim_space (ap_otp p)) (sc_blake2b_sec (cf_security cfg)) = Inr h"
    "find (\<lambda>b. tb_code_hash b = hex_encode h) (filter (\<lambda>b. tb_id_auth b = cl_auth_id claims) (backups (db_of s))) = Some b"
    "backups (db_of s') = filter (\<lambda>r. tb_id r \<noteq> tb_id b) (backups (db_of s))" "jl_twofa t = s2_verified (tfa_status cfg)" "code = 200"
proof -
  let ?cs = "filter (\<lambda>b. tb_id_auth b = cl_auth_id claims) (backups (db_of s))"
  from assms obtain h b s1 where *: "known (cl_auth_id claims) (db_of s)" "cl_twofa claims = s2_on (tfa_status cfg)"
      "cl_twofa claims \<noteq> s2_verified (tfa_status cfg)" "trim_space (ap_otp p) \<noteq> []"
      "CalcHash K (trim_space (ap_otp p)) (sc_blake2b_sec (cf_security cfg)) = Inr h" "find (\<lambda>b. tb_code_hash b = hex_encode h) ?cs = Some b"
    and d: "in_tx (delete_backups {tb_id b}) s = (Inr (), s1)"
    and t: "issue_tokens K cfg (claims\<lparr>cl_twofa := s2_verified (tfa_status cfg)\<rparr>) [] s1 = (Inr (MTokens t, code), s')"
    by (auto simp: ValidateBackup2FA_def Let_def status_reply_def require_auth_id_run find_all_run of_result_run elim!: andThen_InrE
        dest!: or_server_error_Inr split: if_splits option.splits sum.splits)
  have "db_of s' = db_of s1" using nosql_up [OF nosql_services(11) t] by simp
  moreover have "db_of s1 = snd (delete_backups {tb_id b} (db_of s))" using d assms(1) by (auto simp: in_tx_run)
  moreover have "jl_twofa t = s2_verified (tfa_status cfg) \<and> code = 200" using t by (auto elim: issue_tokens_Inr)
  ultimately show thesis using * by (intro that [of h b]) (simp_all add: delete_backups_def)
qed

lemma ValidateBackup2FA_up:
  assumes "auth_up s" and "ValidateBackup2FA K cfg claims p s = (Inr (MTokens t, code), s')"
  shows "auth_up s' \<and> auths (db_of s') = auths (db_of s)"
  using assms
  by (auto simp: ValidateBackup2FA_def Let_def status_reply_def require_auth_id_run find_all_run of_result_run in_tx_run delete_backups_def
      elim!: andThen_InrE dest!: or_server_error_Inr nosql_up [OF nosql_services(11)] split: if_splits option.splits sum.splits)

lemma find_spent:
  assumes "find (\<lambda>b. f b = h) (filter P xs) = Some b" and "distinct (map f (filter P xs))"
  shows "find (\<lambda>b. f b = h) (filter P (filter (\<lambda>r. g r \<noteq> g b) xs)) = None"
proof -
  have b: "f b = h" "b \<in> set (filter P xs)" using find_row [OF assms(1)] by auto
  have inj: "inj_on f (set (filter P xs))" using assms(2) by (simp add: distinct_map)
  have "r = b" if "r \<in> set xs" "P r" "f r = h" for r
    by (rule inj_onD [OF inj]) (use that b in simp_all)
  then show ?thesis by (auto simp: find_None_iff)
qed

text \<open>C13. A backup code is good for one validation: when \<open>ValidateBackup2FA\<close> has answered with tokens, the
  claims said \<open>on\<close> and the tokens say \<open>verified\<close>; the code is gone from the table, every other code
  of the account is still there, and a second request with the code is refused with 400, in any
  later state with the same codes.\<close>

theorem backup_code_single_use:
  assumes "auth_up s" and "distinct (map tb_code_hash (filter (\<lambda>b. tb_id_auth b = cl_auth_id claims) (backups (db_of s))))"
    and "distinct (map tb_id (backups (db_of s)))"
    and "ValidateBackup2FA K cfg claims p s = (Inr (MTokens t, code), s')"
    and "auth_up s2" and "backups (db_of s2) = backups (db_of s')" and "known (cl_auth_id claims) (db_of s2)"
  shows "cl_twofa claims = s2_on (tfa_status cfg) \<and> jl_twofa t = s2_verified (tfa_status cfg) \<and> code = 200 \<and>
    (\<exists>b \<in> set (backups (db_of s)). tb_id_auth b = cl_auth_id claims \<and> set (backups (db_of s')) = set (backups (db_of s)) - {b}) \<and>
    (\<exists>msg. ValidateBackup2FA K cfg claims p s2 = (Inl (Raise (MStr msg, 400)), s2))"
proof (rule ValidateBackup2FA_Inr [OF assms(1,4)])
  fix h b
  let ?own = "\<lambda>b. tb_id_auth b = cl_auth_id claims"
  assume c: "cl_twofa claims = s2_on (tfa_status cfg)" "cl_twofa claims \<noteq> s2_verified (tfa_status cfg)" "trim_space (ap_otp p) \<noteq> []"
      "CalcHash K (trim_space (ap_otp p)) (sc_blake2b_sec (cf_security cfg)) = Inr h"
    and f: "find (\<lambda>b. tb_code_hash b = hex_encode h) (filter ?own (backups (db_of s))) = Some b"
    and d: "backups (db_of s') = filter (\<lambda>r. tb_id r \<noteq> tb_id b) (backups (db_of s))" and t: "jl_twofa t = s2_verified (tfa_status cfg)" "code = 200"
  have gone: "find (\<lambda>b. tb_code_hash b = hex_encode h) (filter ?own (backups (db_of s2))) = None"
    using find_spent [OF f assms(2), of tb_id] assms(6) d by simp
  have b: "b \<in> set (backups (db_of s))" "?own b" using find_row [OF f] by auto
  have "r = b" if "r \<in> set (backups (db_of s))" "tb_id r = tb_id b" for r
    by (rule inj_onD [where A = "set (backups (db_of s))" and f = tb_id]) (use that b(1) assms(3) in \<open>simp_all add: distinct_map\<close>)
  then have "set (backups (db_of s')) = set (backups (db_of s)) - {b}" using d by auto
  moreover have "\<exists>msg. ValidateBackup2FA K cfg claims p s2 = (Inl (Raise (MStr msg, 400)), s2)"
    using gone c assms(5,7)
    by (simp add: ValidateBackup2FA_def Let_def andThen_def require_auth_id_run find_all_run or_server_error_run of_result_run refuse_def raise_def)
  ultimately show ?thesis using c t b by blast
qed

section \<open>Examples\<close>

abbreviation "passed_packages \<equiv> example_packages (example_claims (ann_claims\<lparr>cl_twofa := ''verified''\<rparr>))"

lemma passed_tokens:
  "aw_now w = 0 \<Longrightarrow> aw_ticks w = [] \<Longrightarrow>
     \<exists>t w'. issue_tokens passed_packages example_config (ann_claims\<lparr>cl_twofa := ''verified''\<rparr>) [] w = (Inr (MTokens t, 200), w')"
  by (simp add: issue_tokens_def GetJWT_def ann_claims_def example_defs no_claims_def run_simps auth_run ticked_def signing_key_def
      hmac_alg_def issue_claims_def example_claims_def later_def wrap64_def)

lemma passed_facts:
  "tfa_digits example_config = 6" "s2_on (tfa_status example_config) = ''on''" "s2_verified (tfa_status example_config) = ''verified''"
  "cl_auth_id ann_claims = 1" "cl_twofa ann_claims = ''on''" "sc_blake2b_sec (cf_security example_config) = []"
  by (simp_all add: example_config_defs ann_claims_def no_claims_def)

lemma passed_otp: "RemoveAllSpace ''123456'' = ''123456''"
  "Validate2FA_service passed_packages example_config now ''123456'' ''123456'' = (''123456'', ''verified'', None)"
  by (code_simp, simp add: Validate2FA_service_def ValidateTOTP_def example_packages_def example_config_defs)

definition second_try :: auth_world where
  "second_try = (example_world ann_rows)\<lparr>aw_mem := [1 \<mapsto> \<lparr>s2_pass_sha = ann_hash, s2_secret = ''123456'', s2_image = []\<rparr>]\<rparr>"

lemma second_try:
  "auth_up second_try" "db_of second_try = ann_rows" "aw_mem second_try = [1 \<mapsto> \<lparr>s2_pass_sha = ann_hash, s2_secret = ''123456'', s2_image = []\<rparr>]"
  "aw_now (ticked second_try) = 0" "aw_ticks (ticked second_try) = []" "known 1 ann_rows" "two_fas ann_rows = [ann_row]" "tf_id_auth ann_row = 1"
  "tf_status ann_row = ''on''"
  by (simp_all add: second_try_def example_world_def auth_up_def ticked_def known_def ann_rows_def ann_def ann_row_def)

lemma ann_encrypt: "Encrypt passed_packages x ann_hash w = (Inr (''123456789012'' @ x), w\<lparr>aw_draws := Suc (aw_draws w)\<rparr>)"
  by (simp add: Encrypt_def aes_key_def run_simps draw_def example_packages_def ann_hash_def)

theorem validation_needs_otp_witness:
  "\<exists>t s'. Validate2FA passed_packages example_config ann_claims (no_payload\<lparr>ap_otp := ''123456''\<rparr>) second_try = (Inr (MTokens t, 200), s') \<and>
     jl_twofa t = ''verified'' \<and> accepts_otp passed_packages example_config 0 ''123456'' ''123456''"
proof -
  have "\<exists>t s'. Validate2FA passed_packages example_config ann_claims (no_payload\<lparr>ap_otp := ''123456''\<rparr>) second_try = (Inr (MTokens t, 200), s')"
    using second_try by (simp add: Validate2FA_def Let_def andThen_def require_auth_id_run get_secret_run validate_otp_def auth_time_now_run lookup_opt_run
        current_secret_def validated_def or_server_error_run ann_encrypt onErr_def in_tx_run DelMem2FA_run passed_facts passed_otp no_payload_def ret_def)
      (rule passed_tokens, simp_all)
  then obtain t s' where *: "Validate2FA passed_packages example_config ann_claims (no_payload\<lparr>ap_otp := ''123456''\<rparr>) second_try = (Inr (MTokens t, 200), s')"
    by blast
  then show ?thesis
    using validation_needs_otp [OF *] second_try by (auto simp: passed_facts secret_in_use_def passed_otp no_payload_def)
qed

definition code_row :: TwoFABackup where
  "code_row = \<lparr>tb_id = 1, tb_code_hash = hex_encode (p_blake2b passed_packages [] ''one''), tb_id_auth = 1\<rparr>"

definition code_world :: auth_world where
  "code_world = example_world (ann_rows\<lparr>backups := [code_row]\<rparr>)"

lemma code_world:
  "auth_up code_world" "db_of code_world = ann_rows\<lparr>backups := [code_row]\<rparr>" "known 1 (ann_rows\<lparr>backups := b\<rparr>)" "tb_id_auth code_row = 1" "tb_id code_row = 1"
  "tb_code_hash code_row = hex_encode (p_blake2b passed_packages [] ''one'')" "aw_now code_world = 0" "aw_ticks code_world = []"
  by (simp_all add: code_world_def example_world_def auth_up_def known_def ann_rows_def ann_def code_row_def)

theorem backup_code_single_use_witness:
  "\<exists>t s' msg. ValidateBackup2FA passed_packages example_config ann_claims (no_payload\<lparr>ap_otp := ''one''\<rparr>) code_world = (Inr (MTokens t, 200), s') \<and>
     ValidateBackup2FA passed_packages example_config ann_claims (no_payload\<lparr>ap_otp := ''one''\<rparr>) s' = (Inl (Raise (MStr msg, 400)), s')"
proof -
  have trim: "trim_space ''one'' = ''one''" by code_simp
  have "\<exists>t s'. ValidateBackup2FA passed_packages example_config ann_claims (no_payload\<lparr>ap_otp := ''one''\<rparr>) code_world = (Inr (MTokens t, 200), s')"
    using code_world by (simp add: ValidateBackup2FA_def Let_def andThen_def require_auth_id_run find_all_run or_server_error_run of_result_run CalcHash_def
        in_tx_run passed_facts trim ret_def)
      (rule passed_tokens, simp_all add: set_db_def)
  then obtain t s' where *: "ValidateBackup2FA passed_packages example_config ann_claims (no_payload\<lparr>ap_otp := ''one''\<rparr>) code_world = (Inr (MTokens t, 200), s')"
    by blast
  have up: "auth_up s' \<and> known (cl_auth_id ann_claims) (db_of s')"
    using code_world(1-3) ValidateBackup2FA_up [OF code_world(1) *] by (simp add: known_def passed_facts)
  have "distinct (map tb_code_hash (filter (\<lambda>b. tb_id_auth b = cl_auth_id ann_claims) (backups (db_of code_world))))" "distinct (map tb_id (backups (db_of code_world)))"
    by (simp_all add: code_world(2))
  from backup_code_single_use [OF code_world(1) this * _ refl] up * show ?thesis by blast
qed

end
