(* ===== verification/Account_Controllers.thy ===== *)
theory Account_Controllers
  imports Two_Factor
begin

text \<open>
  The account controllers and their routes: controller/auth.go, login.go, logout.go,
  verification.go, passwordReset.go and twoFA.go, lib/renderer/render.go, and the account routes of
  server/router/router.go.  A controller asks whether the services it needs are configured, decodes
  the body, calls the handler and sends its reply, with the tokens in cookies when the configuration
  says so.  A cookie is modelled as the controller hands it to gin; the text of a decoding error is
  not modelled.
\<close>

section \<open>Responses\<close>

record cookie =
  ck_name :: string
  ck_value :: string
  ck_max_age :: int
  ck_path :: string
  ck_domain :: string
  ck_secure :: bool
  ck_http_only :: bool
  ck_same_site :: nat

text \<open>The body: \<^verbatim>\<open>HTTPResponse\<close> around a message, the message alone, or a file.\<close>

datatype reply_body = Wrapped message | Bare message | FileBody string

record response =
  rp_code :: nat
  rp_body :: reply_body
  rp_cookies :: "cookie list"

text \<open>\<^verbatim>\<open>Render\<close> without a template: the same data for every status (an error also ends the chain).\<close>

definition Render :: "cookie list \<Rightarrow> reply_body \<Rightarrow> nat \<Rightarrow> response" where
  "Render cks data statusCode = \<lparr>rp_code = statusCode, rp_body = data, rp_cookies = cks\<rparr>"

definition is_text :: "message \<Rightarrow> bool" where
  "is_text m = (case m of MStr _ \<Rightarrow> True | _ \<Rightarrow> False)"

text \<open>A text is sent inside \<^verbatim>\<open>HTTPResponse\<close>, anything else on its own.\<close>

definition shown :: "cookie list \<Rightarrow> auth_reply \<Rightarrow> response" where
  "shown cks r = Render cks (if is_text (fst r) then Wrapped (fst r) else Bare (fst r)) (snd r)"

definition wrapped :: "cookie list \<Rightarrow> auth_reply \<Rightarrow> response" where
  "wrapped cks r = Render cks (Wrapped (fst r)) (snd r)"

definition bad_request :: "cookie list \<Rightarrow> string \<Rightarrow> response" where
  "bad_request cks e = Render cks (Wrapped (MStr e)) 400"

text \<open>The reply of a handler, whichever way it returned.\<close>

definition reply_of :: "(auth_reply, auth_reply) aprog \<Rightarrow> ('e, auth_reply) aprog" where
  "reply_of m = onErr m ret"

section \<open>Cookies\<close>

definition auth_cookie :: "Configuration \<Rightarrow> nat \<Rightarrow> string \<Rightarrow> string \<Rightarrow> int \<Rightarrow> cookie" where
  "auth_cookie cfg sameSite name v age =
     (let sec = cf_security cfg in
      \<lparr>ck_name = name, ck_value = v, ck_max_age = age, ck_path = sc_auth_cookie_path sec, ck_domain = sc_auth_cookie_domain sec,
       ck_secure = sc_auth_cookie_secure sec, ck_http_only = sc_auth_cookie_http_only sec, ck_same_site = sameSite\<rparr>)"

definition delete_cookies :: "Configuration \<Rightarrow> nat \<Rightarrow> cookie list" where
  "delete_cookies cfg sameSite = [auth_cookie cfg sameSite ''accessJWT'' [] (- 1), auth_cookie cfg sameSite ''refreshJWT'' [] (- 1)]"

text \<open>The routes for clients who are not logged in delete token cookies that the request has.\<close>

definition stale_cookies :: "Configuration \<Rightarrow> http_in \<Rightarrow> cookie list" where
  "stale_cookies cfg rq = (if in_cookie_access rq \<noteq> None \<or> in_cookie_refresh rq \<noteq> None then delete_cookies cfg 0 else [])"

definition token_cookies :: "Configuration \<Rightarrow> JWTPayload \<Rightarrow> cookie list" where
  "token_cookies cfg t =
     (let sameSite = sc_auth_cookie_same_site (cf_security cfg) in
      [auth_cookie cfg sameSite ''accessJWT'' (jl_access t) (wrap64 (jp_access_ttl (jwt_params cfg) * 60)),
       auth_cookie cfg sameSite ''refreshJWT'' (jl_refresh t) (wrap64 (jp_refresh_ttl (jwt_params cfg) * 60))])"

text \<open>The reply to a request for tokens that was granted; \<open>hide\<close> is what stays in the body when the
  tokens travel in cookies only.\<close>

definition without_tokens :: "JWTPayload \<Rightarrow> JWTPayload" where
  "without_tokens t = t\<lparr>jl_access := [], jl_refresh := []\<rparr>"

definition deliver_tokens :: "Configuration \<Rightarrow> (JWTPayload \<Rightarrow> message) \<Rightarrow> auth_reply \<Rightarrow> cookie list \<times> auth_reply" where
  "deliver_tokens cfg hide r =
     (if \<not> sc_auth_cookie_activate (cf_security cfg) then ([], r)
      else
        case fst r of
          MTokens t \<Rightarrow>
            (token_cookies cfg t, if sc_serve_jwt_as_res_body (cf_security cfg) then r else (hide t, snd r))
        | _ \<Rightarrow> ([], (MStr ''failed to prepare auth cookie'', 500)))"

definition hide_login :: "Configuration \<Rightarrow> string \<Rightarrow> JWTPayload \<Rightarrow> message" where
  "hide_login cfg txt t = (if Is2FA cfg then MTokens (without_tokens t) else MStr txt)"

section \<open>Requests\<close>

datatype feature = Rdbms | Jwt_service | Redis | Email_service | Email_verification | Pass_recovery | Two_factor

fun enabled :: "Configuration \<Rightarrow> feature \<Rightarrow> bool" where
  "enabled cfg Rdbms = IsRDBMS cfg"
| "enabled cfg Jwt_service = IsJWT cfg"
| "enabled cfg Redis = IsRedis cfg"
| "enabled cfg Email_service = IsEmailService cfg"
| "enabled cfg Email_verification = IsEmailVerificationService cfg"
| "enabled cfg Pass_recovery = IsPassRecoveryService cfg"
| "enabled cfg Two_factor = Is2FA cfg"

fun not_enabled :: "feature \<Rightarrow> string" where
  "not_enabled Rdbms = ''relational database not enabled''"
| "not_enabled Jwt_service = ''JWT service not enabled''"
| "not_enabled Redis = ''Redis not enabled''"
| "not_enabled Email_service = ''email service not enabled''"
| "not_enabled Email_verification = ''email verification service not enabled''"
| "not_enabled Pass_recovery = ''password recovery service not enabled''"
| "not_enabled Two_factor = ''two-factor authentication service not enabled''"

text \<open>The first service of the list that is not enabled answers 501.\<close>

definition needing :: "Configuration \<Rightarrow> feature list \<Rightarrow> cookie list \<Rightarrow> ('e, response) aprog \<Rightarrow> ('e, response) aprog" where
  "needing cfg fs cks m =
     (case find (\<lambda>f. \<not> enabled cfg f) fs of
        Some f \<Rightarrow> ret (Render cks (Wrapped (MStr (not_enabled f))) 501)
      | None \<Rightarrow> m)"

definition dec_payload :: "json \<Rightarrow> AuthPayload option" where
  "dec_payload = dec_struct (\<lambda>k v.
     if same_name k ''email'' then str_field ap_email ap_email_update v
     else if same_name k ''password'' then str_field ap_password ap_password_update v
     else if same_name k ''verificationCode'' then str_field ap_verification_code ap_verification_code_update v
     else if same_name k ''otp'' then str_field ap_otp ap_otp_update v
     else if same_name k ''secretCode'' then str_field ap_secret_code ap_secret_code_update v
     else if same_name k ''recoveryKey'' then str_field ap_recovery_key ap_recovery_key_update v
     else if same_name k ''passNew'' then str_field ap_pass_new ap_pass_new_update v
     else if same_name k ''passRepeat'' then str_field ap_pass_repeat ap_pass_repeat_update v
     else Some) \<lparr>ap_email = [], ap_password = [], ap_verification_code = [], ap_otp = [], ap_secret_code = [], ap_recovery_key = [],
       ap_pass_new = [], ap_pass_repeat = []\<rparr>"

text \<open>The times of a pending address can be sent, too; only their form matters.\<close>

definition two_digits :: "nat \<Rightarrow> nat \<Rightarrow> string \<Rightarrow> bool" where
  "two_digits lo hi s \<longleftrightarrow> length s = 2 \<and> list_all is_digit s \<and> lo \<le> read_nat s \<and> read_nat s \<le> hi"

definition rfc3339_zone :: "string \<Rightarrow> bool" where
  "rfc3339_zone s \<longleftrightarrow>
     s = ''Z'' \<or>
     length s = 6 \<and> s ! 0 \<in> {CHR ''+'', CHR ''-''} \<and> two_digits 0 23 (take 2 (drop 1 s)) \<and> s ! 3 = CHR '':'' \<and> two_digits 0 59 (drop 4 s)"

definition rfc3339_rest :: "string \<Rightarrow> bool" where
  "rfc3339_rest s \<longleftrightarrow>
     (case s of
        c # d # r \<Rightarrow> if c = CHR ''.'' \<and> is_digit d then rfc3339_zone (dropWhile is_digit r) else rfc3339_zone s
      | _ \<Rightarrow> rfc3339_zone s)"

definition rfc3339 :: "string \<Rightarrow> bool" where
  "rfc3339 s \<longleftrightarrow>
     20 \<le> length s \<and> list_all is_digit (take 4 s) \<and> s ! 4 = CHR ''-'' \<and> two_digits 1 12 (take 2 (drop 5 s)) \<and> s ! 7 = CHR ''-'' \<and>
     two_digits 1 (month_lengths (int (read_nat (take 4 s))) ! (read_nat (take 2 (drop 5 s)) - 1)) (take 2 (drop 8 s)) \<and>
     s ! 10 = CHR ''T'' \<and> two_digits 0 23 (take 2 (drop 11 s)) \<and> s ! 13 = CHR '':'' \<and> two_digits 0 59 (take 2 (drop 14 s)) \<and>
     s ! 16 = CHR '':'' \<and> two_digits 0 59 (take 2 (drop 17 s)) \<and> rfc3339_rest (drop 19 s)"

definition time_field :: "json \<Rightarrow> 'a \<Rightarrow> 'a option" where
  "time_field j x = (case j of JNull \<Rightarrow> Some x | JStr s \<Rightarrow> if rfc3339 s then Some x else None | _ \<Rightarrow> None)"

definition dec_temp_email :: "json \<Rightarrow> TempEmail option" where
  "dec_temp_email = dec_struct (\<lambda>k v.
     if same_name k ''createdAt'' then time_field v
     else if same_name k ''updatedAt'' then time_field v
     else if same_name k ''emailNew'' then str_field te_email te_email_update v
     else if same_name k ''password'' then str_field te_password te_password_update v
     else Some) no_temp"

definition with_payload :: "http_in \<Rightarrow> (json \<Rightarrow> 'p option) \<Rightarrow> cookie list \<Rightarrow> ('p \<Rightarrow> ('e, response) aprog) \<Rightarrow> ('e, response) aprog" where
  "with_payload rq dec cks m = (case Option.bind (in_body rq) dec of None \<Rightarrow> ret (bad_request cks ''bind error'') | Some p \<Rightarrow> m p)"

section \<open>Controllers\<close>

definition ctl_CreateUserAuth :: "'o packages \<Rightarrow> Configuration \<Rightarrow> http_in \<Rightarrow> ('e, response) aprog" where
  "ctl_CreateUserAuth K cfg rq =
     (let cks = stale_cookies cfg rq in
      needing cfg [Rdbms] cks
       (case in_body rq of
          None \<Rightarrow> ret (bad_request cks ''bind error'')
        | Some j \<Rightarrow>
            andThen (attempt (unmarshal_auth K cfg j)) (\<lambda>r.
            case r of
              Inl e \<Rightarrow> ret (bad_request cks e)
            | Inr auth \<Rightarrow> andThen (reply_of (CreateUserAuth K cfg auth)) (\<lambda>resp. ret (shown cks resp)))))"

definition ctl_UpdateEmail :: "'o packages \<Rightarrow> Configuration \<Rightarrow> context_values \<Rightarrow> http_in \<Rightarrow> ('e, response) aprog" where
  "ctl_UpdateEmail K cfg cx rq =
     needing cfg [Rdbms, Jwt_service] []
      (with_payload rq dec_temp_email [] (\<lambda>req.
       andThen (reply_of (UpdateEmail K cfg (GetClaims cx) req)) (\<lambda>resp. ret (wrapped [] resp))))"

definition ctl_Login :: "'o packages \<Rightarrow> Configuration \<Rightarrow> http_in \<Rightarrow> ('e, response) aprog" where
  "ctl_Login K cfg rq =
     needing cfg [Rdbms, Jwt_service] []
      (with_payload rq dec_payload [] (\<lambda>payload.
       andThen (reply_of (Login K cfg payload)) (\<lambda>resp.
       if snd resp \<noteq> 200 then ret (wrapped [] resp)
       else case deliver_tokens cfg (hide_login cfg ''login successful'') resp of (cks, resp) \<Rightarrow> ret (shown cks resp))))"

definition ctl_Refresh :: "'o packages \<Rightarrow> Configuration \<Rightarrow> context_values \<Rightarrow> http_in \<Rightarrow> ('e, response) aprog" where
  "ctl_Refresh K cfg cx rq =
     needing cfg [Jwt_service] []
      (andThen (reply_of (Refresh K cfg (GetClaims cx))) (\<lambda>resp.
       if snd resp \<noteq> 200 then
         ret (wrapped (if sc_auth_cookie_activate (cf_security cfg)
                       then delete_cookies cfg (sc_auth_cookie_same_site (cf_security cfg)) else []) resp)
       else case deliver_tokens cfg (hide_login cfg ''new tokens issued'') resp of (cks, resp) \<Rightarrow> ret (shown cks resp)))"

definition ctl_Logout :: "Configuration \<Rightarrow> context_values \<Rightarrow> http_in \<Rightarrow> ('e, response) aprog" where
  "ctl_Logout cfg cx rq =
     needing cfg [Jwt_service] []
      (let cks = (if sc_auth_cookie_activate (cf_security cfg)
                  then delete_cookies cfg (sc_auth_cookie_same_site (cf_security cfg)) else []) in
       andThen (reply_of (Logout cfg (cx_jti_access cx) (cx_jti_refresh cx) (cx_exp_access cx) (cx_exp_refresh cx))) (\<lambda>resp.
       ret (wrapped cks resp)))"

definition ctl_VerifyEmail :: "'o packages \<Rightarrow> Configuration \<Rightarrow> http_in \<Rightarrow> ('e, response) aprog" where
  "ctl_VerifyEmail K cfg rq =
     (let cks = stale_cookies cfg rq in
      needing cfg [Email_verification, Redis] cks
       (with_payload rq dec_payload cks (\<lambda>payload.
        andThen (reply_of (VerifyEmail K cfg payload)) (\<lambda>resp. ret (wrapped cks resp)))))"

definition ctl_CreateVerificationEmail :: "'o packages \<Rightarrow> Configuration \<Rightarrow> http_in \<Rightarrow> ('e, response) aprog" where
  "ctl_CreateVerificationEmail K cfg rq =
     (let cks = stale_cookies cfg rq in
      needing cfg [Email_service, Email_verification, Redis] cks
       (with_payload rq dec_payload cks (\<lambda>payload.
        andThen (reply_of (CreateVerificationEmail K cfg payload)) (\<lambda>resp. ret (wrapped cks resp)))))"

definition ctl_VerifyUpdatedEmail :: "'o packages \<Rightarrow> Configuration \<Rightarrow> http_in \<Rightarrow> ('e, response) aprog" where
  "ctl_VerifyUpdatedEmail K cfg rq =
     needing cfg [Email_verification, Rdbms, Redis] []
      (with_payload rq dec_payload [] (\<lambda>payload.
       andThen (reply_of (VerifyUpdatedEmail K cfg payload)) (\<lambda>resp. ret (wrapped [] resp))))"

definition ctl_GetUnverifiedEmail :: "'o packages \<Rightarrow> Configuration \<Rightarrow> context_values \<Rightarrow> http_in \<Rightarrow> ('e, response) aprog" where
  "ctl_GetUnverifiedEmail K cfg cx rq =
     needing cfg [Email_verification, Rdbms, Jwt_service] []
      (andThen (reply_of (GetUnverifiedEmail K cfg (GetClaims cx))) (\<lambda>resp. ret (wrapped [] resp)))"

definition ctl_ResendVerificationCode :: "'o packages \<Rightarrow> Configuration \<Rightarrow> context_values \<Rightarrow> http_in \<Rightarrow> ('e, response) aprog" where
  "ctl_ResendVerificationCode K cfg cx rq =
     needing cfg [Email_service, Email_verification, Redis, Rdbms, Jwt_service] []
      (andThen (reply_of (ResendVerificationCodeToModifyActiveEmail K cfg (GetClaims cx))) (\<lambda>resp. ret (wrapped [] resp)))"

definition ctl_PasswordForgot :: "'o packages \<Rightarrow> Configuration \<Rightarrow> http_in \<Rightarrow> ('e, response) aprog" where
  "ctl_PasswordForgot K cfg rq =
     (let cks = stale_cookies cfg rq in
      needing cfg [Rdbms, Redis, Email_service, Pass_recovery] cks
       (with_payload rq dec_payload cks (\<lambda>email.
        andThen (reply_of (PasswordForgot K cfg email)) (\<lambda>resp. ret (wrapped cks resp)))))"

definition ctl_PasswordRecover :: "'o packages \<Rightarrow> Configuration \<Rightarrow> http_in \<Rightarrow> ('e, response) aprog" where
  "ctl_PasswordRecover K cfg rq =
     (let cks = stale_cookies cfg rq in
      needing cfg [Rdbms, Redis] cks
       (with_payload rq dec_payload cks (\<lambda>payload.
        andThen (reply_of (PasswordRecover K cfg payload)) (\<lambda>resp. ret (shown cks resp)))))"

definition ctl_PasswordUpdate :: "'o packages \<Rightarrow> Configuration \<Rightarrow> context_values \<Rightarrow> http_in \<Rightarrow> ('e, response) aprog" where
  "ctl_PasswordUpdate K cfg cx rq =
     needing cfg [Rdbms, Jwt_service] []
      (with_payload rq dec_payload [] (\<lambda>payload.
       andThen (reply_of (PasswordUpdate K cfg (GetClaims cx) payload)) (\<lambda>resp. ret (wrapped [] resp))))"

definition message_text :: "message \<Rightarrow> string" where
  "message_text m = (case m of MStr s \<Rightarrow> s | _ \<Rightarrow> [])"

definition ctl_Setup2FA :: "'o packages \<Rightarrow> Configuration \<Rightarrow> context_values \<Rightarrow> http_in \<Rightarrow> ('e, response) aprog" where
  "ctl_Setup2FA K cfg cx rq =
     needing cfg [Rdbms, Jwt_service, Two_factor] []
      (with_payload rq dec_payload [] (\<lambda>password.
       andThen (reply_of (Setup2FA K cfg (GetClaims cx) password)) (\<lambda>resp.
       if snd resp \<noteq> 201 then ret (wrapped [] resp)
       else ret (Render [] (FileBody (message_text (fst resp))) 200))))"

text \<open>The end that the routes of the second factor share: \<open>done\<close> is a reply without new tokens.\<close>

definition finish_2fa ::
  "Configuration \<Rightarrow> message option \<Rightarrow> (cookie list \<Rightarrow> auth_reply \<Rightarrow> response) \<Rightarrow> auth_reply \<Rightarrow> ('e, response) aprog" where
  "finish_2fa cfg settled send resp =
     (if snd resp \<noteq> 200 then ret (wrapped [] resp)
      else if Some (fst resp) = settled then ret (wrapped [] resp)
      else case deliver_tokens cfg (\<lambda>t. MTokens (without_tokens t)) resp of (cks, resp) \<Rightarrow> ret (send cks resp))"

definition ctl_Activate2FA :: "'o packages \<Rightarrow> Configuration \<Rightarrow> context_values \<Rightarrow> http_in \<Rightarrow> ('e, response) aprog" where
  "ctl_Activate2FA K cfg cx rq =
     needing cfg [Rdbms, Jwt_service, Two_factor] []
      (with_payload rq dec_payload [] (\<lambda>otp.
       andThen (reply_of (Activate2FA K cfg (GetClaims cx) otp)) (finish_2fa cfg None shown)))"

definition ctl_Validate2FA :: "'o packages \<Rightarrow> Configuration \<Rightarrow> context_values \<Rightarrow> http_in \<Rightarrow> ('e, response) aprog" where
  "ctl_Validate2FA K cfg cx rq =
     needing cfg [Rdbms, Jwt_service, Two_factor] []
      (with_payload rq dec_payload [] (\<lambda>otp.
       andThen (reply_of (Validate2FA K cfg (GetClaims cx) otp))
        (finish_2fa cfg (Some (MStr (''twoFA: '' @ s2_verified (tfa_status cfg)))) shown)))"

definition ctl_Deactivate2FA :: "'o packages \<Rightarrow> Configuration \<Rightarrow> context_values \<Rightarrow> http_in \<Rightarrow> ('e, response) aprog" where
  "ctl_Deactivate2FA K cfg cx rq =
     needing cfg [Rdbms, Jwt_service, Two_factor] []
      (with_payload rq dec_payload [] (\<lambda>password.
       andThen (reply_of (Deactivate2FA K cfg (GetClaims cx) password))
        (finish_2fa cfg (Some (MStr (''twoFA: '' @ s2_off (tfa_status cfg)))) shown)))"

definition ctl_CreateBackup2FA :: "'o packages \<Rightarrow> Configuration \<Rightarrow> context_values \<Rightarrow> http_in \<Rightarrow> ('e, response) aprog" where
  "ctl_CreateBackup2FA K cfg cx rq =
     needing cfg [Rdbms, Jwt_service, Two_factor] []
      (with_payload rq dec_payload [] (\<lambda>password.
       andThen (reply_of (CreateBackup2FA K cfg (GetClaims cx) password)) (\<lambda>resp. ret (wrapped [] resp))))"

definition ctl_ValidateBackup2FA :: "'o packages \<Rightarrow> Configuration \<Rightarrow> context_values \<Rightarrow> http_in \<Rightarrow> ('e, response) aprog" where
  "ctl_ValidateBackup2FA K cfg cx rq =
     needing cfg [Rdbms, Jwt_service, Two_factor] []
      (with_payload rq dec_payload [] (\<lambda>authPayload.
       andThen (reply_of (ValidateBackup2FA K cfg (GetClaims cx) authPayload))
        (finish_2fa cfg (Some (MStr (''twoFA: '' @ s2_verified (tfa_status cfg)))) wrapped)))"

section \<open>Routes\<close>

text \<open>A middleware that refuses a request ends it with a bare text.\<close>

definition behind ::
  "(http_in \<Rightarrow> (auth_reply, context_values) aprog) \<Rightarrow> (context_values \<Rightarrow> http_in \<Rightarrow> ('e, response) aprog) \<Rightarrow> http_in \<Rightarrow> ('e, response) aprog" where
  "behind chain ctl rq =
     andThen (attempt (chain rq)) (\<lambda>r.
     case r of
       Inl (m, code) \<Rightarrow> ret (Render [] (Bare m) code)
     | Inr cx \<Rightarrow> ctl cx rq)"

definition twofa_chain :: "'o packages \<Rightarrow> Configuration \<Rightarrow> http_in \<Rightarrow> (auth_reply, context_values) aprog" where
  "twofa_chain K cfg rq = andThen (JWT K cfg rq no_context) (\<lambda>cx. andThen (JWTBlacklistChecker cfg cx) (\<lambda>_. ret cx))"

definition twofa_protected_chain :: "'o packages \<Rightarrow> Configuration \<Rightarrow> http_in \<Rightarrow> (auth_reply, context_values) aprog" where
  "twofa_protected_chain K cfg rq =
     andThen (twofa_chain K cfg rq) (\<lambda>cx.
     andThen (TwoFA_middleware (s2_on (tfa_status cfg)) (s2_off (tfa_status cfg)) (s2_verified (tfa_status cfg))
       (cl_twofa (cx_claims cx))) (\<lambda>_.
     ret cx))"

type_synonym 'e route = "string \<times> string \<times> (http_in \<Rightarrow> ('e, response) aprog)"

definition public_routes :: "'o packages \<Rightarrow> Configuration \<Rightarrow> 'e route list" where
  "public_routes K cfg =
     (if IsRDBMS cfg then
        [(''POST'', ''register'', ctl_CreateUserAuth K cfg),
         (''POST'', ''login'', ctl_Login K cfg)] @
        (if IsEmailVerificationService cfg \<and> IsRedis cfg then
           [(''POST'', ''verify'', ctl_VerifyEmail K cfg),
            (''POST'', ''resend-verification-email'', ctl_CreateVerificationEmail K cfg),
            (''POST'', ''verify-updated-email'', ctl_VerifyUpdatedEmail K cfg)]
         else []) @
        (if IsEmailService cfg then
           [(''POST'', ''password/forgot'', ctl_PasswordForgot K cfg),
            (''POST'', ''password/reset'', ctl_PasswordRecover K cfg)]
         else [])
      else [])"

definition auth_routes :: "'o packages \<Rightarrow> Configuration \<Rightarrow> 'e route list" where
  "auth_routes K cfg =
     [(''POST'', ''logout'', behind (refresh_chain K cfg) (ctl_Logout cfg)),
      (''POST'', ''refresh'', behind (refresh_chain K cfg) (ctl_Refresh K cfg))] @
     (if Is2FA cfg then
        [(''POST'', ''2fa/setup'', behind (twofa_chain K cfg) (ctl_Setup2FA K cfg)),
         (''POST'', ''2fa/activate'', behind (twofa_chain K cfg) (ctl_Activate2FA K cfg)),
         (''POST'', ''2fa/validate'', behind (twofa_chain K cfg) (ctl_Validate2FA K cfg)),
         (''POST'', ''2fa/validate-backup-code'', behind (twofa_chain K cfg) (ctl_ValidateBackup2FA K cfg)),
         (''POST'', ''2fa/create-backup-codes'', behind (twofa_protected_chain K cfg) (ctl_CreateBackup2FA K cfg)),
         (''POST'', ''2fa/deactivate'', behind (twofa_protected_chain K cfg) (ctl_Deactivate2FA K cfg))]
      else [])"

definition user_routes :: "'o packages \<Rightarrow> Configuration \<Rightarrow> 'e route list" where
  "user_routes K cfg =
     [(''POST'', ''password/edit'', behind (createAuthMiddleware K cfg) (ctl_PasswordUpdate K cfg)),
      (''POST'', ''email/update'', behind (createAuthMiddleware K cfg) (ctl_UpdateEmail K cfg)),
      (''GET'', ''email/unverified'', behind (createAuthMiddleware K cfg) (ctl_GetUnverifiedEmail K cfg)),
      (''POST'', ''email/resend-verification-email'', behind (createAuthMiddleware K cfg) (ctl_ResendVerificationCode K cfg))]"

definition account_routes :: "'o packages \<Rightarrow> Configuration \<Rightarrow> 'e route list" where
  "account_routes K cfg = public_routes K cfg @ (if IsRDBMS cfg then auth_routes K cfg @ user_routes K cfg else [])"

text \<open>The route a request is for; \<open>None\<close>: no account route.\<close>

definition account_api :: "'o packages \<Rightarrow> Configuration \<Rightarrow> string \<Rightarrow> string \<Rightarrow> (http_in \<Rightarrow> ('e, response) aprog) option" where
  "account_api K cfg method path =
     map_option (\<lambda>(_, _, h). h) (find (\<lambda>(m, p, _). m = method \<and> p = path) (account_routes K cfg))"

end
