(* ===== verification/Account_Sessions.thy ===== *)
theory Account_Sessions
  imports Account_Correct Account_Controllers
begin

text \<open>
  The account routes as a client sees them: where tokens appear in a response, and what a browser
  can do with the cookies of a login.
\<close>

section \<open>What a handler replies\<close>

text \<open>\<open>says Q m\<close>: every reply of handler \<open>m\<close> satisfies \<open>Q\<close>; \<open>complains Q m\<close>: every early reply of step \<open>m\<close>
  does.\<close>

definition complains :: "(auth_reply \<Rightarrow> bool) \<Rightarrow> (auth_reply, 'a) aprog \<Rightarrow> bool" where
  "complains Q m \<longleftrightarrow> (\<forall>s r. fst (m s) = Inl (Raise r) \<longrightarrow> Q r)"

definition says :: "(auth_reply \<Rightarrow> bool) \<Rightarrow> (auth_reply, auth_reply) aprog \<Rightarrow> bool" where
  "says Q m \<longleftrightarrow> complains Q m \<and> (\<forall>s r. fst (m s) = Inr r \<longrightarrow> Q r)"

lemma complainsD: "complains Q m \<Longrightarrow> m s = (Inl (Raise r), s') \<Longrightarrow> Q r"
  unfolding complains_def by (metis fst_conv)

text \<open>No tokens; tokens only in a reply with status 200.\<close>

definition no_tokens :: "auth_reply \<Rightarrow> bool" where
  "no_tokens r \<longleftrightarrow> (\<forall>t. fst r \<noteq> MTokens t)"

definition tokens_200 :: "auth_reply \<Rightarrow> bool" where
  "tokens_200 r \<longleftrightarrow> (\<forall>t. fst r = MTokens t \<longrightarrow> snd r = 200)"

named_theorems reply_rules \<open>replies along the structure of programs\<close>

lemma no_tokens_simps [simp]: "no_tokens (MStr x, n)" "no_tokens (MRaw x, n)" "no_tokens (MAuth a, n)" "no_tokens (MRecovered x y, n)"
    "no_tokens (MCodes cs, n)" "no_tokens (MTemp te, n)" "no_tokens (status_reply x n)"
    "tokens_200 (MStr x, n)" "tokens_200 (MTokens t, 200)" "tokens_200 (status_reply x n)"
  by (simp_all add: no_tokens_def tokens_200_def status_reply_def)

lemma complains_quiet [reply_rules]:
  "complains Q (ret a)" "complains Q go_panic" "complains Q get_st" "complains Q auth_time_now" "complains Q (draw g)" "complains Q (upd_st f)"
  "complains Q (attempt m)" "complains Q (get_secret i)" "complains Q (put_secret i d)" "complains Q (DelMem2FA i)"
  "complains Q (remove_image cfg img)" "complains Q (draw_codes K)" "complains Q (ValidateEmail K e)" "complains Q (validate_otp K cfg sec otp)"
  by (auto simp: complains_def ret_def go_panic_def get_st_def auth_time_now_def Let_def draw_def upd_st_def attempt_def get_secret_run put_secret_run
      DelMem2FA_run remove_image_run draw_codes_def ValidateEmail_def validate_otp_def andThen_def split: prod.splits sum.splits exit.splits option.splits)

lemma complains_raise [reply_rules]: "Q r \<Longrightarrow> complains Q (raise r)" "Q (MStr msg, code) \<Longrightarrow> complains Q (refuse code msg)"
    "Q (MStr ''internal server error'', 500) \<Longrightarrow> complains Q server_error"
  by (simp_all add: complains_def raise_def refuse_def server_error_def)

lemma complains_andThen [reply_rules]: "complains Q m \<Longrightarrow> (\<And>a. complains Q (f a)) \<Longrightarrow> complains Q (andThen m f)"
  by (simp add: complains_def andThen_def split: prod.splits sum.splits) (metis fst_conv)

lemma complains_onErr [reply_rules]: "(\<And>e. complains Q (h e)) \<Longrightarrow> complains Q (onErr m h)"
  by (auto simp: complains_def onErr_def split: prod.splits sum.splits exit.splits)

lemma complains_or_server_error [reply_rules]: "Q (MStr ''internal server error'', 500) \<Longrightarrow> complains Q (or_server_error m)"
  unfolding or_server_error_def by (intro reply_rules)

lemma complains_cases [reply_rules]:
  "complains Q m \<Longrightarrow> complains Q m' \<Longrightarrow> complains Q (if b then m else m')"
  "complains Q m \<Longrightarrow> (\<And>x. complains Q (f x)) \<Longrightarrow> complains Q (case r of None \<Rightarrow> m | Some x \<Rightarrow> f x)"
  "(\<And>e. complains Q (g e)) \<Longrightarrow> (\<And>x. complains Q (f' x)) \<Longrightarrow> complains Q (case q of Inl e \<Rightarrow> g e | Inr x \<Rightarrow> f' x)"
  "(\<And>x y. complains Q (k x y)) \<Longrightarrow> complains Q (case p of (x, y) \<Rightarrow> k x y)"
  "complains Q m \<Longrightarrow> (\<And>x xs. complains Q (l x xs)) \<Longrightarrow> complains Q (case ys of [] \<Rightarrow> m | x # xs \<Rightarrow> l x xs)"
  "complains Q m \<Longrightarrow> complains Q m' \<Longrightarrow> complains Q (case b of True \<Rightarrow> m | False \<Rightarrow> m')"
  by (simp_all split: option.split sum.split prod.split list.split bool.split)

lemma says_rules [reply_rules]:
  "Q r \<Longrightarrow> says Q (ret r)" "Q r \<Longrightarrow> says Q (raise r)" "Q (MStr msg, code) \<Longrightarrow> says Q (refuse code msg)"
  "Q (MStr ''internal server error'', 500) \<Longrightarrow> says Q server_error"
  by (simp_all add: says_def complains_def ret_def raise_def refuse_def server_error_def)

lemma says_andThen [reply_rules]: "complains Q m \<Longrightarrow> (\<And>a. says Q (f a)) \<Longrightarrow> says Q (andThen m f)"
  by (simp add: says_def complains_def andThen_def split: prod.splits sum.splits) (metis fst_conv)

lemma says_cases [reply_rules]:
  "says Q m \<Longrightarrow> says Q m' \<Longrightarrow> says Q (if b then m else m')"
  "says Q m \<Longrightarrow> (\<And>x. says Q (f x)) \<Longrightarrow> says Q (case r of None \<Rightarrow> m | Some x \<Rightarrow> f x)"
  "(\<And>x y. says Q (k x y)) \<Longrightarrow> says Q (case p of (x, y) \<Rightarrow> k x y)"
  by (simp_all split: option.split prod.split)

lemma reply_of_says: "says Q m \<Longrightarrow> (reply_of m :: ('e, auth_reply) aprog) s = (Inr r, s') \<Longrightarrow> Q r"
proof -
  assume "says Q m" and r: "(reply_of m :: ('e, auth_reply) aprog) s = (Inr r, s')"
  then have "fst (m s) = Inl (Raise q) \<Longrightarrow> Q q" "fst (m s) = Inr q \<Longrightarrow> Q q" for q by (simp_all add: says_def complains_def del: split_paired_All)
  with r show "Q r" by (cases "m s") (auto simp: reply_of_def onErr_def ret_def split: sum.splits exit.splits)
qed

text \<open>The steps that the handlers share.\<close>

lemma complains_steps [reply_rules]:
  assumes "\<And>msg code. Q (MStr msg, code)"
  shows "complains Q (lookup_opt q)" "complains Q (check_password K cfg given stored code msg)" "complains Q (require_auth_id claims)"
    "complains Q (decode_500 x)" "complains Q (hash_500 K cfg x)" "complains Q (hash_new_password K cfg x)" "complains Q (check_new_password cfg p)"
    "complains Q (new_recovery_key K cfg)" "complains Q (encrypt_email K cfg e)" "complains Q (send_or_fail K cfg e ty)"
  using assms
  unfolding lookup_opt_def check_password_def require_auth_id_def ValidateAuthID_def IsAuthIDValid_def decode_500_def hash_500_def hash_new_password_def
    check_new_password_def new_recovery_key_def encrypt_email_def send_or_fail_def Let_def
  by (intro reply_rules; simp)+

lemma complains_more [reply_rules]:
  assumes "\<And>msg code. Q (MStr msg, code)"
  shows "complains Q (must_be_free q (refuse c x))" "complains Q (must_be_free q server_error)" "complains Q (must_be_free q (raise (MStr x, c)))"
    "complains Q (check_new_email K cfg auth)"
    "complains Q (take_code pre code)" "complains Q (recover_twofa K cfg t p)" "complains Q (recovery_step K cfg a p)"
    "complains Q (reencrypt_main K cfg t p)" "complains Q (fill_temp K cfg te em eh)" "complains Q (login_twofa K cfg a pw)"
    "complains Q (user_email K cfg a)" "complains Q (activate_row K cfg claims dt otp found)" "complains Q (current_secret K dt t)"
    "complains Q (deactivate_row cfg r old)" "complains Q (drop_backups i)" "complains Q (blacklist j e)"
    "complains Q (pending_address K cfg te)"
  using assms
  unfolding must_be_free_def check_new_email_def take_code_def recover_twofa_def recovery_step_def check_recovery_key_def reencrypt_main_def
    fill_temp_def login_twofa_def user_email_def activate_row_def protect_secret_def current_secret_def deactivate_row_def drop_backups_def
    blacklist_def pending_address_def Let_def
  by (intro reply_rules; simp)+

lemma complains_hash_codes [reply_rules]: "(\<And>msg code. Q (MStr msg, code)) \<Longrightarrow> complains Q (hash_codes K cfg cs)"
  by (induction cs) (simp_all, (intro reply_rules; simp)+)

lemma says_no_tokens:
  "says no_tokens (CreateUserAuth K cfg auth)" "says no_tokens (UpdateEmail K cfg claims req)" "says no_tokens (VerifyEmail K cfg p)"
  "says no_tokens (CreateVerificationEmail K cfg p)" "says no_tokens (VerifyUpdatedEmail K cfg p)" "says no_tokens (GetUnverifiedEmail K cfg claims)"
  "says no_tokens (ResendVerificationCodeToModifyActiveEmail K cfg claims)" "says no_tokens (PasswordForgot K cfg p)"
  "says no_tokens (PasswordRecover K cfg p)" "says no_tokens (PasswordUpdate K cfg claims p)" "says no_tokens (Setup2FA K cfg claims p)"
  "says no_tokens (CreateBackup2FA K cfg claims p)" "says no_tokens (Logout cfg ja jr ea er)"
  unfolding CreateUserAuth_def UpdateEmail_def VerifyEmail_def CreateVerificationEmail_def VerifyUpdatedEmail_def GetUnverifiedEmail_def
    ResendVerificationCodeToModifyActiveEmail_def PasswordForgot_def PasswordRecover_def PasswordUpdate_def Setup2FA_def CreateBackup2FA_def
    Logout_def Let_def
  by (intro reply_rules; simp)+

lemma says_issue_tokens [reply_rules]: "says tokens_200 (issue_tokens K cfg claims key)"
  unfolding issue_tokens_def by (intro reply_rules; simp)

lemma says_tokens_200:
  "says tokens_200 (Login K cfg p)" "says tokens_200 (Refresh K cfg claims)" "says tokens_200 (Activate2FA K cfg claims p)"
  "says tokens_200 (Validate2FA K cfg claims p)" "says tokens_200 (Deactivate2FA K cfg claims p)" "says tokens_200 (ValidateBackup2FA K cfg claims p)"
  unfolding Login_def Refresh_def Activate2FA_def Validate2FA_def Deactivate2FA_def ValidateBackup2FA_def failed_attempt_def validated_def Let_def
  by (intro reply_rules; simp)+

section \<open>Tokens travel in cookies\<close>

definition reveals_tokens :: "reply_body \<Rightarrow> bool" where
  "reveals_tokens b \<longleftrightarrow> (\<exists>t. b \<in> {Wrapped (MTokens t), Bare (MTokens t)} \<and> (jl_access t \<noteq> [] \<or> jl_refresh t \<noteq> []))"

definition clean :: "Configuration \<Rightarrow> response \<Rightarrow> bool" where
  "clean cfg r \<longleftrightarrow> \<not> reveals_tokens (rp_body r) \<and>
     (\<forall>c \<in> set (rp_cookies r). ck_name c \<in> {''accessJWT'', ''refreshJWT''} \<and> ck_http_only c = sc_auth_cookie_http_only (cf_security cfg) \<and>
       ck_secure c = sc_auth_cookie_secure (cf_security cfg) \<and> (rp_code r \<noteq> 200 \<longrightarrow> ck_value c = []))"

definition yields :: "('b \<Rightarrow> bool) \<Rightarrow> ('e, 'b) aprog \<Rightarrow> bool" where
  "yields P m \<longleftrightarrow> (\<forall>s r s'. m s = (Inr r, s') \<longrightarrow> P r)"

named_theorems yields_rules \<open>results along the structure of programs\<close>

lemma yields_basic [yields_rules]:
  "P a \<Longrightarrow> yields P (ret a)"
  "(\<And>a. yields P (f a)) \<Longrightarrow> yields P (andThen m f)"
  "(b \<Longrightarrow> yields P m') \<Longrightarrow> (\<not> b \<Longrightarrow> yields P m'') \<Longrightarrow> yields P (if b then m' else m'')"
  "yields P m' \<Longrightarrow> (\<And>x. yields P (g x)) \<Longrightarrow> yields P (case r of None \<Rightarrow> m' | Some x \<Rightarrow> g x)"
  "(\<And>e. yields P (h e)) \<Longrightarrow> (\<And>x. yields P (k x)) \<Longrightarrow> yields P (case q of Inl e \<Rightarrow> h e | Inr x \<Rightarrow> k x)"
  by (auto simp: yields_def ret_def andThen_def split: option.split sum.split prod.splits sum.splits)

lemma yields_reply:
  assumes "says Q m" and "\<And>r. Q r \<Longrightarrow> yields P (f r)"
  shows "yields P (andThen (reply_of m :: ('e, auth_reply) aprog) f)"
proof -
  have "P x" if "andThen (reply_of m :: ('e, auth_reply) aprog) f s = (Inr x, s')" for s x s'
  proof (rule andThen_InrE [OF that])
    fix r s1
    assume "(reply_of m :: ('e, auth_reply) aprog) s = (Inr r, s1)" and f: "f r s1 = (Inr x, s')"
    with assms(1) have "Q r" by (blast dest: reply_of_says)
    from assms(2) [OF this] f show "P x" by (auto simp: yields_def)
  qed
  then show ?thesis by (auto simp: yields_def)
qed

lemma clean_cookies [simp]:
  "clean cfg (Render (delete_cookies cfg n) b code) \<longleftrightarrow> \<not> reveals_tokens b" "clean cfg (Render [] b code) \<longleftrightarrow> \<not> reveals_tokens b"
  "clean cfg (Render (stale_cookies cfg rq) b code) \<longleftrightarrow> \<not> reveals_tokens b"
  "clean cfg (Render (token_cookies cfg t) b 200) \<longleftrightarrow> \<not> reveals_tokens b"
  by (auto simp: clean_def Render_def delete_cookies_def stale_cookies_def token_cookies_def auth_cookie_def Let_def)

lemma reveals_simps [simp]:
  "\<not> reveals_tokens (Wrapped (MStr x))" "\<not> reveals_tokens (Bare (MRaw x))" "\<not> reveals_tokens (FileBody f)"
  "\<not> reveals_tokens (Wrapped (MTokens (without_tokens t)))" "\<not> reveals_tokens (Bare (MTokens (without_tokens t)))"
  by (auto simp: reveals_tokens_def without_tokens_def)

lemma no_tokens_hidden: "no_tokens r \<Longrightarrow> \<not> reveals_tokens (Wrapped (fst r)) \<and> \<not> reveals_tokens (Bare (fst r))"
  by (auto simp: no_tokens_def reveals_tokens_def)

lemma tokens_200_hidden: "tokens_200 r \<Longrightarrow> snd r \<noteq> 200 \<Longrightarrow> no_tokens r"
  by (auto simp: no_tokens_def tokens_200_def)

text \<open>What \<open>deliver_tokens\<close> hands over is clean.\<close>

lemma deliver_tokens_clean:
  assumes "sc_auth_cookie_activate (cf_security cfg)" and "\<not> sc_serve_jwt_as_res_body (cf_security cfg)" and "tokens_200 r"
    and "\<And>t. hide t \<in> {MStr tx, MTokens (without_tokens t)}" and "deliver_tokens cfg hide r = (cks, r')"
  shows "clean cfg (shown cks r') \<and> clean cfg (wrapped cks r')"
proof (cases "fst r")
  case (MTokens t)
  with assms(3) have "snd r = 200" by (simp add: tokens_200_def)
  then show ?thesis using MTokens assms(1,2,5) assms(4) [of t] by (auto simp: deliver_tokens_def shown_def wrapped_def is_text_def)
qed (use assms(1,5) in \<open>auto simp: deliver_tokens_def shown_def wrapped_def is_text_def\<close>)

lemma needing_yields [yields_rules]: "(\<And>f. clean cfg (Render cks (Wrapped (MStr (not_enabled f))) 501)) \<Longrightarrow>
    yields (clean cfg) m \<Longrightarrow> yields (clean cfg) (needing cfg fs cks m)"
  unfolding needing_def by (intro yields_rules)

lemma with_payload_yields [yields_rules]: "clean cfg (bad_request cks ''bind error'') \<Longrightarrow> (\<And>p. yields (clean cfg) (m p)) \<Longrightarrow>
    yields (clean cfg) (with_payload rq dec cks m)"
  unfolding with_payload_def by (intro yields_rules)

lemma finish_2fa_clean:
  assumes "sc_auth_cookie_activate (cf_security cfg)" and "\<not> sc_serve_jwt_as_res_body (cf_security cfg)" and "tokens_200 r"
    and "settled = None \<or> (\<exists>x. settled = Some (MStr x))" and "send = shown \<or> send = wrapped"
  shows "yields (clean cfg) (finish_2fa cfg settled send r)"
proof -
  have "clean cfg (wrapped [] r)" if "snd r \<noteq> 200 \<or> Some (fst r) = settled"
    using that tokens_200_hidden [OF assms(3)] no_tokens_hidden [of r] assms(4) by (auto simp: wrapped_def no_tokens_def)
  moreover have "clean cfg (send cks r')" if "deliver_tokens cfg (\<lambda>t. MTokens (without_tokens t)) r = (cks, r')" for cks r'
    using deliver_tokens_clean [OF assms(1-3) _ that, of "[]"] assms(5) by auto
  ultimately show ?thesis by (auto simp: finish_2fa_def yields_def ret_def split: prod.splits)
qed

lemma ctl_no_tokens [yields_rules]:
  "yields (clean cfg) (ctl_UpdateEmail K cfg cx rq)" "yields (clean cfg) (ctl_VerifyEmail K cfg rq)"
  "yields (clean cfg) (ctl_CreateVerificationEmail K cfg rq)" "yields (clean cfg) (ctl_VerifyUpdatedEmail K cfg rq)"
  "yields (clean cfg) (ctl_GetUnverifiedEmail K cfg cx rq)" "yields (clean cfg) (ctl_ResendVerificationCode K cfg cx rq)"
  "yields (clean cfg) (ctl_PasswordForgot K cfg rq)" "yields (clean cfg) (ctl_PasswordRecover K cfg rq)"
  "yields (clean cfg) (ctl_PasswordUpdate K cfg cx rq)" "yields (clean cfg) (ctl_Setup2FA K cfg cx rq)"
  "yields (clean cfg) (ctl_CreateBackup2FA K cfg cx rq)" "yields (clean cfg) (ctl_Logout cfg cx rq)"
  unfolding ctl_UpdateEmail_def ctl_VerifyEmail_def ctl_CreateVerificationEmail_def ctl_VerifyUpdatedEmail_def ctl_GetUnverifiedEmail_def
    ctl_ResendVerificationCode_def ctl_PasswordForgot_def ctl_PasswordRecover_def ctl_PasswordUpdate_def ctl_Setup2FA_def
    ctl_CreateBackup2FA_def ctl_Logout_def Let_def
  by (intro yields_reply [OF says_no_tokens(2)] yields_reply [OF says_no_tokens(3)] yields_reply [OF says_no_tokens(4)]
      yields_reply [OF says_no_tokens(5)] yields_reply [OF says_no_tokens(6)] yields_reply [OF says_no_tokens(7)]
      yields_reply [OF says_no_tokens(8)] yields_reply [OF says_no_tokens(9)] yields_reply [OF says_no_tokens(10)]
      yields_reply [OF says_no_tokens(11)] yields_reply [OF says_no_tokens(12)] yields_reply [OF says_no_tokens(13)] yields_rules;
      simp add: bad_request_def wrapped_def shown_def no_tokens_hidden)+

lemma ctl_CreateUserAuth_clean [yields_rules]: "yields (clean cfg) (ctl_CreateUserAuth K cfg rq)"
  unfolding ctl_CreateUserAuth_def Let_def
  by (intro needing_yields yields_basic(4,5) yields_basic(1) yields_basic(2) [where m = "attempt m" for m] yields_reply [OF says_no_tokens(1)];
      simp add: bad_request_def wrapped_def shown_def no_tokens_hidden)

lemma ctl_tokens:
  assumes "sc_auth_cookie_activate (cf_security cfg)" and "\<not> sc_serve_jwt_as_res_body (cf_security cfg)"
  shows "yields (clean cfg) (ctl_Login K cfg rq)" "yields (clean cfg) (ctl_Refresh K cfg cx rq)" "yields (clean cfg) (ctl_Activate2FA K cfg cx rq)"
    "yields (clean cfg) (ctl_Validate2FA K cfg cx rq)" "yields (clean cfg) (ctl_Deactivate2FA K cfg cx rq)"
    "yields (clean cfg) (ctl_ValidateBackup2FA K cfg cx rq)"
proof -
  have fail: "clean cfg (wrapped [] r)" "clean cfg (wrapped (if b then delete_cookies cfg n else []) r)" if "tokens_200 r" "snd r \<noteq> 200" for b r n
    using no_tokens_hidden [OF tokens_200_hidden [OF that]] by (auto simp: wrapped_def)
  have sent: "yields (clean cfg) (case deliver_tokens cfg (hide_login cfg tx) r of (cks, r') \<Rightarrow> ret (shown cks r'))" if "tokens_200 r" for tx r
    using deliver_tokens_clean [OF assms that, of "hide_login cfg tx" tx] by (auto simp: hide_login_def yields_def ret_def split: prod.splits)
  show "yields (clean cfg) (ctl_Login K cfg rq)" "yields (clean cfg) (ctl_Refresh K cfg cx rq)"
    unfolding ctl_Login_def ctl_Refresh_def
    by (intro needing_yields with_payload_yields yields_reply [OF says_tokens_200(1)] yields_reply [OF says_tokens_200(2)] yields_basic(1,3) sent;
        (simp add: bad_request_def; fail | rule fail; assumption))+
  show "yields (clean cfg) (ctl_Activate2FA K cfg cx rq)" "yields (clean cfg) (ctl_Validate2FA K cfg cx rq)"
    "yields (clean cfg) (ctl_Deactivate2FA K cfg cx rq)" "yields (clean cfg) (ctl_ValidateBackup2FA K cfg cx rq)"
    unfolding ctl_Activate2FA_def ctl_Validate2FA_def ctl_Deactivate2FA_def ctl_ValidateBackup2FA_def
    by (intro needing_yields with_payload_yields yields_reply [OF says_tokens_200(3)] yields_reply [OF says_tokens_200(4)]
        yields_reply [OF says_tokens_200(5)] yields_reply [OF says_tokens_200(6)] finish_2fa_clean assms; simp add: bad_request_def)+
qed

lemma complains_chains [reply_rules]:
  "complains no_tokens (JWT K cfg rq cx)" "complains no_tokens (RefreshJWT K cfg rq cx)" "complains no_tokens (JWTBlacklistChecker cfg cx)"
  "complains no_tokens (TwoFA_middleware a b c d)"
  unfolding JWT_def RefreshJWT_def JWTBlacklistChecker_def TwoFA_middleware_def parse_token_def unauthorized_def IsTokenAllowed_def Let_def
  by (intro reply_rules; simp)+

lemma chains_no_tokens:
  "complains no_tokens (createAuthMiddleware K cfg rq)" "complains no_tokens (refresh_chain K cfg rq)" "complains no_tokens (twofa_chain K cfg rq)"
  "complains no_tokens (twofa_protected_chain K cfg rq)"
  unfolding createAuthMiddleware_def refresh_chain_def twofa_protected_chain_def twofa_chain_def
  by (intro reply_rules)+

lemma behind_clean:
  assumes "complains no_tokens (chain rq)" and "\<And>cx. yields (clean cfg) (ctl cx rq)"
  shows "yields (clean cfg) (behind chain ctl rq :: ('e, response) aprog)"
proof -
  have "clean cfg r" if "(behind chain ctl rq :: ('e, response) aprog) s = (Inr r, s')" for s r s'
  proof (cases "chain rq s")
    case (Pair x s1)
    consider m code where "x = Inl (Raise (m, code))" | "x = Inl GoPanic" | cx where "x = Inr cx"
      by (cases x) (metis exit.exhaust surj_pair)+
    then show ?thesis
    proof cases
      case 1
      then have "no_tokens (m, code)" using complainsD [OF assms(1)] Pair by blast
      with 1 that Pair no_tokens_hidden [of "(m, code)"] show ?thesis by (auto simp: behind_def andThen_def attempt_def ret_def)
    next
      case 3
      with that Pair assms(2) [of cx] show ?thesis by (auto simp: behind_def andThen_def attempt_def yields_def)
    qed (use that Pair in \<open>simp add: behind_def andThen_def attempt_def\<close>)
  qed
  then show ?thesis by (simp add: yields_def)
qed

lemma behind_routes:
  assumes "\<And>cx. yields (clean cfg) (ctl cx rq)"
  shows "yields (clean cfg) (behind (createAuthMiddleware K cfg) ctl rq)" "yields (clean cfg) (behind (refresh_chain K cfg) ctl rq)"
    "yields (clean cfg) (behind (twofa_chain K cfg) ctl rq)" "yields (clean cfg) (behind (twofa_protected_chain K cfg) ctl rq)"
  by (intro behind_clean chains_no_tokens assms)+

text \<open>C38. Tokens travel in cookies only: when the configuration activates the cookies and does not serve
  tokens in the body, no response of any account route, whatever the request and whatever the servers
  answer, has a token in its body; a cookie is one of the two token cookies, with the configured flags,
  and carries a value only when the status is 200.\<close>

theorem tokens_only_in_cookies:
  assumes "sc_auth_cookie_activate (cf_security cfg)" and "\<not> sc_serve_jwt_as_res_body (cf_security cfg)"
    and "account_api K cfg method path = Some h" and "h rq s = (Inr r, s')"
  shows "\<not> reveals_tokens (rp_body r) \<and>
    (\<forall>c \<in> set (rp_cookies r). ck_name c \<in> {''accessJWT'', ''refreshJWT''} \<and> ck_http_only c = sc_auth_cookie_http_only (cf_security cfg) \<and>
      ck_secure c = sc_auth_cookie_secure (cf_security cfg) \<and> (rp_code r \<noteq> 200 \<longrightarrow> ck_value c = []))"
proof -
  from assms(3) have "(method, path, h) \<in> set (account_routes K cfg)"
    using find_row by (fastforce simp: account_api_def)
  then have "yields (clean cfg) (h rq)"
    by (auto simp: account_routes_def public_routes_def auth_routes_def user_routes_def split: if_splits
        intro!: behind_routes ctl_no_tokens ctl_CreateUserAuth_clean ctl_tokens [OF assms(1,2)])
  with assms(4) show ?thesis by (auto simp: yields_def clean_def)
qed

section \<open>The cookies of a login\<close>

text \<open>What a browser does with a response: the cookie of a name.\<close>

definition sent_cookie :: "string \<Rightarrow> response \<Rightarrow> cookie option" where
  "sent_cookie name r = find (\<lambda>c. ck_name c = name) (rp_cookies r)"

lemma ctl_Login_Inr:
  assumes "sc_auth_cookie_activate (cf_security cfg)" and "(ctl_Login K cfg rq :: ('e, response) aprog) s = (Inr r, s')" and "rp_code r = 200"
  obtains p t where "Option.bind (in_body rq) dec_payload = Some p" "Login K cfg p s = (Inr (MTokens t, 200), s')" "rp_cookies r = token_cookies cfg t"
proof -
  from assms(2,3) obtain p resp where p: "Option.bind (in_body rq) dec_payload = Some p"
    and l: "(reply_of (Login K cfg p) :: ('e, auth_reply) aprog) s = (Inr resp, s')"
    and r: "r = (if snd resp \<noteq> 200 then wrapped [] resp
        else case deliver_tokens cfg (hide_login cfg ''login successful'') resp of (cks, resp) \<Rightarrow> shown cks resp)"
    by (auto simp: ctl_Login_def needing_def with_payload_def Render_def bad_request_def ret_def elim!: andThen_InrE
        split: option.splits if_splits prod.splits)
  have "snd resp = 200" using r assms(3) by (auto simp: wrapped_def Render_def split: if_splits)
  with r assms(1,3) obtain t where t: "resp = (MTokens t, 200)" "rp_cookies r = token_cookies cfg t"
    by (cases resp) (auto simp: deliver_tokens_def shown_def Render_def split: message.splits prod.splits)
  moreover have "Login K cfg p s = (Inr (MTokens t, 200), s') \<or> Login K cfg p s = (Inl (Raise (MTokens t, 200)), s')"
    using l t by (auto simp: reply_of_def onErr_def ret_def split: prod.splits sum.splits exit.splits)
  moreover have "complains no_tokens (Login K cfg p)"
    unfolding Login_def issue_tokens_def Let_def by (intro reply_rules; simp)
  then have "Login K cfg p s \<noteq> (Inl (Raise (MTokens t, 200)), s')" by (auto dest: complainsD simp: no_tokens_def)
  ultimately show thesis using p that by simp
qed

text \<open>C40. The cookies of a login open a session: a successful login with cookies activated is one of an
  account whose stored hash argon2 accepts for the password of the body; a browser that sends the
  access cookie back passes the JWT middleware with the id of that account from then on for the
  configured number of minutes, and that is the age the cookie has.\<close>

theorem login_cookies_open_session:
  assumes "jwt_law K" and "keys_match (jwt_params cfg)" and "jp_acc_nbf (jwt_params cfg) \<le> 0" and "sc_auth_cookie_activate (cf_security cfg)"
    and "(ctl_Login K cfg rq :: ('e, response) aprog) s = (Inr r, s1)" and "rp_code r = 200"
  shows "\<exists>p ck. \<exists>a \<in> set (auths (db_of s)). Option.bind (in_body rq) dec_payload = Some p \<and> sent_cookie ''accessJWT'' r = Some ck \<and>
    p_argon_compare K (ap_password p) (sc_hash_sec (cf_security cfg)) (au_password a) = Inr True \<and>
    ck_max_age ck = wrap64 (jp_access_ttl (jwt_params cfg) * 60) \<and>
    (\<forall>rq2 s2. in_cookie_access rq2 = Some (ck_value ck) \<and>
       aw_now (ticked s2) < later (aw_now s) (60 * second) (jp_access_ttl (jwt_params cfg)) * second \<longrightarrow>
       (\<exists>cx. JWT K cfg rq2 no_context s2 = (Inr cx, ticked s2) \<and> cl_auth_id (GetClaims cx) = au_id a))"
proof (rule ctl_Login_Inr [OF assms(4-6)])
  fix p t
  assume p: "Option.bind (in_body rq) dec_payload = Some p" "Login K cfg p s = (Inr (MTokens t, 200), s1)" "rp_cookies r = token_cookies cfg t"
  let ?ck = "auth_cookie cfg (sc_auth_cookie_same_site (cf_security cfg)) ''accessJWT'' (jl_access t) (wrap64 (jp_access_ttl (jwt_params cfg) * 60))"
  have ck: "sent_cookie ''accessJWT'' r = Some ?ck" "ck_value ?ck = jl_access t" "ck_max_age ?ck = wrap64 (jp_access_ttl (jwt_params cfg) * 60)"
    using p(3) by (simp_all add: sent_cookie_def token_cookies_def auth_cookie_def Let_def)
  show ?thesis
  proof (rule Login_Inr [OF p(2)])
    fix a s2 s3 st
    assume a: "a \<in> set (auths (db_of s))" "p_argon_compare K (ap_password p) (sc_hash_sec (cf_security cfg)) (au_password a) = Inr True"
      and iss: "issue_tokens K cfg (no_claims\<lparr>cl_auth_id := au_id a, cl_twofa := st\<rparr>) [] s3 = (Inr (MTokens t, 200), s1)" and now: "aw_now s3 = aw_now s"
    from iss obtain ja s4 where "GetJWT K cfg (no_claims\<lparr>cl_auth_id := au_id a, cl_twofa := st\<rparr>) AccessToken s3 = (Inr (jl_access t, ja), s4)"
      by (auto elim!: issue_tokens_Inr)
    then obtain c e i where c: "issued K (jwt_params cfg) (jp_access_key (jwt_params cfg)) c (jl_access t)" "jc_expires c = Some e"
        "jc_issued c = Some i" "jc_not_before c = None" "jc_custom c = no_claims\<lparr>cl_auth_id := au_id a, cl_twofa := st\<rparr>"
        "later (aw_now s3) (60 * second) (jp_access_ttl (jwt_params cfg)) \<le> e"
      by (rule GetJWT_issued [OF _ token_settings.simps(1) assms(3)])
    have "\<exists>cx. JWT K cfg rq2 no_context w = (Inr cx, ticked w) \<and> cl_auth_id (GetClaims cx) = au_id a"
      if "in_cookie_access rq2 = Some (jl_access t)" "aw_now (ticked w) < later (aw_now s) (60 * second) (jp_access_ttl (jwt_params cfg)) * second" for rq2 w
    proof -
      have "later (aw_now s) (60 * second) (jp_access_ttl (jwt_params cfg)) * second \<le> e * second" using c(6) now by simp
      with that(2) have "aw_now (ticked w) < e * second" by linarith
      then show ?thesis
        using JWT_of_issued [OF assms(1,2) c(1-4), of rq2 w no_context] that(1) c(5) by (auto simp: carries_access_def GetClaims_def)
    qed
    then show ?thesis
      by (intro exI [of _ p] exI [of _ ?ck] bexI [of _ a] conjI p(1) ck(1,3) a) (simp only: ck(2), blast)
  qed
qed

section \<open>An example\<close>

definition cookie_config :: Configuration where
  "cookie_config = example_config\<lparr>cf_security := example_security\<lparr>sc_auth_cookie_activate := True, sc_serve_jwt_as_res_body := False\<rparr>\<rparr>"

lemma cookie_config_same [simp]:
  "jwt_params cookie_config = jwt_params example_config" "tfa_status cookie_config = tfa_status example_config"
  "sc_hash_sec (cf_security cookie_config) = sc_hash_sec (cf_security example_config)"
  "sc_blake2b_sec (cf_security cookie_config) = sc_blake2b_sec (cf_security example_config)"
  "sc_verify_email (cf_security cookie_config) = sc_verify_email (cf_security example_config)"
  "sc_cipher_key (cf_security cookie_config) = sc_cipher_key (cf_security example_config)"
  "IsCipher cookie_config = IsCipher example_config" "Is2FA cookie_config = Is2FA example_config"
  "Is2FADoubleHash cookie_config = Is2FADoubleHash example_config"
  by (simp_all add: cookie_config_def example_config_def IsCipher_def Is2FA_def Is2FADoubleHash_def)

lemma cookie_config_login: "Login K cookie_config p = Login K example_config p"
  unfolding Login_def issue_tokens_def GetJWT_def login_twofa_def GetHash_def GetUserByEmail_def email_hash_def check_password_def DecryptEmail_def
    cookie_config_same by (rule refl)

definition login_request :: http_in where
  "login_request = \<lparr>in_cookie_access = None, in_cookie_refresh = None, in_authorization = [],
     in_body = Some (JObj [(''email'', JStr ''ann@b.co''), (''password'', JStr ''secret'')])\<rparr>"

lemma login_request: "Option.bind (in_body login_request) dec_payload = Some (no_payload\<lparr>ap_email := ''ann@b.co'', ap_password := ''secret''\<rparr>)"
proof -
  have "same_name ''email'' ''email''" "same_name ''password'' ''password''" "\<not> same_name ''password'' ''email''" by code_simp+
  then show ?thesis
    by (simp add: login_request_def dec_payload_def dec_struct_def no_payload_def str_field_def dec_string_def)
qed

lemma login_response:
  "\<exists>r s'. (ctl_Login ann_packages cookie_config login_request :: (unit, response) aprog) (example_world ann_rows) = (Inr r, s') \<and> rp_code r = 200 \<and>
     sent_cookie ''accessJWT'' r = Some (auth_cookie cookie_config 0 ''accessJWT'' ''A'' 300)"
proof -
  have "IsRDBMS cookie_config" "IsJWT cookie_config"
    by (simp_all add: IsRDBMS_def IsJWT_def cookie_config_def example_config_defs Activated_def)
  then have on: "needing cookie_config [Rdbms, Jwt_service] cks m = m" for cks and m :: "(unit, response) aprog" by (simp add: needing_def)
  have l: "(reply_of (Login ann_packages cookie_config (no_payload\<lparr>ap_email := ''ann@b.co'', ap_password := ''secret''\<rparr>)) :: (unit, auth_reply) aprog)
      (example_world ann_rows) = (Inr (MTokens \<lparr>jl_access = ''A'', jl_refresh = ''R'', jl_twofa = ''on'', jl_recovery_key = []\<rparr>, 200),
      (example_world ann_rows)\<lparr>aw_draws := 3, aw_mem := [1 \<mapsto> \<lparr>s2_pass_sha = ann_hash, s2_secret = [], s2_image = []\<rparr>]\<rparr>)"
    by (simp add: reply_of_def onErr_def cookie_config_login ann_login)
  have c: "sc_auth_cookie_activate (cf_security cookie_config)" "\<not> sc_serve_jwt_as_res_body (cf_security cookie_config)"
    "sc_auth_cookie_same_site (cf_security cookie_config) = 0" "jp_access_ttl (jwt_params example_config) = 5"
    by (simp_all add: cookie_config_def example_config_defs)
  show ?thesis
    by (simp add: ctl_Login_def on with_payload_def login_request andThen_def l deliver_tokens_def c ret_def shown_def Render_def
        sent_cookie_def token_cookies_def Let_def auth_cookie_def wrap64_def)
qed

theorem login_cookies_open_session_witness:
  "\<exists>r s' ck cx. (ctl_Login ann_packages cookie_config login_request :: (unit, response) aprog) (example_world ann_rows) = (Inr r, s') \<and>
     sent_cookie ''accessJWT'' r = Some ck \<and> ck_max_age ck = 300 \<and>
     JWT ann_packages cookie_config (login_request\<lparr>in_cookie_access := Some (ck_value ck)\<rparr>) no_context (example_world ann_rows) =
       (Inr cx, ticked (example_world ann_rows)) \<and> cl_auth_id (GetClaims cx) = 1"
proof -
  obtain r s' where r: "(ctl_Login ann_packages cookie_config login_request :: (unit, response) aprog) (example_world ann_rows) = (Inr r, s')"
      "rp_code r = 200" "sent_cookie ''accessJWT'' r = Some (auth_cookie cookie_config 0 ''accessJWT'' ''A'' 300)"
    using login_response by blast
  have *: "keys_match (jwt_params cookie_config)" "jp_acc_nbf (jwt_params cookie_config) \<le> 0" "sc_auth_cookie_activate (cf_security cookie_config)"
    "jp_access_ttl (jwt_params cookie_config) = 5"
    by (simp_all add: keys_match_def hmac_alg_def cookie_config_def example_config_defs)
  have w: "aw_now (example_world ann_rows) = 0" "aw_now (ticked (example_world ann_rows)) = 0" "auths (db_of (example_world ann_rows)) = [ann]" "au_id ann = 1"
    by (simp_all add: example_world_def ticked_def ann_rows_def ann_def)
  have l: "later 0 (60 * second) 5 = 300" by (simp add: later_def wrap64_def)
  show ?thesis
    using login_cookies_open_session [OF example_jwt_law *(1-3) r(1,2)] r(1,3) *(4) w l
    by (auto simp: auth_cookie_def Let_def)
qed

theorem tokens_only_in_cookies_witness:
  "\<exists>h r s'. account_api ann_packages cookie_config ''POST'' ''login'' = Some h \<and> (h login_request :: (unit, response) aprog) (example_world ann_rows) = (Inr r, s') \<and>
     rp_code r = 200 \<and> \<not> reveals_tokens (rp_body r) \<and> (\<exists>c \<in> set (rp_cookies r). ck_name c = ''accessJWT'' \<and> ck_value c = ''A'')"
proof -
  obtain r s' where r: "(ctl_Login ann_packages cookie_config login_request :: (unit, response) aprog) (example_world ann_rows) = (Inr r, s')"
      "rp_code r = 200" "sent_cookie ''accessJWT'' r = Some (auth_cookie cookie_config 0 ''accessJWT'' ''A'' 300)"
    using login_response by blast
  have c: "sc_auth_cookie_activate (cf_security cookie_config)" "\<not> sc_serve_jwt_as_res_body (cf_security cookie_config)" "IsRDBMS cookie_config"
    by (simp_all add: cookie_config_def example_config_defs IsRDBMS_def Activated_def)
  have api: "account_api ann_packages cookie_config ''POST'' ''login'' = Some (ctl_Login ann_packages cookie_config)"
    using c(3) by (simp add: account_api_def account_routes_def public_routes_def)
  have "\<exists>c \<in> set (rp_cookies r). ck_name c = ''accessJWT'' \<and> ck_value c = ''A''"
    using find_row [OF r(3) [unfolded sent_cookie_def]]
    by (intro bexI [of _ "auth_cookie cookie_config 0 ''accessJWT'' ''A'' 300"]) (simp_all add: auth_cookie_def Let_def)
  then show ?thesis
    using tokens_only_in_cookies [OF c(1,2) api r(1)] r api by blast
qed

end
