(* ===== verification/Go_Strconv.thy ===== *)
theory Go_Strconv
  imports Go_Floats Go_Strings
begin

text \<open>
  More of Go's standard library, as the configuration uses it: \<^verbatim>\<open>strconv.ParseUint\<close>,
  \<^verbatim>\<open>strconv.ParseInt\<close> and \<^verbatim>\<open>strconv.Atoi\<close> in base 10, \<^verbatim>\<open>time.ParseDuration\<close>,
  \<^verbatim>\<open>strings.ToUpper\<close> and \<^verbatim>\<open>strings.TrimRight\<close>, and \<^verbatim>\<open>filepath.Join\<close> with the current directory.
\<close>

section \<open>Numbers\<close>

datatype num_error = Bad_syntax | Out_of_range

text \<open>The loop over the digits stops at the first byte that is no digit or the first digit that takes the
  number past the largest one.\<close>

fun uint_loop :: "nat \<Rightarrow> nat \<Rightarrow> string \<Rightarrow> num_error + nat" where
  "uint_loop mx n [] = Inr n"
| "uint_loop mx n (c # cs) =
     (if \<not> is_digit c then Inl Bad_syntax
      else if 10 * n + digit_val c > mx then Inl Out_of_range
      else uint_loop mx (10 * n + digit_val c) cs)"

definition ParseUint :: "nat \<Rightarrow> string \<Rightarrow> num_error + nat" where
  "ParseUint bits s = (if s = [] then Inl Bad_syntax else uint_loop (2 ^ bits - 1) 0 s)"

definition ParseInt64 :: "string \<Rightarrow> num_error + int" where
  "ParseInt64 s =
     (let neg = (s \<noteq> [] \<and> hd s = CHR ''-''); ds = (if neg \<or> s \<noteq> [] \<and> hd s = CHR ''+'' then tl s else s) in
      case ParseUint 64 ds of
        Inl e \<Rightarrow> Inl e
      | Inr n \<Rightarrow>
          if neg then (if n > 2 ^ 63 then Inl Out_of_range else Inr (- int n))
          else if n \<ge> 2 ^ 63 then Inl Out_of_range
          else Inr (int n))"

definition Atoi :: "string \<Rightarrow> num_error + int" where
  "Atoi = ParseInt64"

lemma uint_loop_mx: "uint_loop mx n s = Inr m \<Longrightarrow> n \<le> mx \<Longrightarrow> m \<le> mx"
  by (induction s arbitrary: n) (auto split: if_splits)

lemma ParseUint_bound: "ParseUint bits s = Inr n \<Longrightarrow> n < 2 ^ bits"
proof -
  assume "ParseUint bits s = Inr n"
  then have "n \<le> 2 ^ bits - 1" using uint_loop_mx [of "2 ^ bits - 1" 0 s n] by (simp add: ParseUint_def split: if_splits)
  moreover have "(0 :: nat) < 2 ^ bits" by simp
  ultimately show ?thesis by linarith
qed

lemma ParseInt64_bound: "ParseInt64 s = Inr n \<Longrightarrow> - (2 ^ 63) \<le> n \<and> n < 2 ^ 63"
  by (auto simp: ParseInt64_def Let_def split: sum.splits if_splits)

lemma uint_loop_digits:
  "\<forall>c \<in> set s. is_digit c \<Longrightarrow> foldl (\<lambda>n c. 10 * n + digit_val c) n s \<le> mx \<Longrightarrow>
   uint_loop mx n s = Inr (foldl (\<lambda>n c. 10 * n + digit_val c) n s)"
proof (induction s arbitrary: n)
  case (Cons c s)
  have mono: "m \<le> foldl (\<lambda>n c. 10 * n + digit_val c) m s" for m
  proof (induction s arbitrary: m)
    case (Cons d s)
    have "m \<le> 10 * m + digit_val d" by simp
    also have "\<dots> \<le> foldl (\<lambda>n c. 10 * n + digit_val c) (10 * m + digit_val d) s" by (rule Cons)
    finally show ?case by simp
  qed simp
  with Cons show ?case by (auto intro: order_trans simp: not_less)
qed simp

text \<open>A number that is printed reads back, as long as it has room.\<close>

lemma ParseUint_show: "n < 2 ^ bits \<Longrightarrow> ParseUint bits (show_nat n) = Inr n"
  using uint_loop_digits [of "show_nat n" 0 "2 ^ bits - 1"] digits_show_nat [of n] read_show_nat [of n]
  by (simp add: ParseUint_def read_nat_def)

section \<open>Durations\<close>

definition duration_unit :: "string \<Rightarrow> nat option" where
  "duration_unit u =
     map_of [(''ns'', 1), (''us'', 1000), ([CHR 0xC2, CHR 0xB5, CHR ''s''], 1000), ([CHR 0xCE, CHR 0xBC, CHR ''s''], 1000),
       (''ms'', 1000000), (''s'', 1000000000), (''m'', 60000000000), (''h'', 3600000000000)] u"

text \<open>The digits after the point, as long as they fit, and the power of ten they are a fraction of.\<close>

fun fraction_loop :: "nat \<Rightarrow> nat \<Rightarrow> string \<Rightarrow> nat \<times> nat" where
  "fraction_loop x scale [] = (x, scale)"
| "fraction_loop x scale (c # cs) =
     (if x > (2 ^ 63 - 1) div 10 \<or> 10 * x + digit_val c > 2 ^ 63 then (x, scale)
      else fraction_loop (10 * x + digit_val c) (10 * scale) cs)"

text \<open>\<^verbatim>\<open>uint64(float64(f) * (float64(unit) / scale))\<close>: the quotient is rounded from 161 bits after the
  point and a sticky bit.\<close>

definition fraction_nanos :: "nat \<Rightarrow> nat \<Rightarrow> nat \<Rightarrow> nat" where
  "fraction_nanos f unit scale =
     (let q = unit * 2 ^ 160 div scale; sticky = (if unit * 2 ^ 160 mod scale = 0 then 0 else 1) in
      round53 (round53 f * round53 (2 * q + sticky)) div 2 ^ 161)"

text \<open>The digits before and after the point, the unit and the rest of the text.\<close>

definition duration_parts :: "string \<Rightarrow> string \<times> string \<times> string \<times> string" where
  "duration_parts s =
     (let ds = takeWhile is_digit s; r = dropWhile is_digit s;
          point = (r \<noteq> [] \<and> hd r = CHR ''.'');
          fr = (if point then takeWhile is_digit (tl r) else []);
          r = (if point then dropWhile is_digit (tl r) else r) in
      (ds, fr, takeWhile (\<lambda>c. c \<noteq> CHR ''.'' \<and> \<not> is_digit c) r, dropWhile (\<lambda>c. c \<noteq> CHR ''.'' \<and> \<not> is_digit c) r))"

definition duration_term :: "string \<Rightarrow> (nat \<times> string) option" where
  "duration_term s =
     (case duration_parts s of
        (ds, fr, u, r) \<Rightarrow>
          if ds = [] \<and> fr = [] \<or> read_nat ds > 2 ^ 63 \<or> u = [] then None
          else
            case duration_unit u of
              None \<Rightarrow> None
            | Some unit \<Rightarrow>
                if read_nat ds > 2 ^ 63 div unit then None
                else
                  (case fraction_loop 0 1 fr of
                     (f, scale) \<Rightarrow>
                       let v = read_nat ds * unit + (if f > 0 then fraction_nanos f unit scale else 0) in
                       if f > 0 \<and> v > 2 ^ 63 then None else Some (v, r)))"

lemma length_split: "length (takeWhile P s) + length (dropWhile P s) = length s"
  by (metis length_append takeWhile_dropWhile_id)

lemma duration_parts_length: "duration_parts s = (ds, fr, u, r) \<Longrightarrow> length u + length r \<le> length s"
proof -
  assume a: "duration_parts s = (ds, fr, u, r)"
  let ?t = "dropWhile is_digit s"
  let ?t' = "if ?t \<noteq> [] \<and> hd ?t = CHR ''.'' then dropWhile is_digit (tl ?t) else ?t"
  from a have "length u + length r = length ?t'"
    unfolding duration_parts_def Let_def prod.inject by (metis length_split)
  also have "\<dots> \<le> length ?t"
    using length_dropWhile_le [of is_digit "tl ?t"] by auto
  also have "\<dots> \<le> length s" by (rule length_dropWhile_le)
  finally show ?thesis .
qed

lemma duration_term_shorter: "duration_term s = Some (v, r) \<Longrightarrow> length r < length s"
proof -
  assume a: "duration_term s = Some (v, r)"
  obtain ds fr u r' where p: "duration_parts s = (ds, fr, u, r')" by (metis prod_cases4)
  from a have "u \<noteq> [] \<and> r = r'"
    unfolding duration_term_def p by (auto simp: Let_def split: option.splits prod.splits if_splits)
  then show ?thesis using duration_parts_length [OF p] by (cases u) auto
qed

function duration_loop :: "string \<Rightarrow> nat \<Rightarrow> nat option" where
  "duration_loop s d =
     (if s = [] then Some d
      else
        case duration_term s of
          None \<Rightarrow> None
        | Some (v, r) \<Rightarrow> if (d + v) mod 2 ^ 64 > 2 ^ 63 then None else duration_loop r ((d + v) mod 2 ^ 64))"
  by pat_completeness auto
termination by (relation "measure (length \<circ> fst)") (auto dest: duration_term_shorter)

declare duration_loop.simps [simp del]

definition ParseDuration :: "string \<Rightarrow> int option" where
  "ParseDuration s =
     (let neg = (s \<noteq> [] \<and> hd s = CHR ''-''); t = (if neg \<or> s \<noteq> [] \<and> hd s = CHR ''+'' then tl s else s) in
      if t = ''0'' then Some 0
      else if t = [] then None
      else
        case duration_loop t 0 of
          None \<Rightarrow> None
        | Some d \<Rightarrow> if neg then Some (- int d) else if d > 2 ^ 63 - 1 then None else Some (int d))"

lemma duration_loop_bound: "duration_loop s d = Some n \<Longrightarrow> d \<le> 2 ^ 63 \<Longrightarrow> n \<le> 2 ^ 63"
proof (induction s d rule: duration_loop.induct)
  case (1 s d)
  show ?case
  proof (cases "s = []")
    case False
    with 1(2) obtain v r where t: "duration_term s = Some (v, r)" "\<not> (d + v) mod 2 ^ 64 > 2 ^ 63"
        "duration_loop r ((d + v) mod 2 ^ 64) = Some n"
      by (subst (asm) duration_loop.simps) (auto split: option.splits if_splits)
    from 1(1) [OF False t(1) refl t(2,3)] t(2) show ?thesis by simp
  qed (use 1 in \<open>simp add: duration_loop.simps\<close>)
qed

lemma ParseDuration_bound:
  assumes "ParseDuration s = Some n"
  shows "- (2 ^ 63) \<le> n \<and> n < 2 ^ 63"
proof -
  have "duration_loop t 0 = Some d \<Longrightarrow> d \<le> 2 ^ 63" for t d by (erule duration_loop_bound) simp
  with assms show ?thesis by (fastforce simp: ParseDuration_def Let_def split: option.splits if_splits)
qed

section \<open>Text and paths\<close>

text \<open>\<^verbatim>\<open>strings.ToUpper\<close> on ASCII text.\<close>

definition upper_char :: "char \<Rightarrow> char" where
  "upper_char c =
     (if 97 \<le> (of_char c :: nat) \<and> (of_char c :: nat) \<le> 122 then char_of (of_char c - 32 :: nat) else c)"

definition to_upper :: "string \<Rightarrow> string" where
  "to_upper = map upper_char"

definition trim_right :: "char \<Rightarrow> string \<Rightarrow> string" where
  "trim_right c s = rev (dropWhile (\<lambda>x. x = c) (rev s))"

text \<open>\<^verbatim>\<open>filepath.Join(".", path)\<close>: the elements of the path without empty ones and dots; two dots take back an
  element.  The result is always relative.\<close>

definition clean_step :: "string \<Rightarrow> string list \<Rightarrow> string list" where
  "clean_step e st =
     (if e = [] \<or> e = ''.'' then st
      else if e = ''..'' \<and> st \<noteq> [] \<and> hd st \<noteq> ''..'' then tl st
      else e # st)"

definition below_here :: "string \<Rightarrow> string" where
  "below_here path =
     (let es = rev (fold clean_step (split_on CHR ''/'' path) []) in if es = [] then ''.'' else join_with CHR ''/'' es)"

end
