(* ===== verification/Config_Loading.thy ===== *)
theory Config_Loading
  imports App_Config Go_Strconv
begin

text \<open>
  Reading the configuration: config/config.go turns the environment into the structs of
  \<^verbatim>\<open>App_Config\<close>.  The result of reading the .env file, the file system, the parsers of PEM keys
  and the digest of the cipher key are parameters; the package variables \<^verbatim>\<open>configAll\<close> and
  \<^verbatim>\<open>middleware.JWTParams\<close> and the directories that are created are the state.
\<close>

section \<open>The machine\<close>

text \<open>What the file system answers may depend on the directories created before.\<close>

record machine =
  mc_env :: "string + (string \<Rightarrow> string)"
  mc_missing :: "string list \<Rightarrow> string \<Rightarrow> bool"
  mc_mkdir :: "string list \<Rightarrow> string \<Rightarrow> string option"
  mc_read :: "string \<Rightarrow> string + string"
  mc_ec_private :: "string \<Rightarrow> string + string"
  mc_ec_public :: "string \<Rightarrow> string + string"
  mc_rsa_private :: "string \<Rightarrow> string + string"
  mc_rsa_public :: "string \<Rightarrow> string + string"
  mc_sha256 :: "string \<Rightarrow> string"
  mc_sha3 :: "string \<Rightarrow> string"

record config_state =
  cs_params :: JWTParameters
  cs_config :: "Configuration option"
  cs_dirs :: "string list"

definition fresh_state :: config_state where
  "fresh_state = \<lparr>cs_params = no_jwt_parameters, cs_config = None, cs_dirs = []\<rparr>"

datatype load_error = Bad_number string num_error | Bad_duration string | Failed string

type_synonym 'a loader = "(config_state, load_error, 'a) prog"
type_synonym env = "string \<Rightarrow> string"

definition number :: "(string \<Rightarrow> num_error + 'a) \<Rightarrow> string \<Rightarrow> 'a loader" where
  "number f t = (case f t of Inl e \<Rightarrow> raise (Bad_number t e) | Inr n \<Rightarrow> ret n)"

definition duration :: "string \<Rightarrow> int loader" where
  "duration t = (case ParseDuration t of None \<Rightarrow> raise (Bad_duration t) | Some d \<Rightarrow> ret d)"

definition answer :: "string + 'a \<Rightarrow> 'a loader" where
  "answer r = (case r of Inl e \<Rightarrow> raise (Failed e) | Inr a \<Rightarrow> ret a)"

text \<open>\<^verbatim>\<open>strings.TrimSpace(os.Getenv(k))\<close>, also in lower case, and whether it is \<^verbatim>\<open>Activated\<close>.\<close>

definition text_of :: "env \<Rightarrow> string \<Rightarrow> string" where
  "text_of E k = trim_space (E k)"

definition lower_of :: "env \<Rightarrow> string \<Rightarrow> string" where
  "lower_of E k = to_lower (text_of E k)"

definition yes :: "env \<Rightarrow> string \<Rightarrow> bool" where
  "yes E k \<longleftrightarrow> lower_of E k = Activated"

text \<open>A directory that does not exist is created below the current one.\<close>

definition make_directory :: "machine \<Rightarrow> string \<Rightarrow> unit loader" where
  "make_directory K d =
     (if d = [] then ret ()
      else
        andThen get_st (\<lambda>s.
        if mc_missing K (cs_dirs s) d then
          (case mc_mkdir K (cs_dirs s) (below_here d) of
             Some e \<Rightarrow> raise (Failed e)
           | None \<Rightarrow> upd_st (\<lambda>s. s\<lparr>cs_dirs := cs_dirs s @ [below_here d]\<rparr>))
        else ret ()))"

text \<open>An absolute path is created below the current directory as well, and not where it is looked for.\<close>

lemma absolute_path_moved: "below_here ''/var/qr'' = ''var/qr''"
  by code_simp

section \<open>Databases\<close>

definition loadRDBMSConfig :: "env \<Rightarrow> string \<Rightarrow> RDBMSConfig loader" where
  "loadRDBMSConfig E p =
     andThen (number Atoi (text_of E (p @ ''_DBMAXIDLECONNS''))) (\<lambda>idle.
     andThen (number Atoi (text_of E (p @ ''_DBMAXOPENCONNS''))) (\<lambda>opened.
     andThen (duration (text_of E (p @ ''_DBCONNMAXLIFETIME''))) (\<lambda>lifetime.
     andThen (number Atoi (text_of E (p @ ''_DBLOGLEVEL''))) (\<lambda>level.
     ret \<lparr>rd_activate = [], rd_driver = lower_of E (p @ ''_DBDRIVER''), rd_host = text_of E (p @ ''_DBHOST''),
          rd_port = text_of E (p @ ''_DBPORT''), rd_time_zone = text_of E (p @ ''_DBTIMEZONE''),
          rd_db_name = text_of E (p @ ''_DBNAME''), rd_user = text_of E (p @ ''_DBUSER''), rd_pass = text_of E (p @ ''_DBPASS''),
          rd_sslmode = text_of E (p @ ''_DBSSLMODE''), rd_min_tls = text_of E (p @ ''_DBSSL_TLS_MIN''),
          rd_root_ca = text_of E (p @ ''_DBSSL_ROOT_CA''), rd_server_cert = text_of E (p @ ''_DBSSL_SERVER_CERT''),
          rd_client_cert = text_of E (p @ ''_DBSSL_CLIENT_CERT''), rd_client_key = text_of E (p @ ''_DBSSL_CLIENT_KEY''),
          rd_max_idle_conns = idle, rd_max_open_conns = opened, rd_conn_max_lifetime = lifetime, rd_log_level = level\<rparr>))))"

definition databaseRedis :: "env \<Rightarrow> RedisConfig loader" where
  "databaseRedis E =
     andThen (number Atoi (text_of E ''POOLSIZE'')) (\<lambda>poolSize.
     andThen (number Atoi (text_of E ''CONNTTL'')) (\<lambda>connTTL.
     ret \<lparr>re_activate = [], re_host = text_of E ''REDISHOST'', re_port = text_of E ''REDISPORT'', re_pool_size = poolSize,
          re_conn_ttl = connTTL\<rparr>))"

definition databaseMongo :: "env \<Rightarrow> MongoConfig loader" where
  "databaseMongo E =
     andThen (number (ParseUint 64) (text_of E ''MONGO_POOLSIZE'')) (\<lambda>poolSize.
     andThen (number Atoi (text_of E ''MONGO_CONNTTL'')) (\<lambda>connTTL.
     ret \<lparr>mo_activate = [], mo_app_name = text_of E ''MONGO_APP'', mo_uri = text_of E ''MONGO_URI'', mo_pool_size = poolSize,
          mo_pool_mon = text_of E ''MONGO_MONITOR_POOL'', mo_conn_ttl = connTTL\<rparr>))"

definition databaseBadger :: "env \<Rightarrow> BadgerDb" where
  "databaseBadger E = \<lparr>bd_activate = [], bd_data_dir = text_of E ''DataDir''\<rparr>"

definition rdbms_map :: "env \<Rightarrow> (string \<Rightarrow> RDBMSConfig option) loader" where
  "rdbms_map E =
     (if yes E ''ACTIVATE_RDBMS'' then
        andThen (loadRDBMSConfig E ''APP_DB'') (\<lambda>app.
        andThen (loadRDBMSConfig E ''RADIUS_DB'') (\<lambda>radius.
        ret [AppDB \<mapsto> app\<lparr>rd_activate := Activated\<rparr>, RadiusDB \<mapsto> radius\<lparr>rd_activate := Activated\<rparr>]))
      else ret Map.empty)"

definition database :: "env \<Rightarrow> DatabaseConfig loader" where
  "database E =
     andThen (rdbms_map E) (\<lambda>rdbms.
     andThen (if yes E ''ACTIVATE_REDIS'' then databaseRedis E else ret no_redis) (\<lambda>redis.
     andThen (if yes E ''ACTIVATE_MONGO'' then databaseMongo E else ret no_mongo) (\<lambda>mongo.
     ret \<lparr>db_rdbms = rdbms, db_redis = redis\<lparr>re_activate := lower_of E ''ACTIVATE_REDIS''\<rparr>,
          db_mongo = mongo\<lparr>mo_activate := lower_of E ''ACTIVATE_MONGO''\<rparr>,
          db_badger = (if yes E ''ACTIVATE_BADGER'' then databaseBadger E else \<lparr>bd_activate = [], bd_data_dir = []\<rparr>)
            \<lparr>bd_activate := lower_of E ''ACTIVATE_BADGER''\<rparr>\<rparr>)))"

section \<open>Mail, logger, server and views\<close>

definition email :: "env \<Rightarrow> EmailConfig loader" where
  "email E =
     (let c = no_email\<lparr>ec_activate := lower_of E ''ACTIVATE_EMAIL_SERVICE''\<rparr> in
      if \<not> yes E ''ACTIVATE_EMAIL_SERVICE'' then ret c
      else
        andThen (number ParseInt64 (text_of E ''EMAIL_VERIFY_TEMPLATE_ID'')) (\<lambda>verify.
        andThen (number ParseInt64 (text_of E ''EMAIL_PASS_RECOVER_TEMPLATE_ID'')) (\<lambda>recover.
        andThen (number ParseInt64 (text_of E ''EMAIL_UPDATE_VERIFY_TEMPLATE_ID'')) (\<lambda>upd.
        andThen (if yes E ''EMAIL_VERIFY_USE_UUIDv4'' then ret 0
                 else number (ParseUint 32) (text_of E ''EMAIL_VERIFY_CODE_LENGTH'')) (\<lambda>verifyLength.
        andThen (if yes E ''EMAIL_PASS_RECOVER_USE_UUIDv4'' then ret 0
                 else number (ParseUint 32) (text_of E ''EMAIL_PASS_RECOVER_CODE_LENGTH'')) (\<lambda>recoverLength.
        andThen (number (ParseUint 32) (text_of E ''EMAIL_VERIFY_VALIDITY_PERIOD'')) (\<lambda>verifyPeriod.
        andThen (number (ParseUint 32) (text_of E ''EMAIL_PASS_RECOVER_VALIDITY_PERIOD'')) (\<lambda>recoverPeriod.
        ret (c\<lparr>ec_provider := lower_of E ''EMAIL_SERVICE_PROVIDER'', ec_api_token := text_of E ''EMAIL_API_TOKEN'',
               ec_addr_from := text_of E ''EMAIL_FROM'', ec_track_opens := (text_of E ''EMAIL_TRACK_OPENS'' = Activated),
               ec_track_links := text_of E ''EMAIL_TRACK_LINKS'', ec_delivery_type := text_of E ''EMAIL_DELIVERY_TYPE'',
               ec_verification_template := verify, ec_recover_template := recover, ec_update_template := upd,
               ec_verification_uuid := yes E ''EMAIL_VERIFY_USE_UUIDv4'', ec_verification_length := verifyLength,
               ec_recover_uuid := yes E ''EMAIL_PASS_RECOVER_USE_UUIDv4'', ec_recover_length := recoverLength,
               ec_verification_tag := text_of E ''EMAIL_VERIFY_TAG'', ec_recover_tag := text_of E ''EMAIL_PASS_RECOVER_TAG'',
               ec_html_model := text_of E ''EMAIL_HTML_MODEL'', ec_verify_period := verifyPeriod,
               ec_recover_period := recoverPeriod\<rparr>)))))))))"

definition logger :: "env \<Rightarrow> LoggerConfig" where
  "logger E =
     (let c = no_logger\<lparr>lg_activate := lower_of E ''ACTIVATE_SENTRY''\<rparr> in
      if yes E ''ACTIVATE_SENTRY'' then
        c\<lparr>lg_sentry_dsn := text_of E ''SentryDSN'', lg_performance_tracing := lower_of E ''SENTRY_ENABLE_TRACING'',
          lg_traces_sample_rate := text_of E ''SENTRY_TRACES_SAMPLE_RATE''\<rparr>
      else c)"

definition server :: "env \<Rightarrow> ServerConfig" where
  "server E = \<lparr>sv_host = text_of E ''APP_HOST'', sv_port = text_of E ''APP_PORT'', sv_env = lower_of E ''APP_ENV''\<rparr>"

definition view :: "machine \<Rightarrow> env \<Rightarrow> ViewConfig loader" where
  "view K E =
     (let c = no_view\<lparr>vw_activate := lower_of E ''ACTIVATE_VIEW''\<rparr> in
      if yes E ''ACTIVATE_VIEW'' then
        (let dir = trim_right CHR ''/'' (text_of E ''TEMPLATE_DIR'') in
         andThen (make_directory K dir) (\<lambda>_. ret (c\<lparr>vw_directory := dir\<rparr>)))
      else ret c)"

section \<open>Security\<close>

subsection \<open>Tokens and hashes\<close>

definition jwt_algorithms :: "string list" where
  "jwt_algorithms = [''HS256'', ''HS384'', ''HS512'', ''ES256'', ''ES384'', ''ES512'', ''RS256'', ''RS384'', ''RS512'']"

text \<open>A key file is read even when the algorithm has no use for it.\<close>

definition private_key :: "machine \<Rightarrow> string \<Rightarrow> string \<Rightarrow> JWTParameters \<Rightarrow> JWTParameters loader" where
  "private_key K alg file p =
     (if file = [] then ret p
      else
        andThen (answer (mc_read K file)) (\<lambda>pem.
        if alg \<in> {''ES256'', ''ES384'', ''ES512''} then
          andThen (answer (mc_ec_private K pem)) (\<lambda>k. ret (p\<lparr>jp_priv_ecdsa := k\<rparr>))
        else if alg \<in> {''RS256'', ''RS384'', ''RS512''} then
          andThen (answer (mc_rsa_private K pem)) (\<lambda>k. ret (p\<lparr>jp_priv_rsa := k\<rparr>))
        else ret p))"

definition public_key :: "machine \<Rightarrow> string \<Rightarrow> string \<Rightarrow> JWTParameters \<Rightarrow> JWTParameters loader" where
  "public_key K alg file p =
     (if file = [] then ret p
      else
        andThen (answer (mc_read K file)) (\<lambda>pem.
        if alg \<in> {''ES256'', ''ES384'', ''ES512''} then
          andThen (answer (mc_ec_public K pem)) (\<lambda>k. ret (p\<lparr>jp_pub_ecdsa := k\<rparr>))
        else if alg \<in> {''RS256'', ''RS384'', ''RS512''} then
          andThen (answer (mc_rsa_public K pem)) (\<lambda>k. ret (p\<lparr>jp_pub_rsa := k\<rparr>))
        else ret p))"

definition getParamsJWT :: "machine \<Rightarrow> env \<Rightarrow> JWTParameters loader" where
  "getParamsJWT K E =
     (let alg = (if text_of E ''JWT_ALG'' = [] then ''HS256'' else text_of E ''JWT_ALG'') in
      if alg \<notin> set jwt_algorithms then raise (Failed ''unsupported algorithm for JWT'')
      else
        andThen (number Atoi (text_of E ''ACCESS_KEY_TTL'')) (\<lambda>accessTTL.
        andThen (number Atoi (text_of E ''REFRESH_KEY_TTL'')) (\<lambda>refreshTTL.
        andThen (private_key K alg (text_of E ''PRIV_KEY_FILE_PATH'')
           (no_jwt_parameters\<lparr>jp_algorithm := alg, jp_access_key := text_of E ''ACCESS_KEY'', jp_access_ttl := accessTTL,
              jp_refresh_key := text_of E ''REFRESH_KEY'', jp_refresh_ttl := refreshTTL\<rparr>)) (\<lambda>p.
        andThen (public_key K alg (text_of E ''PUB_KEY_FILE_PATH'') p) (\<lambda>p.
        andThen (number Atoi (text_of E ''NOT_BEFORE_ACC'')) (\<lambda>accNbf.
        andThen (number Atoi (text_of E ''NOT_BEFORE_REF'')) (\<lambda>refNbf.
        ret (p\<lparr>jp_audience := text_of E ''AUDIENCE'', jp_issuer := text_of E ''ISSUER'', jp_acc_nbf := accNbf,
               jp_ref_nbf := refNbf, jp_subject := text_of E ''SUBJECT''\<rparr>))))))))"

text \<open>Every field is copied.\<close>

definition setParamsJWT :: "JWTParameters \<Rightarrow> unit loader" where
  "setParamsJWT p = upd_st (\<lambda>s. s\<lparr>cs_params := p\<rparr>)"

definition getParamsHash :: "env \<Rightarrow> HashPassConfig loader" where
  "getParamsHash E =
     andThen (number (ParseUint 32) (text_of E ''HASHPASSMEMORY'')) (\<lambda>memory.
     andThen (number (ParseUint 32) (text_of E ''HASHPASSITERATIONS'')) (\<lambda>iterations.
     andThen (number (ParseUint 8) (text_of E ''HASHPASSPARALLELISM'')) (\<lambda>parallelism.
     andThen (number (ParseUint 32) (text_of E ''HASHPASSSALTLENGTH'')) (\<lambda>saltLength.
     andThen (number (ParseUint 32) (text_of E ''HASHPASSKEYLENGTH'')) (\<lambda>keyLength.
     ret \<lparr>hp_memory = memory, hp_iterations = iterations, hp_parallelism = parallelism, hp_salt_length = saltLength,
          hp_key_length = keyLength\<rparr>)))))"

subsection \<open>The blocks of \<^verbatim>\<open>security\<close>\<close>

definition password_settings :: "env \<Rightarrow> SecurityConfig \<Rightarrow> SecurityConfig loader" where
  "password_settings E c =
     andThen (if text_of E ''MIN_PASS_LENGTH'' = [] then ret c
              else andThen (number Atoi (text_of E ''MIN_PASS_LENGTH'')) (\<lambda>n. ret (c\<lparr>sc_user_pass_min_length := n\<rparr>))) (\<lambda>c.
     ret (let c = c\<lparr>sc_must_basic_auth := lower_of E ''ACTIVATE_BASIC_AUTH''\<rparr> in
          if yes E ''ACTIVATE_BASIC_AUTH''
          then c\<lparr>sc_basic_username := text_of E ''USERNAME'', sc_basic_password := text_of E ''PASSWORD''\<rparr> else c))"

definition token_settings_of :: "machine \<Rightarrow> env \<Rightarrow> SecurityConfig \<Rightarrow> SecurityConfig loader" where
  "token_settings_of K E c =
     andThen (if yes E ''ACTIVATE_JWT'' then
                andThen (getParamsJWT K E) (\<lambda>p. andThen (setParamsJWT p) (\<lambda>_. ret (c\<lparr>sc_jwt := p\<rparr>)))
              else ret c) (\<lambda>c.
     ret (c\<lparr>sc_must_jwt := lower_of E ''ACTIVATE_JWT'', sc_invalidate_jwt := lower_of E ''INVALIDATE_JWT''\<rparr>))"

definition same_site :: "string \<Rightarrow> nat" where
  "same_site t = (if t = ''strict'' then 3 else if t = ''lax'' then 2 else if t = ''none'' then 4 else 0)"

definition cookie_settings :: "env \<Rightarrow> SecurityConfig \<Rightarrow> SecurityConfig" where
  "cookie_settings E c =
     (if yes E ''AUTH_COOKIE_ACTIVATE'' then
        c\<lparr>sc_auth_cookie_activate := True, sc_auth_cookie_path := text_of E ''AUTH_COOKIE_PATH'',
          sc_auth_cookie_domain := text_of E ''AUTH_COOKIE_DOMAIN'', sc_auth_cookie_secure := yes E ''AUTH_COOKIE_SECURE'',
          sc_auth_cookie_http_only := yes E ''AUTH_COOKIE_HttpOnly'',
          sc_auth_cookie_same_site := same_site (lower_of E ''AUTH_COOKIE_SameSite''),
          sc_serve_jwt_as_res_body := (lower_of E ''SERVE_JWT_AS_RESPONSE_BODY'' \<noteq> ''no'')\<rparr>
      else c)"

definition hash_settings :: "env \<Rightarrow> SecurityConfig \<Rightarrow> SecurityConfig loader" where
  "hash_settings E c =
     (let c = c\<lparr>sc_must_hash := lower_of E ''ACTIVATE_HASHING''\<rparr> in
      if yes E ''ACTIVATE_HASHING''
      then andThen (getParamsHash E) (\<lambda>p. ret (c\<lparr>sc_hash_pass := p, sc_hash_sec := text_of E ''HASH_SECRET''\<rparr>))
      else ret c)"

definition cipher_settings :: "machine \<Rightarrow> env \<Rightarrow> SecurityConfig \<Rightarrow> SecurityConfig loader" where
  "cipher_settings K E c =
     andThen (if yes E ''ACTIVATE_CIPHER'' then
                (if text_of E ''CIPHER_KEY'' = [] then raise (Failed ''CIPHER_KEY is missing'')
                 else ret (c\<lparr>sc_must_cipher := True, sc_cipher_key := mc_sha3 K (mc_sha256 K (text_of E ''CIPHER_KEY''))\<rparr>))
              else ret c) (\<lambda>c.
     ret (c\<lparr>sc_blake2b_sec := text_of E ''BLAKE2B_SECRET'', sc_verify_email := yes E ''VERIFY_EMAIL'',
            sc_recover_pass := yes E ''RECOVER_PASSWORD''\<rparr>))"

definition otp_hash :: "string \<Rightarrow> nat" where
  "otp_hash t = (if t = ''1'' then 3 else if t = ''256'' then 5 else if t = ''512'' then 7 else 0)"

definition twofa_settings :: "machine \<Rightarrow> env \<Rightarrow> SecurityConfig \<Rightarrow> SecurityConfig loader" where
  "twofa_settings K E c =
     (let c = c\<lparr>sc_must_2fa := lower_of E ''ACTIVATE_2FA''\<rparr> in
      if \<not> yes E ''ACTIVATE_2FA'' then ret c
      else
        andThen (number Atoi (text_of E ''TWO_FA_DIGITS'')) (\<lambda>digits.
        let path = trim_right CHR ''/'' (text_of E ''TWO_FA_QR_PATH'') in
        andThen (make_directory K path) (\<lambda>_.
        ret (c\<lparr>sc_2fa_issuer := text_of E ''TWO_FA_ISSUER'', sc_2fa_crypto := otp_hash (text_of E ''TWO_FA_CRYPTO''),
               sc_2fa_digits := digits,
               sc_2fa_status := \<lparr>s2_verified = text_of E ''TWO_FA_VERIFIED'', s2_on = text_of E ''TWO_FA_ON'',
                  s2_off = text_of E ''TWO_FA_OFF'', s2_invalid = text_of E ''TWO_FA_INVALID''\<rparr>,
               sc_2fa_path_qr := path, sc_2fa_double_hash := yes E ''TWO_FA_DOUBLE_HASH''\<rparr>))))"

text \<open>The headers in the order they are appended, each from its variable.\<close>

definition cors_variables :: "(string \<times> string) list" where
  "cors_variables =
     [(''Access-Control-Allow-Origin'', ''CORS_ORIGIN''), (''Access-Control-Allow-Credentials'', ''CORS_CREDENTIALS''),
      (''Access-Control-Allow-Headers'', ''CORS_HEADERS''), (''Access-Control-Expose-Headers'', ''CORS_EXPOSE_HEADERS''),
      (''Access-Control-Allow-Methods'', ''CORS_METHODS''), (''Access-Control-Max-Age'', ''CORS_MAXAGE''),
      (''X-Content-Type-Options'', ''CORS_X_CONTENT_TYPE''), (''X-Frame-Options'', ''CORS_X_FRAME''),
      (''Referrer-Policy'', ''CORS_REFERRER''), (''Content-Security-Policy'', ''CORS_CONTENT_SECURITY''),
      (''Timing-Allow-Origin'', ''CORS_TIMING_ALLOW_ORIGIN''), (''Strict-Transport-Security'', ''CORS_HSTS'')]"

definition cors_policies :: "env \<Rightarrow> (string \<times> string) list" where
  "cors_policies E = filter (\<lambda>(k, v). v \<noteq> []) (map (\<lambda>(k, x). (k, text_of E x)) cors_variables)"

definition filter_settings :: "env \<Rightarrow> SecurityConfig \<Rightarrow> SecurityConfig" where
  "filter_settings E c =
     (let c = c\<lparr>sc_must_fw := lower_of E ''ACTIVATE_FIREWALL'', sc_must_cors := lower_of E ''ACTIVATE_CORS'',
                sc_check_origin := lower_of E ''ACTIVATE_ORIGIN_VALIDATION'', sc_rate_limit := to_upper (text_of E ''RATE_LIMIT''),
                sc_trusted_platform := text_of E ''TRUSTED_PLATFORM''\<rparr>;
          c = (if yes E ''ACTIVATE_FIREWALL'' then c\<lparr>sc_fw_list_type := text_of E ''LISTTYPE'', sc_fw_ip := text_of E ''IP''\<rparr> else c) in
      if yes E ''ACTIVATE_CORS'' then c\<lparr>sc_cors := cors_policies E\<rparr> else c)"

definition security :: "machine \<Rightarrow> env \<Rightarrow> SecurityConfig loader" where
  "security K E =
     andThen (password_settings E no_security) (\<lambda>c.
     andThen (token_settings_of K E c) (\<lambda>c.
     andThen (hash_settings E (cookie_settings E c)) (\<lambda>c.
     andThen (cipher_settings K E c) (\<lambda>c.
     andThen (twofa_settings K E c) (\<lambda>c.
     ret (filter_settings E c))))))"

section \<open>Everything\<close>

text \<open>The result of \<^verbatim>\<open>auth()\<close>, the session secret, is thrown away.\<close>

definition Config :: "machine \<Rightarrow> unit loader" where
  "Config K =
     andThen (answer (mc_env K)) (\<lambda>E.
     andThen (database E) (\<lambda>db.
     andThen (email E) (\<lambda>mail.
     andThen (security K E) (\<lambda>sec.
     andThen (view K E) (\<lambda>views.
     upd_st (\<lambda>s. s\<lparr>cs_config :=
       Some \<lparr>cf_version = text_of E ''RELEASE_VERSION_OR_COMMIT_NUMBER'', cf_database = db, cf_email = mail, cf_logger = logger E,
             cf_server = server E, cf_security = sec, cf_view = views\<rparr>\<rparr>))))))"

definition GetConfig :: "config_state \<Rightarrow> Configuration option" where
  "GetConfig s = cs_config s"

end
