(* ===== verification/Config_Correct.thy ===== *)
theory Config_Correct
  imports Config_Loading Jwt_Correct
begin

text \<open>
  What a configuration that was loaded looks like: every number is in the range of its field, the
  questions of config/getConfig.go answer what the environment says, a feature that is off leaves its
  parameters empty, and the package variable of the JWT middleware holds the loaded parameters.
\<close>

section \<open>Successful runs\<close>

named_theorems loaded \<open>when a loader succeeds, and with which result\<close>

lemma andThen_loaded [loaded]: "andThen m f s = (Inr b, s') \<longleftrightarrow> (\<exists>a s1. m s = (Inr a, s1) \<and> f a s1 = (Inr b, s'))"
  by (auto simp: andThen_def split: prod.splits sum.splits)

lemma ret_loaded [loaded]: "ret a s = (Inr b, s') \<longleftrightarrow> b = a \<and> s' = s"
  by (auto simp: ret_def)

lemma raise_loaded [loaded]: "raise e s = (Inr b, s') \<longleftrightarrow> False"
  by (simp add: raise_def)

lemma upd_loaded [loaded]: "upd_st f s = (Inr b, s') \<longleftrightarrow> s' = f s"
  by (auto simp: upd_st_def)

lemma get_loaded [loaded]: "get_st s = (Inr b, s') \<longleftrightarrow> b = s \<and> s' = s"
  by (auto simp: get_st_def)

lemma number_loaded [loaded]: "number f t s = (Inr n, s') \<longleftrightarrow> f t = Inr n \<and> s' = s"
  by (auto simp: number_def ret_def raise_def split: sum.splits)

lemma duration_loaded [loaded]: "duration t s = (Inr n, s') \<longleftrightarrow> ParseDuration t = Some n \<and> s' = s"
  by (auto simp: duration_def ret_def raise_def split: option.splits)

lemma answer_loaded [loaded]: "answer r s = (Inr a, s') \<longleftrightarrow> r = Inr a \<and> s' = s"
  by (auto simp: answer_def ret_def raise_def split: sum.splits)

lemma if_loaded [loaded]: "(if b then m else m') s = r \<longleftrightarrow> (if b then m s = r else m' s = r)"
  by simp

text \<open>Only the list of created directories changes.\<close>

lemma make_directory_loaded:
  "make_directory K d s = (r, s') \<Longrightarrow> cs_params s' = cs_params s \<and> cs_config s' = cs_config s"
  by (auto simp: make_directory_def andThen_def get_st_def ret_def raise_def upd_st_def split: if_splits option.splits prod.splits)

section \<open>Ranges\<close>

definition int64 :: "int \<Rightarrow> bool" where
  "int64 n \<longleftrightarrow> - (2 ^ 63) \<le> n \<and> n < 2 ^ 63"

definition rdbms_fits :: "RDBMSConfig \<Rightarrow> bool" where
  "rdbms_fits r \<longleftrightarrow> int64 (rd_max_idle_conns r) \<and> int64 (rd_max_open_conns r) \<and> int64 (rd_conn_max_lifetime r) \<and> int64 (rd_log_level r)"

definition database_fits :: "DatabaseConfig \<Rightarrow> bool" where
  "database_fits d \<longleftrightarrow> (\<forall>r \<in> ran (db_rdbms d). rdbms_fits r) \<and> int64 (re_pool_size (db_redis d)) \<and> int64 (re_conn_ttl (db_redis d)) \<and>
     mo_pool_size (db_mongo d) < 2 ^ 64 \<and> int64 (mo_conn_ttl (db_mongo d))"

definition email_fits :: "EmailConfig \<Rightarrow> bool" where
  "email_fits e \<longleftrightarrow> int64 (ec_verification_template e) \<and> int64 (ec_recover_template e) \<and> int64 (ec_update_template e) \<and>
     ec_verification_length e < 2 ^ 32 \<and> ec_recover_length e < 2 ^ 32 \<and> ec_verify_period e < 2 ^ 32 \<and> ec_recover_period e < 2 ^ 32"

definition params_fit :: "JWTParameters \<Rightarrow> bool" where
  "params_fit p \<longleftrightarrow> int64 (jp_access_ttl p) \<and> int64 (jp_refresh_ttl p) \<and> int64 (jp_acc_nbf p) \<and> int64 (jp_ref_nbf p)"

definition hash_fits :: "HashPassConfig \<Rightarrow> bool" where
  "hash_fits h \<longleftrightarrow> hp_memory h < 2 ^ 32 \<and> hp_iterations h < 2 ^ 32 \<and> hp_parallelism h < 2 ^ 8 \<and> hp_salt_length h < 2 ^ 32 \<and>
     hp_key_length h < 2 ^ 32"

definition security_fits :: "SecurityConfig \<Rightarrow> bool" where
  "security_fits c \<longleftrightarrow> int64 (sc_user_pass_min_length c) \<and> params_fit (sc_jwt c) \<and> hash_fits (sc_hash_pass c) \<and> int64 (sc_2fa_digits c) \<and>
     sc_auth_cookie_same_site c \<le> 4 \<and> sc_2fa_crypto c \<le> 7"

definition configuration_fits :: "Configuration \<Rightarrow> bool" where
  "configuration_fits cfg \<longleftrightarrow> database_fits (cf_database cfg) \<and> email_fits (cf_email cfg) \<and> security_fits (cf_security cfg)"

lemmas fits_defs = rdbms_fits_def database_fits_def email_fits_def params_fit_def hash_fits_def security_fits_def

lemma numbers_fit:
  "Atoi t = Inr n \<Longrightarrow> int64 n" "ParseInt64 t = Inr n \<Longrightarrow> int64 n" "ParseDuration t = Some n \<Longrightarrow> int64 n" "int64 0"
  using ParseInt64_bound [of t n] ParseDuration_bound [of t n] by (simp_all add: int64_def Atoi_def)

lemma uints_fit: "ParseUint 64 t = Inr k \<Longrightarrow> k < 2 ^ 64" "ParseUint 32 t = Inr k \<Longrightarrow> k < 2 ^ 32" "ParseUint 8 t = Inr k \<Longrightarrow> k < 2 ^ 8"
  by (rule ParseUint_bound, assumption)+

section \<open>The parts\<close>

lemma loadRDBMSConfig_loaded:
  "loadRDBMSConfig E p s = (Inr r, s') \<Longrightarrow> s' = s \<and> rdbms_fits r"
  by (auto simp: loadRDBMSConfig_def loaded rdbms_fits_def intro: numbers_fit)

lemma rdbms_fits_activate [simp]: "rdbms_fits (r\<lparr>rd_activate := x\<rparr>) \<longleftrightarrow> rdbms_fits r"
  by (simp add: rdbms_fits_def)

lemma rdbms_map_loaded:
  assumes "rdbms_map E s = (Inr m, s')"
  shows "s' = s \<and> (\<forall>r \<in> ran m. rdbms_fits r) \<and>
    (if yes E ''ACTIVATE_RDBMS'' then \<exists>r. m AppDB = Some r \<and> rd_activate r = Activated else m = Map.empty)"
proof (cases "yes E ''ACTIVATE_RDBMS''")
  case True
  with assms obtain a s1 r where *: "loadRDBMSConfig E ''APP_DB'' s = (Inr a, s1)" "loadRDBMSConfig E ''RADIUS_DB'' s1 = (Inr r, s')"
      "m = [AppDB \<mapsto> a\<lparr>rd_activate := Activated\<rparr>, RadiusDB \<mapsto> r\<lparr>rd_activate := Activated\<rparr>]"
    by (auto simp: rdbms_map_def loaded)
  have "AppDB \<noteq> RadiusDB" by (simp add: AppDB_def RadiusDB_def)
  with True * loadRDBMSConfig_loaded [OF *(1)] loadRDBMSConfig_loaded [OF *(2)] show ?thesis by simp
qed (use assms in \<open>simp add: rdbms_map_def loaded\<close>)

lemma databaseRedis_loaded:
  "databaseRedis E s = (Inr r, s') \<Longrightarrow> s' = s \<and> int64 (re_pool_size r) \<and> int64 (re_conn_ttl r)"
  by (auto simp: databaseRedis_def loaded intro: numbers_fit)

lemma databaseMongo_loaded:
  "databaseMongo E s = (Inr r, s') \<Longrightarrow> s' = s \<and> mo_pool_size r < 2 ^ 64 \<and> int64 (mo_conn_ttl r)"
  by (simp add: databaseMongo_def loaded) (use numbers_fit(1) uints_fit(1) in fastforce)

lemma database_loaded:
  assumes "database E s = (Inr d, s')"
  shows "s' = s \<and> database_fits d \<and>
    re_activate (db_redis d) = lower_of E ''ACTIVATE_REDIS'' \<and> mo_activate (db_mongo d) = lower_of E ''ACTIVATE_MONGO'' \<and>
    bd_activate (db_badger d) = lower_of E ''ACTIVATE_BADGER'' \<and>
    (if yes E ''ACTIVATE_RDBMS'' then \<exists>r. db_rdbms d AppDB = Some r \<and> rd_activate r = Activated else db_rdbms d = Map.empty)"
proof -
  from assms obtain m s1 r s2 mo where
      m: "rdbms_map E s = (Inr m, s1)"
    and r: "(if yes E ''ACTIVATE_REDIS'' then databaseRedis E else ret no_redis) s1 = (Inr r, s2)"
    and mo: "(if yes E ''ACTIVATE_MONGO'' then databaseMongo E else ret no_mongo) s2 = (Inr mo, s')"
    and d: "db_rdbms d = m" "db_redis d = r\<lparr>re_activate := lower_of E ''ACTIVATE_REDIS''\<rparr>"
      "db_mongo d = mo\<lparr>mo_activate := lower_of E ''ACTIVATE_MONGO''\<rparr>" "bd_activate (db_badger d) = lower_of E ''ACTIVATE_BADGER''"
    by (auto simp: database_def andThen_loaded ret_loaded)
  from r have "s2 = s1 \<and> int64 (re_pool_size r) \<and> int64 (re_conn_ttl r)"
    by (auto simp: ret_loaded no_redis_def split: if_splits dest: databaseRedis_loaded intro: numbers_fit)
  moreover from mo have "s' = s2 \<and> mo_pool_size mo < 2 ^ 64 \<and> int64 (mo_conn_ttl mo)"
    by (auto simp: ret_loaded no_mongo_def split: if_splits dest: databaseMongo_loaded intro: numbers_fit)
  ultimately show ?thesis using rdbms_map_loaded [OF m] d by (simp add: database_fits_def)
qed

lemma uint32_loaded: "(if b then ret 0 else number (ParseUint 32) t) s = (Inr n, s') \<Longrightarrow> s' = s \<and> n < 2 ^ 32"
  by (auto simp: ret_loaded number_loaded split: if_splits dest: uints_fit)

lemma email_loaded:
  assumes "email E s = (Inr e, s')"
  shows "s' = s \<and> email_fits e \<and> ec_activate e = lower_of E ''ACTIVATE_EMAIL_SERVICE'' \<and>
    (ec_verification_uuid e \<longleftrightarrow> yes E ''ACTIVATE_EMAIL_SERVICE'' \<and> yes E ''EMAIL_VERIFY_USE_UUIDv4'') \<and>
    (ec_recover_uuid e \<longleftrightarrow> yes E ''ACTIVATE_EMAIL_SERVICE'' \<and> yes E ''EMAIL_PASS_RECOVER_USE_UUIDv4'')"
proof (cases "yes E ''ACTIVATE_EMAIL_SERVICE''")
  case False
  with assms show ?thesis by (simp add: email_def ret_loaded email_fits_def no_email_def numbers_fit(4))
next
  case True
  from assms True obtain v r u vl s1 rl s2 vp rp where
      "ParseInt64 (text_of E ''EMAIL_VERIFY_TEMPLATE_ID'') = Inr v" "ParseInt64 (text_of E ''EMAIL_PASS_RECOVER_TEMPLATE_ID'') = Inr r"
      "ParseInt64 (text_of E ''EMAIL_UPDATE_VERIFY_TEMPLATE_ID'') = Inr u"
    and l: "(if yes E ''EMAIL_VERIFY_USE_UUIDv4'' then ret 0 else number (ParseUint 32) (text_of E ''EMAIL_VERIFY_CODE_LENGTH'')) s = (Inr vl, s1)"
      "(if yes E ''EMAIL_PASS_RECOVER_USE_UUIDv4'' then ret 0 else number (ParseUint 32) (text_of E ''EMAIL_PASS_RECOVER_CODE_LENGTH'')) s1 = (Inr rl, s2)"
    and "ParseUint 32 (text_of E ''EMAIL_VERIFY_VALIDITY_PERIOD'') = Inr vp" "ParseUint 32 (text_of E ''EMAIL_PASS_RECOVER_VALIDITY_PERIOD'') = Inr rp"
    and s': "s' = s2"
    and e: "ec_activate e = lower_of E ''ACTIVATE_EMAIL_SERVICE''" "ec_verification_template e = v" "ec_recover_template e = r"
      "ec_update_template e = u" "ec_verification_uuid e = yes E ''EMAIL_VERIFY_USE_UUIDv4''" "ec_verification_length e = vl"
      "ec_recover_uuid e = yes E ''EMAIL_PASS_RECOVER_USE_UUIDv4''" "ec_recover_length e = rl" "ec_verify_period e = vp" "ec_recover_period e = rp"
    by (simp add: email_def Let_def andThen_loaded ret_loaded number_loaded del: if_loaded) (elim exE conjE, simp)
  then have "int64 v" "int64 r" "int64 u" "vp < 2 ^ 32" "rp < 2 ^ 32" by (auto dest: numbers_fit(1-3) uints_fit)
  with uint32_loaded [OF l(1)] uint32_loaded [OF l(2)] e s' True show ?thesis by (simp add: email_fits_def)
qed

lemma view_loaded:
  assumes "view K E s = (Inr v, s')"
  shows "cs_params s' = cs_params s \<and> cs_config s' = cs_config s \<and> vw_activate v = lower_of E ''ACTIVATE_VIEW''"
  using assms by (auto simp: view_def Let_def andThen_loaded ret_loaded no_view_def split: if_splits dest: make_directory_loaded)

text \<open>The parameters of the tokens.\<close>

definition same_settings :: "JWTParameters \<Rightarrow> JWTParameters \<Rightarrow> bool" where
  "same_settings p q \<longleftrightarrow>
     jp_algorithm q = jp_algorithm p \<and> jp_access_key q = jp_access_key p \<and> jp_access_ttl q = jp_access_ttl p \<and>
     jp_refresh_key q = jp_refresh_key p \<and> jp_refresh_ttl q = jp_refresh_ttl p"

lemma key_file_cases:
  assumes "(if a then ret p else andThen (answer r) (\<lambda>pem. if b then andThen (answer (f pem)) (\<lambda>k. ret (g k))
      else if c then andThen (answer (f' pem)) (\<lambda>k. ret (g' k)) else ret p)) s = (Inr q, s')"
  shows "s' = s \<and> (q = p \<or> (\<exists>k. q = g k) \<or> (\<exists>k. q = g' k))"
  using assms by (auto simp: loaded split: if_splits)

lemma key_files_loaded:
  "private_key K alg file p s = (Inr q, s') \<Longrightarrow> s' = s \<and> same_settings p q"
  "public_key K alg file p s = (Inr q, s') \<Longrightarrow> s' = s \<and> same_settings p q"
  unfolding private_key_def public_key_def same_settings_def by (drule key_file_cases, auto)+

definition algorithm_of :: "env \<Rightarrow> string" where
  "algorithm_of E = (if text_of E ''JWT_ALG'' = [] then ''HS256'' else text_of E ''JWT_ALG'')"

lemma getParamsJWT_loaded:
  assumes "getParamsJWT K E s = (Inr p, s')"
  shows "s' = s \<and> params_fit p \<and> jp_algorithm p = algorithm_of E \<and> algorithm_of E \<in> set jwt_algorithms \<and>
    jp_access_key p = text_of E ''ACCESS_KEY'' \<and> jp_refresh_key p = text_of E ''REFRESH_KEY'' \<and>
    Atoi (text_of E ''ACCESS_KEY_TTL'') = Inr (jp_access_ttl p) \<and> Atoi (text_of E ''NOT_BEFORE_ACC'') = Inr (jp_acc_nbf p)"
proof -
  from assms obtain ta tr q s1 q' s2 na nr where
      alg: "algorithm_of E \<in> set jwt_algorithms"
    and ta: "Atoi (text_of E ''ACCESS_KEY_TTL'') = Inr ta" and tr: "Atoi (text_of E ''REFRESH_KEY_TTL'') = Inr tr"
    and q: "private_key K (algorithm_of E) (text_of E ''PRIV_KEY_FILE_PATH'')
       (no_jwt_parameters\<lparr>jp_algorithm := algorithm_of E, jp_access_key := text_of E ''ACCESS_KEY'', jp_access_ttl := ta,
          jp_refresh_key := text_of E ''REFRESH_KEY'', jp_refresh_ttl := tr\<rparr>) s = (Inr q, s1)"
    and q': "public_key K (algorithm_of E) (text_of E ''PUB_KEY_FILE_PATH'') q s1 = (Inr q', s2)"
    and na: "Atoi (text_of E ''NOT_BEFORE_ACC'') = Inr na" and nr: "Atoi (text_of E ''NOT_BEFORE_REF'') = Inr nr"
    and s': "s' = s2"
    and p: "p = q'\<lparr>jp_audience := text_of E ''AUDIENCE'', jp_issuer := text_of E ''ISSUER'', jp_acc_nbf := na, jp_ref_nbf := nr,
      jp_subject := text_of E ''SUBJECT''\<rparr>"
    by (simp add: getParamsJWT_def algorithm_of_def [symmetric] if_loaded raise_loaded Let_def andThen_loaded ret_loaded number_loaded
        split: if_splits) (elim exE conjE, simp)
  from key_files_loaded(1) [OF q] key_files_loaded(2) [OF q'] alg ta tr na nr s' p show ?thesis
    by (auto simp: params_fit_def same_settings_def dest: numbers_fit(1-3))
qed

lemma getParamsHash_loaded:
  assumes "getParamsHash E s = (Inr h, s')"
  shows "s' = s \<and> hash_fits h"
  using assms by (simp add: getParamsHash_def loaded hash_fits_def) (use uints_fit(2,3) in fastforce)

section \<open>Security\<close>

definition jwt_loaded :: "env \<Rightarrow> JWTParameters \<Rightarrow> bool" where
  "jwt_loaded E p \<longleftrightarrow>
     (if yes E ''ACTIVATE_JWT'' then
        jp_algorithm p = algorithm_of E \<and> algorithm_of E \<in> set jwt_algorithms \<and> jp_access_key p = text_of E ''ACCESS_KEY'' \<and>
        jp_refresh_key p = text_of E ''REFRESH_KEY'' \<and> Atoi (text_of E ''ACCESS_KEY_TTL'') = Inr (jp_access_ttl p) \<and>
        Atoi (text_of E ''NOT_BEFORE_ACC'') = Inr (jp_acc_nbf p)
      else p = no_jwt_parameters)"

lemma password_settings_loaded:
  assumes "password_settings E c s = (Inr c', s')" and "int64 (sc_user_pass_min_length c)"
  shows "s' = s \<and> (\<exists>n u p. int64 n \<and> c' = c\<lparr>sc_user_pass_min_length := n, sc_must_basic_auth := lower_of E ''ACTIVATE_BASIC_AUTH'',
    sc_basic_username := u, sc_basic_password := p\<rparr>)"
proof -
  from assms obtain n where n: "s' = s" "int64 n"
      "c' = (let c = c\<lparr>sc_user_pass_min_length := n, sc_must_basic_auth := lower_of E ''ACTIVATE_BASIC_AUTH''\<rparr> in
        if yes E ''ACTIVATE_BASIC_AUTH''
        then c\<lparr>sc_basic_username := text_of E ''USERNAME'', sc_basic_password := text_of E ''PASSWORD''\<rparr> else c)"
  proof (cases "text_of E ''MIN_PASS_LENGTH'' = []")
    case True
    with assms that [of "sc_user_pass_min_length c"] show ?thesis by (simp add: password_settings_def loaded)
  next
    case False
    with assms that show ?thesis by (auto simp: password_settings_def loaded dest: numbers_fit(1))
  qed
  have "c\<lparr>sc_user_pass_min_length := n, sc_must_basic_auth := x\<rparr> =
      c\<lparr>sc_user_pass_min_length := n, sc_must_basic_auth := x, sc_basic_username := sc_basic_username c, sc_basic_password := sc_basic_password c\<rparr>" for x
    by simp
  with n show ?thesis unfolding Let_def by (metis (no_types))
qed

lemma token_settings_loaded:
  assumes "token_settings_of K E c s = (Inr c', s')" and "sc_jwt c = no_jwt_parameters" and "cs_params s = no_jwt_parameters"
  shows "cs_config s' = cs_config s \<and> (\<exists>p. params_fit p \<and> jwt_loaded E p \<and> cs_params s' = p \<and>
    c' = c\<lparr>sc_jwt := p, sc_must_jwt := lower_of E ''ACTIVATE_JWT'', sc_invalidate_jwt := lower_of E ''INVALIDATE_JWT''\<rparr>)"
proof (cases "yes E ''ACTIVATE_JWT''")
  case True
  with assms(1) obtain p s1 where "getParamsJWT K E s = (Inr p, s1)" "s' = s1\<lparr>cs_params := p\<rparr>"
      "c' = c\<lparr>sc_jwt := p, sc_must_jwt := lower_of E ''ACTIVATE_JWT'', sc_invalidate_jwt := lower_of E ''INVALIDATE_JWT''\<rparr>"
    by (auto simp: token_settings_of_def setParamsJWT_def loaded)
  with True getParamsJWT_loaded show ?thesis by (fastforce simp: jwt_loaded_def)
next
  case False
  have c: "c\<lparr>sc_must_jwt := a, sc_invalidate_jwt := b\<rparr> = c\<lparr>sc_jwt := no_jwt_parameters, sc_must_jwt := a, sc_invalidate_jwt := b\<rparr>" for a b
    using assms(2) by (cases c) simp
  have "s' = s" "c' = c\<lparr>sc_must_jwt := lower_of E ''ACTIVATE_JWT'', sc_invalidate_jwt := lower_of E ''INVALIDATE_JWT''\<rparr>"
    using False assms(1) by (simp_all add: token_settings_of_def loaded)
  moreover have "params_fit no_jwt_parameters" by (simp add: params_fit_def no_jwt_parameters_def numbers_fit(4))
  ultimately show ?thesis using False assms(3) c by (auto simp: jwt_loaded_def)
qed

lemma hash_settings_loaded:
  assumes "hash_settings E c s = (Inr c', s')" and "hash_fits (sc_hash_pass c)"
  shows "s' = s \<and> (\<exists>h t. hash_fits h \<and> c' = c\<lparr>sc_must_hash := lower_of E ''ACTIVATE_HASHING'', sc_hash_pass := h, sc_hash_sec := t\<rparr>)"
proof (cases "yes E ''ACTIVATE_HASHING''")
  case True
  with assms(1) obtain h where "getParamsHash E s = (Inr h, s')"
      "c' = c\<lparr>sc_must_hash := lower_of E ''ACTIVATE_HASHING'', sc_hash_pass := h, sc_hash_sec := text_of E ''HASH_SECRET''\<rparr>"
    by (auto simp: hash_settings_def loaded Let_def)
  with getParamsHash_loaded show ?thesis by blast
next
  case False
  with assms(1) have "s' = s" "c' = c\<lparr>sc_must_hash := lower_of E ''ACTIVATE_HASHING''\<rparr>"
    by (simp_all add: hash_settings_def loaded Let_def)
  moreover have "c\<lparr>sc_must_hash := x\<rparr> = c\<lparr>sc_must_hash := x, sc_hash_pass := sc_hash_pass c, sc_hash_sec := sc_hash_sec c\<rparr>" for x by simp
  ultimately show ?thesis using assms(2) by metis
qed

lemma cipher_settings_loaded:
  assumes "cipher_settings K E c s = (Inr c', s')" and "\<not> sc_must_cipher c"
  shows "s' = s \<and> (\<exists>k. (yes E ''ACTIVATE_CIPHER'' \<longrightarrow> text_of E ''CIPHER_KEY'' \<noteq> [] \<and> k = mc_sha3 K (mc_sha256 K (text_of E ''CIPHER_KEY''))) \<and>
    c' = c\<lparr>sc_must_cipher := yes E ''ACTIVATE_CIPHER'', sc_cipher_key := k, sc_blake2b_sec := text_of E ''BLAKE2B_SECRET'',
      sc_verify_email := yes E ''VERIFY_EMAIL'', sc_recover_pass := yes E ''RECOVER_PASSWORD''\<rparr>)"
proof (cases "yes E ''ACTIVATE_CIPHER''")
  case True
  with assms(1) show ?thesis by (auto simp: cipher_settings_def loaded split: if_splits)
next
  case False
  have "c\<lparr>sc_blake2b_sec := x, sc_verify_email := y, sc_recover_pass := z\<rparr> = c\<lparr>sc_must_cipher := False,
      sc_cipher_key := sc_cipher_key c, sc_blake2b_sec := x, sc_verify_email := y, sc_recover_pass := z\<rparr>" for x y z
    using assms(2) by (cases c) simp
  moreover from False assms(1) have "s' = s" "c' = c\<lparr>sc_blake2b_sec := text_of E ''BLAKE2B_SECRET'',
      sc_verify_email := yes E ''VERIFY_EMAIL'', sc_recover_pass := yes E ''RECOVER_PASSWORD''\<rparr>"
    by (simp_all add: cipher_settings_def loaded)
  ultimately show ?thesis using False by metis
qed

definition twofa_off :: "SecurityConfig \<Rightarrow> bool" where
  "twofa_off c \<longleftrightarrow> int64 (sc_2fa_digits c) \<and> sc_2fa_crypto c = 0"

lemma twofa_settings_loaded:
  assumes "twofa_settings K E c s = (Inr c', s')" and "twofa_off c"
  shows "cs_params s' = cs_params s \<and> cs_config s' = cs_config s \<and>
    (\<exists>i h d st path dh. int64 d \<and> h \<le> 7 \<and> (yes E ''ACTIVATE_2FA'' \<longrightarrow> s2_on st = text_of E ''TWO_FA_ON'' \<and> h = otp_hash (text_of E ''TWO_FA_CRYPTO'')) \<and>
       c' = c\<lparr>sc_must_2fa := lower_of E ''ACTIVATE_2FA'', sc_2fa_issuer := i, sc_2fa_crypto := h, sc_2fa_digits := d, sc_2fa_status := st,
         sc_2fa_path_qr := path, sc_2fa_double_hash := dh\<rparr> \<and> dh = (if yes E ''ACTIVATE_2FA'' then yes E ''TWO_FA_DOUBLE_HASH'' else sc_2fa_double_hash c))"
proof (cases "yes E ''ACTIVATE_2FA''")
  case True
  define st where "st = \<lparr>s2_verified = text_of E ''TWO_FA_VERIFIED'', s2_on = text_of E ''TWO_FA_ON'',
      s2_off = text_of E ''TWO_FA_OFF'', s2_invalid = text_of E ''TWO_FA_INVALID''\<rparr>"
  define path where "path = trim_right CHR ''/'' (text_of E ''TWO_FA_QR_PATH'')"
  from True assms(1) obtain d where d: "Atoi (text_of E ''TWO_FA_DIGITS'') = Inr d" "make_directory K path s = (Inr (), s')"
      "c' = c\<lparr>sc_must_2fa := lower_of E ''ACTIVATE_2FA'', sc_2fa_issuer := text_of E ''TWO_FA_ISSUER'', sc_2fa_crypto := otp_hash (text_of E ''TWO_FA_CRYPTO''),
         sc_2fa_digits := d, sc_2fa_status := st, sc_2fa_path_qr := path, sc_2fa_double_hash := yes E ''TWO_FA_DOUBLE_HASH''\<rparr>"
    by (auto simp: twofa_settings_def loaded Let_def st_def path_def)
  have st: "s2_on st = text_of E ''TWO_FA_ON''" by (simp add: st_def)
  have h: "otp_hash (text_of E ''TWO_FA_CRYPTO'') \<le> 7" by (simp add: otp_hash_def)
  show ?thesis
    using make_directory_loaded [OF d(2)] numbers_fit(1) [OF d(1)] st h d(3) True
    by (intro conjI exI [of _ "text_of E ''TWO_FA_ISSUER''"] exI [of _ "otp_hash (text_of E ''TWO_FA_CRYPTO'')"] exI [of _ d] exI [of _ st] exI [of _ path]
        exI [of _ "yes E ''TWO_FA_DOUBLE_HASH''"]) simp_all
next
  case False
  from False assms(1) have c': "s' = s" "c' = c\<lparr>sc_must_2fa := lower_of E ''ACTIVATE_2FA'', sc_2fa_issuer := sc_2fa_issuer c,
      sc_2fa_crypto := sc_2fa_crypto c, sc_2fa_digits := sc_2fa_digits c, sc_2fa_status := sc_2fa_status c,
      sc_2fa_path_qr := sc_2fa_path_qr c, sc_2fa_double_hash := sc_2fa_double_hash c\<rparr>"
    by (simp_all add: twofa_settings_def loaded Let_def)
  have "int64 (sc_2fa_digits c)" "sc_2fa_crypto c \<le> 7" using assms(2) by (simp_all add: twofa_off_def)
  with False c' show ?thesis
    by (intro conjI exI [of _ "sc_2fa_issuer c"] exI [of _ "sc_2fa_crypto c"] exI [of _ "sc_2fa_digits c"] exI [of _ "sc_2fa_status c"]
        exI [of _ "sc_2fa_path_qr c"] exI [of _ "sc_2fa_double_hash c"]) simp_all
qed

text \<open>All blocks together, on what the questions and the ranges are about.\<close>

definition security_answers :: "env \<Rightarrow> SecurityConfig \<Rightarrow> bool" where
  "security_answers E c \<longleftrightarrow>
     sc_must_basic_auth c = lower_of E ''ACTIVATE_BASIC_AUTH'' \<and> sc_must_jwt c = lower_of E ''ACTIVATE_JWT'' \<and>
     sc_invalidate_jwt c = lower_of E ''INVALIDATE_JWT'' \<and> sc_auth_cookie_activate c = yes E ''AUTH_COOKIE_ACTIVATE'' \<and>
     sc_must_hash c = lower_of E ''ACTIVATE_HASHING'' \<and> sc_must_cipher c = yes E ''ACTIVATE_CIPHER'' \<and>
     sc_verify_email c = yes E ''VERIFY_EMAIL'' \<and> sc_recover_pass c = yes E ''RECOVER_PASSWORD'' \<and>
     sc_must_2fa c = lower_of E ''ACTIVATE_2FA'' \<and>
     sc_2fa_double_hash c = (yes E ''ACTIVATE_2FA'' \<and> yes E ''TWO_FA_DOUBLE_HASH'') \<and>
     sc_must_fw c = lower_of E ''ACTIVATE_FIREWALL'' \<and> sc_must_cors c = lower_of E ''ACTIVATE_CORS'' \<and>
     sc_check_origin c = lower_of E ''ACTIVATE_ORIGIN_VALIDATION'' \<and> sc_rate_limit c = to_upper (text_of E ''RATE_LIMIT'') \<and>
     (yes E ''ACTIVATE_FIREWALL'' \<longrightarrow> sc_fw_list_type c = text_of E ''LISTTYPE'' \<and> sc_fw_ip c = text_of E ''IP'') \<and>
     sc_cors c = (if yes E ''ACTIVATE_CORS'' then cors_policies E else [])"

lemma cookie_settings_loaded:
  assumes "\<not> sc_auth_cookie_activate c" and "sc_auth_cookie_same_site c = 0"
  shows "\<exists>p d se h sa b. sa \<le> 4 \<and> cookie_settings E c = c\<lparr>sc_auth_cookie_activate := yes E ''AUTH_COOKIE_ACTIVATE'', sc_auth_cookie_path := p,
    sc_auth_cookie_domain := d, sc_auth_cookie_secure := se, sc_auth_cookie_http_only := h, sc_auth_cookie_same_site := sa, sc_serve_jwt_as_res_body := b\<rparr>"
proof (cases "yes E ''AUTH_COOKIE_ACTIVATE''")
  case True
  have "same_site (lower_of E ''AUTH_COOKIE_SameSite'') \<le> 4" by (simp add: same_site_def)
  moreover from True have "cookie_settings E c = c\<lparr>sc_auth_cookie_activate := yes E ''AUTH_COOKIE_ACTIVATE'',
      sc_auth_cookie_path := text_of E ''AUTH_COOKIE_PATH'', sc_auth_cookie_domain := text_of E ''AUTH_COOKIE_DOMAIN'',
      sc_auth_cookie_secure := yes E ''AUTH_COOKIE_SECURE'', sc_auth_cookie_http_only := yes E ''AUTH_COOKIE_HttpOnly'',
      sc_auth_cookie_same_site := same_site (lower_of E ''AUTH_COOKIE_SameSite''),
      sc_serve_jwt_as_res_body := (lower_of E ''SERVE_JWT_AS_RESPONSE_BODY'' \<noteq> ''no'')\<rparr>"
    by (simp add: cookie_settings_def)
  ultimately show ?thesis by blast
next
  case False
  have "cookie_settings E c = c\<lparr>sc_auth_cookie_activate := yes E ''AUTH_COOKIE_ACTIVATE'', sc_auth_cookie_path := sc_auth_cookie_path c,
      sc_auth_cookie_domain := sc_auth_cookie_domain c, sc_auth_cookie_secure := sc_auth_cookie_secure c,
      sc_auth_cookie_http_only := sc_auth_cookie_http_only c, sc_auth_cookie_same_site := 0,
      sc_serve_jwt_as_res_body := sc_serve_jwt_as_res_body c\<rparr>"
    using False assms by (cases c) (simp add: cookie_settings_def)
  moreover have "(0 :: nat) \<le> 4" by simp
  ultimately show ?thesis by blast
qed

definition secrets_loaded :: "machine \<Rightarrow> env \<Rightarrow> SecurityConfig \<Rightarrow> bool" where
  "secrets_loaded K E c \<longleftrightarrow>
     jwt_loaded E (sc_jwt c) \<and>
     (yes E ''ACTIVATE_CIPHER'' \<longrightarrow> text_of E ''CIPHER_KEY'' \<noteq> [] \<and> sc_cipher_key c = mc_sha3 K (mc_sha256 K (text_of E ''CIPHER_KEY''))) \<and>
     (yes E ''ACTIVATE_2FA'' \<longrightarrow> s2_on (sc_2fa_status c) = text_of E ''TWO_FA_ON'')"

text \<open>The chain of the blocks.\<close>

lemma security_steps:
  assumes "security K E s = (Inr c, s')"
  obtains c1 s1 c2 c2' s2 c3 s3 c4 s4 c5 where "password_settings E no_security s = (Inr c1, s1)" "token_settings_of K E c1 s1 = (Inr c2, s2)"
    "cookie_settings E c2 = c2'" "hash_settings E c2' s2 = (Inr c3, s3)" "cipher_settings K E c3 s3 = (Inr c4, s4)"
    "twofa_settings K E c4 s4 = (Inr c5, s')" "c = filter_settings E c5"
  using assms unfolding security_def by (simp add: andThen_loaded ret_loaded) blast

lemma filter_settings_selectors:
  "sc_must_fw (filter_settings E c) = lower_of E ''ACTIVATE_FIREWALL''" "sc_must_cors (filter_settings E c) = lower_of E ''ACTIVATE_CORS''"
  "sc_check_origin (filter_settings E c) = lower_of E ''ACTIVATE_ORIGIN_VALIDATION''"
  "sc_rate_limit (filter_settings E c) = to_upper (text_of E ''RATE_LIMIT'')"
  "sc_cors (filter_settings E c) = (if yes E ''ACTIVATE_CORS'' then cors_policies E else sc_cors c)"
  "yes E ''ACTIVATE_FIREWALL'' \<Longrightarrow> sc_fw_list_type (filter_settings E c) = text_of E ''LISTTYPE''"
  "yes E ''ACTIVATE_FIREWALL'' \<Longrightarrow> sc_fw_ip (filter_settings E c) = text_of E ''IP''"
  "sc_user_pass_min_length (filter_settings E c) = sc_user_pass_min_length c" "sc_must_basic_auth (filter_settings E c) = sc_must_basic_auth c"
  "sc_must_jwt (filter_settings E c) = sc_must_jwt c" "sc_jwt (filter_settings E c) = sc_jwt c"
  "sc_invalidate_jwt (filter_settings E c) = sc_invalidate_jwt c" "sc_auth_cookie_activate (filter_settings E c) = sc_auth_cookie_activate c"
  "sc_auth_cookie_same_site (filter_settings E c) = sc_auth_cookie_same_site c" "sc_must_hash (filter_settings E c) = sc_must_hash c"
  "sc_hash_pass (filter_settings E c) = sc_hash_pass c" "sc_must_cipher (filter_settings E c) = sc_must_cipher c"
  "sc_cipher_key (filter_settings E c) = sc_cipher_key c" "sc_verify_email (filter_settings E c) = sc_verify_email c"
  "sc_recover_pass (filter_settings E c) = sc_recover_pass c" "sc_must_2fa (filter_settings E c) = sc_must_2fa c"
  "sc_2fa_crypto (filter_settings E c) = sc_2fa_crypto c" "sc_2fa_digits (filter_settings E c) = sc_2fa_digits c"
  "sc_2fa_status (filter_settings E c) = sc_2fa_status c" "sc_2fa_double_hash (filter_settings E c) = sc_2fa_double_hash c"
  by (simp_all add: filter_settings_def Let_def)

lemma no_security_selectors:
  "sc_user_pass_min_length no_security = 0" "sc_jwt no_security = no_jwt_parameters" "sc_auth_cookie_activate no_security = False"
  "sc_auth_cookie_same_site no_security = 0" "sc_hash_pass no_security = no_hash_pass" "sc_must_cipher no_security = False"
  "sc_2fa_digits no_security = 0" "sc_2fa_crypto no_security = 0" "sc_2fa_double_hash no_security = False" "sc_cors no_security = []"
  by (simp_all add: no_security_def)

lemma security_loaded:
  assumes "security K E s = (Inr c, s')" and "cs_params s = no_jwt_parameters"
  shows "security_fits c \<and> security_answers E c \<and> secrets_loaded K E c \<and> cs_params s' = sc_jwt c \<and> cs_config s' = cs_config s"
  using assms(1)
proof (rule security_steps)
  fix c1 s1 c2 c2' s2 c3 s3 c4 s4 c5
  assume st: "password_settings E no_security s = (Inr c1, s1)" "token_settings_of K E c1 s1 = (Inr c2, s2)"
    "cookie_settings E c2 = c2'" "hash_settings E c2' s2 = (Inr c3, s3)" "cipher_settings K E c3 s3 = (Inr c4, s4)"
    "twofa_settings K E c4 s4 = (Inr c5, s')" "c = filter_settings E c5"
  note sel = no_security_selectors numbers_fit(4)
  from password_settings_loaded [OF st(1)] obtain n u p where c1: "s1 = s" "int64 n"
      "c1 = no_security\<lparr>sc_user_pass_min_length := n, sc_must_basic_auth := lower_of E ''ACTIVATE_BASIC_AUTH'', sc_basic_username := u, sc_basic_password := p\<rparr>"
    by (auto simp: sel)
  from token_settings_loaded [OF st(2)] assms(2) obtain q where c2: "params_fit q" "jwt_loaded E q" "cs_params s2 = q" "cs_config s2 = cs_config s"
      "c2 = c1\<lparr>sc_jwt := q, sc_must_jwt := lower_of E ''ACTIVATE_JWT'', sc_invalidate_jwt := lower_of E ''INVALIDATE_JWT''\<rparr>"
    by (auto simp: c1 sel)
  from cookie_settings_loaded [of c2 E] obtain pa d se h sa b where c2': "sa \<le> 4"
      "c2' = c2\<lparr>sc_auth_cookie_activate := yes E ''AUTH_COOKIE_ACTIVATE'', sc_auth_cookie_path := pa,
        sc_auth_cookie_domain := d, sc_auth_cookie_secure := se, sc_auth_cookie_http_only := h, sc_auth_cookie_same_site := sa, sc_serve_jwt_as_res_body := b\<rparr>"
    unfolding st(3) by (auto simp: c2(5) c1(3) sel)
  have "hash_fits (sc_hash_pass c2')" unfolding c2'(2) c2(5) c1(3) by (simp add: sel hash_fits_def no_hash_pass_def)
  with hash_settings_loaded [OF st(4)] obtain hp t where c3: "s3 = s2" "hash_fits hp"
      "c3 = c2'\<lparr>sc_must_hash := lower_of E ''ACTIVATE_HASHING'', sc_hash_pass := hp, sc_hash_sec := t\<rparr>"
    by blast
  from cipher_settings_loaded [OF st(5)] obtain k where c4: "s4 = s3"
      "yes E ''ACTIVATE_CIPHER'' \<longrightarrow> text_of E ''CIPHER_KEY'' \<noteq> [] \<and> k = mc_sha3 K (mc_sha256 K (text_of E ''CIPHER_KEY''))"
      "c4 = c3\<lparr>sc_must_cipher := yes E ''ACTIVATE_CIPHER'', sc_cipher_key := k, sc_blake2b_sec := text_of E ''BLAKE2B_SECRET'',
        sc_verify_email := yes E ''VERIFY_EMAIL'', sc_recover_pass := yes E ''RECOVER_PASSWORD''\<rparr>"
    by (auto simp: c3(3) c2'(2) c2(5) c1(3) sel)
  have off: "twofa_off c4" "sc_2fa_double_hash c4 = False"
    by (simp_all add: twofa_off_def c4(3) c3(3) c2'(2) c2(5) c1(3) sel)
  from twofa_settings_loaded [OF st(6) off(1)] obtain i al dg sta path dh where c5: "cs_params s' = cs_params s4" "cs_config s' = cs_config s4"
      "int64 dg" "al \<le> 7" "yes E ''ACTIVATE_2FA'' \<longrightarrow> s2_on sta = text_of E ''TWO_FA_ON''"
      "dh = (yes E ''ACTIVATE_2FA'' \<and> yes E ''TWO_FA_DOUBLE_HASH'')"
      "c5 = c4\<lparr>sc_must_2fa := lower_of E ''ACTIVATE_2FA'', sc_2fa_issuer := i, sc_2fa_crypto := al, sc_2fa_digits := dg, sc_2fa_status := sta,
         sc_2fa_path_qr := path, sc_2fa_double_hash := dh\<rparr>"
    by (auto simp: off(2) split: if_splits)
  note cs = c5(7) c4(3) c3(3) c2'(2) c2(5) c1(3)
  have "security_fits c"
    unfolding security_fits_def st(7) filter_settings_selectors cs using c1(2) c2(1) c2'(1) c3(2) c5(3,4) by simp
  moreover have "security_answers E c"
    unfolding security_answers_def st(7) by (simp add: filter_settings_selectors cs sel c5(6))
  moreover have "secrets_loaded K E c"
    unfolding secrets_loaded_def st(7) filter_settings_selectors cs using c2(2) c4(2) c5(5) by simp
  moreover have "cs_params s' = sc_jwt c \<and> cs_config s' = cs_config s"
    unfolding st(7) filter_settings_selectors using c2(3,4) c3(1) c4(1) c5(1,2) by (simp add: cs)
  ultimately show ?thesis by blast
qed

section \<open>The whole configuration\<close>

definition configuration_loaded :: "machine \<Rightarrow> env \<Rightarrow> Configuration \<Rightarrow> config_state \<Rightarrow> bool" where
  "configuration_loaded K E cfg s \<longleftrightarrow>
     mc_env K = Inr E \<and> cs_config s = Some cfg \<and> cs_params s = sc_jwt (cf_security cfg) \<and> configuration_fits cfg \<and>
     security_answers E (cf_security cfg) \<and> secrets_loaded K E (cf_security cfg) \<and> cf_logger cfg = logger E \<and> cf_server cfg = server E \<and>
     ec_activate (cf_email cfg) = lower_of E ''ACTIVATE_EMAIL_SERVICE'' \<and> vw_activate (cf_view cfg) = lower_of E ''ACTIVATE_VIEW'' \<and>
     (ec_verification_uuid (cf_email cfg) \<longleftrightarrow> yes E ''ACTIVATE_EMAIL_SERVICE'' \<and> yes E ''EMAIL_VERIFY_USE_UUIDv4'') \<and>
     (ec_recover_uuid (cf_email cfg) \<longleftrightarrow> yes E ''ACTIVATE_EMAIL_SERVICE'' \<and> yes E ''EMAIL_PASS_RECOVER_USE_UUIDv4'') \<and>
     re_activate (db_redis (cf_database cfg)) = lower_of E ''ACTIVATE_REDIS'' \<and>
     mo_activate (db_mongo (cf_database cfg)) = lower_of E ''ACTIVATE_MONGO'' \<and>
     bd_activate (db_badger (cf_database cfg)) = lower_of E ''ACTIVATE_BADGER'' \<and>
     (if yes E ''ACTIVATE_RDBMS'' then \<exists>r. db_rdbms (cf_database cfg) AppDB = Some r \<and> rd_activate r = Activated
      else db_rdbms (cf_database cfg) = Map.empty)"

lemma Config_loaded:
  assumes "Config K s = (Inr (), s')" and "cs_params s = no_jwt_parameters"
  shows "\<exists>E cfg. configuration_loaded K E cfg s'"
proof -
  from assms(1) obtain E db s1 mail s2 sec s3 views s4 where st: "mc_env K = Inr E" "database E s = (Inr db, s1)" "email E s1 = (Inr mail, s2)"
      "security K E s2 = (Inr sec, s3)" "view K E s3 = (Inr views, s4)"
    and s': "s' = s4\<lparr>cs_config := Some \<lparr>cf_version = text_of E ''RELEASE_VERSION_OR_COMMIT_NUMBER'', cf_database = db, cf_email = mail,
       cf_logger = logger E, cf_server = server E, cf_security = sec, cf_view = views\<rparr>\<rparr>"
    unfolding Config_def by (simp add: andThen_loaded answer_loaded upd_loaded) blast
  from database_loaded [OF st(2)] email_loaded [OF st(3)] assms(2) have "cs_params s2 = no_jwt_parameters" by simp
  with database_loaded [OF st(2)] email_loaded [OF st(3)] security_loaded [OF st(4)] view_loaded [OF st(5)] st(1) s'
  show ?thesis by (auto simp: configuration_loaded_def configuration_fits_def)
qed

text \<open>C16. A configuration that loads is well typed: every number is in the range of its Go field, the JWT
  middleware holds the parameters of the configuration, with tokens on the algorithm is one of the nine
  the program signs with (and an HMAC key signs and checks), with tokens off there are no parameters,
  and with the cipher on its key is the digest of a secret that is not empty.\<close>

theorem loaded_configuration_well_typed:
  assumes "Config K fresh_state = (Inr (), s)"
  shows "\<exists>cfg. GetConfig s = Some cfg \<and> configuration_fits cfg \<and> cs_params s = jwt_params cfg \<and>
    (if IsJWT cfg then jp_algorithm (jwt_params cfg) \<in> set jwt_algorithms \<and> (hmac_alg (jp_algorithm (jwt_params cfg)) \<longrightarrow> keys_match (jwt_params cfg))
     else jwt_params cfg = no_jwt_parameters) \<and>
    (IsCipher cfg \<longrightarrow> (\<exists>k. k \<noteq> [] \<and> sc_cipher_key (cf_security cfg) = mc_sha3 K (mc_sha256 K k)))"
proof -
  from Config_loaded [OF assms] obtain E cfg where "configuration_loaded K E cfg s" by (auto simp: fresh_state_def)
  then have c: "cs_config s = Some cfg" "cs_params s = jwt_params cfg" "configuration_fits cfg" "security_answers E (cf_security cfg)"
      "secrets_loaded K E (cf_security cfg)"
    by (simp_all add: configuration_loaded_def)
  from c(4) have "IsJWT cfg = yes E ''ACTIVATE_JWT''" "IsCipher cfg = yes E ''ACTIVATE_CIPHER''"
    by (simp_all add: security_answers_def IsJWT_def IsCipher_def yes_def)
  with c show ?thesis by (auto simp: GetConfig_def secrets_loaded_def jwt_loaded_def keys_match_def)
qed

text \<open>The questions of the configuration answer what the environment says: each of them is whether its
  variable, trimmed and in lower case, is \<^verbatim>\<open>yes\<close>.\<close>

theorem questions_answer_environment:
  assumes "Config K fresh_state = (Inr (), s)"
  shows "\<exists>E cfg. mc_env K = Inr E \<and> GetConfig s = Some cfg \<and>
    IsProd cfg = (lower_of E ''APP_ENV'' = ''production'') \<and> IsSentry cfg = yes E ''ACTIVATE_SENTRY'' \<and>
    IsBasicAuth cfg = yes E ''ACTIVATE_BASIC_AUTH'' \<and> IsJWT cfg = yes E ''ACTIVATE_JWT'' \<and> InvalidateJWT cfg = yes E ''INVALIDATE_JWT'' \<and>
    IsAuthCookie cfg = yes E ''AUTH_COOKIE_ACTIVATE'' \<and> IsHashPass cfg = yes E ''ACTIVATE_HASHING'' \<and> IsCipher cfg = yes E ''ACTIVATE_CIPHER'' \<and>
    Is2FA cfg = yes E ''ACTIVATE_2FA'' \<and> Is2FADoubleHash cfg = (yes E ''ACTIVATE_2FA'' \<and> yes E ''TWO_FA_DOUBLE_HASH'') \<and>
    IsWAF cfg = yes E ''ACTIVATE_FIREWALL'' \<and> IsCORS cfg = yes E ''ACTIVATE_CORS'' \<and> IsOriginCheck cfg = yes E ''ACTIVATE_ORIGIN_VALIDATION'' \<and>
    IsRateLimit cfg = (text_of E ''RATE_LIMIT'' \<noteq> []) \<and> IsTemplatingEngine cfg = yes E ''ACTIVATE_VIEW'' \<and> IsRDBMS cfg = yes E ''ACTIVATE_RDBMS'' \<and>
    IsRedis cfg = yes E ''ACTIVATE_REDIS'' \<and> IsMongo cfg = yes E ''ACTIVATE_MONGO'' \<and> IsBadger cfg = yes E ''ACTIVATE_BADGER'' \<and>
    IsEmailService cfg = yes E ''ACTIVATE_EMAIL_SERVICE'' \<and> IsEmailVerificationService cfg = yes E ''VERIFY_EMAIL'' \<and>
    IsPassRecoveryService cfg = yes E ''RECOVER_PASSWORD'' \<and>
    IsEmailVerificationCodeUUIDv4 cfg = (yes E ''ACTIVATE_EMAIL_SERVICE'' \<and> yes E ''EMAIL_VERIFY_USE_UUIDv4'') \<and>
    IsPasswordRecoverCodeUUIDv4 cfg = (yes E ''ACTIVATE_EMAIL_SERVICE'' \<and> yes E ''EMAIL_PASS_RECOVER_USE_UUIDv4'')"
proof -
  from Config_loaded [OF assms] obtain E cfg where c: "configuration_loaded K E cfg s" by (auto simp: fresh_state_def)
  then have "IsRDBMS cfg = yes E ''ACTIVATE_RDBMS''"
    by (auto simp: configuration_loaded_def IsRDBMS_def no_rdbms_def Activated_def split: if_splits)
  moreover have "IsSentry cfg = yes E ''ACTIVATE_SENTRY''"
    using c by (simp add: configuration_loaded_def IsSentry_def logger_def Let_def yes_def)
  moreover have "mc_env K = Inr E" "cs_config s = Some cfg" "security_answers E (cf_security cfg)"
    using c by (simp_all add: configuration_loaded_def)
  moreover note c [unfolded configuration_loaded_def]
  ultimately show ?thesis
    unfolding GetConfig_def
    by (intro exI [of _ E] exI [of _ cfg])
      (simp add: security_answers_def IsProd_def IsBasicAuth_def IsJWT_def InvalidateJWT_def IsAuthCookie_def IsHashPass_def IsCipher_def
        Is2FA_def Is2FADoubleHash_def IsWAF_def IsCORS_def IsOriginCheck_def IsRateLimit_def IsTemplatingEngine_def IsRedis_def IsMongo_def
        IsBadger_def IsEmailService_def IsEmailVerificationService_def IsPassRecoveryService_def IsEmailVerificationCodeUUIDv4_def
        IsPasswordRecoverCodeUUIDv4_def server_def yes_def to_upper_def)
qed

section \<open>Failures\<close>

text \<open>Nothing but the last step of \<^const>\<open>Config\<close> installs a configuration, and no step panics.\<close>

named_theorems quiet_rules \<open>programs that install no configuration\<close>

definition quiet :: "'a loader \<Rightarrow> bool" where
  "quiet m \<longleftrightarrow> (\<forall>s. cs_config (snd (m s)) = cs_config s \<and> fst (m s) \<noteq> Inl GoPanic)"

lemma quiet_basics [quiet_rules]: "quiet (ret a)" "quiet (raise e)" "quiet get_st" "quiet (setParamsJWT p)"
  "quiet (number f t)" "quiet (duration t)" "quiet (answer r)"
  by (simp_all add: quiet_def ret_def raise_def get_st_def setParamsJWT_def upd_st_def number_def duration_def answer_def
      split: sum.splits option.splits)

lemma quiet_andThen [quiet_rules]: "quiet m \<Longrightarrow> (\<And>a. quiet (f a)) \<Longrightarrow> quiet (andThen m f)"
  unfolding quiet_def andThen_def by (auto split: prod.splits sum.splits) (metis fst_conv snd_conv)+

lemma quiet_if [quiet_rules]: "(b \<Longrightarrow> quiet m) \<Longrightarrow> (\<not> b \<Longrightarrow> quiet m') \<Longrightarrow> quiet (if b then m else m')"
  by simp

lemma quiet_let [quiet_rules]: "quiet (f a) \<Longrightarrow> quiet (let x = a in f x)"
  by simp

lemma quiet_make_directory [quiet_rules]: "quiet (make_directory K d)"
  by (auto simp: quiet_def make_directory_def andThen_def get_st_def ret_def raise_def upd_st_def split: option.splits)

lemma quiet_database: "quiet (database E)"
  unfolding database_def rdbms_map_def loadRDBMSConfig_def databaseRedis_def databaseMongo_def by (intro quiet_rules)

lemma quiet_email: "quiet (email E)"
  unfolding email_def by (intro quiet_rules)

lemma quiet_view: "quiet (view K E)"
  unfolding view_def by (intro quiet_rules)

lemma quiet_security: "quiet (security K E)"
  unfolding security_def password_settings_def token_settings_of_def getParamsJWT_def private_key_def public_key_def hash_settings_def
    getParamsHash_def cipher_settings_def twofa_settings_def
  by (intro quiet_rules)

definition fails_quietly :: "'a loader \<Rightarrow> bool" where
  "fails_quietly m \<longleftrightarrow> (\<forall>s x s'. m s = (Inl x, s') \<longrightarrow> cs_config s' = cs_config s \<and> x \<noteq> GoPanic)"

lemma fails_quietly_andThen: "quiet m \<Longrightarrow> (\<And>a. fails_quietly (f a)) \<Longrightarrow> fails_quietly (andThen m f)"
  unfolding quiet_def fails_quietly_def andThen_def by (auto split: prod.splits sum.splits) (metis fst_conv snd_conv)+

lemma fails_quietly_upd: "fails_quietly (upd_st f)"
  by (simp add: fails_quietly_def upd_st_def)

lemma Config_fails_quietly: "fails_quietly (Config K)"
  unfolding Config_def
  by (intro fails_quietly_andThen fails_quietly_upd quiet_basics quiet_database quiet_email quiet_security quiet_view)


section \<open>A machine\<close>

text \<open>Tokens, the cipher and the filters are on; the access key is forgotten.\<close>

definition example_env :: env where
  "example_env =
     (\<lambda>_. [])(''ACTIVATE_JWT'' := ''yes'', ''ACCESS_KEY_TTL'' := ''5'', ''REFRESH_KEY'' := ''b'', ''REFRESH_KEY_TTL'' := ''9'',
       ''NOT_BEFORE_ACC'' := ''0'', ''NOT_BEFORE_REF'' := ''0'', ''ACTIVATE_CIPHER'' := ''yes'', ''CIPHER_KEY'' := ''k'',
       ''ACTIVATE_FIREWALL'' := ''yes'', ''LISTTYPE'' := ''whitelist'', ''IP'' := ''10.0.0.7'', ''ACTIVATE_CORS'' := ''yes'', ''CORS_ORIGIN'' := ''https://a.b'',
       ''ACTIVATE_ORIGIN_VALIDATION'' := ''yes'')"

text \<open>Its values are trimmed already, and in lower case.\<close>

lemma plain: "v \<in> {[], ''yes'', ''b'', ''k'', ''5'', ''9'', ''0'', ''whitelist'', ''10.0.0.7'', ''https://a.b''} \<Longrightarrow> trim_space v = v \<and> to_lower v = v"
  by (elim insertE emptyE; simp only:; code_simp)

lemma example_values: "example_env k \<in> {[], ''yes'', ''b'', ''k'', ''5'', ''9'', ''0'', ''whitelist'', ''10.0.0.7'', ''https://a.b''}"
  unfolding example_env_def fun_upd_apply by (simp split: if_split)

lemma text_of_example: "text_of example_env k = example_env k"
  using plain [OF example_values [of k]] by (simp only: text_of_def)

lemma yes_example: "yes example_env k \<longleftrightarrow> example_env k = ''yes''"
  using plain [OF example_values [of k]] by (simp only: yes_def lower_of_def text_of_example Activated_def)

definition example_machine :: machine where
  "example_machine =
     \<lparr>mc_env = Inr example_env, mc_missing = \<lambda>_ _. False, mc_mkdir = \<lambda>_ _. None, mc_read = \<lambda>_. Inl ''no such file'',
      mc_ec_private = \<lambda>_. Inl [], mc_ec_public = \<lambda>_. Inl [], mc_rsa_private = \<lambda>_. Inl [], mc_rsa_public = \<lambda>_. Inl [],
      mc_sha256 = \<lambda>x. x, mc_sha3 = \<lambda>x. x\<rparr>"

lemma numbers: "Atoi ''5'' = Inr 5" "Atoi ''9'' = Inr 9" "Atoi ''0'' = Inr 0"
  by (simp_all add: Atoi_def ParseInt64_def ParseUint_def is_digit_def digit_val_def)

definition succeeds :: "'a loader \<Rightarrow> bool" where
  "succeeds m \<longleftrightarrow> (\<forall>s. \<exists>a s'. m s = (Inr a, s'))"

lemma succeeds_rules:
  "succeeds (ret a)" "succeeds (upd_st f)" "h t = Inr n \<Longrightarrow> succeeds (number h t)" "r = Inr a \<Longrightarrow> succeeds (answer r)"
  "succeeds m \<Longrightarrow> (\<And>a. succeeds (f' a)) \<Longrightarrow> succeeds (andThen m f')"
  by (simp_all add: succeeds_def ret_def upd_st_def number_def answer_def andThen_def) (metis (no_types, lifting) case_prod_conv sum.simps(6))

lemma succeeds_numbers: "succeeds (number Atoi ''5'')" "succeeds (number Atoi ''9'')" "succeeds (number Atoi ''0'')"
  by (rule succeeds_rules(3), rule numbers)+

lemma off: "\<not> yes example_env ''ACTIVATE_RDBMS''" "\<not> yes example_env ''ACTIVATE_REDIS''" "\<not> yes example_env ''ACTIVATE_MONGO''"
  "\<not> yes example_env ''ACTIVATE_EMAIL_SERVICE''" "\<not> yes example_env ''ACTIVATE_HASHING''" "\<not> yes example_env ''ACTIVATE_2FA''"
  "\<not> yes example_env ''ACTIVATE_VIEW''" "yes example_env ''ACTIVATE_JWT''" "yes example_env ''ACTIVATE_CIPHER''"
  "text_of example_env ''MIN_PASS_LENGTH'' = []" "text_of example_env ''PRIV_KEY_FILE_PATH'' = []" "text_of example_env ''PUB_KEY_FILE_PATH'' = []"
  "text_of example_env ''JWT_ALG'' = []" "text_of example_env ''ACCESS_KEY_TTL'' = ''5''" "text_of example_env ''REFRESH_KEY_TTL'' = ''9''"
  "text_of example_env ''NOT_BEFORE_ACC'' = ''0''" "text_of example_env ''NOT_BEFORE_REF'' = ''0''" "text_of example_env ''CIPHER_KEY'' = ''k''"
  unfolding yes_example text_of_example by (simp_all add: example_env_def)

lemma succeeds_cond: "(b \<Longrightarrow> succeeds m) \<Longrightarrow> (\<not> b \<Longrightarrow> succeeds m') \<Longrightarrow> succeeds (if b then m else m')"
  by simp

lemma succeeds_database: "succeeds (database example_env)"
  unfolding database_def rdbms_map_def by (simp only: off if_False simp_thms) (intro succeeds_rules)

lemma succeeds_jwt: "succeeds (getParamsJWT K example_env)"
  unfolding getParamsJWT_def off private_key_def public_key_def
  by (simp add: jwt_algorithms_def Let_def) (intro succeeds_rules(1,2,5) succeeds_numbers)

lemma succeeds_security: "succeeds (security K example_env)"
  unfolding security_def password_settings_def token_settings_of_def hash_settings_def cipher_settings_def twofa_settings_def Let_def setParamsJWT_def
  by (simp only: off if_True if_False simp_thms list.simps) (intro succeeds_rules(1,2,5) succeeds_jwt)

lemma example_loads: "succeeds (Config example_machine)"
  unfolding Config_def email_def view_def Let_def
  by (simp add: off example_machine_def answer_def) (intro succeeds_rules(1,2,5) succeeds_database succeeds_security)

lemma example_run: "Config example_machine fresh_state = (Inr (), snd (Config example_machine fresh_state))"
  using example_loads by (auto simp: succeeds_def) (metis snd_conv)

theorem loaded_configuration_well_typed_witness:
  "\<exists>cfg. GetConfig (snd (Config example_machine fresh_state)) = Some cfg \<and> configuration_fits cfg"
  using loaded_configuration_well_typed [OF example_run] by blast

theorem questions_answer_environment_witness:
  "\<exists>cfg. GetConfig (snd (Config example_machine fresh_state)) = Some cfg \<and> IsJWT cfg \<and> \<not> Is2FA cfg"
proof -
  have "mc_env example_machine = Inr example_env" by (simp add: example_machine_def)
  with questions_answer_environment [OF example_run] obtain cfg where "GetConfig (snd (Config example_machine fresh_state)) = Some cfg"
      "IsJWT cfg = yes example_env ''ACTIVATE_JWT''" "Is2FA cfg = yes example_env ''ACTIVATE_2FA''"
    by (metis sum.inject(2))
  with off show ?thesis by blast
qed

text \<open>A missing access key is accepted: tokens are then signed with the empty key.\<close>

lemma missing_access_key_accepted:
  "\<exists>cfg. GetConfig (snd (Config example_machine fresh_state)) = Some cfg \<and> IsJWT cfg \<and> signing_key (jwt_params cfg) (jp_access_key (jwt_params cfg)) = (''HS256'', KeyBytes [])"
proof -
  obtain E cfg where c: "configuration_loaded example_machine E cfg (snd (Config example_machine fresh_state))"
    using Config_loaded [OF example_run] by (auto simp: fresh_state_def)
  then have E: "E = example_env" by (simp add: configuration_loaded_def example_machine_def)
  with c have "jwt_loaded example_env (jwt_params cfg)" "IsJWT cfg" "GetConfig (snd (Config example_machine fresh_state)) = Some cfg"
    using off(8) by (simp_all add: configuration_loaded_def secrets_loaded_def security_answers_def IsJWT_def yes_def GetConfig_def)
  moreover have "text_of example_env ''ACCESS_KEY'' = []" unfolding text_of_example by (simp add: example_env_def)
  ultimately show ?thesis using off(8,13) by (auto simp: jwt_loaded_def algorithm_of_def signing_key_def hmac_alg_def)
qed

text \<open>No environment at all: the file is missing.\<close>

lemma missing_file: "Config (example_machine\<lparr>mc_env := Inl ''no .env''\<rparr>) fresh_state = (Inl (Raise (Failed ''no .env'')), fresh_state)"
  by (simp add: Config_def andThen_def answer_def raise_def)


end
