(* ===== verification/Go_Net.thy ===== *)
theory Go_Net
  imports Go_Bytes
begin

text \<open>
  The part of package \<^verbatim>\<open>net\<close> that the firewall uses: reading and printing addresses, networks
  in CIDR notation, and whether a network contains an address.  An address is the list of its bytes,
  16 of them (a version 4 address after \<open>::ffff\<close>) or 4.
\<close>

unbundle bit_operations_syntax

section \<open>Version 4\<close>

definition v4_field :: "string \<Rightarrow> nat option" where
  "v4_field f =
     (if f \<noteq> [] \<and> list_all is_digit f \<and> (hd f = CHR ''0'' \<longrightarrow> length f = 1) \<and> read_nat f \<le> 255 then Some (read_nat f) else None)"

definition parse_v4 :: "string \<Rightarrow> nat list option" where
  "parse_v4 s =
     (case map v4_field (split_on CHR ''.'' s) of
        [Some a, Some b, Some c, Some d] \<Rightarrow> Some [a, b, c, d]
      | _ \<Rightarrow> None)"

definition show_v4 :: "nat list \<Rightarrow> string" where
  "show_v4 bs = join_with CHR ''.'' (map show_nat bs)"

section \<open>Version 6\<close>

definition v4_prefix :: "nat list" where
  "v4_prefix = replicate 10 0 @ [255, 255]"

text \<open>The hexadecimal digits at the front of a text.\<close>

definition hex_front :: "string \<Rightarrow> string" where
  "hex_front s = takeWhile (\<lambda>c. hex_val c \<noteq> None) s"

definition hex_number :: "string \<Rightarrow> nat" where
  "hex_number ds = fold (\<lambda>c n. 16 * n + the (hex_val c)) ds 0"

text \<open>The loop over the groups, at most \<open>k\<close> more: the bytes so far, where \<open>::\<close> was, and the rest of the
  text.\<close>

fun v6_groups :: "nat \<Rightarrow> nat list \<Rightarrow> nat option \<Rightarrow> string \<Rightarrow> (nat list \<times> nat option \<times> string) option" where
  "v6_groups 0 bs ell s = Some (bs, ell, s)"
| "v6_groups (Suc k) bs ell s =
     (let ds = hex_front s; r = drop (length ds) s in
      if ds = [] \<or> length ds > 4 then None
      else
        case r of
          [] \<Rightarrow> Some (bs @ [hex_number ds div 256, hex_number ds mod 256], ell, [])
        | c # r' \<Rightarrow>
            if c = CHR ''.'' then
              (if ell = None \<and> length bs \<noteq> 12 \<or> length bs + 4 > 16 then None
               else map_option (\<lambda>q. (bs @ q, ell, [])) (parse_v4 s))
            else if c \<noteq> CHR '':'' \<or> r' = [] then None
            else
              (let bs' = bs @ [hex_number ds div 256, hex_number ds mod 256] in
               if hd r' = CHR '':'' then
                 (if ell \<noteq> None then None
                  else if tl r' = [] then Some (bs', Some (length bs'), [])
                  else v6_groups k bs' (Some (length bs')) (tl r'))
               else v6_groups k bs' ell r'))"

definition v6_expand :: "nat list \<times> nat option \<times> string \<Rightarrow> nat list option" where
  "v6_expand p =
     (case p of (bs, ell, s) \<Rightarrow>
        if s \<noteq> [] then None
        else if length bs < 16 then
          map_option (\<lambda>e. take e bs @ replicate (16 - length bs) 0 @ drop e bs) ell
        else if ell \<noteq> None then None else Some bs)"

text \<open>An address with a zone (after a percent sign) is refused by every caller here.\<close>

definition parse_v6 :: "string \<Rightarrow> nat list option" where
  "parse_v6 s =
     (if take 2 s = ''::'' then
        (if length s = 2 then Some (replicate 16 0) else Option.bind (v6_groups 8 [] (Some 0) (drop 2 s)) v6_expand)
      else Option.bind (v6_groups 8 [] None s) v6_expand)"

text \<open>\<^verbatim>\<open>netip.ParseAddr\<close> without zones: the first dot or colon decides; the number of bits is that of the
  notation.\<close>

definition parse_addr :: "string \<Rightarrow> (nat \<times> nat list) option" where
  "parse_addr s =
     (if CHR ''%'' \<in> set s then None
      else case find (\<lambda>c. c = CHR ''.'' \<or> c = CHR '':'') s of
             None \<Rightarrow> None
           | Some c \<Rightarrow>
               if c = CHR ''.'' then map_option (\<lambda>bs. (32, v4_prefix @ bs)) (parse_v4 s)
               else map_option (\<lambda>bs. (128, bs)) (parse_v6 s))"

definition ParseIP :: "string \<Rightarrow> nat list option" where
  "ParseIP s = map_option snd (parse_addr s)"

definition To4 :: "nat list \<Rightarrow> nat list option" where
  "To4 ip = (if length ip = 4 then Some ip else if length ip = 16 \<and> take 12 ip = v4_prefix then Some (drop 12 ip) else None)"

subsection \<open>Printing\<close>

fun hex_digits :: "nat \<Rightarrow> string" where
  "hex_digits n = (if n < 16 then [hex_char n] else hex_digits (n div 16) @ [hex_char (n mod 16)])"

declare hex_digits.simps [simp del]

fun v6_numbers :: "nat list \<Rightarrow> nat list" where
  "v6_numbers (a # b # bs) = (256 * a + b) # v6_numbers bs"
| "v6_numbers _ = []"

text \<open>The first of the longest runs of at least two zero groups: where it begins and its length.\<close>

definition zero_run :: "nat list \<Rightarrow> nat \<Rightarrow> nat" where
  "zero_run gs i = length (takeWhile (\<lambda>g. g = 0) (drop i gs))"

definition longest_run :: "nat list \<Rightarrow> nat \<times> nat" where
  "longest_run gs =
     fold (\<lambda>i best. if 2 \<le> zero_run gs i \<and> snd best < zero_run gs i then (i, zero_run gs i) else best) [0..<length gs] (0, 0)"

definition show_v6 :: "nat list \<Rightarrow> string" where
  "show_v6 bs =
     (let gs = v6_numbers bs in
      case longest_run gs of
        (i, n) \<Rightarrow>
          if n = 0 then join_with CHR '':'' (map hex_digits gs)
          else (if i = 0 then [] else join_with CHR '':'' (map hex_digits (take i gs))) @ ''::'' @
            (if i + n = length gs then [] else join_with CHR '':'' (map hex_digits (drop (i + n) gs))))"

definition ip_string :: "nat list \<Rightarrow> string" where
  "ip_string ip = (case To4 ip of Some bs \<Rightarrow> show_v4 bs | None \<Rightarrow> show_v6 ip)"

section \<open>Networks\<close>

record ip_net =
  nt_ip :: "nat list"
  nt_mask :: "nat list"

definition CIDRMask :: "nat \<Rightarrow> nat \<Rightarrow> nat list" where
  "CIDRMask ones bits = map (\<lambda>i. let n = min 8 (ones - 8 * i) in 256 - 2 ^ (8 - n)) [0..<bits div 8]"

definition ip_mask :: "nat list \<Rightarrow> nat list \<Rightarrow> nat list" where
  "ip_mask ip m =
     (let ip' = (if length m = 4 \<and> length ip = 16 \<and> take 12 ip = v4_prefix then drop 12 ip else ip) in
      map2 (AND) ip' m)"

definition dtoi :: "string \<Rightarrow> nat option" where
  "dtoi s = (if s \<noteq> [] \<and> list_all is_digit s \<and> read_nat s < 0xFFFFFF then Some (read_nat s) else None)"

definition ParseCIDR :: "string \<Rightarrow> ip_net option" where
  "ParseCIDR s =
     (let a = takeWhile (\<lambda>c. c \<noteq> CHR ''/'') s; m = drop (Suc (length a)) s in
      if CHR ''/'' \<notin> set s then None
      else
        case parse_addr a of
          None \<Rightarrow> None
        | Some (bits, ip) \<Rightarrow>
            (case dtoi m of
               None \<Rightarrow> None
             | Some n \<Rightarrow>
                 if n > bits then None
                 else Some \<lparr>nt_ip = ip_mask ip (CIDRMask n bits), nt_mask = CIDRMask n bits\<rparr>))"

definition network_number_and_mask :: "ip_net \<Rightarrow> nat list \<times> nat list" where
  "network_number_and_mask n =
     (let ip = (case To4 (nt_ip n) of Some q \<Rightarrow> q | None \<Rightarrow> nt_ip n); m = nt_mask n in
      if length ip \<noteq> 4 \<and> length ip \<noteq> 16 then ([], [])
      else if length m = 4 then (if length ip = 4 then (ip, m) else ([], []))
      else if length m = 16 then (ip, if length ip = 4 then drop 12 m else m)
      else ([], []))"

definition net_contains :: "ip_net \<Rightarrow> nat list \<Rightarrow> bool" where
  "net_contains n ip =
     (case network_number_and_mask n of
        (nn, m) \<Rightarrow>
          (let ip' = (case To4 ip of Some q \<Rightarrow> q | None \<Rightarrow> ip) in
           length ip' = length nn \<and> map2 (AND) nn m = map2 (AND) ip' m))"

end
