(* ===== verification/Request_Filters.thy ===== *)
theory Request_Filters
  imports App_Config Go_Net
begin

text \<open>
  What every request passes before it reaches a route: the firewall, the CORS headers and the check of
  the origin (lib/middleware/firewall.go, cors.go and origin.go), in the order in which
  server/router/router.go installs them.  The client address is what gin reports.
\<close>

section \<open>Firewall\<close>

text \<open>The package variables: the list is parsed once, whichever instance of the middleware runs first.\<close>

record firewall_state =
  fw_parsed :: bool
  fw_nets :: "ip_net list"
  fw_ips :: "string list"
  fw_cidr :: bool

definition ResetFirewallState :: "firewall_state \<Rightarrow> firewall_state" where
  "ResetFirewallState s = \<lparr>fw_parsed = False, fw_nets = [], fw_ips = [], fw_cidr = False\<rparr>"

definition add_entry :: "string \<Rightarrow> firewall_state \<Rightarrow> firewall_state" where
  "add_entry e s =
     (let ip = trim_space e in
      if ip = [] then s
      else if contains ip ''/'' then (case ParseCIDR ip of Some n \<Rightarrow> s\<lparr>fw_nets := fw_nets s @ [n]\<rparr> | None \<Rightarrow> s)
      else s\<lparr>fw_ips := ip # fw_ips s\<rparr>)"

definition parseIPList :: "string \<Rightarrow> firewall_state \<Rightarrow> firewall_state" where
  "parseIPList ipList s =
     (let s = fold add_entry (split_on CHR '','' ipList) (s\<lparr>fw_ips := []\<rparr>) in
      if fw_nets s \<noteq> [] then s\<lparr>fw_cidr := True\<rparr> else s)"

definition listed :: "firewall_state \<Rightarrow> nat list \<Rightarrow> bool" where
  "listed s ip \<longleftrightarrow> fw_ips s \<noteq> [] \<and> ip_string ip \<in> set (fw_ips s) \<or> fw_cidr s \<and> (\<exists>n \<in> set (fw_nets s). net_contains n ip)"

text \<open>\<open>None\<close>: the request goes on; otherwise the text of the 401.\<close>

definition Firewall :: "string \<Rightarrow> string \<Rightarrow> string \<Rightarrow> firewall_state \<Rightarrow> string option \<times> firewall_state" where
  "Firewall listType ipList clientIP s =
     (let s = (if fw_parsed s then s else (parseIPList ipList s)\<lparr>fw_parsed := True\<rparr>);
          blocked = Some ''IP blocked'' in
      case ParseIP clientIP of
        None \<Rightarrow> (Some ''IP invalid'', s)
      | Some ip \<Rightarrow>
          if \<not> contains ipList ''*'' then
            if listType = ''whitelist'' \<and> \<not> listed s ip then (blocked, s)
            else if listType = ''blacklist'' \<and> listed s ip then (blocked, s)
            else (None, s)
          else if listType = ''blacklist'' then (blocked, s)
          else (None, s))"

section \<open>CORS and origin\<close>

text \<open>Response headers by name.\<close>

type_synonym headers = "string \<Rightarrow> string option"

definition cors_headers :: "(string \<times> string) list \<Rightarrow> headers \<Rightarrow> headers" where
  "cors_headers cp h = fold (\<lambda>(k, v) h. h(k \<mapsto> v)) cp h"

text \<open>A preflight request ends with 204.\<close>

definition CORS :: "(string \<times> string) list \<Rightarrow> string \<Rightarrow> headers \<Rightarrow> nat option \<times> headers" where
  "CORS cp method h = (if method = ''OPTIONS'' then Some 204 else None, cors_headers cp h)"

definition CheckOrigin :: "headers \<Rightarrow> string \<Rightarrow> string option" where
  "CheckOrigin h origin =
     (let allowed = to_lower (trim_space (case h ''Access-Control-Allow-Origin'' of Some v \<Rightarrow> v | None \<Rightarrow> [])) in
      if allowed = ''*'' \<or> allowed = ''null'' \<or> allowed = [] then None
      else if to_lower (trim_space origin) \<noteq> allowed then Some ''origin not allowed''
      else None)"

section \<open>The chain\<close>

record filtered_request =
  fr_client_ip :: string
  fr_method :: string
  fr_origin :: string

datatype verdict = Passed headers | Stopped nat string headers

definition global_filters :: "Configuration \<Rightarrow> filtered_request \<Rightarrow> firewall_state \<Rightarrow> verdict \<times> firewall_state" where
  "global_filters cfg rq s =
     (let sec = cf_security cfg in
      case (if IsWAF cfg then Firewall (sc_fw_list_type sec) (sc_fw_ip sec) (fr_client_ip rq) s else (None, s)) of
        (Some msg, s') \<Rightarrow> (Stopped 401 msg Map.empty, s')
      | (None, s') \<Rightarrow>
          (case (if IsCORS cfg then CORS (sc_cors sec) (fr_method rq) Map.empty else (None, Map.empty)) of
             (Some code, h) \<Rightarrow> (Stopped code [] h, s')
           | (None, h) \<Rightarrow>
               (case (if IsOriginCheck cfg then CheckOrigin h (fr_origin rq) else None) of
                  Some msg \<Rightarrow> (Stopped 403 msg h, s')
                | None \<Rightarrow> (Passed h, s'))))"

end
