(* ===== verification/Firewall_Correct.thy ===== *)
theory Firewall_Correct
  imports Request_Filters
begin

text \<open>
  What the firewall means.  Its specification is on numbers: an entry of the list is a host or a
  network of a prefix length, and it covers the addresses that agree with it on the prefix.  The
  theorems connect it with the text the firewall works on: the list is split at its commas, addresses
  are parsed and printed, and networks are byte masks.
\<close>

section \<open>Version 4 addresses as text\<close>

definition v4_address :: "nat list \<Rightarrow> bool" where
  "v4_address bs \<longleftrightarrow> length bs = 4 \<and> (\<forall>b \<in> set bs. b < 256)"

lemma v4_cases:
  assumes "v4_address bs"
  obtains a b c d where "bs = [a, b, c, d]" "a < 256" "b < 256" "c < 256" "d < 256"
  using assms that by (auto simp: v4_address_def length_Suc_conv numeral_eq_Suc)

lemma split_join:
  "ps \<noteq> [] \<Longrightarrow> \<forall>p \<in> set ps. c \<notin> set p \<Longrightarrow> split_on c (join_with c ps) = ps"
proof (induction ps rule: join_with.induct)
  case (3 c p q ps)
  then show ?case by (simp add: split_on_append)
qed (simp_all add: split_on_no_sep)

lemma set_join_with: "set (join_with c ps) \<subseteq> insert c (\<Union> (set ` set ps))"
  by (induction c ps rule: join_with.induct) auto

lemma hd_show_nat: "hd (show_nat n) = CHR ''0'' \<longleftrightarrow> n = 0"
proof (induction n rule: show_nat.induct)
  case (1 n)
  show ?case
  proof (cases "n < 10")
    case True
    then have "hd (show_nat n) = digit_char n" by (simp add: show_nat_1)
    moreover have "CHR ''0'' = digit_char 0" by (rule zero_char)
    ultimately show ?thesis using digit_char_props(2) [OF True] digit_char_props(2) [of 0] by (metis zero_less_numeral)
  next
    case False
    then show ?thesis using 1 by (subst show_nat.simps) simp
  qed
qed

lemma no_digit_chars: "\<not> is_digit CHR ''.''" "\<not> is_digit CHR '',''" "\<not> is_digit CHR ''/''" "\<not> is_digit CHR ''*''" "\<not> is_digit CHR ''%''"
  by (simp_all add: is_digit_def)

lemma v4_field_show: "n < 256 \<Longrightarrow> v4_field (show_nat n) = Some n"
  using digits_show_nat [of n] hd_show_nat [of n] by (auto simp: v4_field_def read_show_nat list_all_iff show_nat_1)

lemma digits_avoid: "\<not> is_digit c \<Longrightarrow> c \<notin> set (show_nat n)"
  using digits_show_nat [of n] by auto

lemma set_show_v4: "x \<in> set (show_v4 bs) \<Longrightarrow> is_digit x \<or> x = CHR ''.''"
  using set_join_with [of "CHR ''.''" "map show_nat bs"] digits_show_nat by (fastforce simp: show_v4_def)

lemma parse_show_v4: "v4_address bs \<Longrightarrow> parse_v4 (show_v4 bs) = Some bs"
proof (erule v4_cases)
  fix a b c d assume bs: "bs = [a, b, c, d]" "a < 256" "b < 256" "c < 256" "d < 256"
  have "split_on CHR ''.'' (show_v4 bs) = map show_nat bs"
    unfolding show_v4_def by (rule split_join) (auto simp: bs(1) digits_avoid no_digit_chars)
  then show ?thesis by (simp add: parse_v4_def bs v4_field_show)
qed

lemma show_v4_inject: "v4_address bs \<Longrightarrow> v4_address cs \<Longrightarrow> show_v4 bs = show_v4 cs \<longleftrightarrow> bs = cs"
  by (metis option.inject parse_show_v4)

lemma find_first: "\<forall>x \<in> set xs. \<not> P x \<Longrightarrow> P y \<Longrightarrow> find P (xs @ y # ys) = Some y"
  by (induction xs) auto

lemma parse_addr_show: "v4_address bs \<Longrightarrow> parse_addr (show_v4 bs) = Some (32, v4_prefix @ bs)"
proof -
  assume v: "v4_address bs"
  then obtain a b c d where bs: "bs = [a, b, c, d]" by (rule v4_cases)
  have "CHR ''%'' \<notin> set (show_v4 bs)" using set_show_v4 [of "CHR ''%''" bs] by (auto simp: no_digit_chars)
  moreover have "find (\<lambda>c. c = CHR ''.'' \<or> c = CHR '':'') (show_v4 bs) = Some CHR ''.''"
    unfolding show_v4_def bs by (simp, rule find_first) (auto simp: digits_avoid no_digit_chars)
  ultimately show ?thesis by (simp add: parse_addr_def parse_show_v4 [OF v])
qed

lemma ParseIP_show: "v4_address bs \<Longrightarrow> ParseIP (show_v4 bs) = Some (v4_prefix @ bs)"
  by (simp add: ParseIP_def parse_addr_show)

lemma length_v4_prefix [simp]: "length v4_prefix = 12"
  by (simp add: v4_prefix_def)

lemma To4_v4 [simp]: "v4_address bs \<Longrightarrow> To4 (v4_prefix @ bs) = Some bs" "v4_address bs \<Longrightarrow> To4 bs = Some bs"
  by (simp_all add: To4_def v4_address_def)

lemma ip_string_v4: "v4_address bs \<Longrightarrow> ip_string (v4_prefix @ bs) = show_v4 bs"
  by (simp add: ip_string_def)

section \<open>Prefixes\<close>

text \<open>The number of a list of bytes, and agreement of two lists on their first \<open>n\<close> bits, byte by byte.\<close>

fun number_of :: "nat list \<Rightarrow> nat" where
  "number_of [] = 0"
| "number_of (b # bs) = b * 256 ^ length bs + number_of bs"

fun agree :: "nat \<Rightarrow> nat list \<Rightarrow> nat list \<Rightarrow> bool" where
  "agree n (a # as) (b # bs) \<longleftrightarrow> a div 2 ^ (8 - min 8 n) = b div 2 ^ (8 - min 8 n) \<and> agree (n - 8) as bs"
| "agree n _ _ \<longleftrightarrow> True"

lemma number_of_less: "\<forall>b \<in> set bs. b < 256 \<Longrightarrow> number_of bs < 256 ^ length bs"
proof (induction bs)
  case (Cons b bs)
  then have "number_of bs < 256 ^ length bs" "b + 1 \<le> 256" by auto
  then have "b * 256 ^ length bs + number_of bs < (b + 1) * 256 ^ length bs" by simp
  also have "\<dots> \<le> 256 * 256 ^ length bs" using \<open>b + 1 \<le> 256\<close> by (rule mult_le_mono1)
  finally show ?case by simp
qed simp

lemma div_split:
  assumes "r < 2 ^ m" and "k \<le> m"
  shows "(a * 2 ^ m + r) div 2 ^ k = a * 2 ^ (m - k) + r div (2 :: nat) ^ k" "r div 2 ^ k < (2 :: nat) ^ (m - k)"
proof -
  have m: "(2 :: nat) ^ m = 2 ^ (m - k) * 2 ^ k" using assms(2) by (simp add: power_add [symmetric])
  have "a * 2 ^ m + r = r + a * 2 ^ (m - k) * 2 ^ k" unfolding m by simp
  then show "(a * 2 ^ m + r) div 2 ^ k = a * 2 ^ (m - k) + r div 2 ^ k" by (simp only: div_mult_self1 power_not_zero) simp
  from assms(1) m show "r div 2 ^ k < 2 ^ (m - k)" by (simp add: less_mult_imp_div_less)
qed

lemma quotient_eq: "(x :: nat) < q \<Longrightarrow> y < q \<Longrightarrow> a * q + x = b * q + y \<longleftrightarrow> a = b \<and> x = y"
  by (metis add.commute add_left_cancel bot_nat_0.not_eq_extremum div_mult_self3 div_less less_nat_zero_code mult.commute plus_nat.add_0)

lemma agree_0: "\<forall>a \<in> set as. a < 256 \<Longrightarrow> \<forall>b \<in> set bs. b < 256 \<Longrightarrow> agree 0 as bs"
  by (induction "0 :: nat" as bs rule: agree.induct) auto

lemma agree_number:
  assumes "length as = length bs" and "\<forall>a \<in> set as. a < 256" and "\<forall>b \<in> set bs. b < 256" and "n \<le> 8 * length as"
  shows "agree n as bs \<longleftrightarrow> number_of as div 2 ^ (8 * length as - n) = number_of bs div 2 ^ (8 * length bs - n)"
  using assms
proof (induction n as bs rule: agree.induct)
  case (1 n a as b bs)
  let ?m = "8 * length as"
  have p: "(256 :: nat) ^ length as = 2 ^ ?m" "(256 :: nat) ^ length bs = 2 ^ ?m"
    using 1(2) by (simp_all add: power_mult)
  have l: "number_of as < 2 ^ ?m" "number_of bs < 2 ^ ?m"
    using number_of_less [of as] number_of_less [of bs] 1(2-4) p by auto
  have len: "8 * length (a # as) = ?m + 8" "8 * length (b # bs) = ?m + 8" using 1(2) by simp_all
  show ?case
  proof (cases "8 \<le> n")
    case True
    then have k: "?m - (n - 8) \<le> ?m" "?m - (?m - (n - 8)) = n - 8" "?m + 8 - n = ?m - (n - 8)" using 1(5) by auto
    have IH: "agree (n - 8) as bs \<longleftrightarrow> number_of as div 2 ^ (?m - (n - 8)) = number_of bs div 2 ^ (?m - (n - 8))"
      using 1(1) 1(2-5) True by simp
    have step: "agree n (a # as) (b # bs) \<longleftrightarrow> a = b \<and> agree (n - 8) as bs" using True by simp
    show ?thesis
      unfolding step IH len k(3) number_of.simps p div_split(1) [OF l(1) k(1)] div_split(1) [OF l(2) k(1)]
      by (rule quotient_eq [OF div_split(2) [OF l(1) k(1)] div_split(2) [OF l(2) k(1)], symmetric])
  next
    case False
    have "agree (n - 8) as bs" using False agree_0 [of as bs] 1(3,4) by simp
    moreover have "(x * 2 ^ ?m + r) div 2 ^ (?m + 8 - n) = x div 2 ^ (8 - n)" if "r < 2 ^ ?m" for x r :: nat
    proof -
      have "?m + 8 - n = ?m + (8 - n)" using False by simp
      then have e: "(2 :: nat) ^ (?m + 8 - n) = 2 ^ ?m * 2 ^ (8 - n)" by (simp only: power_add)
      have "(x * 2 ^ ?m + r) div 2 ^ (?m + 8 - n) = (x * 2 ^ ?m + r) div 2 ^ ?m div 2 ^ (8 - n)"
        unfolding e by (rule div_mult2_eq)
      also have "(x * 2 ^ ?m + r) div 2 ^ ?m = x" using that by simp
      finally show ?thesis .
    qed
    ultimately show ?thesis using False l unfolding len by (simp add: p min_def)
  qed
qed auto

section \<open>Masks\<close>

unbundle bit_operations_syntax

definition mask_byte :: "nat \<Rightarrow> nat" where
  "mask_byte k = 256 - 2 ^ (8 - k)"

lemma mask_byte_push: "k \<le> 8 \<Longrightarrow> mask_byte k = push_bit (8 - k) (mask k)"
proof -
  assume "k \<le> 8"
  then have "(256 :: nat) = 2 ^ k * 2 ^ (8 - k)" by (simp add: power_add [symmetric])
  then show ?thesis by (simp add: mask_byte_def push_bit_eq_mult mask_eq_exp_minus_1 diff_mult_distrib)
qed

lemma and_mask_byte:
  assumes "k \<le> 8" and "b < 256"
  shows "b AND mask_byte k = b div 2 ^ (8 - k) * 2 ^ (8 - k)"
proof -
  have b: "\<not> bit b n" if "8 \<le> n" for n
  proof -
    have "b < 2 ^ 8" using assms(2) by simp
    also have "(2 :: nat) ^ 8 \<le> 2 ^ n" using that by (rule power_increasing) simp
    finally show ?thesis by (simp add: bit_iff_odd)
  qed
  have "b AND push_bit (8 - k) (mask k) = push_bit (8 - k) (drop_bit (8 - k) b)"
  proof (rule bit_eqI)
    fix n
    show "bit (b AND push_bit (8 - k) (mask k)) n = bit (push_bit (8 - k) (drop_bit (8 - k) b)) n"
    proof (cases "8 \<le> n")
      case False
      then show ?thesis using assms(1) by (auto simp: bit_simps)
    qed (use b [of n] in \<open>auto simp: bit_simps\<close>)
  qed
  then show ?thesis using assms(1) by (simp add: mask_byte_push push_bit_eq_mult drop_bit_eq_div)
qed

lemma and_mask_byte_eq:
  assumes "k \<le> 8" and "a < 256" and "b < 256"
  shows "a AND mask_byte k = b AND mask_byte k \<longleftrightarrow> a div 2 ^ (8 - k) = b div 2 ^ (8 - k)"
  by (simp add: and_mask_byte assms)

text \<open>The mask of a prefix, byte by byte.\<close>

lemma CIDRMask_32:
  "CIDRMask n 32 = [mask_byte (min 8 n), mask_byte (min 8 (n - 8)), mask_byte (min 8 (n - 16)), mask_byte (min 8 (n - 24))]"
proof -
  have "[0..<4] = [0, 1, 2, 3 :: nat]" by (simp add: upt_rec numeral_eq_Suc)
  then show ?thesis by (simp add: CIDRMask_def mask_byte_def Let_def)
qed

lemma masks_agree:
  assumes "v4_address as" and "v4_address bs"
  shows "map2 (AND) as (CIDRMask n 32) = map2 (AND) bs (CIDRMask n 32) \<longleftrightarrow> agree n as bs"
proof -
  obtain a b c d where as: "as = [a, b, c, d]" "a < 256" "b < 256" "c < 256" "d < 256" using assms(1) by (rule v4_cases)
  obtain a' b' c' d' where bs: "bs = [a', b', c', d']" "a' < 256" "b' < 256" "c' < 256" "d' < 256" using assms(2) by (rule v4_cases)
  have *: "x AND mask_byte (min 8 k) = y AND mask_byte (min 8 k) \<longleftrightarrow> x div 2 ^ (8 - min 8 k) = y div 2 ^ (8 - min 8 k)" if "x < 256" "y < 256" for x y k
    by (rule and_mask_byte_eq) (use that in auto)
  show ?thesis
    by (simp add: as(1) bs(1) CIDRMask_32 * as(2-5) bs(2-5))
qed

section \<open>Networks\<close>

definition net_text :: "nat list \<Rightarrow> nat \<Rightarrow> string" where
  "net_text bs n = show_v4 bs @ CHR ''/'' # show_nat n"

definition v4_net :: "nat list \<Rightarrow> nat \<Rightarrow> ip_net" where
  "v4_net bs n = \<lparr>nt_ip = map2 (AND) bs (CIDRMask n 32), nt_mask = CIDRMask n 32\<rparr>"

lemma dtoi_show: "n \<le> 32 \<Longrightarrow> dtoi (show_nat n) = Some n"
  using digits_show_nat [of n] by (simp add: dtoi_def read_show_nat list_all_iff)

lemma ParseCIDR_net:
  assumes "v4_address bs" and "n \<le> 32"
  shows "ParseCIDR (net_text bs n) = Some (v4_net bs n)"
proof -
  have no: "CHR ''/'' \<notin> set (show_v4 bs)" using set_show_v4 [of "CHR ''/''" bs] by (auto simp: no_digit_chars)
  then have t: "takeWhile (\<lambda>c. c \<noteq> CHR ''/'') (net_text bs n) = show_v4 bs"
    unfolding net_text_def by (subst takeWhile_append2) auto
  have d: "drop (Suc (length (show_v4 bs))) (net_text bs n) = show_nat n" by (simp add: net_text_def)
  have "CHR ''/'' \<in> set (net_text bs n)" by (simp add: net_text_def)
  moreover have "length (CIDRMask n 32) = 4" by (simp add: CIDRMask_32)
  ultimately show ?thesis
    using assms by (simp add: ParseCIDR_def t d parse_addr_show dtoi_show ip_mask_def v4_net_def v4_address_def Let_def)
qed

lemma mask_idem: "length as = length m \<Longrightarrow> map2 (AND) (map2 (AND) as m) m = map2 (AND) as (m :: nat list)"
  by (induction as m rule: list_induct2) (simp_all add: and.assoc)

lemma net_contains_v4:
  assumes "v4_address bs" and "v4_address xs" and "n \<le> 32"
  shows "net_contains (v4_net bs n) (v4_prefix @ xs) \<longleftrightarrow> number_of bs div 2 ^ (32 - n) = number_of xs div 2 ^ (32 - n)"
proof -
  have l: "length (CIDRMask n 32) = 4" "length bs = 4" "length xs = 4" "length (map2 (AND) bs (CIDRMask n 32)) = 4"
    using assms by (simp_all add: CIDRMask_32 v4_address_def)
  have "network_number_and_mask (v4_net bs n) = (map2 (AND) bs (CIDRMask n 32), CIDRMask n 32)"
    using l by (simp add: network_number_and_mask_def v4_net_def To4_def Let_def)
  then have "net_contains (v4_net bs n) (v4_prefix @ xs) \<longleftrightarrow> agree n bs xs"
    using l assms by (simp add: net_contains_def mask_idem masks_agree Let_def)
  with agree_number [of bs xs n] assms show ?thesis by (simp add: v4_address_def)
qed

section \<open>Lists\<close>

datatype fw_entry = Host "nat list" | Network "nat list" nat

fun entry_text :: "fw_entry \<Rightarrow> string" where
  "entry_text (Host bs) = show_v4 bs"
| "entry_text (Network bs n) = net_text bs n"

fun entry_ok :: "fw_entry \<Rightarrow> bool" where
  "entry_ok (Host bs) \<longleftrightarrow> v4_address bs"
| "entry_ok (Network bs n) \<longleftrightarrow> v4_address bs \<and> n \<le> 32"

text \<open>A host covers itself, a network the addresses whose number has its prefix.\<close>

fun covers :: "fw_entry \<Rightarrow> nat list \<Rightarrow> bool" where
  "covers (Host bs) xs \<longleftrightarrow> bs = xs"
| "covers (Network bs n) xs \<longleftrightarrow> number_of bs div 2 ^ (32 - n) = number_of xs div 2 ^ (32 - n)"

definition permitted :: "string \<Rightarrow> fw_entry list \<Rightarrow> nat list \<Rightarrow> string option" where
  "permitted listType es xs =
     (if listType = ''whitelist'' \<and> \<not> (\<exists>e \<in> set es. covers e xs) \<or> listType = ''blacklist'' \<and> (\<exists>e \<in> set es. covers e xs)
      then Some ''IP blocked'' else None)"

lemma show_nat_ends: "is_digit (hd (show_nat n))" "is_digit (last (show_nat n))"
  using digits_show_nat [of n] by simp_all

lemma show_v4_ends:
  assumes "v4_address bs"
  shows "show_v4 bs \<noteq> []" "is_digit (hd (show_v4 bs))" "is_digit (last (show_v4 bs))"
proof -
  obtain a b c d where bs: "bs = [a, b, c, d]" using assms by (rule v4_cases)
  show "show_v4 bs \<noteq> []" "is_digit (hd (show_v4 bs))" "is_digit (last (show_v4 bs))" by (simp_all add: bs show_v4_def show_nat_ends)
qed

lemma trim_entry: "entry_ok e \<Longrightarrow> trim_space (entry_text e) = entry_text e"
proof (rule trim_space_id)
  assume "entry_ok e"
  then have *: "entry_text e \<noteq> [] \<and> is_digit (hd (entry_text e)) \<and> is_digit (last (entry_text e))"
    by (cases e) (auto simp: net_text_def show_v4_ends show_nat_ends)
  then show "entry_text e \<noteq> []" by simp
  show "hd (entry_text e) \<notin> hd ` set space_encodings" "last (entry_text e) \<notin> last ` set space_encodings"
    using * digit_no_space by blast+
qed

lemma entry_chars: "x \<in> set (entry_text e) \<Longrightarrow> is_digit x \<or> x = CHR ''.'' \<or> x = CHR ''/''"
  using set_show_v4 digits_show_nat by (cases e) (auto simp: net_text_def)

lemma contains_char: "contains s [c] \<longleftrightarrow> c \<in> set s"
  by (auto simp: contains_def sublist_def in_set_conv_decomp)

lemma add_entry_text:
  assumes "entry_ok e"
  shows "add_entry (entry_text e) s =
    (case e of Host bs \<Rightarrow> s\<lparr>fw_ips := show_v4 bs # fw_ips s\<rparr> | Network bs n \<Rightarrow> s\<lparr>fw_nets := fw_nets s @ [v4_net bs n]\<rparr>)"
proof (cases e)
  case (Host bs)
  have "CHR ''/'' \<notin> set (show_v4 bs)" using set_show_v4 [of "CHR ''/''" bs] by (auto simp: no_digit_chars)
  with Host assms trim_entry [OF assms] show ?thesis by (simp add: add_entry_def contains_char show_v4_ends Let_def)
next
  case (Network bs n)
  then have "CHR ''/'' \<in> set (entry_text e)" "entry_text e \<noteq> []" by (simp_all add: net_text_def)
  with Network assms trim_entry [OF assms] show ?thesis by (simp add: add_entry_def contains_char ParseCIDR_net Let_def)
qed

fun networks :: "fw_entry list \<Rightarrow> ip_net list" where
  "networks [] = []"
| "networks (Host bs # es) = networks es"
| "networks (Network bs n # es) = v4_net bs n # networks es"

fun hosts :: "fw_entry list \<Rightarrow> string list" where
  "hosts [] = []"
| "hosts (Host bs # es) = show_v4 bs # hosts es"
| "hosts (Network bs n # es) = hosts es"

lemma fold_entries:
  "\<forall>e \<in> set es. entry_ok e \<Longrightarrow>
   fold add_entry (map entry_text es) s = s\<lparr>fw_nets := fw_nets s @ networks es, fw_ips := rev (hosts es) @ fw_ips s\<rparr>"
proof (induction es arbitrary: s)
  case (Cons e es)
  then show ?case using add_entry_text [of e s] by (cases e) simp_all
qed simp

definition list_text :: "fw_entry list \<Rightarrow> string" where
  "list_text es = join_with CHR '','' (map entry_text es)"

lemma list_text_chars: "CHR ''*'' \<notin> set (list_text es)"
  using set_join_with [of "CHR '',''" "map entry_text es"] entry_chars [of "CHR ''*''"] by (auto simp: list_text_def no_digit_chars)

lemma fold_list_text:
  assumes "\<forall>e \<in> set es. entry_ok e"
  shows "fold add_entry (split_on CHR '','' (list_text es)) s = fold add_entry (map entry_text es) s"
proof (cases "es = []")
  case True
  have "trim_space [] = []" by (simp add: trim_space_def)
  then show ?thesis using True by (simp add: list_text_def add_entry_def)
next
  case False
  have "CHR '','' \<notin> set (entry_text e)" for e using entry_chars [of "CHR '',''" e] by (auto simp: no_digit_chars)
  with False have "split_on CHR '','' (list_text es) = map entry_text es" unfolding list_text_def by (intro split_join) auto
  then show ?thesis by simp
qed

definition parsed_state :: "fw_entry list \<Rightarrow> firewall_state" where
  "parsed_state es = \<lparr>fw_parsed = True, fw_nets = networks es, fw_ips = rev (hosts es), fw_cidr = (networks es \<noteq> [])\<rparr>"

lemma parseIPList_text:
  "\<forall>e \<in> set es. entry_ok e \<Longrightarrow> (parseIPList (list_text es) (ResetFirewallState s))\<lparr>fw_parsed := True\<rparr> = parsed_state es"
  by (simp add: parseIPList_def fold_list_text fold_entries ResetFirewallState_def parsed_state_def Let_def)

lemma set_networks: "n \<in> set (networks es) \<longleftrightarrow> (\<exists>bs k. Network bs k \<in> set es \<and> n = v4_net bs k)"
  by (induction es rule: networks.induct) auto

lemma set_hosts: "t \<in> set (hosts es) \<longleftrightarrow> (\<exists>bs. Host bs \<in> set es \<and> t = show_v4 bs)"
  by (induction es rule: hosts.induct) auto

lemma listed_covers:
  assumes "\<forall>e \<in> set es. entry_ok e" and "v4_address xs"
  shows "listed (parsed_state es) (v4_prefix @ xs) \<longleftrightarrow> (\<exists>e \<in> set es. covers e xs)"
proof -
  have "show_v4 xs \<in> set (hosts es) \<longleftrightarrow> (\<exists>bs. Host bs \<in> set es \<and> covers (Host bs) xs)"
    unfolding set_hosts using assms show_v4_inject by fastforce
  moreover have "(\<exists>n \<in> set (networks es). net_contains n (v4_prefix @ xs)) \<longleftrightarrow> (\<exists>bs k. Network bs k \<in> set es \<and> covers (Network bs k) xs)"
  proof -
    have "net_contains (v4_net bs k) (v4_prefix @ xs) \<longleftrightarrow> covers (Network bs k) xs" if "Network bs k \<in> set es" for bs k
      using assms that net_contains_v4 [of bs xs k] by fastforce
    then show ?thesis unfolding Bex_def set_networks by blast
  qed
  moreover have "(\<exists>e \<in> set es. covers e xs) \<longleftrightarrow>
      (\<exists>bs. Host bs \<in> set es \<and> covers (Host bs) xs) \<or> (\<exists>bs k. Network bs k \<in> set es \<and> covers (Network bs k) xs)"
    by (metis entry_ok.cases)
  ultimately show ?thesis using assms(2) unfolding listed_def parsed_state_def
    by (auto simp: ip_string_v4 simp del: covers.simps)
qed

lemma Firewall_parsed:
  assumes "\<forall>e \<in> set es. entry_ok e" and "v4_address xs"
  shows "Firewall lt (list_text es) (show_v4 xs) (parsed_state es) = (permitted lt es xs, parsed_state es)"
  using listed_covers [OF assms] assms(2) list_text_chars [of es]
  by (auto simp: Firewall_def ParseIP_show contains_char permitted_def parsed_state_def Let_def)

lemma Firewall_fresh:
  assumes "\<forall>e \<in> set es. entry_ok e"
  shows "Firewall lt (list_text es) c (ResetFirewallState s) = Firewall lt (list_text es) c (parsed_state es)"
proof -
  have "\<not> fw_parsed (ResetFirewallState s)" "fw_parsed (parsed_state es)" by (simp_all add: ResetFirewallState_def parsed_state_def)
  with parseIPList_text [OF assms] show ?thesis unfolding Firewall_def by simp
qed

section \<open>Requests in a row\<close>

fun firewall_run :: "string \<Rightarrow> string \<Rightarrow> string list \<Rightarrow> firewall_state \<Rightarrow> string option list" where
  "firewall_run lt ipList [] s = []"
| "firewall_run lt ipList (c # cs) s = (case Firewall lt ipList c s of (v, s') \<Rightarrow> v # firewall_run lt ipList cs s')"

lemma firewall_run_parsed:
  "\<forall>e \<in> set es. entry_ok e \<Longrightarrow> \<forall>x \<in> set xs. v4_address x \<Longrightarrow>
   firewall_run lt (list_text es) (map show_v4 xs) (parsed_state es) = map (permitted lt es) xs"
  by (induction xs) (simp_all add: Firewall_parsed)

text \<open>C17. The firewall does what its list says: with hosts and networks in CIDR notation joined by commas, and
  clients with version 4 addresses in any order, a whitelist lets through exactly the clients that an
  entry covers and a blacklist exactly those that none covers, where a network covers the addresses
  whose number has its prefix.\<close>

theorem firewall_refines_list:
  assumes "\<forall>e \<in> set es. entry_ok e" and "\<forall>x \<in> set xs. v4_address x"
  shows "firewall_run listType (list_text es) (map show_v4 xs) (ResetFirewallState s) = map (permitted listType es) xs"
proof (cases xs)
  case (Cons x ys)
  with assms firewall_run_parsed [of es xs listType] show ?thesis by (simp add: Firewall_fresh)
qed simp

text \<open>A star anywhere in the list, even as a part of an entry, stands for every address.\<close>

lemma star_matches_all:
  "contains ipList ''*'' \<Longrightarrow> ParseIP c \<noteq> None \<Longrightarrow>
   fst (Firewall listType ipList c s) = (if listType = ''blacklist'' then Some ''IP blocked'' else None)"
  by (auto simp: Firewall_def Let_def)

lemma unknown_list_type_passes:
  "listType \<notin> {''whitelist'', ''blacklist''} \<Longrightarrow> ParseIP c \<noteq> None \<Longrightarrow> fst (Firewall listType ipList c s) = None"
  by (auto simp: Firewall_def Let_def)

theorem firewall_refines_list_witness:
  "firewall_run ''whitelist'' ''10.0.0.7,172.16.0.0/12'' [''10.0.0.7'', ''172.31.255.1'', ''172.32.0.0''] (ResetFirewallState (parsed_state [])) =
   [None, None, Some ''IP blocked'']"
proof -
  define es xs where "es = [Host [10, 0, 0, 7], Network [172, 16, 0, 0] 12]" and "xs = [[10, 0, 0, 7], [172, 31, 255, 1], [172, 32, 0, 0 :: nat]]"
  have "\<forall>e \<in> set es. entry_ok e" "\<forall>x \<in> set xs. v4_address x" by (simp_all add: es_def xs_def v4_address_def)
  from firewall_refines_list [OF this, of "''whitelist''" "parsed_state []"]
  have "firewall_run ''whitelist'' (list_text es) (map show_v4 xs) (ResetFirewallState (parsed_state [])) = map (permitted ''whitelist'' es) xs" .
  moreover have "list_text es = ''10.0.0.7,172.16.0.0/12''" "map show_v4 xs = [''10.0.0.7'', ''172.31.255.1'', ''172.32.0.0'']"
    by (simp_all add: es_def xs_def list_text_def net_text_def show_v4_def show_eval)
  moreover have "map (permitted ''whitelist'' es) xs = [None, None, Some ''IP blocked'']"
    by (simp add: es_def xs_def permitted_def)
  ultimately show ?thesis by simp
qed

end
