(* ===== verification/Configured_Filters.thy ===== *)
theory Configured_Filters
  imports Config_Correct Firewall_Correct
begin

text \<open>
  From the environment to a request: what the filters in front of every route let through, in terms
  of the variables that config/config.go read at the start.
\<close>

text \<open>The first header is the allowed origin, and no later one replaces it.\<close>

lemma cors_headers_other: "k \<notin> fst ` set cp \<Longrightarrow> cors_headers cp h k = h k"
  by (induction cp arbitrary: h) (auto simp: cors_headers_def)

lemma cors_policies_origin:
  assumes "text_of E ''CORS_ORIGIN'' \<noteq> []"
  shows "cors_headers (cors_policies E) Map.empty ''Access-Control-Allow-Origin'' = Some (text_of E ''CORS_ORIGIN'')"
proof -
  let ?rest = "filter (\<lambda>(k, v). v \<noteq> []) (map (\<lambda>(k, x). (k, text_of E x)) (tl cors_variables))"
  have "cors_policies E = (''Access-Control-Allow-Origin'', text_of E ''CORS_ORIGIN'') # ?rest"
    using assms by (simp add: cors_policies_def cors_variables_def)
  moreover have "fst ` set ?rest \<subseteq> fst ` set (tl cors_variables)" by force
  moreover have "''Access-Control-Allow-Origin'' \<notin> fst ` set (tl cors_variables)" by (simp add: cors_variables_def)
  ultimately have pol: "cors_policies E = (''Access-Control-Allow-Origin'', text_of E ''CORS_ORIGIN'') # ?rest"
    and no: "''Access-Control-Allow-Origin'' \<notin> fst ` set ?rest" by blast+
  show ?thesis
    unfolding pol using cors_headers_other [OF no, of "Map.empty(''Access-Control-Allow-Origin'' \<mapsto> text_of E ''CORS_ORIGIN'')"]
    by (simp add: cors_headers_def)
qed

text \<open>C15. The filters enforce what the environment configures: with the firewall, the CORS headers and the
  origin check on, a request from a version 4 address that is no preflight passes exactly when the
  list of \<^verbatim>\<open>IP\<close> under \<^verbatim>\<open>LISTTYPE\<close> permits the address and its origin is that of
  \<^verbatim>\<open>CORS_ORIGIN\<close>, whatever the case of the letters.\<close>

theorem configured_filters_enforced:
  assumes "Config K fresh_state = (Inr (), s)" and "mc_env K = Inr E" and "GetConfig s = Some cfg"
    and "yes E ''ACTIVATE_FIREWALL''" and "text_of E ''IP'' = list_text es" and "\<forall>e \<in> set es. entry_ok e"
    and "yes E ''ACTIVATE_CORS''" and "yes E ''ACTIVATE_ORIGIN_VALIDATION''" and "to_lower (text_of E ''CORS_ORIGIN'') \<notin> {[], ''*'', ''null''}"
    and "v4_address x" and "fr_client_ip rq = show_v4 x" and "fr_method rq \<noteq> ''OPTIONS''"
  shows "(\<exists>h s'. global_filters cfg rq (ResetFirewallState t) = (Passed h, s')) \<longleftrightarrow>
    permitted (text_of E ''LISTTYPE'') es x = None \<and> to_lower (trim_space (fr_origin rq)) = to_lower (text_of E ''CORS_ORIGIN'')"
proof -
  from Config_loaded [OF assms(1)] obtain E' cfg' where "configuration_loaded K E' cfg' s" by (auto simp: fresh_state_def)
  with assms(2,3) have sec: "security_answers E (cf_security cfg)" by (auto simp: configuration_loaded_def GetConfig_def)
  then have on: "IsWAF cfg" "IsCORS cfg" "IsOriginCheck cfg"
    using assms(4,7,8) by (simp_all add: security_answers_def IsWAF_def IsCORS_def IsOriginCheck_def yes_def)
  have p: "sc_fw_list_type (cf_security cfg) = text_of E ''LISTTYPE''" "sc_fw_ip (cf_security cfg) = list_text es"
      "sc_cors (cf_security cfg) = cors_policies E"
    using sec assms(4,5,7) by (simp_all add: security_answers_def)
  have fw: "Firewall (text_of E ''LISTTYPE'') (list_text es) (show_v4 x) (ResetFirewallState t) = (permitted (text_of E ''LISTTYPE'') es x, parsed_state es)"
    using assms(6,10) by (simp add: Firewall_fresh Firewall_parsed)
  let ?h = "cors_headers (cors_policies E) Map.empty"
  have "text_of E ''CORS_ORIGIN'' \<noteq> []" using assms(9) by (auto simp: to_lower_def)
  then have "?h ''Access-Control-Allow-Origin'' = Some (text_of E ''CORS_ORIGIN'')" by (rule cors_policies_origin)
  moreover have "trim_space (text_of E ''CORS_ORIGIN'') = text_of E ''CORS_ORIGIN''" by (simp add: text_of_def)
  ultimately have "CheckOrigin ?h (fr_origin rq) = None \<longleftrightarrow> to_lower (trim_space (fr_origin rq)) = to_lower (text_of E ''CORS_ORIGIN'')"
    using assms(9) by (auto simp: CheckOrigin_def Let_def)
  with on p fw assms(11,12) show ?thesis
    by (auto simp: global_filters_def CORS_def Let_def split: option.splits)
qed

text \<open>The example configuration lets only its one address and origin through.\<close>

theorem configured_filters_enforced_witness:
  "\<exists>cfg. GetConfig (snd (Config example_machine fresh_state)) = Some cfg \<and>
     (\<exists>h s'. global_filters cfg \<lparr>fr_client_ip = ''10.0.0.7'', fr_method = ''GET'', fr_origin = '' https://A.b''\<rparr> (ResetFirewallState (parsed_state [])) = (Passed h, s')) \<and>
     \<not> (\<exists>h s'. global_filters cfg \<lparr>fr_client_ip = ''10.0.0.8'', fr_method = ''GET'', fr_origin = '' https://A.b''\<rparr> (ResetFirewallState (parsed_state [])) = (Passed h, s'))"
proof -
  obtain E cfg where c: "configuration_loaded example_machine E cfg (snd (Config example_machine fresh_state))"
    using Config_loaded [OF example_run] by (auto simp: fresh_state_def)
  then have cfg: "GetConfig (snd (Config example_machine fresh_state)) = Some cfg" "mc_env example_machine = Inr example_env"
    by (simp_all add: configuration_loaded_def GetConfig_def example_machine_def)
  define es where "es = [Host [10, 0, 0, 7]]"
  have env: "yes example_env ''ACTIVATE_FIREWALL''" "yes example_env ''ACTIVATE_CORS''" "yes example_env ''ACTIVATE_ORIGIN_VALIDATION''"
      "text_of example_env ''IP'' = ''10.0.0.7''" "text_of example_env ''LISTTYPE'' = ''whitelist''" "text_of example_env ''CORS_ORIGIN'' = ''https://a.b''"
    unfolding yes_example text_of_example by (simp_all add: example_env_def)
  have es: "text_of example_env ''IP'' = list_text es" "\<forall>e \<in> set es. entry_ok e"
    by (simp_all add: env es_def list_text_def show_v4_def show_eval v4_address_def)
  have o: "to_lower (text_of example_env ''CORS_ORIGIN'') \<notin> {[], ''*'', ''null''}"
      "to_lower (trim_space '' https://A.b'') = to_lower ''https://a.b''"
    unfolding env by code_simp+
  have x: "v4_address [10, 0, 0, 7]" "v4_address [10, 0, 0, 8]" "show_v4 [10, 0, 0, 7] = ''10.0.0.7''" "show_v4 [10, 0, 0, 8] = ''10.0.0.8''"
    by (simp_all add: v4_address_def show_v4_def show_eval)
  note rule = configured_filters_enforced [OF example_run cfg(2,1) env(1) es env(2,3) o(1), where t = "parsed_state []"]
  show ?thesis
    using rule [OF x(1), of "\<lparr>fr_client_ip = ''10.0.0.7'', fr_method = ''GET'', fr_origin = '' https://A.b''\<rparr>"]
      rule [OF x(2), of "\<lparr>fr_client_ip = ''10.0.0.8'', fr_method = ''GET'', fr_origin = '' https://A.b''\<rparr>"] cfg(1) o(2)
    by (simp add: x env permitted_def es_def)
qed

end
