(* ===== verification/Spec2Isabelle.thy ===== *)
theory Spec2Isabelle
  imports Mpesa_Callback Checkout Hotspot_Controller Device_Handlers Config_Store Two_Factor_Correct Two_Factor_Validation
    Account_Sessions Configured_Filters
begin

text \<open>
  A verification library for wifigo, a billing backend for WiFi hotspots written in Go.

  \<^bold>\<open>The program.\<close>  A client pays for a plan by M-Pesa: the checkout creates an order and asks Safaricom for
  an STK push; Safaricom later calls back; the callback subscribes the user in the RADIUS tables, queues
  the recording of the payment and the login of the client at its MikroTik router, and a websocket hub
  tells the client how it went.  Around this there are the administration of hotspot users and routers, a
  store of configurations, and the accounts of the staff with tokens, mailed codes, and a second factor.
  Every request passes the filters that the environment configures.

  \<^bold>\<open>How code is modelled.\<close>  A Go function is a program of \<^verbatim>\<open>Prelude\<close>: a function from the state to a value or
  an early exit (an error, a response, a panic) and a new state.  Guards, early returns and error branches
  are those of the source, in its order.  Strings are byte lists, Go's int64 is an integer with the
  wrap-around written out (\<^verbatim>\<open>wrap64\<close>), float64 arithmetic rounds to 53 bits, JSON is a tree.  Code outside
  the repository is a parameter: a database, Redis, asynq and badger answer from scripts of failures that
  every safety theorem quantifies over; routers, the M-Pesa API, cryptography, JWT signatures, one-time
  passwords, mail, randomness and the file system are functions passed to the definitions.  What theorems need
  of them is a named hypothesis (\<^verbatim>\<open>jwt_law\<close>, \<^verbatim>\<open>gcm_law\<close>, \<^verbatim>\<open>argon_law\<close>) with an instance in the witnesses.

  \<^bold>\<open>Theories and sources.\<close>
  \<^item> Language and libraries: \<^verbatim>\<open>Prelude\<close> (programs, triples), \<^verbatim>\<open>Go_Strings\<close>, \<^verbatim>\<open>Go_Strconv\<close>, \<^verbatim>\<open>Go_Time\<close>, \<^verbatim>\<open>Go_Bytes\<close>,
    \<^verbatim>\<open>Go_Floats\<close>, \<^verbatim>\<open>Go_Net\<close>, and \<^verbatim>\<open>Transactions\<close> (gorm's connections and transactions).
  \<^item> RADIUS: \<^verbatim>\<open>Radius_DB\<close> (database/model/radius.go and the SQL helpers), \<^verbatim>\<open>Hotspot\<close> (handler/hotspot_user.go),
    \<^verbatim>\<open>Radius_Laws\<close>, \<^verbatim>\<open>Table_Sync\<close> (locale \<open>synced_table\<close>: the reconciliation that an update does on each of the three
    tables, interpreted three times), \<^verbatim>\<open>Hotspot_Spec\<close>, \<^verbatim>\<open>Hotspot_Correct\<close>, \<^verbatim>\<open>Subscription\<close> (handler/radius.go and the
    expiry test), \<^verbatim>\<open>Hotspot_Controller\<close> (controller/hotspot_user.go), all under src/server.
  \<^item> Routers: \<^verbatim>\<open>Device_Pool\<close> (mikrotik/manager.go), \<^verbatim>\<open>Mikrotik_Service\<close> (server/service/mikrotik.go and
    mikrotik_manager.go), \<^verbatim>\<open>Device_Handlers\<close> (server/handler/mikrotik.go).
  \<^item> Payments: \<^verbatim>\<open>Mpesa_Payload\<close> (parsers; locale \<open>codec\<close> for JSON round trips), \<^verbatim>\<open>Payments\<close> (server/service/mpesa.go),
    \<^verbatim>\<open>Mpesa_Stk\<close> (server/handler/mpesa_stk.go), \<^verbatim>\<open>Checkout\<close> (server/controller/mpesa.go and handler/order.go; locale
    \<open>push_frame\<close>: what a push leaves alone), \<^verbatim>\<open>Task_Queue\<close> (queue), \<^verbatim>\<open>WebSocket_Hub\<close> (websocket/hub.go),
    \<^verbatim>\<open>Mpesa_Callback\<close> (server/handler/mpesa_callback.go), \<^verbatim>\<open>Config_Store\<close> (badger/badger.go).
  \<^item> Configuration and filters: \<^verbatim>\<open>App_Config\<close> (the structs and questions of config), \<^verbatim>\<open>Config_Loading\<close> and \<^verbatim>\<open>Config_Correct\<close>
    (config/config.go), \<^verbatim>\<open>Request_Filters\<close> and \<^verbatim>\<open>Firewall_Correct\<close> (lib/middleware/firewall.go, cors.go, origin.go),
    \<^verbatim>\<open>Configured_Filters\<close> (from the environment to a request).
  \<^item> Accounts: \<^verbatim>\<open>Auth_World\<close> (tables, Redis, the packages), \<^verbatim>\<open>Auth_Service\<close> (lib, service), \<^verbatim>\<open>Jwt\<close> (lib/middleware/jwt.go,
    service/security.go, handler/logout.go), \<^verbatim>\<open>Accounts\<close> (handler/auth.go, login.go), \<^verbatim>\<open>Email_Verification\<close>
    (handler/verification.go), \<^verbatim>\<open>Password_Reset\<close> (handler/passwordReset.go), \<^verbatim>\<open>Two_Factor\<close> (handler/twoFA.go),
    \<^verbatim>\<open>Account_Controllers\<close> (controller, the renderer and the account routes of server/router/router.go),
    \<^verbatim>\<open>Playground\<close> (the Redis strings of server/handler/playgroundRedis.go).  The proofs are in \<^verbatim>\<open>Auth_Runs\<close> (runs when the servers answer),
    \<^verbatim>\<open>Auth_Rules\<close> (whatever they answer), \<^verbatim>\<open>Account_Tables\<close>, \<^verbatim>\<open>Jwt_Correct\<close>, \<^verbatim>\<open>Account_Correct\<close>, \<^verbatim>\<open>Code_Correct\<close>,
    \<^verbatim>\<open>Password_Correct\<close>, \<^verbatim>\<open>Two_Factor_Correct\<close>, \<^verbatim>\<open>Two_Factor_Validation\<close> and \<^verbatim>\<open>Account_Sessions\<close>.

  \<^bold>\<open>What the theorems show.\<close>
  \<^item> Money and access: a successful callback gives exactly the paid access and its payment gets recorded; a
    failed one changes nothing; a checkout leaves one pending order for the pushed amount; recording is atomic.
  \<^item> Hotspot users: create, update and delete are all or nothing under every pattern of failures, an update leaves
    exactly what was requested, users do not affect each other, a subscription lasts to the second.
  \<^item> Routers and notifications: no interleaving loses or duplicates a connection; the device handlers refine
    a map; one connection per client address in every reachable state of the hub.
  \<^item> Accounts: the tables stay well formed under any requests and failures; protected routes need a live token that
    is not revoked and, with the second factor, a passed validation; codes and backup codes work once; the
    secret of the second factor survives activation and a change of password; tokens travel in cookies only
    when so configured.
  \<^item> Configuration: what loads is in range and consistent, and a failed load installs nothing; the firewall refines
    a specification on address numbers; the filters enforce what the environment says.
  Beside them stand lemmas that show flaws of the code; the manifest lists them as findings.

  \<^bold>\<open>Bounds and fuel.\<close>  \<open>trim_left\<close> runs as many rounds as the text has bytes, and each takes one at least.
  \<open>v6_groups\<close> has the eight rounds of the loop it models.  \<open>duration_loop\<close> and \<open>year_from\<close> terminate by a measure.
  The loops that wait for a suitable random number, \<open>draw_until\<close> and \<open>code_loop\<close>, may run for ever and are partial
  functions to options; that they return for a source that at some time gives a suitable number is proved.

  \<^bold>\<open>Not modelled.\<close>  The opening of databases with their TLS files, the migrations and their seed data, the Mongo
  playground and the Redis hashes: they only call their packages.  The handlers of users, payments and pages
  (server/handler/user.go, payments.go, isp.go): plain reads and writes of one table.  Sentry, the rate limiter and the
  template renderer: glue to other packages.  main.go and the other groups of routes: wiring.  Of the logs and
  of the text of decoding errors nothing is kept.  ToLower and ToUpper are those of ASCII text.  Handlers of one request run
  without interruption; interleavings are modelled for the hub and for the pools, and both orders of the two goroutines of
  the callback.
\<close>

end
